(* ===== verification/Prelude.thy ===== *)
theory Prelude
  imports Main "HOL-Library.Word"
begin

text \<open>
  Shared vocabulary of the development: the machine types of the eBPF program and of the Go
  agent, little-endian byte encodings of words, writes into and reads from byte buffers, C strings
  in byte buffers, and the generic list facts that the component theories use.

  Collections of facts carry the component proofs.  \<open>buffer_simps\<close> reads a buffer after writes
  into it, \<open>byte_simps\<close> turns encoded words back into words, \<open>alias_defs\<close> and \<open>layout_simps\<close>
  evaluate the layout of C types.
\<close>

unbundle bit_operations_syntax

named_theorems buffer_simps
  \<open>reading a byte buffer after writes into it\<close>

named_theorems byte_simps
  \<open>encoding and decoding words as bytes\<close>

named_theorems alias_defs
  \<open>C typedefs that only name another type\<close>

named_theorems layout_simps
  \<open>size, alignment and well-formedness of the C types transcribed from the headers\<close>

type_synonym byte = "8 word"
type_synonym u16 = "16 word"
type_synonym u32 = "32 word"
type_synonym u64 = "64 word"
type_synonym addr = "64 word"


lemma unat_small: "n < 2 ^ LENGTH('a) \<Longrightarrow> unat (word_of_nat n :: 'a::len word) = n"
  by (simp add: unat_of_nat)


lemma length_filter_neq: "distinct xs \<Longrightarrow> f \<in> set xs \<Longrightarrow> Suc (length (filter (\<lambda>g. g \<noteq> f) xs)) = length xs"
proof (induction xs)
  case (Cons x xs)
  show ?case
  proof (cases "x = f")
    case True
    with Cons.prems have "filter (\<lambda>g. g \<noteq> f) xs = xs" by (intro filter_True) auto
    with True show ?thesis by simp
  qed (use Cons in auto)
qed simp


section \<open>Little-endian words\<close>

primrec le_bytes :: "nat \<Rightarrow> 'a::len word \<Rightarrow> byte list" where
  "le_bytes 0 w = []"
| "le_bytes (Suc n) w = ucast w # le_bytes n (drop_bit 8 w)"

primrec le_word :: "byte list \<Rightarrow> 'a::len word" where
  "le_word [] = 0"
| "le_word (b # bs) = ucast b OR push_bit 8 (le_word bs)"

lemma length_le_bytes [simp, buffer_simps]: "length (le_bytes n w) = n"
  by (induction n arbitrary: w) auto

lemma le_bytes_numeral:
  "le_bytes (numeral n) w = ucast w # le_bytes (pred_numeral n) (drop_bit 8 w)"
  by (simp only: numeral_eq_Suc le_bytes.simps)

lemma le_word_le_bytes: "le_word (le_bytes n w) = take_bit (8 * n) (w :: 'a::len word)"
proof (induction n arbitrary: w)
  case 0
  then show ?case by simp
next
  case (Suc n)
  show ?case
    by (rule bit_word_eqI)
      (auto simp: Suc.IH bit_or_iff bit_push_bit_iff bit_take_bit_iff bit_drop_bit_eq bit_ucast_iff)
qed

lemma le_word_le_bytes_full [byte_simps]:
  "LENGTH('a) \<le> 8 * n \<Longrightarrow> le_word (le_bytes n w) = (w :: 'a::len word)"
  by (simp add: le_word_le_bytes take_bit_word_eq_self)

lemma bit_le_word: "bit (le_word bs :: 'a::len word) i \<Longrightarrow> i < 8 * length bs"
proof (induction bs arbitrary: i)
  case (Cons b bs)
  have "8 \<le> i \<and> bit (le_word bs :: 'a word) (i - 8) \<or> i < 8"
    using Cons.prems by (auto simp: bit_or_iff bit_push_bit_iff bit_ucast_iff dest: bit_imp_le_length)
  with Cons.IH [of "i - 8"] show ?case by auto
qed simp

lemma le_word_take: "8 * length bs \<le> m \<Longrightarrow> take_bit m (le_word bs) = (le_word bs :: 'a::len word)"
  by (rule bit_word_eqI) (auto simp: bit_take_bit_iff dest: bit_le_word)

lemma le_bytes_le_word:
  "8 * length bs \<le> LENGTH('a) \<Longrightarrow> le_bytes (length bs) (le_word bs :: 'a::len word) = bs"
proof (induction bs)
  case (Cons b bs)
  have "ucast (ucast b OR push_bit 8 (le_word bs) :: 'a word) = b"
    using Cons.prems by (intro bit_word_eqI) (auto simp: bit_or_iff bit_push_bit_iff bit_ucast_iff)
  moreover have "drop_bit 8 (ucast b OR push_bit 8 (le_word bs) :: 'a word) = take_bit (LENGTH('a) - 8) (le_word bs)"
    using Cons.prems
    by (intro bit_word_eqI)
      (auto simp: bit_or_iff bit_push_bit_iff bit_ucast_iff bit_drop_bit_eq bit_take_bit_iff dest: bit_imp_le_length)
  moreover have "take_bit (LENGTH('a) - 8) (le_word bs :: 'a word) = le_word bs"
    using Cons.prems by (intro le_word_take) simp
  ultimately show ?case using Cons by simp
qed simp

lemma le_bytes_inject:
  "le_bytes n v = le_bytes n w \<Longrightarrow> take_bit (8 * n) v = take_bit (8 * n) (w :: 'a::len word)"
  by (metis le_word_le_bytes)


section \<open>Byte buffers\<close>

text \<open>
  \<open>store off bs buf\<close> overwrites the bytes of \<open>buf\<close> from \<open>off\<close> on with \<open>bs\<close>; \<open>load off n buf\<close>
  reads \<open>n\<close> bytes at \<open>off\<close>.
\<close>

definition store :: "nat \<Rightarrow> 'a list \<Rightarrow> 'a list \<Rightarrow> 'a list" where
  "store off bs buf = take off buf @ bs @ drop (off + length bs) buf"

definition load :: "nat \<Rightarrow> nat \<Rightarrow> 'a list \<Rightarrow> 'a list" where
  "load off n buf = take n (drop off buf)"

lemma length_store [buffer_simps]:
  "off + length bs \<le> length buf \<Longrightarrow> length (store off bs buf) = length buf"
  by (simp add: store_def)

lemma length_load [buffer_simps]: "off + n \<le> length buf \<Longrightarrow> length (load off n buf) = n"
  by (simp add: load_def)

lemma load_store_same [buffer_simps]:
  "off + length bs \<le> length buf \<Longrightarrow> n = length bs \<Longrightarrow> load off n (store off bs buf) = bs"
  by (simp add: load_def store_def)

lemma load_store_before [buffer_simps]:
  "off + n \<le> off' \<Longrightarrow> off' + length bs \<le> length buf \<Longrightarrow>
   load off n (store off' bs buf) = load off n buf"
  by (simp add: load_def store_def take_drop min_def)

lemma load_store_after [buffer_simps]:
  "off' + length bs \<le> off \<Longrightarrow> off' + length bs \<le> length buf \<Longrightarrow>
   load off n (store off' bs buf) = load off n buf"
  by (simp add: load_def store_def)

text \<open>A write into the front of a range that is then read: the tail keeps its old bytes.\<close>

lemma load_store_prefix [buffer_simps]:
  assumes "length bs \<le> n" and "off + n \<le> length buf"
  shows "load off n (store off bs buf) = bs @ drop (length bs) (load off n buf)"
  using assms by (simp add: load_def store_def drop_take add.commute)

lemma load_replicate [buffer_simps]:
  "off + n \<le> m \<Longrightarrow> load off n (replicate m x) = replicate n x"
  by (simp add: load_def)


section \<open>C strings\<close>

text \<open>
  The string a NUL-terminated byte sequence holds, and Go's \<open>bytes.Trim(s, "\x00")\<close>, which
  removes the zero bytes of both ends only.
\<close>

definition c_string :: "byte list \<Rightarrow> byte list" where
  "c_string bs = takeWhile (\<lambda>b. b \<noteq> 0) bs"

definition trim_nul :: "byte list \<Rightarrow> byte list" where
  "trim_nul bs = rev (dropWhile (\<lambda>b. b = 0) (rev (dropWhile (\<lambda>b. b = 0) bs)))"

lemma c_string_no_nul [simp]: "0 \<notin> set (c_string bs)"
  by (auto simp: c_string_def dest: set_takeWhileD)

lemma c_string_terminated: "0 \<notin> set s \<Longrightarrow> c_string (s @ 0 # rest) = s"
  by (auto simp: c_string_def takeWhile_tail intro: takeWhile_eq_all_conv [THEN iffD2])

lemma c_string_id: "0 \<notin> set s \<Longrightarrow> c_string s = s"
  by (auto simp: c_string_def takeWhile_eq_all_conv)

lemma dropWhile_zeros [simp]: "dropWhile (\<lambda>b. b = 0) (replicate n (0 :: byte) @ xs) = dropWhile (\<lambda>b. b = 0) xs"
  by (induction n) auto

lemma dropWhile_nonzero: "0 \<notin> set s \<Longrightarrow> dropWhile (\<lambda>b. b = (0 :: byte)) s = s"
  by (cases s) auto

text \<open>A zero-padded string is what trimming recovers.\<close>

lemma trim_nul_padded:
  assumes "0 \<notin> set s"
  shows "trim_nul (s @ replicate n 0) = s"
proof (cases s)
  case Nil
  then show ?thesis
    using dropWhile_zeros [of n "[]"] by (simp add: trim_nul_def)
next
  case (Cons b bs)
  with assms have "dropWhile (\<lambda>b. b = 0) (s @ replicate n 0) = s @ replicate n 0" by simp
  moreover have "dropWhile (\<lambda>b. b = 0) (rev (s @ replicate n 0)) = rev s"
    using assms by (simp add: dropWhile_nonzero)
  ultimately show ?thesis by (simp add: trim_nul_def)
qed

lemma byte_less_max: "(b :: 8 word) < 0xFF \<longleftrightarrow> b \<noteq> 0xFF"
proof -
  have "unat b < 256" using unsigned_less [of b] by simp
  then show ?thesis by (auto simp: word_less_nat_alt word_unat_eq_iff)
qed

end
