(* ===== verification/Go_Base.thy ===== *)
theory Go_Base
  imports Prelude
begin

text \<open>
  The pieces of the Go standard library the agent uses: \<open>io.ReadFull\<close>, \<open>encoding/binary\<close>'s
  \<open>binary.Read\<close> of a struct of fixed-size fields, \<open>fmt\<close>'s \<open>%d\<close>, \<open>strings.TrimSpace\<close> and
  \<open>strconv.ParseInt\<close>.
\<close>

datatype go_io_error = EOF | ErrUnexpectedEOF

text \<open>\<open>io.ReadFull\<close> on a reader that holds \<open>raw\<close>.\<close>

definition ReadFull :: "nat \<Rightarrow> 'a list \<Rightarrow> go_io_error + 'a list" where
  "ReadFull n raw =
     (if n \<le> length raw then Inr (take n raw)
      else if raw = [] then Inl EOF else Inl ErrUnexpectedEOF)"

text \<open>\<open>binary.Read\<close> fills the fields of a struct one after the other, without padding.\<close>

primrec chop :: "nat list \<Rightarrow> 'a list \<Rightarrow> 'a list list" where
  "chop [] bs = []"
| "chop (n # ns) bs = take n bs # chop ns (drop n bs)"

definition binary_Read :: "nat list \<Rightarrow> 'a list \<Rightarrow> go_io_error + 'a list list" where
  "binary_Read sizes raw =
     (case ReadFull (sum_list sizes) raw of Inl e \<Rightarrow> Inl e | Inr bs \<Rightarrow> Inr (chop sizes bs))"

lemma chop_nth: "i < length ns \<Longrightarrow> chop ns bs ! i = load (sum_list (take i ns)) (ns ! i) bs"
proof (induction ns arbitrary: i bs)
  case (Cons n ns)
  then show ?case by (cases i) (auto simp: load_def add.commute)
qed simp

lemma binary_Read_ok:
  "length raw = sum_list sizes \<Longrightarrow> binary_Read sizes raw = Inr (chop sizes raw)"
  by (simp add: binary_Read_def ReadFull_def)

lemma binary_Read_short:
  "length raw < sum_list sizes \<Longrightarrow>
   binary_Read sizes raw = Inl (if raw = [] then EOF else ErrUnexpectedEOF)"
  by (auto simp: binary_Read_def ReadFull_def)


section \<open>Decimal numbers\<close>

definition digit :: "nat \<Rightarrow> char" where
  "digit d = char_of (48 + d)"

fun show_nat :: "nat \<Rightarrow> string" where
  "show_nat n = (if n < 10 then [digit n] else show_nat (n div 10) @ [digit (n mod 10)])"

declare show_nat.simps [simp del]

definition read_digit :: "nat \<Rightarrow> char \<Rightarrow> nat" where
  "read_digit a c = 10 * a + (of_char c - 48)"

lemma read_digit_digit: "d < 10 \<Longrightarrow> read_digit a (digit d) = 10 * a + d"
  by (simp add: read_digit_def digit_def)

lemma foldl_show_nat: "foldl read_digit 0 (show_nat n) = n"
proof (induction n rule: show_nat.induct)
  case (1 n)
  then show ?case
    by (subst show_nat.simps) (auto simp: read_digit_digit)
qed

lemma show_nat_inject [simp]: "show_nat m = show_nat n \<longleftrightarrow> m = n"
  by (metis foldl_show_nat)


section \<open>Text\<close>

text \<open>A string literal as bytes.\<close>

definition str :: "string \<Rightarrow> byte list" where
  "str s = map (\<lambda>c. word_of_nat (of_char c)) s"

text \<open>The white space of \<open>strings.TrimSpace\<close>, in UTF-8.\<close>

definition white :: "byte list list" where
  "white = [[9], [10], [11], [12], [13], [32], [0xC2, 0x85], [0xC2, 0xA0], [0xE1, 0x9A, 0x80],
     [0xE2, 0x80, 0xA8], [0xE2, 0x80, 0xA9], [0xE2, 0x80, 0xAF], [0xE2, 0x81, 0x9F], [0xE3, 0x80, 0x80]]
     @ map (\<lambda>i. [0xE2, 0x80, 0x80 + i]) [0, 1, 2, 3, 4, 5, 6, 7, 8, 9, 10]"

function drop_any :: "byte list list \<Rightarrow> byte list \<Rightarrow> byte list" where
  "drop_any ws bs =
     (case List.find (\<lambda>w. w \<noteq> [] \<and> take (length w) bs = w) ws of
        None \<Rightarrow> bs
      | Some w \<Rightarrow> drop_any ws (drop (length w) bs))"
  by pat_completeness auto
termination
proof (relation "measure (length \<circ> snd)")
  fix ws bs w assume "List.find (\<lambda>w. w \<noteq> [] \<and> take (length w) bs = w) ws = Some w"
  then have "w \<noteq> []" and "take (length w) bs = w" by (auto simp: find_Some_iff)
  then have "bs \<noteq> []" by (metis take_Nil)
  with \<open>w \<noteq> []\<close> show "((ws, drop (length w) bs), (ws, bs)) \<in> measure (length \<circ> snd)" by (cases w; cases bs) auto
qed simp

declare drop_any.simps [simp del]

definition TrimSpace :: "byte list \<Rightarrow> byte list" where
  "TrimSpace bs = rev (drop_any (map rev white) (rev (drop_any white bs)))"

definition digit_value :: "byte \<Rightarrow> nat option" where
  "digit_value b = (if 48 \<le> b \<and> b \<le> 57 then Some (unat b - 48) else None)"

fun digits_value :: "nat \<Rightarrow> byte list \<Rightarrow> nat option" where
  "digits_value a [] = Some a"
| "digits_value a (b # bs) = (case digit_value b of None \<Rightarrow> None | Some d \<Rightarrow> digits_value (10 * a + d) bs)"

text \<open>\<open>strconv.ParseInt\<close> to base ten and 64 bits.\<close>

definition ParseInt :: "byte list \<Rightarrow> int option" where
  "ParseInt s =
     (let neg = (take 1 s = [45]); ds = (if take 1 s = [45] \<or> take 1 s = [43] then drop 1 s else s)
      in if ds = [] then None
         else case digits_value 0 ds of
                None \<Rightarrow> None
              | Some n \<Rightarrow>
                  if neg then if n \<le> 2 ^ 63 then Some (- int n) else None
                  else if n < 2 ^ 63 then Some (int n) else None)"

text \<open>White space neither begins nor ends with a digit.\<close>

lemma drop_any_keeps:
  assumes "\<forall>w \<in> set ws. w \<noteq> [] \<longrightarrow> hd w < 48 \<or> 57 < hd w" and "bs \<noteq> []" and "48 \<le> hd bs" and "hd bs \<le> 57"
  shows "drop_any ws bs = bs"
proof -
  have "\<not> (w \<noteq> [] \<and> take (length w) bs = w)" if w: "w \<in> set ws" for w
  proof
    assume "w \<noteq> [] \<and> take (length w) bs = w"
    then have "w \<noteq> []" and "hd w = hd bs" by (metis, metis hd_take length_greater_0_conv)
    with w assms show False by (metis not_le)
  qed
  then have "List.find (\<lambda>w. w \<noteq> [] \<and> take (length w) bs = w) ws = None" by (simp add: find_None_iff)
  then show ?thesis by (subst drop_any.simps) simp
qed

lemma white_ends: "\<forall>w \<in> set white. w \<noteq> [] \<longrightarrow> hd w < 48 \<or> 57 < hd w" "\<forall>w \<in> set (map rev white). w \<noteq> [] \<longrightarrow> hd w < 48 \<or> 57 < hd w"
  by (simp_all add: white_def)

end
