(* ===== verification/CTypes.thy ===== *)
theory CTypes
  imports Prelude
begin

text \<open>
  C types as data and the layout a compiler for the x86-64 and eBPF targets gives them: natural
  alignment, bit-fields packed into storage units of their declared type, trailing padding to the
  alignment of the aggregate.  The types that \<open>src/ebpf/vmlinux.h\<close> and
  \<open>src/ebpf/diffkeeper.bpf.c\<close> declare are values of \<open>ctype\<close>; offsets and sizes of their members
  are computed, never assumed.

  The layout facts proved here hold for every well-formed type: members do not overlap, are
  aligned and lie inside the aggregate, and so does every member that an access path reaches,
  through anonymous members as well.
\<close>

datatype ctype =
    CInt nat bool                      \<comment> \<open>size in bytes, signed\<close>
  | CPtr string                        \<comment> \<open>what it points to\<close>
  | CEnum string
  | CArray ctype nat
  | CStruct string "cmember list"
  | CUnion string "cmember list"
and cmember =
    CField string ctype                \<comment> \<open>the empty name is an anonymous member\<close>
  | CBits string ctype nat             \<comment> \<open>bit-field: name, declared type, width\<close>


section \<open>Sizes, alignments and offsets\<close>

definition round_up :: "nat \<Rightarrow> nat \<Rightarrow> nat" where
  "round_up x a = (x + (a - 1)) div a * a"

fun calign :: "ctype \<Rightarrow> nat" and malign :: "cmember \<Rightarrow> nat" and maligns :: "cmember list \<Rightarrow> nat" where
  "calign (CInt n s) = n"
| "calign (CPtr t) = 8"
| "calign (CEnum t) = 4"
| "calign (CArray t n) = calign t"
| "calign (CStruct nm ms) = maligns ms"
| "calign (CUnion nm ms) = maligns ms"
| "malign (CField nm t) = calign t"
| "malign (CBits nm t w) = (if nm = '''' then 1 else calign t)"
| "maligns [] = 1"
| "maligns (m # ms) = max (malign m) (maligns ms)"

fun csize :: "ctype \<Rightarrow> nat" and mbits :: "cmember \<Rightarrow> nat" and mplace :: "nat \<Rightarrow> cmember \<Rightarrow> nat"
  and mend :: "nat \<Rightarrow> cmember list \<Rightarrow> nat" and umax :: "cmember list \<Rightarrow> nat" where
  "csize (CInt n s) = n"
| "csize (CPtr t) = 8"
| "csize (CEnum t) = 4"
| "csize (CArray t n) = csize t * n"
| "csize (CStruct nm ms) = round_up (mend 0 ms) (8 * maligns ms) div 8"
| "csize (CUnion nm ms) = round_up (umax ms) (8 * maligns ms) div 8"
| "mbits (CField nm t) = 8 * csize t"
| "mbits (CBits nm t w) = w"
| "mplace cur (CField nm t) = round_up cur (8 * calign t)"
| "mplace cur (CBits nm t w) =
     (if w = 0 then round_up cur (8 * calign t)
      else if cur mod (8 * csize t) + w \<le> 8 * csize t then cur
      else round_up cur (8 * csize t))"
| "mend cur [] = cur"
| "mend cur (m # ms) = mend (mplace cur m + mbits m) ms"
| "umax [] = 0"
| "umax (m # ms) = max (mbits m) (umax ms)"

text \<open>The members of a struct with the bit offset at which each is placed.\<close>

primrec placed :: "nat \<Rightarrow> cmember list \<Rightarrow> (cmember \<times> nat) list" where
  "placed cur [] = []"
| "placed cur (m # ms) = (m, mplace cur m) # placed (mplace cur m + mbits m) ms"

primrec mname :: "cmember \<Rightarrow> string" where
  "mname (CField nm t) = nm"
| "mname (CBits nm t w) = nm"

primrec mtype :: "cmember \<Rightarrow> ctype" where
  "mtype (CField nm t) = t"
| "mtype (CBits nm t w) = t"

text \<open>
  A member by its name: anonymous structs and unions are searched in place, as C does for
  \<open>p->name\<close>.
\<close>

fun find_member :: "string \<Rightarrow> nat \<Rightarrow> ctype \<Rightarrow> (nat \<times> cmember) option"
  and find_here :: "string \<Rightarrow> nat \<Rightarrow> cmember \<Rightarrow> (nat \<times> cmember) option"
  and find_struct :: "string \<Rightarrow> nat \<Rightarrow> nat \<Rightarrow> cmember list \<Rightarrow> (nat \<times> cmember) option"
  and find_union :: "string \<Rightarrow> nat \<Rightarrow> cmember list \<Rightarrow> (nat \<times> cmember) option" where
  "find_member nm base (CStruct sn ms) = find_struct nm base 0 ms"
| "find_member nm base (CUnion sn ms) = find_union nm base ms"
| "find_member nm base (CInt n s) = None"
| "find_member nm base (CPtr t) = None"
| "find_member nm base (CEnum t) = None"
| "find_member nm base (CArray t n) = None"
| "find_here nm off (CField n t) =
     (if n = nm then Some (off, CField n t)
      else if n = '''' then find_member nm off t else None)"
| "find_here nm off (CBits n t w) = (if n = nm then Some (off, CBits n t w) else None)"
| "find_struct nm base cur [] = None"
| "find_struct nm base cur (m # ms) =
     (case find_here nm (base + mplace cur m) m of
        Some r \<Rightarrow> Some r
      | None \<Rightarrow> find_struct nm base (mplace cur m + mbits m) ms)"
| "find_union nm base [] = None"
| "find_union nm base (m # ms) =
     (case find_here nm base m of Some r \<Rightarrow> Some r | None \<Rightarrow> find_union nm base ms)"

text \<open>An access path such as \<open>f_path.dentry\<close>: the bit offset it reaches and the member there.\<close>

fun field_path :: "nat \<Rightarrow> ctype \<Rightarrow> string list \<Rightarrow> (nat \<times> cmember) option" where
  "field_path base t [] = None"
| "field_path base t [nm] = find_member nm base t"
| "field_path base t (nm # nms) =
     (case find_member nm base t of
        Some (off, CField n t') \<Rightarrow> field_path off t' nms
      | _ \<Rightarrow> None)"

definition offset_of :: "ctype \<Rightarrow> string list \<Rightarrow> nat option" where
  "offset_of t path = map_option (\<lambda>(off, m). off div 8) (field_path 0 t path)"

definition type_of :: "ctype \<Rightarrow> string list \<Rightarrow> ctype option" where
  "type_of t path = map_option (\<lambda>(off, m). mtype m) (field_path 0 t path)"


section \<open>Well-formed types\<close>

text \<open>Scalars have a positive size; a bit-field has an integer type and fits into it.\<close>

fun int_type :: "ctype \<Rightarrow> bool" where
  "int_type (CInt n s) = (n \<in> {1, 2, 4, 8})"
| "int_type t = False"

fun cwf :: "ctype \<Rightarrow> bool" and mwf :: "cmember \<Rightarrow> bool" and mswf :: "cmember list \<Rightarrow> bool" where
  "cwf (CInt n s) = (n \<in> {1, 2, 4, 8, 16})"
| "cwf (CPtr t) = True"
| "cwf (CEnum t) = True"
| "cwf (CArray t n) = cwf t"
| "cwf (CStruct nm ms) = mswf ms"
| "cwf (CUnion nm ms) = mswf ms"
| "mwf (CField nm t) = cwf t"
| "mwf (CBits nm t w) =
     (int_type t \<and> w \<le> 8 * csize t)"
| "mswf [] = True"
| "mswf (m # ms) = (mwf m \<and> mswf ms)"

lemma int_type_size: "int_type t \<Longrightarrow> calign t = csize t \<and> 0 < csize t"
  by (cases t) auto

lemma mswf_iff: "mswf ms \<longleftrightarrow> (\<forall>m \<in> set ms. mwf m)"
  by (induction ms) auto


section \<open>The layout is sound\<close>

lemma round_up_ge: "0 < a \<Longrightarrow> x \<le> round_up x a"
  using div_mult_mod_eq [of "x + (a - 1)" a] mod_less_divisor [of a "x + (a - 1)"]
  unfolding round_up_def by linarith

lemma round_up_dvd [simp]: "a dvd round_up x a"
  by (simp add: round_up_def)

lemma calign_pos:
  "cwf t \<Longrightarrow> 0 < calign t" "mwf m \<Longrightarrow> 0 < malign m" "0 < maligns ms"
  by (induction t and m and ms rule: calign_malign_maligns.induct)
    (auto simp: int_type_size)

lemma round_up_bytes_dvd: "a dvd round_up x (8 * a) div 8"
proof -
  obtain k where "round_up x (8 * a) = 8 * a * k"
    using round_up_dvd by (blast elim: dvdE)
  then show ?thesis by simp
qed

lemma csize_dvd:
  fixes m :: cmember and ms :: "cmember list"
  shows "cwf t \<Longrightarrow> calign t dvd csize t" and True and True
  by (induction t and m and ms rule: calign_malign_maligns.induct)
    (simp_all add: round_up_bytes_dvd)

lemma round_up_bits: "8 dvd a \<Longrightarrow> 8 * (round_up x a div 8) = round_up x a"
  by (metis dvd_mult_div_cancel dvd_trans round_up_dvd)

lemma mplace_ge: "mwf m \<Longrightarrow> cur \<le> mplace cur m"
  by (cases m) (auto simp: calign_pos round_up_ge int_type_size)

lemma mend_ge: "mswf ms \<Longrightarrow> cur \<le> mend cur ms"
proof (induction ms arbitrary: cur)
  case (Cons m ms)
  then show ?case
    using mplace_ge [of m cur] by (fastforce intro: order_trans [of cur "mplace cur m + mbits m"])
qed simp

lemma placed_bounds:
  "mswf ms \<Longrightarrow> (m, off) \<in> set (placed cur ms) \<Longrightarrow> cur \<le> off \<and> off + mbits m \<le> mend cur ms"
proof (induction ms arbitrary: cur)
  case (Cons m' ms)
  show ?case
  proof (cases "(m, off) = (m', mplace cur m')")
    case True
    with Cons.prems show ?thesis
      by (auto simp: mplace_ge mend_ge)
  next
    case False
    with Cons show ?thesis
      using mplace_ge [of m' cur] by (fastforce dest: Cons.IH)
  qed
qed simp

text \<open>Bits of different members never overlap, and they come in the order of declaration.\<close>

definition apart :: "cmember \<times> nat \<Rightarrow> cmember \<times> nat \<Rightarrow> bool" where
  "apart p q \<longleftrightarrow> snd p + mbits (fst p) \<le> snd q"

lemma placed_apart: "mswf ms \<Longrightarrow> sorted_wrt apart (placed cur ms)"
proof (induction ms arbitrary: cur)
  case (Cons m ms)
  then show ?case by (auto simp: apart_def dest: placed_bounds)
qed simp

lemma placed_aligned:
  "(CField nm t, off) \<in> set (placed cur ms) \<Longrightarrow> 8 * calign t dvd off"
  by (induction ms arbitrary: cur) auto

text \<open>A bit-field never straddles two storage units of its declared type.\<close>

lemma mplace_bits_unit:
  assumes "mwf (CBits nm t w)" and "0 < w"
  shows "mplace cur (CBits nm t w) mod (8 * csize t) + w \<le> 8 * csize t"
  using assms by (auto simp: int_type_size)

lemma struct_bits: "8 * csize (CStruct nm ms) = round_up (mend 0 ms) (8 * maligns ms)"
  by (simp add: round_up_bits)

lemma struct_bound: "mend 0 ms \<le> 8 * csize (CStruct nm ms)"
  unfolding struct_bits using calign_pos(3) by (auto intro: round_up_ge)

lemma union_bound: "umax ms \<le> 8 * csize (CUnion nm ms)"
  using round_up_ge [of "8 * maligns ms" "umax ms"] calign_pos(3) [of ms]
  by (simp add: round_up_bits)

lemma umax_ge: "m \<in> set ms \<Longrightarrow> mbits m \<le> umax ms"
  by (induction ms) auto

text \<open>
  Whatever a member search finds lies inside the type that was searched.  One induction covers
  the four mutually recursive functions.
\<close>

lemma find_bounds:
  "find_member nm base t = Some (off, m) \<Longrightarrow> cwf t \<Longrightarrow> base \<le> off \<and> off + mbits m \<le> base + 8 * csize t"
  "find_here nm base mm = Some (off, m) \<Longrightarrow> mwf mm \<Longrightarrow> base \<le> off \<and> off + mbits m \<le> base + mbits mm"
  "find_struct nm base cur ms = Some (off, m) \<Longrightarrow> mswf ms \<Longrightarrow> base \<le> off \<and> off + mbits m \<le> base + mend cur ms"
  "find_union nm base ms = Some (off, m) \<Longrightarrow> mswf ms \<Longrightarrow> base \<le> off \<and> off + mbits m \<le> base + umax ms"
proof (induction nm base t and nm base mm and nm base cur ms and nm base ms
    rule: find_member_find_here_find_struct_find_union.induct)
  case (1 nm base sn ms)
  then show ?case using struct_bound [of ms sn] by fastforce
next
  case (2 nm base sn ms)
  then show ?case using union_bound [of ms sn] by fastforce
next
  case (10 nm base cur m' ms)
  have ge: "cur \<le> mplace cur m'" and "mplace cur m' + mbits m' \<le> mend cur (m' # ms)"
    using 10 by (auto simp: mplace_ge mend_ge)
  with 10 show ?case by (fastforce split: option.splits)
next
  case (12 nm base m' ms)
  then show ?case by (fastforce split: option.splits)
qed (auto split: if_splits)

lemma find_wf:
  "find_member nm base t = Some (off, m) \<Longrightarrow> cwf t \<Longrightarrow> mwf m"
  "find_here nm base mm = Some (off, m) \<Longrightarrow> mwf mm \<Longrightarrow> mwf m"
  "find_struct nm base cur ms = Some (off, m) \<Longrightarrow> mswf ms \<Longrightarrow> mwf m"
  "find_union nm base ms = Some (off, m) \<Longrightarrow> mswf ms \<Longrightarrow> mwf m"
  by (induction nm base t and nm base mm and nm base cur ms and nm base ms
      rule: find_member_find_here_find_struct_find_union.induct)
    (auto split: if_splits option.splits)

lemma field_path_bounds:
  "field_path base t path = Some (off, m) \<Longrightarrow> cwf t \<Longrightarrow>
   base \<le> off \<and> off + mbits m \<le> base + 8 * csize t"
proof (induction base t path rule: field_path.induct)
  case (3 base t nm nm' nms)
  then obtain o' n' t' where f: "find_member nm base t = Some (o', CField n' t')"
    and r: "field_path o' t' (nm' # nms) = Some (off, m)"
    by (auto split: option.splits cmember.splits)
  have "cwf t'" using find_wf(1) [OF f] "3.prems" by simp
  with "3.IH" f r have "o' \<le> off" "off + mbits m \<le> o' + 8 * csize t'" by auto
  with find_bounds(1) [OF f] "3.prems" show ?case by simp
qed (auto dest: find_bounds)

text \<open>A struct whose member list is written in two parts.\<close>

lemma mend_append: "mend cur (xs @ ys) = mend (mend cur xs) ys"
  by (induction xs arbitrary: cur) auto

lemma maligns_append: "maligns (xs @ ys) = max (maligns xs) (maligns ys)"
  by (induction xs) (auto simp: Suc_leI calign_pos)

lemma find_struct_append:
  "find_struct nm base cur (xs @ ys) =
     (case find_struct nm base cur xs of
        Some r \<Rightarrow> Some r
      | None \<Rightarrow> find_struct nm base (mend cur xs) ys)"
  by (induction xs arbitrary: cur) (auto split: option.splits)

end
