(* ===== verification/Vmlinux_Fs.thy ===== *)
theory Vmlinux_Fs
  imports CTypes
begin

text \<open>
  The kernel types of \<open>src/ebpf/vmlinux.h\<close> that the write probes, the exec tracepoint and the
  register macros of \<open>bpf_tracing.h\<close> read, with every type they embed by value: one definition
  per typedef, struct and union, members in the order of the header, bit-fields and anonymous
  members included.  A pointer member records what it points to as text; function pointers are
  recorded as such.
\<close>

abbreviation c_char :: ctype where "c_char \<equiv> CInt 1 True"
abbreviation c_uchar :: ctype where "c_uchar \<equiv> CInt 1 False"
abbreviation c_bool :: ctype where "c_bool \<equiv> CInt 1 False"
abbreviation c_short :: ctype where "c_short \<equiv> CInt 2 True"
abbreviation c_ushort :: ctype where "c_ushort \<equiv> CInt 2 False"
abbreviation c_int :: ctype where "c_int \<equiv> CInt 4 True"
abbreviation c_uint :: ctype where "c_uint \<equiv> CInt 4 False"
abbreviation c_long :: ctype where "c_long \<equiv> CInt 8 True"
abbreviation c_ulong :: ctype where "c_ulong \<equiv> CInt 8 False"
abbreviation c_llong :: ctype where "c_llong \<equiv> CInt 8 True"
abbreviation c_ullong :: ctype where "c_ullong \<equiv> CInt 8 False"

definition struct_callback_head :: ctype where
  "struct_callback_head = CStruct ''callback_head'' [
    CField ''next'' (CPtr ''struct callback_head''),
    CField ''func'' (CPtr ''function'')]"

definition ty___kernel_loff_t :: ctype where [alias_defs]:
  "ty___kernel_loff_t = c_llong"

definition ty_loff_t :: ctype where [alias_defs]:
  "ty_loff_t = ty___kernel_loff_t"

definition struct_file_ra_state :: ctype where
  "struct_file_ra_state = CStruct ''file_ra_state'' [
    CField ''start'' c_ulong,
    CField ''size'' c_uint,
    CField ''async_size'' c_uint,
    CField ''ra_pages'' c_uint,
    CField ''mmap_miss'' c_uint,
    CField ''prev_pos'' ty_loff_t]"

definition struct_llist_node :: ctype where
  "struct_llist_node = CStruct ''llist_node'' [
    CField ''next'' (CPtr ''struct llist_node'')]"

definition struct_list_head :: ctype where
  "struct_list_head = CStruct ''list_head'' [
    CField ''next'' (CPtr ''struct list_head''),
    CField ''prev'' (CPtr ''struct list_head'')]"

definition ty_atomic_t :: ctype where
  "ty_atomic_t = CStruct '''' [
    CField ''counter'' c_int]"

definition struct_optimistic_spin_queue :: ctype where
  "struct_optimistic_spin_queue = CStruct ''optimistic_spin_queue'' [
    CField ''tail'' ty_atomic_t]"

definition ty___s64 :: ctype where [alias_defs]:
  "ty___s64 = c_llong"

definition ty_s64 :: ctype where [alias_defs]:
  "ty_s64 = ty___s64"

definition ty_atomic64_t :: ctype where
  "ty_atomic64_t = CStruct '''' [
    CField ''counter'' ty_s64]"

definition ty_atomic_long_t :: ctype where [alias_defs]:
  "ty_atomic_long_t = ty_atomic64_t"

definition ty___u16 :: ctype where [alias_defs]:
  "ty___u16 = c_ushort"

definition ty_u16 :: ctype where [alias_defs]:
  "ty_u16 = ty___u16"

definition ty___u8 :: ctype where [alias_defs]:
  "ty___u8 = c_uchar"

definition ty_u8 :: ctype where [alias_defs]:
  "ty_u8 = ty___u8"

definition struct_qspinlock :: ctype where
  "struct_qspinlock = CStruct ''qspinlock'' [
    CField '''' (CUnion '''' [
      CField ''val'' ty_atomic_t,
      CField '''' (CStruct '''' [
        CField ''locked'' ty_u8,
        CField ''pending'' ty_u8]),
      CField '''' (CStruct '''' [
        CField ''locked_pending'' ty_u16,
        CField ''tail'' ty_u16])])]"

definition ty_arch_spinlock_t :: ctype where [alias_defs]:
  "ty_arch_spinlock_t = struct_qspinlock"

definition struct_raw_spinlock :: ctype where
  "struct_raw_spinlock = CStruct ''raw_spinlock'' [
    CField ''raw_lock'' ty_arch_spinlock_t]"

definition ty_raw_spinlock_t :: ctype where [alias_defs]:
  "ty_raw_spinlock_t = struct_raw_spinlock"

definition struct_mutex :: ctype where
  "struct_mutex = CStruct ''mutex'' [
    CField ''owner'' ty_atomic_long_t,
    CField ''wait_lock'' ty_raw_spinlock_t,
    CField ''osq'' struct_optimistic_spin_queue,
    CField ''wait_list'' struct_list_head]"

definition struct_path :: ctype where
  "struct_path = CStruct ''path'' [
    CField ''mnt'' (CPtr ''struct vfsmount''),
    CField ''dentry'' (CPtr ''struct dentry'')]"

definition ty___u32 :: ctype where [alias_defs]:
  "ty___u32 = c_uint"

definition ty_u32 :: ctype where [alias_defs]:
  "ty_u32 = ty___u32"

definition ty_errseq_t :: ctype where [alias_defs]:
  "ty_errseq_t = ty_u32"

definition ty_file_ref_t :: ctype where
  "ty_file_ref_t = CStruct '''' [
    CField ''refcnt'' ty_atomic64_t]"

definition ty_fmode_t :: ctype where [alias_defs]:
  "ty_fmode_t = c_uint"

definition ty_freeptr_t :: ctype where
  "ty_freeptr_t = CStruct '''' [
    CField ''v'' c_ulong]"

definition struct_spinlock :: ctype where
  "struct_spinlock = CStruct ''spinlock'' [
    CField '''' (CUnion '''' [
      CField ''rlock'' struct_raw_spinlock])]"

definition ty_spinlock_t :: ctype where [alias_defs]:
  "ty_spinlock_t = struct_spinlock"

definition ty___u64 :: ctype where [alias_defs]:
  "ty___u64 = c_ullong"

definition ty_u64 :: ctype where [alias_defs]:
  "ty_u64 = ty___u64"

definition struct_file :: ctype where
  "struct_file = CStruct ''file'' [
    CField ''f_ref'' ty_file_ref_t,
    CField ''f_lock'' ty_spinlock_t,
    CField ''f_mode'' ty_fmode_t,
    CField ''f_op'' (CPtr ''const struct file_operations''),
    CField ''f_mapping'' (CPtr ''struct address_space''),
    CField ''private_data'' (CPtr ''void''),
    CField ''f_inode'' (CPtr ''struct inode''),
    CField ''f_flags'' c_uint,
    CField ''f_iocb_flags'' c_uint,
    CField ''f_cred'' (CPtr ''const struct cred''),
    CField ''f_path'' struct_path,
    CField '''' (CUnion '''' [
      CField ''f_pos_lock'' struct_mutex,
      CField ''f_pipe'' ty_u64]),
    CField ''f_pos'' ty_loff_t,
    CField ''f_security'' (CPtr ''void''),
    CField ''f_owner'' (CPtr ''struct fown_struct''),
    CField ''f_wb_err'' ty_errseq_t,
    CField ''f_sb_err'' ty_errseq_t,
    CField ''f_ep'' (CPtr ''struct hlist_head''),
    CField '''' (CUnion '''' [
      CField ''f_task_work'' struct_callback_head,
      CField ''f_llist'' struct_llist_node,
      CField ''f_ra'' struct_file_ra_state,
      CField ''f_freeptr'' ty_freeptr_t])]"

definition struct_hlist_bl_node :: ctype where
  "struct_hlist_bl_node = CStruct ''hlist_bl_node'' [
    CField ''next'' (CPtr ''struct hlist_bl_node''),
    CField ''pprev'' (CPtr ''struct hlist_bl_node *'')]"

definition struct_hlist_head :: ctype where
  "struct_hlist_head = CStruct ''hlist_head'' [
    CField ''first'' (CPtr ''struct hlist_node'')]"

definition struct_hlist_node :: ctype where
  "struct_hlist_node = CStruct ''hlist_node'' [
    CField ''next'' (CPtr ''struct hlist_node''),
    CField ''pprev'' (CPtr ''struct hlist_node *'')]"

definition struct_lockref :: ctype where
  "struct_lockref = CStruct ''lockref'' [
    CField '''' (CUnion '''' [
      CField ''lock_count'' ty___u64,
      CField '''' (CStruct '''' [
        CField ''lock'' ty_spinlock_t,
        CField ''count'' c_int])])]"

definition struct_qstr :: ctype where
  "struct_qstr = CStruct ''qstr'' [
    CField '''' (CUnion '''' [
      CField '''' (CStruct '''' [
        CField ''hash'' ty_u32,
        CField ''len'' ty_u32]),
      CField ''hash_len'' ty_u64]),
    CField ''name'' (CPtr ''const unsigned char'')]"

definition struct_seqcount :: ctype where
  "struct_seqcount = CStruct ''seqcount'' [
    CField ''sequence'' c_uint]"

definition ty_seqcount_t :: ctype where [alias_defs]:
  "ty_seqcount_t = struct_seqcount"

definition struct_seqcount_spinlock :: ctype where
  "struct_seqcount_spinlock = CStruct ''seqcount_spinlock'' [
    CField ''seqcount'' ty_seqcount_t]"

definition ty_seqcount_spinlock_t :: ctype where [alias_defs]:
  "ty_seqcount_spinlock_t = struct_seqcount_spinlock"

definition union_shortname_store :: ctype where
  "union_shortname_store = CUnion ''shortname_store'' [
    CField ''string'' (CArray c_uchar 40),
    CField ''words'' (CArray c_ulong 5)]"

definition struct_dentry :: ctype where
  "struct_dentry = CStruct ''dentry'' [
    CField ''d_flags'' c_uint,
    CField ''d_seq'' ty_seqcount_spinlock_t,
    CField ''d_hash'' struct_hlist_bl_node,
    CField ''d_parent'' (CPtr ''struct dentry''),
    CField ''d_name'' struct_qstr,
    CField ''d_inode'' (CPtr ''struct inode''),
    CField ''d_shortname'' union_shortname_store,
    CField ''d_op'' (CPtr ''const struct dentry_operations''),
    CField ''d_sb'' (CPtr ''struct super_block''),
    CField ''d_time'' c_ulong,
    CField ''d_fsdata'' (CPtr ''void''),
    CField ''d_lockref'' struct_lockref,
    CField '''' (CUnion '''' [
      CField ''d_lru'' struct_list_head,
      CField ''d_wait'' (CPtr ''wait_queue_head_t'')]),
    CField ''d_sib'' struct_hlist_node,
    CField ''d_children'' struct_hlist_head,
    CField ''d_u'' (CUnion '''' [
      CField ''d_alias'' struct_hlist_node,
      CField ''d_in_lookup_hash'' struct_hlist_bl_node,
      CField ''d_rcu'' struct_callback_head])]"

definition struct_kiocb :: ctype where
  "struct_kiocb = CStruct ''kiocb'' [
    CField ''ki_filp'' (CPtr ''struct file''),
    CField ''ki_pos'' ty_loff_t,
    CField ''ki_complete'' (CPtr ''function''),
    CField ''private'' (CPtr ''void''),
    CField ''ki_flags'' c_int,
    CField ''ki_ioprio'' ty_u16,
    CField '''' (CUnion '''' [
      CField ''ki_waitq'' (CPtr ''struct wait_page_queue''),
      CField ''dio_complete'' (CPtr ''function'')])]"

definition ty___kernel_ulong_t :: ctype where [alias_defs]:
  "ty___kernel_ulong_t = c_ulong"

definition ty___kernel_size_t :: ctype where [alias_defs]:
  "ty___kernel_size_t = ty___kernel_ulong_t"

definition struct_iovec :: ctype where
  "struct_iovec = CStruct ''iovec'' [
    CField ''iov_base'' (CPtr ''void''),
    CField ''iov_len'' ty___kernel_size_t]"

definition struct_refcount_struct :: ctype where
  "struct_refcount_struct = CStruct ''refcount_struct'' [
    CField ''refs'' ty_atomic_t]"

definition ty_refcount_t :: ctype where [alias_defs]:
  "ty_refcount_t = struct_refcount_struct"

definition struct_nsproxy :: ctype where
  "struct_nsproxy = CStruct ''nsproxy'' [
    CField ''count'' ty_refcount_t,
    CField ''uts_ns'' (CPtr ''struct uts_namespace''),
    CField ''ipc_ns'' (CPtr ''struct ipc_namespace''),
    CField ''mnt_ns'' (CPtr ''struct mnt_namespace''),
    CField ''pid_ns_for_children'' (CPtr ''struct pid_namespace''),
    CField ''net_ns'' (CPtr ''struct net''),
    CField ''time_ns'' (CPtr ''struct time_namespace''),
    CField ''time_ns_for_children'' (CPtr ''struct time_namespace''),
    CField ''cgroup_ns'' (CPtr ''struct cgroup_namespace'')]"

definition struct_new_utsname :: ctype where
  "struct_new_utsname = CStruct ''new_utsname'' [
    CField ''sysname'' (CArray c_char 65),
    CField ''nodename'' (CArray c_char 65),
    CField ''release'' (CArray c_char 65),
    CField ''version'' (CArray c_char 65),
    CField ''machine'' (CArray c_char 65),
    CField ''domainname'' (CArray c_char 65)]"

definition struct_ns_common :: ctype where
  "struct_ns_common = CStruct ''ns_common'' [
    CField ''stashed'' (CPtr ''struct dentry''),
    CField ''ops'' (CPtr ''const struct proc_ns_operations''),
    CField ''inum'' c_uint,
    CField ''count'' ty_refcount_t]"

definition struct_uts_namespace :: ctype where
  "struct_uts_namespace = CStruct ''uts_namespace'' [
    CField ''name'' struct_new_utsname,
    CField ''user_ns'' (CPtr ''struct user_namespace''),
    CField ''ucounts'' (CPtr ''struct ucounts''),
    CField ''ns'' struct_ns_common]"

definition struct_trace_entry :: ctype where
  "struct_trace_entry = CStruct ''trace_entry'' [
    CField ''type'' c_ushort,
    CField ''flags'' c_uchar,
    CField ''preempt_count'' c_uchar,
    CField ''pid'' c_int]"

definition ty___kernel_pid_t :: ctype where [alias_defs]:
  "ty___kernel_pid_t = c_int"

definition ty_pid_t :: ctype where [alias_defs]:
  "ty_pid_t = ty___kernel_pid_t"

definition struct_trace_event_raw_sched_process_exec :: ctype where
  "struct_trace_event_raw_sched_process_exec = CStruct ''trace_event_raw_sched_process_exec'' [
    CField ''ent'' struct_trace_entry,
    CField ''__data_loc_filename'' ty_u32,
    CField ''pid'' ty_pid_t,
    CField ''old_pid'' ty_pid_t,
    CField ''__data'' (CArray c_char 0)]"

definition struct_fred_cs :: ctype where
  "struct_fred_cs = CStruct ''fred_cs'' [
    CBits ''cs'' ty_u64 16,
    CBits ''sl'' ty_u64 2,
    CBits ''wfe'' ty_u64 1]"

definition struct_fred_ss :: ctype where
  "struct_fred_ss = CStruct ''fred_ss'' [
    CBits ''ss'' ty_u64 16,
    CBits ''sti'' ty_u64 1,
    CBits ''swevent'' ty_u64 1,
    CBits ''nmi'' ty_u64 1,
    CBits '''' c_int 13,
    CBits ''vector'' ty_u64 8,
    CBits '''' c_short 8,
    CBits ''type'' ty_u64 4,
    CBits '''' c_char 4,
    CBits ''enclave'' ty_u64 1,
    CBits ''lm'' ty_u64 1,
    CBits ''nested'' ty_u64 1,
    CBits '''' c_char 1,
    CBits ''insnlen'' ty_u64 4]"

definition struct_pt_regs :: ctype where
  "struct_pt_regs = CStruct ''pt_regs'' [
    CField ''r15'' c_ulong,
    CField ''r14'' c_ulong,
    CField ''r13'' c_ulong,
    CField ''r12'' c_ulong,
    CField ''bp'' c_ulong,
    CField ''bx'' c_ulong,
    CField ''r11'' c_ulong,
    CField ''r10'' c_ulong,
    CField ''r9'' c_ulong,
    CField ''r8'' c_ulong,
    CField ''ax'' c_ulong,
    CField ''cx'' c_ulong,
    CField ''dx'' c_ulong,
    CField ''si'' c_ulong,
    CField ''di'' c_ulong,
    CField ''orig_ax'' c_ulong,
    CField ''ip'' c_ulong,
    CField '''' (CUnion '''' [
      CField ''cs'' ty_u16,
      CField ''csx'' ty_u64,
      CField ''fred_cs'' struct_fred_cs]),
    CField ''flags'' c_ulong,
    CField ''sp'' c_ulong,
    CField '''' (CUnion '''' [
      CField ''ss'' ty_u16,
      CField ''ssx'' ty_u64,
      CField ''fred_ss'' struct_fred_ss])]"

section \<open>Layout\<close>

text \<open>
  Size and alignment of each aggregate, from the innermost type outwards, and that it is
  well-formed.  The simplifier evaluates the layout functions; the facts feed the layout of the
  types that embed these ones.
\<close>

lemma struct_callback_head_layout [layout_simps]:
  "csize struct_callback_head = 16" "calign struct_callback_head = 8" "cwf struct_callback_head"
  by (simp_all add: struct_callback_head_def alias_defs layout_simps round_up_def)

lemma struct_file_ra_state_layout [layout_simps]:
  "csize struct_file_ra_state = 32" "calign struct_file_ra_state = 8" "cwf struct_file_ra_state"
  by (simp_all add: struct_file_ra_state_def alias_defs layout_simps round_up_def)

lemma struct_llist_node_layout [layout_simps]:
  "csize struct_llist_node = 8" "calign struct_llist_node = 8" "cwf struct_llist_node"
  by (simp_all add: struct_llist_node_def alias_defs layout_simps round_up_def)

lemma struct_list_head_layout [layout_simps]:
  "csize struct_list_head = 16" "calign struct_list_head = 8" "cwf struct_list_head"
  by (simp_all add: struct_list_head_def alias_defs layout_simps round_up_def)

lemma ty_atomic_t_layout [layout_simps]:
  "csize ty_atomic_t = 4" "calign ty_atomic_t = 4" "cwf ty_atomic_t"
  by (simp_all add: ty_atomic_t_def alias_defs layout_simps round_up_def)

lemma struct_optimistic_spin_queue_layout [layout_simps]:
  "csize struct_optimistic_spin_queue = 4" "calign struct_optimistic_spin_queue = 4" "cwf struct_optimistic_spin_queue"
  by (simp_all add: struct_optimistic_spin_queue_def alias_defs layout_simps round_up_def)

lemma ty_atomic64_t_layout [layout_simps]:
  "csize ty_atomic64_t = 8" "calign ty_atomic64_t = 8" "cwf ty_atomic64_t"
  by (simp_all add: ty_atomic64_t_def alias_defs layout_simps round_up_def)

lemma struct_qspinlock_layout [layout_simps]:
  "csize struct_qspinlock = 4" "calign struct_qspinlock = 4" "cwf struct_qspinlock"
  by (simp_all add: struct_qspinlock_def alias_defs layout_simps round_up_def)

lemma struct_raw_spinlock_layout [layout_simps]:
  "csize struct_raw_spinlock = 4" "calign struct_raw_spinlock = 4" "cwf struct_raw_spinlock"
  by (simp_all add: struct_raw_spinlock_def alias_defs layout_simps round_up_def)

lemma struct_mutex_layout [layout_simps]:
  "csize struct_mutex = 32" "calign struct_mutex = 8" "cwf struct_mutex"
  by (simp_all add: struct_mutex_def alias_defs layout_simps round_up_def)

lemma struct_path_layout [layout_simps]:
  "csize struct_path = 16" "calign struct_path = 8" "cwf struct_path"
  by (simp_all add: struct_path_def alias_defs layout_simps round_up_def)

lemma ty_file_ref_t_layout [layout_simps]:
  "csize ty_file_ref_t = 8" "calign ty_file_ref_t = 8" "cwf ty_file_ref_t"
  by (simp_all add: ty_file_ref_t_def alias_defs layout_simps round_up_def)

lemma ty_freeptr_t_layout [layout_simps]:
  "csize ty_freeptr_t = 8" "calign ty_freeptr_t = 8" "cwf ty_freeptr_t"
  by (simp_all add: ty_freeptr_t_def alias_defs layout_simps round_up_def)

lemma struct_spinlock_layout [layout_simps]:
  "csize struct_spinlock = 4" "calign struct_spinlock = 4" "cwf struct_spinlock"
  by (simp_all add: struct_spinlock_def alias_defs layout_simps round_up_def)

lemma struct_file_layout [layout_simps]:
  "csize struct_file = 184" "calign struct_file = 8" "cwf struct_file"
  by (simp_all add: struct_file_def alias_defs layout_simps round_up_def)

lemma struct_hlist_bl_node_layout [layout_simps]:
  "csize struct_hlist_bl_node = 16" "calign struct_hlist_bl_node = 8" "cwf struct_hlist_bl_node"
  by (simp_all add: struct_hlist_bl_node_def alias_defs layout_simps round_up_def)

lemma struct_hlist_head_layout [layout_simps]:
  "csize struct_hlist_head = 8" "calign struct_hlist_head = 8" "cwf struct_hlist_head"
  by (simp_all add: struct_hlist_head_def alias_defs layout_simps round_up_def)

lemma struct_hlist_node_layout [layout_simps]:
  "csize struct_hlist_node = 16" "calign struct_hlist_node = 8" "cwf struct_hlist_node"
  by (simp_all add: struct_hlist_node_def alias_defs layout_simps round_up_def)

lemma struct_lockref_layout [layout_simps]:
  "csize struct_lockref = 8" "calign struct_lockref = 8" "cwf struct_lockref"
  by (simp_all add: struct_lockref_def alias_defs layout_simps round_up_def)

lemma struct_qstr_layout [layout_simps]:
  "csize struct_qstr = 16" "calign struct_qstr = 8" "cwf struct_qstr"
  by (simp_all add: struct_qstr_def alias_defs layout_simps round_up_def)

lemma struct_seqcount_layout [layout_simps]:
  "csize struct_seqcount = 4" "calign struct_seqcount = 4" "cwf struct_seqcount"
  by (simp_all add: struct_seqcount_def alias_defs layout_simps round_up_def)

lemma struct_seqcount_spinlock_layout [layout_simps]:
  "csize struct_seqcount_spinlock = 4" "calign struct_seqcount_spinlock = 4" "cwf struct_seqcount_spinlock"
  by (simp_all add: struct_seqcount_spinlock_def alias_defs layout_simps round_up_def)

lemma union_shortname_store_layout [layout_simps]:
  "csize union_shortname_store = 40" "calign union_shortname_store = 8" "cwf union_shortname_store"
  by (simp_all add: union_shortname_store_def alias_defs layout_simps round_up_def)

lemma struct_dentry_layout [layout_simps]:
  "csize struct_dentry = 192" "calign struct_dentry = 8" "cwf struct_dentry"
  by (simp_all add: struct_dentry_def alias_defs layout_simps round_up_def)

lemma struct_kiocb_layout [layout_simps]:
  "csize struct_kiocb = 48" "calign struct_kiocb = 8" "cwf struct_kiocb"
  by (simp_all add: struct_kiocb_def alias_defs layout_simps round_up_def)

lemma struct_iovec_layout [layout_simps]:
  "csize struct_iovec = 16" "calign struct_iovec = 8" "cwf struct_iovec"
  by (simp_all add: struct_iovec_def alias_defs layout_simps round_up_def)

lemma struct_refcount_struct_layout [layout_simps]:
  "csize struct_refcount_struct = 4" "calign struct_refcount_struct = 4" "cwf struct_refcount_struct"
  by (simp_all add: struct_refcount_struct_def alias_defs layout_simps round_up_def)

lemma struct_nsproxy_layout [layout_simps]:
  "csize struct_nsproxy = 72" "calign struct_nsproxy = 8" "cwf struct_nsproxy"
  by (simp_all add: struct_nsproxy_def alias_defs layout_simps round_up_def)

lemma struct_new_utsname_layout [layout_simps]:
  "csize struct_new_utsname = 390" "calign struct_new_utsname = 1" "cwf struct_new_utsname"
  by (simp_all add: struct_new_utsname_def alias_defs layout_simps round_up_def)

lemma struct_ns_common_layout [layout_simps]:
  "csize struct_ns_common = 24" "calign struct_ns_common = 8" "cwf struct_ns_common"
  by (simp_all add: struct_ns_common_def alias_defs layout_simps round_up_def)

lemma struct_uts_namespace_layout [layout_simps]:
  "csize struct_uts_namespace = 432" "calign struct_uts_namespace = 8" "cwf struct_uts_namespace"
  by (simp_all add: struct_uts_namespace_def alias_defs layout_simps round_up_def)

lemma struct_trace_entry_layout [layout_simps]:
  "csize struct_trace_entry = 8" "calign struct_trace_entry = 4" "cwf struct_trace_entry"
  by (simp_all add: struct_trace_entry_def alias_defs layout_simps round_up_def)

lemma struct_trace_event_raw_sched_process_exec_layout [layout_simps]:
  "csize struct_trace_event_raw_sched_process_exec = 20" "calign struct_trace_event_raw_sched_process_exec = 4" "cwf struct_trace_event_raw_sched_process_exec"
  by (simp_all add: struct_trace_event_raw_sched_process_exec_def alias_defs layout_simps round_up_def)

lemma struct_fred_cs_layout [layout_simps]:
  "csize struct_fred_cs = 8" "calign struct_fred_cs = 8" "cwf struct_fred_cs"
  by (simp_all add: struct_fred_cs_def alias_defs layout_simps round_up_def)

lemma struct_fred_ss_layout [layout_simps]:
  "csize struct_fred_ss = 8" "calign struct_fred_ss = 8" "cwf struct_fred_ss"
  by (simp_all add: struct_fred_ss_def alias_defs layout_simps round_up_def)

lemma struct_pt_regs_layout [layout_simps]:
  "csize struct_pt_regs = 168" "calign struct_pt_regs = 8" "cwf struct_pt_regs"
  by (simp_all add: struct_pt_regs_def alias_defs layout_simps round_up_def)

end
