(* ===== verification/Event_Record.thy ===== *)
theory Event_Record
  imports Vmlinux_Fs
begin

text \<open>
  The records that the eBPF program of \<open>src/ebpf/diffkeeper.bpf.c\<close> writes into its ring buffers, as
  C structs with a computed layout, and member access in a sample of raw bytes.

  The locale \<open>flat_struct\<close> is the interface between a struct declaration and the code that fills or
  reads a sample of it: members have disjoint ranges inside the sample, so a member reads back what
  was last stored in it, whatever else was stored.  It is interpreted for both event structs.
\<close>

section \<open>The event structs\<close>

definition syscall_event :: ctype where
  "syscall_event = CStruct ''syscall_event''
    [CField ''pid'' ty___u32,
     CField ''bytes'' ty___u64,
     CField ''path'' (CArray (CInt 1 True) 256)]"

definition lifecycle_event :: ctype where
  "lifecycle_event = CStruct ''lifecycle_event''
    [CField ''pid'' ty___u32,
     CField ''state'' ty___u32,
     CField ''runtime'' (CArray (CInt 1 True) 16),
     CField ''namespace'' (CArray (CInt 1 True) 64),
     CField ''container'' (CArray (CInt 1 True) 64)]"


section \<open>Members of a sample\<close>

text \<open>The byte range of a member: where it starts and \<open>sizeof\<close> it.\<close>

definition member_range :: "ctype \<Rightarrow> string \<Rightarrow> (nat \<times> nat) option" where
  "member_range t nm = map_option (\<lambda>(off, m). (off div 8, csize (mtype m))) (field_path 0 t [nm])"

definition put_member :: "ctype \<Rightarrow> string \<Rightarrow> byte list \<Rightarrow> byte list \<Rightarrow> byte list" where
  "put_member t nm bs buf = (case member_range t nm of Some (off, n) \<Rightarrow> store off bs buf | None \<Rightarrow> buf)"

definition get_member :: "ctype \<Rightarrow> string \<Rightarrow> byte list \<Rightarrow> byte list" where
  "get_member t nm buf = (case member_range t nm of Some (off, n) \<Rightarrow> load off n buf | None \<Rightarrow> [])"

primrec plain_member :: "cmember \<Rightarrow> bool" where
  "plain_member (CField nm t) = (nm \<noteq> '''')"
| "plain_member (CBits nm t w) = False"

lemma find_struct_placed:
  "list_all plain_member ms \<Longrightarrow> find_struct nm 0 cur ms = Some (off, m) \<Longrightarrow>
   (m, off) \<in> set (placed cur ms) \<and> mname m = nm \<and> plain_member m"
proof (induction ms arbitrary: cur)
  case (Cons m' ms)
  then show ?case
    by (cases m') (auto split: if_splits option.splits)
qed simp

lemma sorted_wrt_pair:
  "sorted_wrt P xs \<Longrightarrow> x \<in> set xs \<Longrightarrow> y \<in> set xs \<Longrightarrow> x \<noteq> y \<Longrightarrow> P x y \<or> P y x"
  by (induction xs) auto

locale flat_struct =
  fixes t :: ctype and tag :: string and ms :: "cmember list"
  assumes struct: "t = CStruct tag ms"
    and wf: "mswf ms"
    and plain: "list_all plain_member ms"
begin

lemma range_placed:
  assumes "member_range t nm = Some (off, n)"
  obtains m where "(m, 8 * off) \<in> set (placed 0 ms)" and "mbits m = 8 * n" and "mname m = nm"
proof -
  from assms obtain o' m where f: "find_struct nm 0 0 ms = Some (o', m)" and o': "off = o' div 8"
    and n: "n = csize (mtype m)"
    by (auto simp: member_range_def struct)
  from find_struct_placed [OF plain f] obtain ty where m: "m = CField nm ty" and p: "(m, o') \<in> set (placed 0 ms)"
    by (cases m) auto
  from p have "8 * calign ty dvd o'" unfolding m by (rule placed_aligned)
  then have "8 dvd o'" by (rule dvd_mult_left)
  with o' have "8 * off = o'" by simp
  with m n p that [of m] show thesis by simp
qed

lemma range_inside:
  assumes "member_range t nm = Some (off, n)"
  shows "off + n \<le> csize t"
proof -
  obtain m where m: "(m, 8 * off) \<in> set (placed 0 ms)" "mbits m = 8 * n"
    by (rule range_placed [OF assms])
  have "8 * off + mbits m \<le> 8 * csize t"
    unfolding struct using placed_bounds [OF wf m(1)] struct_bound [of ms tag] by linarith
  with m(2) show ?thesis by simp
qed

lemma ranges_apart:
  assumes "member_range t nm = Some (off, n)" and "member_range t nm' = Some (off', n')" and "nm \<noteq> nm'"
  shows "off + n \<le> off' \<or> off' + n' \<le> off"
proof -
  obtain m where m: "(m, 8 * off) \<in> set (placed 0 ms)" "mbits m = 8 * n" "mname m = nm"
    by (rule range_placed [OF assms(1)])
  obtain m' where m': "(m', 8 * off') \<in> set (placed 0 ms)" "mbits m' = 8 * n'" "mname m' = nm'"
    by (rule range_placed [OF assms(2)])
  have "(m, 8 * off) \<noteq> (m', 8 * off')" using assms(3) m(3) m'(3) by auto
  with sorted_wrt_pair [OF placed_apart [OF wf] m(1) m'(1)] m m' show ?thesis
    by (auto simp: apart_def)
qed

lemma length_put:
  assumes "member_range t nm = Some (off, n)" and "length bs \<le> n" and "length buf = csize t"
  shows "length (put_member t nm bs buf) = csize t"
  using assms range_inside [OF assms(1)] by (simp add: put_member_def length_store)

lemma get_put_same:
  assumes "member_range t nm = Some (off, n)" and "length bs \<le> n" and "length buf = csize t"
  shows "get_member t nm (put_member t nm bs buf) = bs @ drop (length bs) (get_member t nm buf)"
  using assms range_inside [OF assms(1)] by (simp add: put_member_def get_member_def load_store_prefix)

lemma get_put_other:
  assumes "member_range t nm = Some (off, n)" and "member_range t nm' = Some (off', n')" and "nm \<noteq> nm'"
    and "length bs \<le> n'" and "length buf = csize t"
  shows "get_member t nm (put_member t nm' bs buf) = get_member t nm buf"
  using assms(1,2,4,5) ranges_apart [OF assms(1-3)] range_inside [OF assms(2)]
  by (auto simp: put_member_def get_member_def load_store_before load_store_after)

lemma length_get:
  "member_range t nm = Some (off, n) \<Longrightarrow> length buf = csize t \<Longrightarrow> length (get_member t nm buf) = n"
  using range_inside by (simp add: get_member_def length_load)

end


section \<open>Layout of the event structs\<close>

lemmas event_defs = syscall_event_def lifecycle_event_def

lemma syscall_event_ranges [simp]:
  "member_range syscall_event ''pid'' = Some (0, 4)"
  "member_range syscall_event ''bytes'' = Some (8, 8)"
  "member_range syscall_event ''path'' = Some (16, 256)"
  by (simp_all add: member_range_def event_defs alias_defs round_up_def)

lemma syscall_event_size [simp]: "csize syscall_event = 272"
  by (simp add: event_defs alias_defs round_up_def)

lemma lifecycle_event_ranges [simp]:
  "member_range lifecycle_event ''pid'' = Some (0, 4)"
  "member_range lifecycle_event ''state'' = Some (4, 4)"
  "member_range lifecycle_event ''runtime'' = Some (8, 16)"
  "member_range lifecycle_event ''namespace'' = Some (24, 64)"
  "member_range lifecycle_event ''container'' = Some (88, 64)"
  by (simp_all add: member_range_def event_defs alias_defs round_up_def)

lemma lifecycle_event_size [simp]: "csize lifecycle_event = 152"
  by (simp add: event_defs alias_defs round_up_def)

interpretation se: flat_struct syscall_event "''syscall_event''"
  "[CField ''pid'' ty___u32, CField ''bytes'' ty___u64, CField ''path'' (CArray (CInt 1 True) 256)]"
  by unfold_locales (simp_all add: syscall_event_def alias_defs)

interpretation le: flat_struct lifecycle_event "''lifecycle_event''"
  "[CField ''pid'' ty___u32, CField ''state'' ty___u32, CField ''runtime'' (CArray (CInt 1 True) 16),
    CField ''namespace'' (CArray (CInt 1 True) 64), CField ''container'' (CArray (CInt 1 True) 64)]"
  by unfold_locales (simp_all add: lifecycle_event_def alias_defs)

end
