(* ===== verification/Tracing_Arch.thy ===== *)
theory Tracing_Arch
  imports Vmlinux_Fs
begin

text \<open>
  The architecture part of \<open>src/ebpf/include/bpf/bpf_tracing.h\<close>: how the target is chosen, and for each
  target the members of its register struct that hold the arguments of a function, the arguments
  of a system call, the return address, the return value and the special registers.

  Shown here: every target has the six or seven system call registers the header's comment states
  and at least three argument registers; the registers named for x86 with \<open>vmlinux.h\<close> are members
  of \<open>struct pt_regs\<close>, each an aligned eight-byte word.
\<close>

section \<open>Targets\<close>

datatype target = X86 | S390 | ARM | ARM64 | MIPS | POWERPC | SPARC | RISCV | ARC | LOONGARCH

text \<open>The \<open>#elif\<close> chains: the first macro that is defined decides.\<close>

definition target_arch_macros :: "(string \<times> target) list" where
  "target_arch_macros =
    [(''__TARGET_ARCH_x86'', X86), (''__TARGET_ARCH_s390'', S390), (''__TARGET_ARCH_arm'', ARM),
     (''__TARGET_ARCH_arm64'', ARM64), (''__TARGET_ARCH_mips'', MIPS), (''__TARGET_ARCH_powerpc'', POWERPC),
     (''__TARGET_ARCH_sparc'', SPARC), (''__TARGET_ARCH_riscv'', RISCV), (''__TARGET_ARCH_arc'', ARC),
     (''__TARGET_ARCH_loongarch'', LOONGARCH)]"

definition compiler_macros :: "nat \<Rightarrow> (string \<times> target) list" where
  "compiler_macros riscv_xlen =
    [(''__x86_64__'', X86), (''__s390__'', S390), (''__arm__'', ARM), (''__aarch64__'', ARM64), (''__mips__'', MIPS),
     (''__powerpc__'', POWERPC), (''__sparc__'', SPARC)] @
    (if riscv_xlen = 64 then [(''__riscv'', RISCV)] else []) @
    [(''__arc__'', ARC), (''__loongarch__'', LOONGARCH)]"

definition bpf_target :: "(string \<Rightarrow> bool) \<Rightarrow> nat \<Rightarrow> target option" where
  "bpf_target defd riscv_xlen =
     (case find (\<lambda>(m, t). defd m) target_arch_macros of
        Some (m, t) \<Rightarrow> Some t
      | None \<Rightarrow> map_option snd (find (\<lambda>(m, t). defd m) (compiler_macros riscv_xlen)))"


section \<open>Registers\<close>

text \<open>A register macro names a member path, an element of a member array, or nothing usable.\<close>

datatype pt_reg = Reg "string list" | RegArr string string | Unsupported

text \<open>
  The registers of the parameters that are defined, in order; those of a system call; the special
  ones; the struct that \<open>__PT_REGS_CAST\<close> and the macro for the first system call argument cast to;
  whether \<open>PT_REGS_SYSCALL_REGS\<close> is the context itself.
\<close>

record pt_arch =
  parms :: "pt_reg list"
  sys_parms :: "pt_reg list"
  ret_reg :: pt_reg
  fp_reg :: pt_reg
  rc_reg :: pt_reg
  sp_reg :: pt_reg
  ip_reg :: pt_reg
  regs_cast :: "string option"
  sys1_cast :: "string option"
  syscall_regs_ctx :: bool

definition pt_x86_kernel :: "pt_arch" where
  "pt_x86_kernel =
     (let p = [Reg [''di''], Reg [''si''], Reg [''dx''], Reg [''cx''],
              Reg [''r8''], Reg [''r9'']]
      in \<lparr>parms = p,
          sys_parms = [p ! 0, p ! 1, p ! 2, Reg [''r10''], p ! 4, p ! 5],
          ret_reg = Reg [''sp''], fp_reg = Reg [''bp''], rc_reg = Reg [''ax''],
          sp_reg = Reg [''sp''], ip_reg = Reg [''ip''],
          regs_cast = None, sys1_cast = None, syscall_regs_ctx = False\<rparr>)"

definition pt_i386 :: "pt_arch" where
  "pt_i386 =
     (let p = [Reg [''eax''], Reg [''edx''], Reg [''ecx'']]
      in \<lparr>parms = p,
          sys_parms = [Reg [''ebx''], Reg [''ecx''], Reg [''edx''], Reg [''esi''], Reg [''edi''], Reg [''ebp'']],
          ret_reg = Reg [''esp''], fp_reg = Reg [''ebp''], rc_reg = Reg [''eax''],
          sp_reg = Reg [''esp''], ip_reg = Reg [''eip''],
          regs_cast = None, sys1_cast = None, syscall_regs_ctx = False\<rparr>)"

definition pt_x86_user :: "pt_arch" where
  "pt_x86_user =
     (let p = [Reg [''rdi''], Reg [''rsi''], Reg [''rdx''], Reg [''rcx''],
              Reg [''r8''], Reg [''r9'']]
      in \<lparr>parms = p,
          sys_parms = [p ! 0, p ! 1, p ! 2, Reg [''r10''], p ! 4, p ! 5],
          ret_reg = Reg [''rsp''], fp_reg = Reg [''rbp''], rc_reg = Reg [''rax''],
          sp_reg = Reg [''rsp''], ip_reg = Reg [''rip''],
          regs_cast = None, sys1_cast = None, syscall_regs_ctx = False\<rparr>)"

definition pt_s390 :: "pt_arch" where
  "pt_s390 =
     (let p = [RegArr ''gprs'' ''2'', RegArr ''gprs'' ''3'', RegArr ''gprs'' ''4'', RegArr ''gprs'' ''5'',
              RegArr ''gprs'' ''6'']
      in \<lparr>parms = p,
          sys_parms = [Reg [''orig_gpr2''], p ! 1, p ! 2, p ! 3, p ! 4, RegArr ''gprs'' ''7''],
          ret_reg = RegArr ''gprs'' ''14'', fp_reg = RegArr ''gprs'' ''11'', rc_reg = RegArr ''gprs'' ''2'',
          sp_reg = RegArr ''gprs'' ''15'', ip_reg = Reg [''psw'', ''addr''],
          regs_cast = Some ''user_pt_regs'', sys1_cast = Some ''pt_regs___s390'', syscall_regs_ctx = False\<rparr>)"

definition pt_arm :: "pt_arch" where
  "pt_arm =
     (let p = [RegArr ''uregs'' ''0'', RegArr ''uregs'' ''1'', RegArr ''uregs'' ''2'', RegArr ''uregs'' ''3'']
      in \<lparr>parms = p,
          sys_parms = [p ! 0, p ! 1, p ! 2, p ! 3, RegArr ''uregs'' ''4'', RegArr ''uregs'' ''5'', RegArr ''uregs'' ''6''],
          ret_reg = RegArr ''uregs'' ''14'', fp_reg = RegArr ''uregs'' ''11'', rc_reg = RegArr ''uregs'' ''0'',
          sp_reg = RegArr ''uregs'' ''13'', ip_reg = RegArr ''uregs'' ''12'',
          regs_cast = None, sys1_cast = None, syscall_regs_ctx = False\<rparr>)"

definition pt_arm64 :: "pt_arch" where
  "pt_arm64 =
     (let p = [RegArr ''regs'' ''0'', RegArr ''regs'' ''1'', RegArr ''regs'' ''2'', RegArr ''regs'' ''3'',
              RegArr ''regs'' ''4'', RegArr ''regs'' ''5'', RegArr ''regs'' ''6'', RegArr ''regs'' ''7'']
      in \<lparr>parms = p,
          sys_parms = [Reg [''orig_x0''], p ! 1, p ! 2, p ! 3, p ! 4, p ! 5],
          ret_reg = RegArr ''regs'' ''30'', fp_reg = RegArr ''regs'' ''29'', rc_reg = RegArr ''regs'' ''0'',
          sp_reg = Reg [''sp''], ip_reg = Reg [''pc''],
          regs_cast = Some ''user_pt_regs'', sys1_cast = Some ''pt_regs___arm64'', syscall_regs_ctx = False\<rparr>)"

definition pt_mips :: "pt_arch" where
  "pt_mips =
     (let p = [RegArr ''regs'' ''4'', RegArr ''regs'' ''5'', RegArr ''regs'' ''6'', RegArr ''regs'' ''7'',
              RegArr ''regs'' ''8'', RegArr ''regs'' ''9'', RegArr ''regs'' ''10'', RegArr ''regs'' ''11'']
      in \<lparr>parms = p,
          sys_parms = [p ! 0, p ! 1, p ! 2, p ! 3, p ! 4, p ! 5],
          ret_reg = RegArr ''regs'' ''31'', fp_reg = RegArr ''regs'' ''30'', rc_reg = RegArr ''regs'' ''2'',
          sp_reg = RegArr ''regs'' ''29'', ip_reg = Reg [''cp0_epc''],
          regs_cast = None, sys1_cast = None, syscall_regs_ctx = False\<rparr>)"

definition pt_powerpc :: "bool \<Rightarrow> pt_arch" where
  "pt_powerpc arch64 =
     (let p = [RegArr ''gpr'' ''3'', RegArr ''gpr'' ''4'', RegArr ''gpr'' ''5'', RegArr ''gpr'' ''6'',
              RegArr ''gpr'' ''7'', RegArr ''gpr'' ''8'', RegArr ''gpr'' ''9'', RegArr ''gpr'' ''10'']
      in \<lparr>parms = p,
          sys_parms = [Reg [''orig_gpr3''], p ! 1, p ! 2, p ! 3, p ! 4, p ! 5] @ (if arch64 then [] else [p ! 6]),
          ret_reg = RegArr ''regs'' ''31'', fp_reg = Unsupported, rc_reg = RegArr ''gpr'' ''3'',
          sp_reg = RegArr ''gpr'' ''1'', ip_reg = Reg [''nip''],
          regs_cast = None, sys1_cast = None, syscall_regs_ctx = True\<rparr>)"

definition pt_sparc :: "bool \<Rightarrow> pt_arch" where
  "pt_sparc arch64 =
     (let p = [RegArr ''u_regs'' ''UREG_I0'', RegArr ''u_regs'' ''UREG_I1'', RegArr ''u_regs'' ''UREG_I2'', RegArr ''u_regs'' ''UREG_I3'',
              RegArr ''u_regs'' ''UREG_I4'', RegArr ''u_regs'' ''UREG_I5'']
      in \<lparr>parms = p,
          sys_parms = [p ! 0, p ! 1, p ! 2, p ! 3, p ! 4, p ! 5],
          ret_reg = RegArr ''u_regs'' ''UREG_I7'', fp_reg = Unsupported, rc_reg = RegArr ''u_regs'' ''UREG_I0'',
          sp_reg = RegArr ''u_regs'' ''UREG_FP'', ip_reg = (if arch64 then Reg [''tpc''] else Reg [''pc'']),
          regs_cast = None, sys1_cast = None, syscall_regs_ctx = False\<rparr>)"

definition pt_riscv :: "pt_arch" where
  "pt_riscv =
     (let p = [Reg [''a0''], Reg [''a1''], Reg [''a2''], Reg [''a3''],
              Reg [''a4''], Reg [''a5''], Reg [''a6''], Reg [''a7'']]
      in \<lparr>parms = p,
          sys_parms = [Reg [''orig_a0''], p ! 1, p ! 2, p ! 3, p ! 4, p ! 5],
          ret_reg = Reg [''ra''], fp_reg = Reg [''s0''], rc_reg = Reg [''a0''],
          sp_reg = Reg [''sp''], ip_reg = Reg [''pc''],
          regs_cast = Some ''user_regs_struct'', sys1_cast = Some ''pt_regs___riscv'', syscall_regs_ctx = False\<rparr>)"

definition pt_arc :: "pt_arch" where
  "pt_arc =
     (let p = [Reg [''scratch'', ''r0''], Reg [''scratch'', ''r1''], Reg [''scratch'', ''r2''], Reg [''scratch'', ''r3''],
              Reg [''scratch'', ''r4''], Reg [''scratch'', ''r5''], Reg [''scratch'', ''r6''], Reg [''scratch'', ''r7'']]
      in \<lparr>parms = p,
          sys_parms = [p ! 0, p ! 1, p ! 2, p ! 3, p ! 4, p ! 5],
          ret_reg = Reg [''scratch'', ''blink''], fp_reg = Reg [''scratch'', ''fp''], rc_reg = Reg [''scratch'', ''r0''],
          sp_reg = Reg [''scratch'', ''sp''], ip_reg = Reg [''scratch'', ''ret''],
          regs_cast = Some ''user_regs_struct'', sys1_cast = None, syscall_regs_ctx = True\<rparr>)"

definition pt_loongarch :: "pt_arch" where
  "pt_loongarch =
     (let p = [RegArr ''regs'' ''4'', RegArr ''regs'' ''5'', RegArr ''regs'' ''6'', RegArr ''regs'' ''7'',
              RegArr ''regs'' ''8'', RegArr ''regs'' ''9'', RegArr ''regs'' ''10'', RegArr ''regs'' ''11'']
      in \<lparr>parms = p,
          sys_parms = [p ! 0, p ! 1, p ! 2, p ! 3, p ! 4, p ! 5],
          ret_reg = RegArr ''regs'' ''1'', fp_reg = RegArr ''regs'' ''22'', rc_reg = RegArr ''regs'' ''4'',
          sp_reg = RegArr ''regs'' ''3'', ip_reg = Reg [''csr_era''],
          regs_cast = Some ''user_pt_regs'', sys1_cast = None, syscall_regs_ctx = True\<rparr>)"

text \<open>
  The build: whether \<open>vmlinux.h\<close> or kernel headers are used, whether the compiler targets i386, and
  whether \<open>__arch64__\<close> is defined.
\<close>

record build =
  kernel_types :: bool
  i386 :: bool
  arch64 :: bool

primrec pt_regs_of :: "build \<Rightarrow> target \<Rightarrow> pt_arch" where
  "pt_regs_of b X86 = (if kernel_types b then pt_x86_kernel else if i386 b then pt_i386 else pt_x86_user)"
| "pt_regs_of b S390 = pt_s390"
| "pt_regs_of b ARM = pt_arm"
| "pt_regs_of b ARM64 = pt_arm64"
| "pt_regs_of b MIPS = pt_mips"
| "pt_regs_of b POWERPC = pt_powerpc (arch64 b)"
| "pt_regs_of b SPARC = pt_sparc (arch64 b)"
| "pt_regs_of b RISCV = pt_riscv"
| "pt_regs_of b ARC = pt_arc"
| "pt_regs_of b LOONGARCH = pt_loongarch"

text \<open>Parameters without a register of their own fall back to \<open>__unsupported__\<close>.\<close>

definition parm_reg :: "pt_arch \<Rightarrow> nat \<Rightarrow> pt_reg" where
  "parm_reg a n = (if 1 \<le> n \<and> n \<le> length (parms a) then parms a ! (n - 1) else Unsupported)"

definition sys_parm_reg :: "pt_arch \<Rightarrow> nat \<Rightarrow> pt_reg" where
  "sys_parm_reg a n = (if 1 \<le> n \<and> n \<le> length (sys_parms a) then sys_parms a ! (n - 1) else Unsupported)"

lemmas arch_tables = pt_x86_kernel_def pt_i386_def pt_x86_user_def pt_s390_def pt_arm_def pt_arm64_def pt_mips_def
  pt_powerpc_def pt_sparc_def pt_riscv_def pt_arc_def pt_loongarch_def

lemma parms_length: "3 \<le> length (parms (pt_regs_of b t)) \<and> length (parms (pt_regs_of b t)) \<le> 8"
  by (cases t) (simp_all add: arch_tables Let_def)

lemma sys_parms_length: "length (sys_parms (pt_regs_of b t)) \<in> {6, 7}"
  by (cases t) (simp_all add: arch_tables Let_def)

lemma parms_supported: "Unsupported \<notin> set (parms (pt_regs_of b t)) \<and> Unsupported \<notin> set (sys_parms (pt_regs_of b t))"
  by (cases t) (simp_all add: arch_tables Let_def)

lemma parm_reg_supported:
  "Unsupported \<notin> set (parms a) \<Longrightarrow> parm_reg a n \<noteq> Unsupported \<longleftrightarrow> 1 \<le> n \<and> n \<le> length (parms a)"
  using nth_mem [of "n - 1" "parms a"] by (cases n) (auto simp: parm_reg_def Suc_le_eq simp del: nth_mem)

lemma sys_parm_reg_supported:
  "Unsupported \<notin> set (sys_parms a) \<Longrightarrow> sys_parm_reg a n \<noteq> Unsupported \<longleftrightarrow> 1 \<le> n \<and> n \<le> length (sys_parms a)"
  using nth_mem [of "n - 1" "sys_parms a"] by (cases n) (auto simp: sys_parm_reg_def Suc_le_eq simp del: nth_mem)

text \<open>
  Every supported target passes three to eight function arguments and six or seven system call
  arguments in registers it names, and exactly those: a parameter number beyond them is
  unsupported.
\<close>

theorem register_arguments:
  "(parm_reg (pt_regs_of b t) n \<noteq> Unsupported \<longleftrightarrow> 1 \<le> n \<and> n \<le> length (parms (pt_regs_of b t)))
   \<and> (sys_parm_reg (pt_regs_of b t) n \<noteq> Unsupported \<longleftrightarrow> 1 \<le> n \<and> n \<le> length (sys_parms (pt_regs_of b t)))
   \<and> 3 \<le> length (parms (pt_regs_of b t)) \<and> length (parms (pt_regs_of b t)) \<le> 8
   \<and> length (sys_parms (pt_regs_of b t)) \<in> {6, 7}"
  using parms_length [of b t] sys_parms_length [of b t] parms_supported [of b t]
  by (simp add: parm_reg_supported sys_parm_reg_supported)

text \<open>The members of \<open>struct pt_regs\<close> behind the x86 registers.\<close>

definition reg_offset :: "pt_reg \<Rightarrow> nat option" where
  "reg_offset r = (case r of Reg path \<Rightarrow> offset_of struct_pt_regs path | _ \<Rightarrow> None)"

definition reg_size :: "pt_reg \<Rightarrow> nat option" where
  "reg_size r = (case r of Reg path \<Rightarrow> map_option csize (type_of struct_pt_regs path) | _ \<Rightarrow> None)"

lemma x86_offsets:
  "map reg_offset (parms pt_x86_kernel) = map Some [112, 104, 96, 88, 72, 64]"
  "map reg_offset (sys_parms pt_x86_kernel) = map Some [112, 104, 96, 56, 72, 64]"
  "map reg_offset [ret_reg pt_x86_kernel, fp_reg pt_x86_kernel, rc_reg pt_x86_kernel, sp_reg pt_x86_kernel, ip_reg pt_x86_kernel]
     = map Some [152, 32, 80, 152, 128]"
  by (simp_all add: pt_x86_kernel_def Let_def reg_offset_def offset_of_def struct_pt_regs_def alias_defs layout_simps round_up_def)

lemma x86_sizes:
  "list_all (\<lambda>r. reg_size r = Some 8) (parms pt_x86_kernel @ sys_parms pt_x86_kernel @
     [ret_reg pt_x86_kernel, fp_reg pt_x86_kernel, rc_reg pt_x86_kernel, sp_reg pt_x86_kernel, ip_reg pt_x86_kernel])"
  by (simp add: pt_x86_kernel_def Let_def reg_size_def type_of_def struct_pt_regs_def alias_defs layout_simps round_up_def)

text \<open>
  For x86 with \<open>vmlinux.h\<close>, every register macro names a member of \<open>struct pt_regs\<close> that is an
  eight-byte word inside the struct; the parameters of a function, and those of a system call, are
  in pairwise different words.
\<close>

theorem x86_registers_in_pt_regs:
  "list_all (\<lambda>r. reg_size r = Some 8 \<and> (\<exists>off. reg_offset r = Some off \<and> 8 dvd off \<and> off + 8 \<le> csize struct_pt_regs))
     (parms pt_x86_kernel @ sys_parms pt_x86_kernel @
      [ret_reg pt_x86_kernel, fp_reg pt_x86_kernel, rc_reg pt_x86_kernel, sp_reg pt_x86_kernel, ip_reg pt_x86_kernel])
   \<and> distinct (map reg_offset (parms pt_x86_kernel)) \<and> distinct (map reg_offset (sys_parms pt_x86_kernel))"
  using x86_sizes x86_offsets
  by (simp add: pt_x86_kernel_def Let_def layout_simps)

end
