(* ===== verification/Bpf_Runtime.thy ===== *)
theory Bpf_Runtime
  imports CTypes
begin

text \<open>
  What an eBPF program runs on.  The kernel helpers and the CO-RE loader are not part of the
  repository: they are the fields of the record \<open>kernel\<close>, an argument of every program model.
  \<open>helper_laws\<close> states what \<open>src/ebpf/include/bpf/bpf_helper_defs.h\<close> documents of the helpers, and
  \<open>relocated\<close> what \<open>src/ebpf/include/bpf/bpf_core_read.h\<close> documents of the relocations: a field
  offset is the offset of that field in the type of the kernel the program is loaded into.

  \<open>plain_kernel\<close> builds a kernel from a memory image that satisfies these laws, for concrete runs.
\<close>

section \<open>Relocation kinds\<close>

text \<open>The enums of \<open>bpf_core_read.h\<close> that select what a relocation asks for, with their values.\<close>

datatype bpf_field_info_kind =
    BPF_FIELD_BYTE_OFFSET
  | BPF_FIELD_BYTE_SIZE
  | BPF_FIELD_EXISTS
  | BPF_FIELD_SIGNED
  | BPF_FIELD_LSHIFT_U64
  | BPF_FIELD_RSHIFT_U64

primrec field_info_value :: "bpf_field_info_kind \<Rightarrow> nat" where
  "field_info_value BPF_FIELD_BYTE_OFFSET = 0"
| "field_info_value BPF_FIELD_BYTE_SIZE = 1"
| "field_info_value BPF_FIELD_EXISTS = 2"
| "field_info_value BPF_FIELD_SIGNED = 3"
| "field_info_value BPF_FIELD_LSHIFT_U64 = 4"
| "field_info_value BPF_FIELD_RSHIFT_U64 = 5"

datatype bpf_type_id_kind = BPF_TYPE_ID_LOCAL | BPF_TYPE_ID_TARGET

primrec type_id_value :: "bpf_type_id_kind \<Rightarrow> nat" where
  "type_id_value BPF_TYPE_ID_LOCAL = 0"
| "type_id_value BPF_TYPE_ID_TARGET = 1"

datatype bpf_type_info_kind = BPF_TYPE_EXISTS | BPF_TYPE_SIZE | BPF_TYPE_MATCHES

primrec type_info_value :: "bpf_type_info_kind \<Rightarrow> nat" where
  "type_info_value BPF_TYPE_EXISTS = 0"
| "type_info_value BPF_TYPE_SIZE = 1"
| "type_info_value BPF_TYPE_MATCHES = 2"

datatype bpf_enum_value_kind = BPF_ENUMVAL_EXISTS | BPF_ENUMVAL_VALUE

primrec enum_value_value :: "bpf_enum_value_kind \<Rightarrow> nat" where
  "enum_value_value BPF_ENUMVAL_EXISTS = 0"
| "enum_value_value BPF_ENUMVAL_VALUE = 1"


section \<open>The kernel a program is loaded into\<close>

type_synonym memory = "addr \<Rightarrow> byte option"

text \<open>
  A read helper returns its C return value and the bytes it stored at the start of the destination
  buffer.  \<open>bpf_ringbuf_reserve\<close> returns the reserved sample with the bytes the ring buffer memory
  holds at that moment, or nothing for a NULL result.
\<close>

type_synonym read_helper = "addr \<Rightarrow> nat \<Rightarrow> int \<times> byte list"

record kernel =
  k_mem :: memory
  preserve_field_info :: "string \<Rightarrow> string list \<Rightarrow> bpf_field_info_kind \<Rightarrow> nat"
  preserve_type_info :: "string \<Rightarrow> bpf_type_info_kind \<Rightarrow> nat"
  preserve_enum_value :: "string \<Rightarrow> string \<Rightarrow> bpf_enum_value_kind \<Rightarrow> u64"
  btf_type_id :: "string \<Rightarrow> bpf_type_id_kind \<Rightarrow> u32"
  bpf_probe_read_kernel :: read_helper
  bpf_probe_read_user :: read_helper
  bpf_probe_read_kernel_str :: read_helper
  bpf_probe_read_user_str :: read_helper
  bpf_get_current_pid_tgid :: u64
  bpf_get_current_comm :: "nat \<Rightarrow> int \<times> byte list"
  bpf_get_current_task :: addr
  bpf_ringbuf_reserve :: "string \<Rightarrow> nat \<Rightarrow> byte list option"

primrec mem_bytes :: "memory \<Rightarrow> addr \<Rightarrow> nat \<Rightarrow> byte list option" where
  "mem_bytes m a 0 = Some []"
| "mem_bytes m a (Suc n) =
     (case m a of None \<Rightarrow> None | Some b \<Rightarrow> map_option (\<lambda>bs. b # bs) (mem_bytes m (a + 1) n))"

text \<open>A NUL-terminated string in memory.\<close>

definition str_at :: "memory \<Rightarrow> addr \<Rightarrow> byte list \<Rightarrow> bool" where
  "str_at m a s \<longleftrightarrow> 0 \<notin> set s \<and> mem_bytes m a (length s + 1) = Some (s @ [0])"

text \<open>
  A load instruction of the program itself.  The verifier admits it only for pointers it knows;
  a faulting load through such a pointer yields zero.
\<close>

definition direct_load :: "kernel \<Rightarrow> addr \<Rightarrow> nat \<Rightarrow> byte list" where
  "direct_load k a n = (case mem_bytes (k_mem k) a n of Some bs \<Rightarrow> bs | None \<Rightarrow> replicate n 0)"


section \<open>Documented behaviour of the helpers\<close>

definition reads_bytes :: "memory \<Rightarrow> read_helper \<Rightarrow> bool" where
  "reads_bytes m h \<longleftrightarrow>
     (\<forall>a n bs. mem_bytes m a n = Some bs \<longrightarrow> h a n = (0, bs)) \<and>
     (\<forall>a n. mem_bytes m a n = None \<longrightarrow> fst (h a n) < 0) \<and>
     (\<forall>a n. length (snd (h a n)) \<le> n)"

text \<open>
  A string read copies the string and its terminator, does not pad, and cuts a string that does
  not fit to \<open>size - 1\<close> bytes and a terminator.
\<close>

definition reads_strings :: "memory \<Rightarrow> read_helper \<Rightarrow> bool" where
  "reads_strings m h \<longleftrightarrow>
     (\<forall>a n s. str_at m a s \<longrightarrow> 0 < n \<longrightarrow>
        h a n = (int (length (take (n - 1) s)) + 1, take (n - 1) s @ [0])) \<and>
     (\<forall>a n. length (snd (h a n)) \<le> n)"

definition helper_laws :: "kernel \<Rightarrow> bool" where
  "helper_laws k \<longleftrightarrow>
     reads_bytes (k_mem k) (bpf_probe_read_kernel k) \<and>
     reads_strings (k_mem k) (bpf_probe_read_kernel_str k) \<and>
     (\<forall>n. 0 < n \<longrightarrow> length (snd (bpf_get_current_comm k n)) = n \<and> 0 \<in> set (snd (bpf_get_current_comm k n))) \<and>
     (\<forall>ring n buf. bpf_ringbuf_reserve k ring n = Some buf \<longrightarrow> length buf = n)"

text \<open>
  The relocations of a program loaded into a kernel whose types are \<open>btf\<close>: what the loader fills
  in is what the target type says.
\<close>

definition btf_offset :: "(string \<Rightarrow> ctype option) \<Rightarrow> string \<Rightarrow> string list \<Rightarrow> nat option" where
  "btf_offset btf tag path = Option.bind (btf tag) (\<lambda>t. offset_of t path)"

definition relocated :: "(string \<Rightarrow> ctype option) \<Rightarrow> kernel \<Rightarrow> bool" where
  "relocated btf k \<longleftrightarrow>
     (\<forall>tag path off. btf_offset btf tag path = Some off \<longrightarrow>
        preserve_field_info k tag path BPF_FIELD_BYTE_OFFSET = off)"

lemma mem_bytes_length: "mem_bytes m a n = Some bs \<Longrightarrow> length bs = n"
  by (induction n arbitrary: a bs) (auto split: option.splits)

lemma helper_laws_read:
  "helper_laws k \<Longrightarrow> mem_bytes (k_mem k) a n = Some bs \<Longrightarrow> bpf_probe_read_kernel k a n = (0, bs)"
  by (auto simp: helper_laws_def reads_bytes_def)

lemma helper_laws_str:
  "helper_laws k \<Longrightarrow> str_at (k_mem k) a s \<Longrightarrow> 0 < n \<Longrightarrow>
   bpf_probe_read_kernel_str k a n = (int (length (take (n - 1) s)) + 1, take (n - 1) s @ [0])"
  by (auto simp: helper_laws_def reads_strings_def)

lemma helper_laws_str_length:
  "helper_laws k \<Longrightarrow> length (snd (bpf_probe_read_kernel_str k a n)) \<le> n"
  by (auto simp: helper_laws_def reads_strings_def)

lemma helper_laws_comm:
  "helper_laws k \<Longrightarrow> 0 < n \<Longrightarrow> length (snd (bpf_get_current_comm k n)) = n"
  by (auto simp: helper_laws_def)

lemma helper_laws_reserve:
  "helper_laws k \<Longrightarrow> bpf_ringbuf_reserve k ring n = Some buf \<Longrightarrow> length buf = n"
  by (auto simp: helper_laws_def)

lemma relocatedD:
  "relocated btf k \<Longrightarrow> btf tag = Some t \<Longrightarrow> offset_of t path = Some off \<Longrightarrow>
   preserve_field_info k tag path BPF_FIELD_BYTE_OFFSET = off"
  by (auto simp: relocated_def btf_offset_def)


section \<open>A kernel over a memory image\<close>

definition read_mem :: "memory \<Rightarrow> read_helper" where
  "read_mem m a n = (case mem_bytes m a n of Some bs \<Rightarrow> (0, bs) | None \<Rightarrow> (- 14, replicate n 0))"

fun read_mem_str :: "memory \<Rightarrow> addr \<Rightarrow> nat \<Rightarrow> byte list option" where
  "read_mem_str m a 0 = None"
| "read_mem_str m a (Suc 0) = Some [0]"
| "read_mem_str m a (Suc (Suc n)) =
     (case m a of
        None \<Rightarrow> None
      | Some b \<Rightarrow> if b = 0 then Some [0] else map_option (\<lambda>bs. b # bs) (read_mem_str m (a + 1) (Suc n)))"

definition read_str :: "memory \<Rightarrow> read_helper" where
  "read_str m a n = (case read_mem_str m a n of Some bs \<Rightarrow> (int (length bs), bs) | None \<Rightarrow> (- 14, []))"

definition plain_kernel ::
  "memory \<Rightarrow> (string \<Rightarrow> ctype option) \<Rightarrow> u64 \<Rightarrow> byte list \<Rightarrow> addr \<Rightarrow> (string \<Rightarrow> byte \<times> bool) \<Rightarrow> kernel" where
  "plain_kernel m btf pid comm task ring =
     \<lparr>k_mem = m,
      preserve_field_info = (\<lambda>tag path info. case btf_offset btf tag path of Some off \<Rightarrow> off | None \<Rightarrow> 0),
      preserve_type_info = (\<lambda>tag info. case btf tag of Some t \<Rightarrow> csize t | None \<Rightarrow> 0),
      preserve_enum_value = (\<lambda>_ _ _. 0),
      btf_type_id = (\<lambda>_ _. 0),
      bpf_probe_read_kernel = read_mem m,
      bpf_probe_read_user = read_mem m,
      bpf_probe_read_kernel_str = read_str m,
      bpf_probe_read_user_str = read_str m,
      bpf_get_current_pid_tgid = pid,
      bpf_get_current_comm = (\<lambda>n. (0, take (n - 1) (comm @ replicate n 0) @ replicate (min 1 n) 0)),
      bpf_get_current_task = task,
      bpf_ringbuf_reserve = (\<lambda>r n. if snd (ring r) then Some (replicate n (fst (ring r))) else None)\<rparr>"

lemma read_mem_reads_bytes: "reads_bytes m (read_mem m)"
  by (auto simp: reads_bytes_def read_mem_def mem_bytes_length split: option.splits)

lemma read_mem_str_at:
  "str_at m a s \<Longrightarrow> 0 < n \<Longrightarrow> read_mem_str m a n = Some (take (n - 1) s @ [0])"
proof (induction s arbitrary: a n)
  case Nil
  then show ?case
    by (cases "(m, a, n)" rule: read_mem_str.cases) (auto simp: str_at_def split: option.splits)
next
  case (Cons b s)
  then have "m a = Some b" "b \<noteq> 0" "str_at m (a + 1) s"
    by (auto simp: str_at_def split: option.splits)
  with Cons show ?case
    by (cases "(m, a, n)" rule: read_mem_str.cases) auto
qed

lemma read_mem_str_length: "read_mem_str m a n = Some bs \<Longrightarrow> length bs \<le> n"
  by (induction m a n arbitrary: bs rule: read_mem_str.induct) (auto split: option.splits if_splits)

lemma read_str_reads_strings: "reads_strings m (read_str m)"
  by (auto simp: reads_strings_def read_str_def read_mem_str_at dest: read_mem_str_length split: option.splits)

lemma plain_kernel_laws: "helper_laws (plain_kernel m btf pid comm task ring)"
  by (auto simp: helper_laws_def plain_kernel_def read_mem_reads_bytes read_str_reads_strings split: if_splits)

lemma plain_kernel_relocated: "relocated btf (plain_kernel m btf pid comm task ring)"
  by (auto simp: relocated_def plain_kernel_def)


section \<open>Memory writes\<close>

primrec write_mem :: "memory \<Rightarrow> addr \<Rightarrow> byte list \<Rightarrow> memory" where
  "write_mem m a [] = m"
| "write_mem m a (b # bs) = (write_mem m (a + 1) bs)(a \<mapsto> b)"

lemma mem_bytes_cong:
  "(\<And>i. i < n \<Longrightarrow> m (a + word_of_nat i) = m' (a + word_of_nat i)) \<Longrightarrow> mem_bytes m a n = mem_bytes m' a n"
proof (induction n arbitrary: a)
  case (Suc n)
  have "m a = m' a" using Suc.prems [of 0] by simp
  moreover have "mem_bytes m (a + 1) n = mem_bytes m' (a + 1) n"
    using Suc.prems [of "Suc i" for i] by (intro Suc.IH) (simp add: algebra_simps)
  ultimately show ?case by (cases "m' a") simp_all
qed simp

lemma write_mem_other:
  "(\<And>i. i < length bs \<Longrightarrow> x \<noteq> a + word_of_nat i) \<Longrightarrow> write_mem m a bs x = m x"
proof (induction bs arbitrary: a)
  case (Cons b bs)
  have "x \<noteq> a" using Cons.prems [of 0] by simp
  moreover have "write_mem m (a + 1) bs x = m x"
    using Cons.prems [of "Suc i" for i] by (intro Cons.IH) (simp add: algebra_simps)
  ultimately show ?case by simp
qed simp

lemma word_of_nat_Suc_neq_0: "Suc i < 2 ^ 64 \<Longrightarrow> (1 + word_of_nat i :: addr) \<noteq> 0"
  using word_of_nat_eq_0_iff [where ?'a = 64 and n = "Suc i"] by (auto dest: dvd_imp_le)

lemma mem_bytes_write:
  "length bs < 2 ^ 64 \<Longrightarrow> mem_bytes (write_mem m a bs) a (length bs) = Some bs"
proof (induction bs arbitrary: a)
  case (Cons b bs)
  have "mem_bytes ((write_mem m (a + 1) bs)(a \<mapsto> b)) (a + 1) (length bs)
      = mem_bytes (write_mem m (a + 1) bs) (a + 1) (length bs)"
  proof (rule mem_bytes_cong)
    fix i assume "i < length bs"
    then have "a + 1 + word_of_nat i \<noteq> a"
      using Cons.prems word_of_nat_Suc_neq_0 [of i] by (simp add: add.assoc)
    then show "((write_mem m (a + 1) bs)(a \<mapsto> b)) (a + 1 + word_of_nat i)
        = write_mem m (a + 1) bs (a + 1 + word_of_nat i)" by simp
  qed
  with Cons show ?case by (simp add: fun_upd_def)
qed simp

lemma mem_bytes_write_other:
  assumes "unat a + n \<le> unat b \<or> unat b + length bs \<le> unat a"
    and "unat a + n \<le> 2 ^ 64" and "unat b + length bs \<le> 2 ^ 64"
  shows "mem_bytes (write_mem m b bs) a n = mem_bytes m a n"
proof (rule mem_bytes_cong, rule write_mem_other)
  fix i j assume i: "i < n" and j: "j < length bs"
  have "unat (a + word_of_nat i) = unat a + i" and "unat (b + word_of_nat j) = unat b + j"
    using assms i j by (simp_all add: unat_word_ariths unat_of_nat)
  with assms(1) i j show "a + word_of_nat i \<noteq> b + word_of_nat j" by auto
qed

text \<open>A memory image: the given byte sequences at the given addresses, the first one on top.\<close>

definition mem_image :: "(addr \<times> byte list) list \<Rightarrow> memory" where
  "mem_image xs = foldr (\<lambda>(a, bs) m. write_mem m a bs) xs Map.empty"

lemma image_bytes:
  "length bs < 2 ^ 64 \<Longrightarrow> n = length bs \<Longrightarrow> mem_bytes (mem_image ((a, bs) # xs)) a n = Some bs"
  by (simp add: mem_image_def mem_bytes_write)

lemma image_other:
  "unat a + n \<le> unat b \<or> unat b + length bs \<le> unat a \<Longrightarrow> unat a + n \<le> 2 ^ 64 \<Longrightarrow>
   unat b + length bs \<le> 2 ^ 64 \<Longrightarrow> mem_bytes (mem_image ((b, bs) # xs)) a n = mem_bytes (mem_image xs) a n"
  by (simp add: mem_image_def mem_bytes_write_other)

end
