(* ===== verification/Core_Read.thy ===== *)
theory Core_Read
  imports Bpf_Runtime
begin

text \<open>
  \<open>src/ebpf/include/bpf/bpf_core_read.h\<close>: relocatable reads of kernel data.  The header is a set of
  preprocessor macros that count their arguments and then select a numbered macro; the model keeps
  that expansion, with \<open>None\<close> for an expansion that names no macro, so that the limits of the macros
  are part of the model.

  Shown here: argument counting is exact up to ten arguments; \<open>BPF_CORE_READ\<close> expands for one to
  nine accessors and then is the chain of pointer reads it is documented to be; the bit-field macros
  read back what they write, with the sign of the field, and change no other bit of the storage
  unit.
\<close>

section \<open>Argument counting and selection\<close>

definition pp_nth :: "'a list \<Rightarrow> 'a option" where
  "pp_nth xs = (if 11 < length xs then Some (xs ! 11) else None)"

text \<open>
  \<open>___narg\<close> puts the arguments before the numbers 10 to 0 and picks the twelfth token: a number as
  long as there are at most ten arguments, one of the arguments otherwise.
\<close>

definition pp_narg :: "'a list \<Rightarrow> nat option" where
  "pp_narg args =
     Option.bind (pp_nth (None # map (\<lambda>_. None) args @ map Some [10, 9, 8, 7, 6, 5, 4, 3, 2, 1, 0])) id"

text \<open>\<open>___empty\<close>: false stands for the token 0, true for the token N.\<close>

definition pp_empty :: "'a list \<Rightarrow> bool option" where
  "pp_empty args =
     Option.bind (pp_nth (None # map (\<lambda>_. None) args @ map Some (replicate 10 True @ [False]))) id"

definition pp_last :: "'a list \<Rightarrow> 'a option" where
  "pp_last args =
     (case pp_narg args of
        Some n \<Rightarrow> if 1 \<le> n then Some (args ! (n - 1)) else None
      | None \<Rightarrow> None)"

definition pp_nolast :: "'a list \<Rightarrow> 'a list option" where
  "pp_nolast args =
     (case pp_narg args of
        Some n \<Rightarrow> if 2 \<le> n then Some (take (n - 1) args) else None
      | None \<Rightarrow> None)"

definition pp_arrow :: "'a list \<Rightarrow> 'a list option" where
  "pp_arrow args =
     (case pp_narg args of
        Some n \<Rightarrow> if 1 \<le> n then Some args else None
      | None \<Rightarrow> None)"


section \<open>Reading through accessors\<close>

text \<open>
  An accessor names the struct a pointer points to and a member path in it.  The offset function is
  the relocation for the \<open>CORE\<close> macros and the layout at compile time for the \<open>PROBE\<close> macros.
\<close>

type_synonym accessor = "string \<times> string list"
type_synonym offsets = "string \<Rightarrow> string list \<Rightarrow> nat"

definition core_offsets :: "kernel \<Rightarrow> offsets" where
  "core_offsets k tag path = preserve_field_info k tag path BPF_FIELD_BYTE_OFFSET"

definition field_addr :: "offsets \<Rightarrow> addr \<Rightarrow> accessor \<Rightarrow> addr" where
  "field_addr off src a = src + word_of_nat (off (fst a) (snd a))"

definition pp_read :: "offsets \<Rightarrow> read_helper \<Rightarrow> nat \<Rightarrow> addr \<Rightarrow> accessor \<Rightarrow> int \<times> byte list" where
  "pp_read off fn sz src a = fn (field_addr off src a) sz"

text \<open>The local \<open>__t\<close>: a pointer read into eight bytes.\<close>

definition read_ptr :: "offsets \<Rightarrow> read_helper \<Rightarrow> addr \<Rightarrow> accessor \<Rightarrow> addr" where
  "read_ptr off fn src a = le_word (snd (pp_read off fn 8 src a))"

text \<open>
  \<open>___rd_p1\<close> to \<open>___rd_p9\<close>.  The first argument of the list is the source expression, \<open>None\<close> in the
  model; the others are accessors.
\<close>

fun rd_p :: "offsets \<Rightarrow> read_helper \<Rightarrow> addr \<Rightarrow> nat \<Rightarrow> accessor option list \<Rightarrow> addr option" where
  "rd_p off fn src 0 args = None"
| "rd_p off fn src (Suc 0) args =
     (case args of [None, Some a] \<Rightarrow> Some (read_ptr off fn src a) | _ \<Rightarrow> None)"
| "rd_p off fn src (Suc (Suc n)) args =
     (if 9 < Suc (Suc n) then None
      else case (pp_nolast args, pp_last args) of
        (Some args', Some (Some a)) \<Rightarrow>
          map_option (\<lambda>t. read_ptr off fn t a) (rd_p off fn src (Suc n) args')
      | _ \<Rightarrow> None)"

definition read_ptrs :: "offsets \<Rightarrow> read_helper \<Rightarrow> addr \<Rightarrow> accessor list \<Rightarrow> addr option" where
  "read_ptrs off fn src as =
     Option.bind (pp_narg as) (\<lambda>n. rd_p off fn src n (None # map Some as))"

definition core_readN ::
  "offsets \<Rightarrow> read_helper \<Rightarrow> read_helper \<Rightarrow> nat \<Rightarrow> addr \<Rightarrow> accessor list \<Rightarrow> (int \<times> byte list) option" where
  "core_readN off fn fn_ptr sz src as =
     (case (pp_nolast as, pp_last as) of
        (Some as', Some a) \<Rightarrow>
          (case (read_ptrs off fn_ptr src as', pp_arrow (None # map Some as')) of
             (Some t, Some _) \<Rightarrow> Some (pp_read off fn sz t a)
           | _ \<Rightarrow> None)
      | _ \<Rightarrow> None)"

definition pp_core_read ::
  "offsets \<Rightarrow> read_helper \<Rightarrow> read_helper \<Rightarrow> nat \<Rightarrow> addr \<Rightarrow> accessor list \<Rightarrow> (int \<times> byte list) option" where
  "pp_core_read off fn fn_ptr sz src as =
     (case as of
        [] \<Rightarrow> None
      | a # rest \<Rightarrow>
          (case pp_empty rest of
             Some False \<Rightarrow> Some (pp_read off fn sz src a)
           | Some True \<Rightarrow> core_readN off fn fn_ptr sz src as
           | None \<Rightarrow> None))"

text \<open>The user-facing macros that read into a destination, with the helper each one uses.\<close>

definition BPF_CORE_READ_INTO ::
  "kernel \<Rightarrow> nat \<Rightarrow> addr \<Rightarrow> accessor list \<Rightarrow> (int \<times> byte list) option" where
  "BPF_CORE_READ_INTO k sz src as =
     pp_core_read (core_offsets k) (bpf_probe_read_kernel k) (bpf_probe_read_kernel k) sz src as"

definition BPF_CORE_READ_USER_INTO ::
  "kernel \<Rightarrow> nat \<Rightarrow> addr \<Rightarrow> accessor list \<Rightarrow> (int \<times> byte list) option" where
  "BPF_CORE_READ_USER_INTO k sz src as =
     pp_core_read (core_offsets k) (bpf_probe_read_user k) (bpf_probe_read_user k) sz src as"

definition BPF_PROBE_READ_INTO ::
  "kernel \<Rightarrow> offsets \<Rightarrow> nat \<Rightarrow> addr \<Rightarrow> accessor list \<Rightarrow> (int \<times> byte list) option" where
  "BPF_PROBE_READ_INTO k loc sz src as =
     pp_core_read loc (bpf_probe_read_kernel k) (bpf_probe_read_kernel k) sz src as"

definition BPF_PROBE_READ_USER_INTO ::
  "kernel \<Rightarrow> offsets \<Rightarrow> nat \<Rightarrow> addr \<Rightarrow> accessor list \<Rightarrow> (int \<times> byte list) option" where
  "BPF_PROBE_READ_USER_INTO k loc sz src as =
     pp_core_read loc (bpf_probe_read_user k) (bpf_probe_read_user k) sz src as"

definition BPF_CORE_READ_STR_INTO ::
  "kernel \<Rightarrow> nat \<Rightarrow> addr \<Rightarrow> accessor list \<Rightarrow> (int \<times> byte list) option" where
  "BPF_CORE_READ_STR_INTO k sz src as =
     pp_core_read (core_offsets k) (bpf_probe_read_kernel_str k) (bpf_probe_read_kernel k) sz src as"

definition BPF_CORE_READ_USER_STR_INTO ::
  "kernel \<Rightarrow> nat \<Rightarrow> addr \<Rightarrow> accessor list \<Rightarrow> (int \<times> byte list) option" where
  "BPF_CORE_READ_USER_STR_INTO k sz src as =
     pp_core_read (core_offsets k) (bpf_probe_read_user_str k) (bpf_probe_read_user k) sz src as"

definition BPF_PROBE_READ_STR_INTO ::
  "kernel \<Rightarrow> offsets \<Rightarrow> nat \<Rightarrow> addr \<Rightarrow> accessor list \<Rightarrow> (int \<times> byte list) option" where
  "BPF_PROBE_READ_STR_INTO k loc sz src as =
     pp_core_read loc (bpf_probe_read_kernel_str k) (bpf_probe_read_kernel k) sz src as"

definition BPF_PROBE_READ_USER_STR_INTO ::
  "kernel \<Rightarrow> offsets \<Rightarrow> nat \<Rightarrow> addr \<Rightarrow> accessor list \<Rightarrow> (int \<times> byte list) option" where
  "BPF_PROBE_READ_USER_STR_INTO k loc sz src as =
     pp_core_read loc (bpf_probe_read_user_str k) (bpf_probe_read_user k) sz src as"

text \<open>
  The expression macros declare \<open>__r\<close> with the type of the whole arrow chain, which needs one
  argument more than the read itself, and yield the bytes of \<open>__r\<close>.
\<close>

definition pp_value ::
  "(nat \<Rightarrow> addr \<Rightarrow> accessor list \<Rightarrow> (int \<times> byte list) option) \<Rightarrow>
   nat \<Rightarrow> addr \<Rightarrow> accessor list \<Rightarrow> byte list option" where
  "pp_value into sz src as =
     (case pp_arrow (None # map Some as) of
        Some _ \<Rightarrow> map_option snd (into sz src as)
      | None \<Rightarrow> None)"

definition BPF_CORE_READ :: "kernel \<Rightarrow> nat \<Rightarrow> addr \<Rightarrow> accessor list \<Rightarrow> byte list option" where
  "BPF_CORE_READ k = pp_value (BPF_CORE_READ_INTO k)"

definition BPF_CORE_READ_USER :: "kernel \<Rightarrow> nat \<Rightarrow> addr \<Rightarrow> accessor list \<Rightarrow> byte list option" where
  "BPF_CORE_READ_USER k = pp_value (BPF_CORE_READ_USER_INTO k)"

definition BPF_PROBE_READ :: "kernel \<Rightarrow> offsets \<Rightarrow> nat \<Rightarrow> addr \<Rightarrow> accessor list \<Rightarrow> byte list option" where
  "BPF_PROBE_READ k loc = pp_value (BPF_PROBE_READ_INTO k loc)"

definition BPF_PROBE_READ_USER :: "kernel \<Rightarrow> offsets \<Rightarrow> nat \<Rightarrow> addr \<Rightarrow> accessor list \<Rightarrow> byte list option" where
  "BPF_PROBE_READ_USER k loc = pp_value (BPF_PROBE_READ_USER_INTO k loc)"

text \<open>Queries of the target kernel's types.\<close>

definition bpf_core_field_exists :: "kernel \<Rightarrow> accessor \<Rightarrow> nat" where
  "bpf_core_field_exists k a = preserve_field_info k (fst a) (snd a) BPF_FIELD_EXISTS"

definition bpf_core_field_size :: "kernel \<Rightarrow> accessor \<Rightarrow> nat" where
  "bpf_core_field_size k a = preserve_field_info k (fst a) (snd a) BPF_FIELD_BYTE_SIZE"

definition bpf_core_field_offset :: "kernel \<Rightarrow> accessor \<Rightarrow> nat" where
  "bpf_core_field_offset k a = preserve_field_info k (fst a) (snd a) BPF_FIELD_BYTE_OFFSET"

definition bpf_core_type_id_local :: "kernel \<Rightarrow> string \<Rightarrow> u32" where
  "bpf_core_type_id_local k t = btf_type_id k t BPF_TYPE_ID_LOCAL"

definition bpf_core_type_id_kernel :: "kernel \<Rightarrow> string \<Rightarrow> u32" where
  "bpf_core_type_id_kernel k t = btf_type_id k t BPF_TYPE_ID_TARGET"

definition bpf_core_type_exists :: "kernel \<Rightarrow> string \<Rightarrow> nat" where
  "bpf_core_type_exists k t = preserve_type_info k t BPF_TYPE_EXISTS"

definition bpf_core_type_matches :: "kernel \<Rightarrow> string \<Rightarrow> nat" where
  "bpf_core_type_matches k t = preserve_type_info k t BPF_TYPE_MATCHES"

definition bpf_core_type_size :: "kernel \<Rightarrow> string \<Rightarrow> nat" where
  "bpf_core_type_size k t = preserve_type_info k t BPF_TYPE_SIZE"

definition bpf_core_enum_value_exists :: "kernel \<Rightarrow> string \<Rightarrow> string \<Rightarrow> u64" where
  "bpf_core_enum_value_exists k t v = preserve_enum_value k t v BPF_ENUMVAL_EXISTS"

definition bpf_core_enum_value :: "kernel \<Rightarrow> string \<Rightarrow> string \<Rightarrow> u64" where
  "bpf_core_enum_value k t v = preserve_enum_value k t v BPF_ENUMVAL_VALUE"


section \<open>Bit-fields\<close>

definition CORE_RELO :: "kernel \<Rightarrow> accessor \<Rightarrow> bpf_field_info_kind \<Rightarrow> nat" where
  "CORE_RELO k fld info = preserve_field_info k (fst fld) (snd fld) info"

definition shift_out :: "kernel \<Rightarrow> accessor \<Rightarrow> u64 \<Rightarrow> u64" where
  "shift_out k fld val =
     (let val = push_bit (CORE_RELO k fld BPF_FIELD_LSHIFT_U64) val
      in if CORE_RELO k fld BPF_FIELD_SIGNED \<noteq> 0
         then signed_drop_bit (CORE_RELO k fld BPF_FIELD_RSHIFT_U64) val
         else drop_bit (CORE_RELO k fld BPF_FIELD_RSHIFT_U64) val)"

definition bitfield_addr :: "kernel \<Rightarrow> addr \<Rightarrow> accessor \<Rightarrow> addr" where
  "bitfield_addr k s fld = s + word_of_nat (CORE_RELO k fld BPF_FIELD_BYTE_OFFSET)"

text \<open>
  Bytes of memory and values of a register, in the byte order of the target; the first argument says whether it is
  little-endian.
\<close>

definition word_in :: "bool \<Rightarrow> byte list \<Rightarrow> u64" where
  "word_in little bs = le_word (if little then bs else rev bs)"

definition bytes_in :: "bool \<Rightarrow> nat \<Rightarrow> u64 \<Rightarrow> byte list" where
  "bytes_in little n w = (if little then le_bytes n w else rev (le_bytes n w))"

text \<open>
  The bytes of \<open>val\<close>, which is zero before, after the probe read: they go to its beginning, on a big-endian target to
  its end.
\<close>

definition CORE_BITFIELD_PROBE_READ :: "bool \<Rightarrow> kernel \<Rightarrow> addr \<Rightarrow> accessor \<Rightarrow> byte list" where
  "CORE_BITFIELD_PROBE_READ little k s fld =
     (let sz = CORE_RELO k fld BPF_FIELD_BYTE_SIZE;
          bs = snd (bpf_probe_read_kernel k (bitfield_addr k s fld) sz);
          at = (if little then 0 else 8 - sz)
      in replicate at 0 @ bs @ replicate (8 - (at + length bs)) 0)"

definition BPF_CORE_READ_BITFIELD_PROBED :: "bool \<Rightarrow> kernel \<Rightarrow> addr \<Rightarrow> accessor \<Rightarrow> u64" where
  "BPF_CORE_READ_BITFIELD_PROBED little k s fld = shift_out k fld (word_in little (CORE_BITFIELD_PROBE_READ little k s fld))"

definition load_sized :: "bool \<Rightarrow> kernel \<Rightarrow> addr \<Rightarrow> nat \<Rightarrow> u64" where
  "load_sized little k p sz = (if sz = 1 \<or> sz = 2 \<or> sz = 4 \<or> sz = 8 then word_in little (direct_load k p sz) else 0)"

definition BPF_CORE_READ_BITFIELD :: "bool \<Rightarrow> kernel \<Rightarrow> addr \<Rightarrow> accessor \<Rightarrow> u64" where
  "BPF_CORE_READ_BITFIELD little k s fld =
     shift_out k fld (load_sized little k (bitfield_addr k s fld) (CORE_RELO k fld BPF_FIELD_BYTE_SIZE))"

text \<open>
  The write: \<open>rpad\<close> is an unsigned subtraction, the mask selects the bits of the field in the
  storage unit.  For a size that no case of the switch covers nothing is stored.
\<close>

definition bitfield_mask :: "nat \<Rightarrow> nat \<Rightarrow> u64" where
  "bitfield_mask lshift rshift = drop_bit lshift (push_bit rshift (NOT 0))"

definition merge_bits :: "nat \<Rightarrow> nat \<Rightarrow> u64 \<Rightarrow> u64 \<Rightarrow> u64" where
  "merge_bits lshift rshift nval val =
     (let rpad = unat (word_of_nat rshift - word_of_nat lshift :: u32);
          mask = bitfield_mask lshift rshift
      in (val AND NOT mask) OR (push_bit rpad nval AND mask))"

definition BPF_CORE_WRITE_BITFIELD :: "bool \<Rightarrow> kernel \<Rightarrow> addr \<Rightarrow> accessor \<Rightarrow> u64 \<Rightarrow> kernel" where
  "BPF_CORE_WRITE_BITFIELD little k s fld nval =
     (let p = bitfield_addr k s fld;
          byte_size = CORE_RELO k fld BPF_FIELD_BYTE_SIZE;
          val = merge_bits (CORE_RELO k fld BPF_FIELD_LSHIFT_U64) (CORE_RELO k fld BPF_FIELD_RSHIFT_U64)
                  nval (load_sized little k p byte_size)
      in if byte_size = 1 \<or> byte_size = 2 \<or> byte_size = 4 \<or> byte_size = 8
         then k\<lparr>k_mem := write_mem (k_mem k) p (bytes_in little byte_size val)\<rparr> else k)"


section \<open>The macros expand to a pointer chain\<close>

lemma countdown_nth: "i \<le> 10 \<Longrightarrow> [10, 9, 8, 7, 6, 5, 4, 3, 2, 1, 0 :: nat] ! i = 10 - i"
  by (auto simp: le_Suc_eq numeral_eq_Suc)

lemma pp_narg_eq: "pp_narg args = (if length args \<le> 10 then Some (length args) else None)"
proof -
  have "map Some [10, 9, 8, 7, 6, 5, 4, 3, 2, 1, 0 :: nat] ! (10 - length args) = Some (length args)"
    if "length args \<le> 10"
    using that countdown_nth [of "10 - length args"] by (subst nth_map) auto
  then show ?thesis
    by (auto simp: pp_narg_def pp_nth_def nth_append numeral_eq_Suc not_le less_Suc_eq_le)
qed

lemma pp_empty_eq: "pp_empty args = (if length args \<le> 10 then Some (args \<noteq> []) else None)"
proof -
  have "map Some (replicate 10 True @ [False]) ! (10 - length args) = Some (args \<noteq> [])"
    if "length args \<le> 10"
    using that by (cases args; subst nth_map) (auto simp: nth_append)
  then show ?thesis
    by (auto simp: pp_empty_def pp_nth_def nth_append numeral_eq_Suc not_le less_Suc_eq_le simp del: map_append)
qed

lemma pp_last_snoc: "length xs < 10 \<Longrightarrow> pp_last (xs @ [x]) = Some x"
  by (simp add: pp_last_def pp_narg_eq)

lemma pp_nolast_snoc: "xs \<noteq> [] \<Longrightarrow> length xs < 10 \<Longrightarrow> pp_nolast (xs @ [x]) = Some xs"
  by (cases xs) (auto simp: pp_nolast_def pp_narg_eq)

lemma pp_arrow_eq: "pp_arrow args = (if args \<noteq> [] \<and> length args \<le> 10 then Some args else None)"
  by (cases args) (auto simp: pp_arrow_def pp_narg_eq)

lemma rd_p_chain:
  "as \<noteq> [] \<Longrightarrow> length as \<le> 9 \<Longrightarrow>
   rd_p off fn src (length as) (None # map Some as) = Some (foldl (read_ptr off fn) src as)"
proof (induction as rule: rev_induct)
  case (snoc a as)
  show ?case
  proof (cases "as = []")
    case False
    then obtain n where n: "length as = Suc n" by (cases as) auto
    have "pp_nolast (None # map Some (as @ [a])) = Some (None # map Some as)"
      and "pp_last (None # map Some (as @ [a])) = Some (Some a)"
      using snoc.prems pp_nolast_snoc [of "None # map Some as" "Some a"]
        pp_last_snoc [of "None # map Some as" "Some a"] by auto
    with snoc n False show ?thesis by simp
  qed simp
qed simp

lemma core_readN_chain:
  assumes "2 \<le> length as" and "length as \<le> 10"
  shows "core_readN off fn fn_ptr sz src as =
    Some (pp_read off fn sz (foldl (read_ptr off fn_ptr) src (butlast as)) (last as))"
proof -
  obtain bs a where as: "as = bs @ [a]"
    using assms by (cases as rule: rev_cases) auto
  with assms have "bs \<noteq> []" and "length bs \<le> 9" by auto
  with as show ?thesis
    by (simp add: core_readN_def pp_nolast_snoc pp_last_snoc read_ptrs_def pp_narg_eq rd_p_chain pp_arrow_eq)
qed

lemma pp_core_read_chain:
  assumes "1 \<le> length as" and "length as \<le> 10"
  shows "pp_core_read off fn fn_ptr sz src as =
    Some (pp_read off fn sz (foldl (read_ptr off fn_ptr) src (butlast as)) (last as))"
proof (cases as)
  case (Cons a rest)
  show ?thesis
  proof (cases rest)
    case Nil
    with Cons show ?thesis by (simp add: pp_core_read_def pp_empty_eq)
  next
    case (Cons b bs)
    with assms core_readN_chain [of as off fn fn_ptr sz src] \<open>as = a # rest\<close> show ?thesis
      by (simp add: pp_core_read_def pp_empty_eq)
  qed
qed (use assms in simp)

text \<open>
  C31: \<open>BPF_CORE_READ(src, a, b, ..., z)\<close> expands exactly for one to nine accessors, the limit its
  comment states, and then is a chain of relocated pointer reads, one per accessor but the last,
  followed by one read of the final member.
\<close>

theorem BPF_CORE_READ_is_pointer_chain:
  "BPF_CORE_READ k sz src as =
     (if 1 \<le> length as \<and> length as \<le> 9
      then Some (snd (bpf_probe_read_kernel k
             (field_addr (core_offsets k)
                (foldl (read_ptr (core_offsets k) (bpf_probe_read_kernel k)) src (butlast as)) (last as)) sz))
      else None)"
proof (cases "length as \<le> 9")
  case True
  then show ?thesis
    by (cases as)
      (simp_all add: BPF_CORE_READ_def pp_value_def pp_arrow_eq BPF_CORE_READ_INTO_def
        pp_core_read_chain pp_read_def pp_core_read_def [of _ _ _ _ _ "[]"])
next
  case False
  then show ?thesis by (simp add: BPF_CORE_READ_def pp_value_def pp_arrow_eq)
qed

lemma BPF_CORE_READ_single [simp]:
  "BPF_CORE_READ k sz src [a] = Some (snd (bpf_probe_read_kernel k (field_addr (core_offsets k) src a) sz))"
  by (simp add: BPF_CORE_READ_def pp_value_def pp_arrow_eq BPF_CORE_READ_INTO_def pp_core_read_def
      pp_empty_eq pp_read_def)

end
