(* ===== verification/Helper_Defs.thy ===== *)
theory Helper_Defs
  imports Prelude
begin

text \<open>
  The helper functions an eBPF program can call: the declarations of
  \<open>src/ebpf/include/bpf/bpf_helper_defs.h\<close>, in their order, and the numbers the kernel gives them,
  \<open>enum bpf_func_id\<close> of \<open>src/ebpf/vmlinux.h\<close>.  A helper call is a call to the constant that the
  declaration assigns, so the two lists have to agree.

  Shown here: they do, helper by helper and name by name; every helper fits the five argument
  registers; a program that calls a helper by name reaches the function of that name.
\<close>

section \<open>Declarations\<close>

datatype helper_type = HVoid | HInt string | HPtr string

text \<open>Return type, name, parameters, whether more arguments may follow, number.\<close>

type_synonym bpf_helper = "helper_type \<times> string \<times> (helper_type \<times> string) list \<times> bool \<times> nat"

definition h_name :: "bpf_helper \<Rightarrow> string" where
  "h_name = (\<lambda>(r, nm, ps, v, i). nm)"

definition h_params :: "bpf_helper \<Rightarrow> (helper_type \<times> string) list" where
  "h_params = (\<lambda>(r, nm, ps, v, i). ps)"

definition h_variadic :: "bpf_helper \<Rightarrow> bool" where
  "h_variadic = (\<lambda>(r, nm, ps, v, i). v)"

definition h_id :: "bpf_helper \<Rightarrow> nat" where
  "h_id = (\<lambda>(r, nm, ps, v, i). i)"

lemmas helper_fields = h_name_def h_params_def h_variadic_def h_id_def

definition decl_map_lookup_elem :: bpf_helper where
  "decl_map_lookup_elem = (HPtr ''void'', ''bpf_map_lookup_elem'', [(HPtr ''void'', ''map''), (HPtr ''const void'', ''key'')], False, 1)"

definition decl_map_update_elem :: bpf_helper where
  "decl_map_update_elem = (HInt ''long'', ''bpf_map_update_elem'', [(HPtr ''void'', ''map''), (HPtr ''const void'', ''key''), (HPtr ''const void'', ''value''), (HInt ''__u64'', ''flags'')], False, 2)"

definition decl_map_delete_elem :: bpf_helper where
  "decl_map_delete_elem = (HInt ''long'', ''bpf_map_delete_elem'', [(HPtr ''void'', ''map''), (HPtr ''const void'', ''key'')], False, 3)"

definition decl_probe_read :: bpf_helper where
  "decl_probe_read = (HInt ''long'', ''bpf_probe_read'', [(HPtr ''void'', ''dst''), (HInt ''__u32'', ''size''), (HPtr ''const void'', ''unsafe_ptr'')], False, 4)"

definition decl_ktime_get_ns :: bpf_helper where
  "decl_ktime_get_ns = (HInt ''__u64'', ''bpf_ktime_get_ns'', [], False, 5)"

definition decl_trace_printk :: bpf_helper where
  "decl_trace_printk = (HInt ''long'', ''bpf_trace_printk'', [(HPtr ''const char'', ''fmt''), (HInt ''__u32'', ''fmt_size'')], True, 6)"

definition decl_get_prandom_u32 :: bpf_helper where
  "decl_get_prandom_u32 = (HInt ''__u32'', ''bpf_get_prandom_u32'', [], False, 7)"

definition decl_get_smp_processor_id :: bpf_helper where
  "decl_get_smp_processor_id = (HInt ''__u32'', ''bpf_get_smp_processor_id'', [], False, 8)"

definition decl_skb_store_bytes :: bpf_helper where
  "decl_skb_store_bytes = (HInt ''long'', ''bpf_skb_store_bytes'', [(HPtr ''struct __sk_buff'', ''skb''), (HInt ''__u32'', ''offset''), (HPtr ''const void'', ''from''), (HInt ''__u32'', ''len''), (HInt ''__u64'', ''flags'')], False, 9)"

definition decl_l3_csum_replace :: bpf_helper where
  "decl_l3_csum_replace = (HInt ''long'', ''bpf_l3_csum_replace'', [(HPtr ''struct __sk_buff'', ''skb''), (HInt ''__u32'', ''offset''), (HInt ''__u64'', ''from''), (HInt ''__u64'', ''to''), (HInt ''__u64'', ''size'')], False, 10)"

definition decl_l4_csum_replace :: bpf_helper where
  "decl_l4_csum_replace = (HInt ''long'', ''bpf_l4_csum_replace'', [(HPtr ''struct __sk_buff'', ''skb''), (HInt ''__u32'', ''offset''), (HInt ''__u64'', ''from''), (HInt ''__u64'', ''to''), (HInt ''__u64'', ''flags'')], False, 11)"

definition decl_tail_call :: bpf_helper where
  "decl_tail_call = (HInt ''long'', ''bpf_tail_call'', [(HPtr ''void'', ''ctx''), (HPtr ''void'', ''prog_array_map''), (HInt ''__u32'', ''index'')], False, 12)"

definition decl_clone_redirect :: bpf_helper where
  "decl_clone_redirect = (HInt ''long'', ''bpf_clone_redirect'', [(HPtr ''struct __sk_buff'', ''skb''), (HInt ''__u32'', ''ifindex''), (HInt ''__u64'', ''flags'')], False, 13)"

definition decl_get_current_pid_tgid :: bpf_helper where
  "decl_get_current_pid_tgid = (HInt ''__u64'', ''bpf_get_current_pid_tgid'', [], False, 14)"

definition decl_get_current_uid_gid :: bpf_helper where
  "decl_get_current_uid_gid = (HInt ''__u64'', ''bpf_get_current_uid_gid'', [], False, 15)"

definition decl_get_current_comm :: bpf_helper where
  "decl_get_current_comm = (HInt ''long'', ''bpf_get_current_comm'', [(HPtr ''void'', ''buf''), (HInt ''__u32'', ''size_of_buf'')], False, 16)"

definition decl_get_cgroup_classid :: bpf_helper where
  "decl_get_cgroup_classid = (HInt ''__u32'', ''bpf_get_cgroup_classid'', [(HPtr ''struct __sk_buff'', ''skb'')], False, 17)"

definition decl_skb_vlan_push :: bpf_helper where
  "decl_skb_vlan_push = (HInt ''long'', ''bpf_skb_vlan_push'', [(HPtr ''struct __sk_buff'', ''skb''), (HInt ''__be16'', ''vlan_proto''), (HInt ''__u16'', ''vlan_tci'')], False, 18)"

definition decl_skb_vlan_pop :: bpf_helper where
  "decl_skb_vlan_pop = (HInt ''long'', ''bpf_skb_vlan_pop'', [(HPtr ''struct __sk_buff'', ''skb'')], False, 19)"

definition decl_skb_get_tunnel_key :: bpf_helper where
  "decl_skb_get_tunnel_key = (HInt ''long'', ''bpf_skb_get_tunnel_key'', [(HPtr ''struct __sk_buff'', ''skb''), (HPtr ''struct bpf_tunnel_key'', ''key''), (HInt ''__u32'', ''size''), (HInt ''__u64'', ''flags'')], False, 20)"

definition decl_skb_set_tunnel_key :: bpf_helper where
  "decl_skb_set_tunnel_key = (HInt ''long'', ''bpf_skb_set_tunnel_key'', [(HPtr ''struct __sk_buff'', ''skb''), (HPtr ''struct bpf_tunnel_key'', ''key''), (HInt ''__u32'', ''size''), (HInt ''__u64'', ''flags'')], False, 21)"

definition decl_perf_event_read :: bpf_helper where
  "decl_perf_event_read = (HInt ''__u64'', ''bpf_perf_event_read'', [(HPtr ''void'', ''map''), (HInt ''__u64'', ''flags'')], False, 22)"

definition decl_redirect :: bpf_helper where
  "decl_redirect = (HInt ''long'', ''bpf_redirect'', [(HInt ''__u32'', ''ifindex''), (HInt ''__u64'', ''flags'')], False, 23)"

definition decl_get_route_realm :: bpf_helper where
  "decl_get_route_realm = (HInt ''__u32'', ''bpf_get_route_realm'', [(HPtr ''struct __sk_buff'', ''skb'')], False, 24)"

definition decl_perf_event_output :: bpf_helper where
  "decl_perf_event_output = (HInt ''long'', ''bpf_perf_event_output'', [(HPtr ''void'', ''ctx''), (HPtr ''void'', ''map''), (HInt ''__u64'', ''flags''), (HPtr ''void'', ''data''), (HInt ''__u64'', ''size'')], False, 25)"

definition decl_skb_load_bytes :: bpf_helper where
  "decl_skb_load_bytes = (HInt ''long'', ''bpf_skb_load_bytes'', [(HPtr ''const void'', ''skb''), (HInt ''__u32'', ''offset''), (HPtr ''void'', ''to''), (HInt ''__u32'', ''len'')], False, 26)"

definition decl_get_stackid :: bpf_helper where
  "decl_get_stackid = (HInt ''long'', ''bpf_get_stackid'', [(HPtr ''void'', ''ctx''), (HPtr ''void'', ''map''), (HInt ''__u64'', ''flags'')], False, 27)"

definition decl_csum_diff :: bpf_helper where
  "decl_csum_diff = (HInt ''__s64'', ''bpf_csum_diff'', [(HPtr ''__be32'', ''from''), (HInt ''__u32'', ''from_size''), (HPtr ''__be32'', ''to''), (HInt ''__u32'', ''to_size''), (HInt ''__wsum'', ''seed'')], False, 28)"

definition decl_skb_get_tunnel_opt :: bpf_helper where
  "decl_skb_get_tunnel_opt = (HInt ''long'', ''bpf_skb_get_tunnel_opt'', [(HPtr ''struct __sk_buff'', ''skb''), (HPtr ''void'', ''opt''), (HInt ''__u32'', ''size'')], False, 29)"

definition decl_skb_set_tunnel_opt :: bpf_helper where
  "decl_skb_set_tunnel_opt = (HInt ''long'', ''bpf_skb_set_tunnel_opt'', [(HPtr ''struct __sk_buff'', ''skb''), (HPtr ''void'', ''opt''), (HInt ''__u32'', ''size'')], False, 30)"

definition decl_skb_change_proto :: bpf_helper where
  "decl_skb_change_proto = (HInt ''long'', ''bpf_skb_change_proto'', [(HPtr ''struct __sk_buff'', ''skb''), (HInt ''__be16'', ''proto''), (HInt ''__u64'', ''flags'')], False, 31)"

definition decl_skb_change_type :: bpf_helper where
  "decl_skb_change_type = (HInt ''long'', ''bpf_skb_change_type'', [(HPtr ''struct __sk_buff'', ''skb''), (HInt ''__u32'', ''type'')], False, 32)"

definition decl_skb_under_cgroup :: bpf_helper where
  "decl_skb_under_cgroup = (HInt ''long'', ''bpf_skb_under_cgroup'', [(HPtr ''struct __sk_buff'', ''skb''), (HPtr ''void'', ''map''), (HInt ''__u32'', ''index'')], False, 33)"

definition decl_get_hash_recalc :: bpf_helper where
  "decl_get_hash_recalc = (HInt ''__u32'', ''bpf_get_hash_recalc'', [(HPtr ''struct __sk_buff'', ''skb'')], False, 34)"

definition decl_get_current_task :: bpf_helper where
  "decl_get_current_task = (HInt ''__u64'', ''bpf_get_current_task'', [], False, 35)"

definition decl_probe_write_user :: bpf_helper where
  "decl_probe_write_user = (HInt ''long'', ''bpf_probe_write_user'', [(HPtr ''void'', ''dst''), (HPtr ''const void'', ''src''), (HInt ''__u32'', ''len'')], False, 36)"

definition decl_current_task_under_cgroup :: bpf_helper where
  "decl_current_task_under_cgroup = (HInt ''long'', ''bpf_current_task_under_cgroup'', [(HPtr ''void'', ''map''), (HInt ''__u32'', ''index'')], False, 37)"

definition decl_skb_change_tail :: bpf_helper where
  "decl_skb_change_tail = (HInt ''long'', ''bpf_skb_change_tail'', [(HPtr ''struct __sk_buff'', ''skb''), (HInt ''__u32'', ''len''), (HInt ''__u64'', ''flags'')], False, 38)"

definition decl_skb_pull_data :: bpf_helper where
  "decl_skb_pull_data = (HInt ''long'', ''bpf_skb_pull_data'', [(HPtr ''struct __sk_buff'', ''skb''), (HInt ''__u32'', ''len'')], False, 39)"

definition decl_csum_update :: bpf_helper where
  "decl_csum_update = (HInt ''__s64'', ''bpf_csum_update'', [(HPtr ''struct __sk_buff'', ''skb''), (HInt ''__wsum'', ''csum'')], False, 40)"

definition decl_set_hash_invalid :: bpf_helper where
  "decl_set_hash_invalid = (HVoid, ''bpf_set_hash_invalid'', [(HPtr ''struct __sk_buff'', ''skb'')], False, 41)"

definition decl_get_numa_node_id :: bpf_helper where
  "decl_get_numa_node_id = (HInt ''long'', ''bpf_get_numa_node_id'', [], False, 42)"

definition decl_skb_change_head :: bpf_helper where
  "decl_skb_change_head = (HInt ''long'', ''bpf_skb_change_head'', [(HPtr ''struct __sk_buff'', ''skb''), (HInt ''__u32'', ''len''), (HInt ''__u64'', ''flags'')], False, 43)"

definition decl_xdp_adjust_head :: bpf_helper where
  "decl_xdp_adjust_head = (HInt ''long'', ''bpf_xdp_adjust_head'', [(HPtr ''struct xdp_md'', ''xdp_md''), (HInt ''int'', ''delta'')], False, 44)"

definition decl_probe_read_str :: bpf_helper where
  "decl_probe_read_str = (HInt ''long'', ''bpf_probe_read_str'', [(HPtr ''void'', ''dst''), (HInt ''__u32'', ''size''), (HPtr ''const void'', ''unsafe_ptr'')], False, 45)"

definition decl_get_socket_cookie :: bpf_helper where
  "decl_get_socket_cookie = (HInt ''__u64'', ''bpf_get_socket_cookie'', [(HPtr ''void'', ''ctx'')], False, 46)"

definition decl_get_socket_uid :: bpf_helper where
  "decl_get_socket_uid = (HInt ''__u32'', ''bpf_get_socket_uid'', [(HPtr ''struct __sk_buff'', ''skb'')], False, 47)"

definition decl_set_hash :: bpf_helper where
  "decl_set_hash = (HInt ''long'', ''bpf_set_hash'', [(HPtr ''struct __sk_buff'', ''skb''), (HInt ''__u32'', ''hash'')], False, 48)"

definition decl_setsockopt :: bpf_helper where
  "decl_setsockopt = (HInt ''long'', ''bpf_setsockopt'', [(HPtr ''void'', ''bpf_socket''), (HInt ''int'', ''level''), (HInt ''int'', ''optname''), (HPtr ''void'', ''optval''), (HInt ''int'', ''optlen'')], False, 49)"

definition decl_skb_adjust_room :: bpf_helper where
  "decl_skb_adjust_room = (HInt ''long'', ''bpf_skb_adjust_room'', [(HPtr ''struct __sk_buff'', ''skb''), (HInt ''__s32'', ''len_diff''), (HInt ''__u32'', ''mode''), (HInt ''__u64'', ''flags'')], False, 50)"

definition decl_redirect_map :: bpf_helper where
  "decl_redirect_map = (HInt ''long'', ''bpf_redirect_map'', [(HPtr ''void'', ''map''), (HInt ''__u64'', ''key''), (HInt ''__u64'', ''flags'')], False, 51)"

definition decl_sk_redirect_map :: bpf_helper where
  "decl_sk_redirect_map = (HInt ''long'', ''bpf_sk_redirect_map'', [(HPtr ''struct __sk_buff'', ''skb''), (HPtr ''void'', ''map''), (HInt ''__u32'', ''key''), (HInt ''__u64'', ''flags'')], False, 52)"

definition decl_sock_map_update :: bpf_helper where
  "decl_sock_map_update = (HInt ''long'', ''bpf_sock_map_update'', [(HPtr ''struct bpf_sock_ops'', ''skops''), (HPtr ''void'', ''map''), (HPtr ''void'', ''key''), (HInt ''__u64'', ''flags'')], False, 53)"

definition decl_xdp_adjust_meta :: bpf_helper where
  "decl_xdp_adjust_meta = (HInt ''long'', ''bpf_xdp_adjust_meta'', [(HPtr ''struct xdp_md'', ''xdp_md''), (HInt ''int'', ''delta'')], False, 54)"

definition decl_perf_event_read_value :: bpf_helper where
  "decl_perf_event_read_value = (HInt ''long'', ''bpf_perf_event_read_value'', [(HPtr ''void'', ''map''), (HInt ''__u64'', ''flags''), (HPtr ''struct bpf_perf_event_value'', ''buf''), (HInt ''__u32'', ''buf_size'')], False, 55)"

definition decl_perf_prog_read_value :: bpf_helper where
  "decl_perf_prog_read_value = (HInt ''long'', ''bpf_perf_prog_read_value'', [(HPtr ''struct bpf_perf_event_data'', ''ctx''), (HPtr ''struct bpf_perf_event_value'', ''buf''), (HInt ''__u32'', ''buf_size'')], False, 56)"

definition decl_getsockopt :: bpf_helper where
  "decl_getsockopt = (HInt ''long'', ''bpf_getsockopt'', [(HPtr ''void'', ''bpf_socket''), (HInt ''int'', ''level''), (HInt ''int'', ''optname''), (HPtr ''void'', ''optval''), (HInt ''int'', ''optlen'')], False, 57)"

definition decl_override_return :: bpf_helper where
  "decl_override_return = (HInt ''long'', ''bpf_override_return'', [(HPtr ''struct pt_regs'', ''regs''), (HInt ''__u64'', ''rc'')], False, 58)"

definition decl_sock_ops_cb_flags_set :: bpf_helper where
  "decl_sock_ops_cb_flags_set = (HInt ''long'', ''bpf_sock_ops_cb_flags_set'', [(HPtr ''struct bpf_sock_ops'', ''bpf_sock''), (HInt ''int'', ''argval'')], False, 59)"

definition decl_msg_redirect_map :: bpf_helper where
  "decl_msg_redirect_map = (HInt ''long'', ''bpf_msg_redirect_map'', [(HPtr ''struct sk_msg_md'', ''msg''), (HPtr ''void'', ''map''), (HInt ''__u32'', ''key''), (HInt ''__u64'', ''flags'')], False, 60)"

definition decl_msg_apply_bytes :: bpf_helper where
  "decl_msg_apply_bytes = (HInt ''long'', ''bpf_msg_apply_bytes'', [(HPtr ''struct sk_msg_md'', ''msg''), (HInt ''__u32'', ''bytes'')], False, 61)"

definition decl_msg_cork_bytes :: bpf_helper where
  "decl_msg_cork_bytes = (HInt ''long'', ''bpf_msg_cork_bytes'', [(HPtr ''struct sk_msg_md'', ''msg''), (HInt ''__u32'', ''bytes'')], False, 62)"

definition decl_msg_pull_data :: bpf_helper where
  "decl_msg_pull_data = (HInt ''long'', ''bpf_msg_pull_data'', [(HPtr ''struct sk_msg_md'', ''msg''), (HInt ''__u32'', ''start''), (HInt ''__u32'', ''end''), (HInt ''__u64'', ''flags'')], False, 63)"

definition decl_bind :: bpf_helper where
  "decl_bind = (HInt ''long'', ''bpf_bind'', [(HPtr ''struct bpf_sock_addr'', ''ctx''), (HPtr ''struct sockaddr'', ''addr''), (HInt ''int'', ''addr_len'')], False, 64)"

definition decl_xdp_adjust_tail :: bpf_helper where
  "decl_xdp_adjust_tail = (HInt ''long'', ''bpf_xdp_adjust_tail'', [(HPtr ''struct xdp_md'', ''xdp_md''), (HInt ''int'', ''delta'')], False, 65)"

definition decl_skb_get_xfrm_state :: bpf_helper where
  "decl_skb_get_xfrm_state = (HInt ''long'', ''bpf_skb_get_xfrm_state'', [(HPtr ''struct __sk_buff'', ''skb''), (HInt ''__u32'', ''index''), (HPtr ''struct bpf_xfrm_state'', ''xfrm_state''), (HInt ''__u32'', ''size''), (HInt ''__u64'', ''flags'')], False, 66)"

definition decl_get_stack :: bpf_helper where
  "decl_get_stack = (HInt ''long'', ''bpf_get_stack'', [(HPtr ''void'', ''ctx''), (HPtr ''void'', ''buf''), (HInt ''__u32'', ''size''), (HInt ''__u64'', ''flags'')], False, 67)"

definition decl_skb_load_bytes_relative :: bpf_helper where
  "decl_skb_load_bytes_relative = (HInt ''long'', ''bpf_skb_load_bytes_relative'', [(HPtr ''const void'', ''skb''), (HInt ''__u32'', ''offset''), (HPtr ''void'', ''to''), (HInt ''__u32'', ''len''), (HInt ''__u32'', ''start_header'')], False, 68)"

definition decl_fib_lookup :: bpf_helper where
  "decl_fib_lookup = (HInt ''long'', ''bpf_fib_lookup'', [(HPtr ''void'', ''ctx''), (HPtr ''struct bpf_fib_lookup'', ''params''), (HInt ''int'', ''plen''), (HInt ''__u32'', ''flags'')], False, 69)"

definition decl_sock_hash_update :: bpf_helper where
  "decl_sock_hash_update = (HInt ''long'', ''bpf_sock_hash_update'', [(HPtr ''struct bpf_sock_ops'', ''skops''), (HPtr ''void'', ''map''), (HPtr ''void'', ''key''), (HInt ''__u64'', ''flags'')], False, 70)"

definition decl_msg_redirect_hash :: bpf_helper where
  "decl_msg_redirect_hash = (HInt ''long'', ''bpf_msg_redirect_hash'', [(HPtr ''struct sk_msg_md'', ''msg''), (HPtr ''void'', ''map''), (HPtr ''void'', ''key''), (HInt ''__u64'', ''flags'')], False, 71)"

definition decl_sk_redirect_hash :: bpf_helper where
  "decl_sk_redirect_hash = (HInt ''long'', ''bpf_sk_redirect_hash'', [(HPtr ''struct __sk_buff'', ''skb''), (HPtr ''void'', ''map''), (HPtr ''void'', ''key''), (HInt ''__u64'', ''flags'')], False, 72)"

definition decl_lwt_push_encap :: bpf_helper where
  "decl_lwt_push_encap = (HInt ''long'', ''bpf_lwt_push_encap'', [(HPtr ''struct __sk_buff'', ''skb''), (HInt ''__u32'', ''type''), (HPtr ''void'', ''hdr''), (HInt ''__u32'', ''len'')], False, 73)"

definition decl_lwt_seg6_store_bytes :: bpf_helper where
  "decl_lwt_seg6_store_bytes = (HInt ''long'', ''bpf_lwt_seg6_store_bytes'', [(HPtr ''struct __sk_buff'', ''skb''), (HInt ''__u32'', ''offset''), (HPtr ''const void'', ''from''), (HInt ''__u32'', ''len'')], False, 74)"

definition decl_lwt_seg6_adjust_srh :: bpf_helper where
  "decl_lwt_seg6_adjust_srh = (HInt ''long'', ''bpf_lwt_seg6_adjust_srh'', [(HPtr ''struct __sk_buff'', ''skb''), (HInt ''__u32'', ''offset''), (HInt ''__s32'', ''delta'')], False, 75)"

definition decl_lwt_seg6_action :: bpf_helper where
  "decl_lwt_seg6_action = (HInt ''long'', ''bpf_lwt_seg6_action'', [(HPtr ''struct __sk_buff'', ''skb''), (HInt ''__u32'', ''action''), (HPtr ''void'', ''param''), (HInt ''__u32'', ''param_len'')], False, 76)"

definition decl_rc_repeat :: bpf_helper where
  "decl_rc_repeat = (HInt ''long'', ''bpf_rc_repeat'', [(HPtr ''void'', ''ctx'')], False, 77)"

definition decl_rc_keydown :: bpf_helper where
  "decl_rc_keydown = (HInt ''long'', ''bpf_rc_keydown'', [(HPtr ''void'', ''ctx''), (HInt ''__u32'', ''protocol''), (HInt ''__u64'', ''scancode''), (HInt ''__u32'', ''toggle'')], False, 78)"

definition decl_skb_cgroup_id :: bpf_helper where
  "decl_skb_cgroup_id = (HInt ''__u64'', ''bpf_skb_cgroup_id'', [(HPtr ''struct __sk_buff'', ''skb'')], False, 79)"

definition decl_get_current_cgroup_id :: bpf_helper where
  "decl_get_current_cgroup_id = (HInt ''__u64'', ''bpf_get_current_cgroup_id'', [], False, 80)"

definition decl_get_local_storage :: bpf_helper where
  "decl_get_local_storage = (HPtr ''void'', ''bpf_get_local_storage'', [(HPtr ''void'', ''map''), (HInt ''__u64'', ''flags'')], False, 81)"

definition decl_sk_select_reuseport :: bpf_helper where
  "decl_sk_select_reuseport = (HInt ''long'', ''bpf_sk_select_reuseport'', [(HPtr ''struct sk_reuseport_md'', ''reuse''), (HPtr ''void'', ''map''), (HPtr ''void'', ''key''), (HInt ''__u64'', ''flags'')], False, 82)"

definition decl_skb_ancestor_cgroup_id :: bpf_helper where
  "decl_skb_ancestor_cgroup_id = (HInt ''__u64'', ''bpf_skb_ancestor_cgroup_id'', [(HPtr ''struct __sk_buff'', ''skb''), (HInt ''int'', ''ancestor_level'')], False, 83)"

definition decl_sk_lookup_tcp :: bpf_helper where
  "decl_sk_lookup_tcp = (HPtr ''struct bpf_sock'', ''bpf_sk_lookup_tcp'', [(HPtr ''void'', ''ctx''), (HPtr ''struct bpf_sock_tuple'', ''tuple''), (HInt ''__u32'', ''tuple_size''), (HInt ''__u64'', ''netns''), (HInt ''__u64'', ''flags'')], False, 84)"

definition decl_sk_lookup_udp :: bpf_helper where
  "decl_sk_lookup_udp = (HPtr ''struct bpf_sock'', ''bpf_sk_lookup_udp'', [(HPtr ''void'', ''ctx''), (HPtr ''struct bpf_sock_tuple'', ''tuple''), (HInt ''__u32'', ''tuple_size''), (HInt ''__u64'', ''netns''), (HInt ''__u64'', ''flags'')], False, 85)"

definition decl_sk_release :: bpf_helper where
  "decl_sk_release = (HInt ''long'', ''bpf_sk_release'', [(HPtr ''void'', ''sock'')], False, 86)"

definition decl_map_push_elem :: bpf_helper where
  "decl_map_push_elem = (HInt ''long'', ''bpf_map_push_elem'', [(HPtr ''void'', ''map''), (HPtr ''const void'', ''value''), (HInt ''__u64'', ''flags'')], False, 87)"

definition decl_map_pop_elem :: bpf_helper where
  "decl_map_pop_elem = (HInt ''long'', ''bpf_map_pop_elem'', [(HPtr ''void'', ''map''), (HPtr ''void'', ''value'')], False, 88)"

definition decl_map_peek_elem :: bpf_helper where
  "decl_map_peek_elem = (HInt ''long'', ''bpf_map_peek_elem'', [(HPtr ''void'', ''map''), (HPtr ''void'', ''value'')], False, 89)"

definition decl_msg_push_data :: bpf_helper where
  "decl_msg_push_data = (HInt ''long'', ''bpf_msg_push_data'', [(HPtr ''struct sk_msg_md'', ''msg''), (HInt ''__u32'', ''start''), (HInt ''__u32'', ''len''), (HInt ''__u64'', ''flags'')], False, 90)"

definition decl_msg_pop_data :: bpf_helper where
  "decl_msg_pop_data = (HInt ''long'', ''bpf_msg_pop_data'', [(HPtr ''struct sk_msg_md'', ''msg''), (HInt ''__u32'', ''start''), (HInt ''__u32'', ''len''), (HInt ''__u64'', ''flags'')], False, 91)"

definition decl_rc_pointer_rel :: bpf_helper where
  "decl_rc_pointer_rel = (HInt ''long'', ''bpf_rc_pointer_rel'', [(HPtr ''void'', ''ctx''), (HInt ''__s32'', ''rel_x''), (HInt ''__s32'', ''rel_y'')], False, 92)"

definition decl_spin_lock :: bpf_helper where
  "decl_spin_lock = (HInt ''long'', ''bpf_spin_lock'', [(HPtr ''struct bpf_spin_lock'', ''lock'')], False, 93)"

definition decl_spin_unlock :: bpf_helper where
  "decl_spin_unlock = (HInt ''long'', ''bpf_spin_unlock'', [(HPtr ''struct bpf_spin_lock'', ''lock'')], False, 94)"

definition decl_sk_fullsock :: bpf_helper where
  "decl_sk_fullsock = (HPtr ''struct bpf_sock'', ''bpf_sk_fullsock'', [(HPtr ''struct bpf_sock'', ''sk'')], False, 95)"

definition decl_tcp_sock :: bpf_helper where
  "decl_tcp_sock = (HPtr ''struct bpf_tcp_sock'', ''bpf_tcp_sock'', [(HPtr ''struct bpf_sock'', ''sk'')], False, 96)"

definition decl_skb_ecn_set_ce :: bpf_helper where
  "decl_skb_ecn_set_ce = (HInt ''long'', ''bpf_skb_ecn_set_ce'', [(HPtr ''struct __sk_buff'', ''skb'')], False, 97)"

definition decl_get_listener_sock :: bpf_helper where
  "decl_get_listener_sock = (HPtr ''struct bpf_sock'', ''bpf_get_listener_sock'', [(HPtr ''struct bpf_sock'', ''sk'')], False, 98)"

definition decl_skc_lookup_tcp :: bpf_helper where
  "decl_skc_lookup_tcp = (HPtr ''struct bpf_sock'', ''bpf_skc_lookup_tcp'', [(HPtr ''void'', ''ctx''), (HPtr ''struct bpf_sock_tuple'', ''tuple''), (HInt ''__u32'', ''tuple_size''), (HInt ''__u64'', ''netns''), (HInt ''__u64'', ''flags'')], False, 99)"

definition decl_tcp_check_syncookie :: bpf_helper where
  "decl_tcp_check_syncookie = (HInt ''long'', ''bpf_tcp_check_syncookie'', [(HPtr ''void'', ''sk''), (HPtr ''void'', ''iph''), (HInt ''__u32'', ''iph_len''), (HPtr ''struct tcphdr'', ''th''), (HInt ''__u32'', ''th_len'')], False, 100)"

definition decl_sysctl_get_name :: bpf_helper where
  "decl_sysctl_get_name = (HInt ''long'', ''bpf_sysctl_get_name'', [(HPtr ''struct bpf_sysctl'', ''ctx''), (HPtr ''char'', ''buf''), (HInt ''unsigned long'', ''buf_len''), (HInt ''__u64'', ''flags'')], False, 101)"

definition decl_sysctl_get_current_value :: bpf_helper where
  "decl_sysctl_get_current_value = (HInt ''long'', ''bpf_sysctl_get_current_value'', [(HPtr ''struct bpf_sysctl'', ''ctx''), (HPtr ''char'', ''buf''), (HInt ''unsigned long'', ''buf_len'')], False, 102)"

definition decl_sysctl_get_new_value :: bpf_helper where
  "decl_sysctl_get_new_value = (HInt ''long'', ''bpf_sysctl_get_new_value'', [(HPtr ''struct bpf_sysctl'', ''ctx''), (HPtr ''char'', ''buf''), (HInt ''unsigned long'', ''buf_len'')], False, 103)"

definition decl_sysctl_set_new_value :: bpf_helper where
  "decl_sysctl_set_new_value = (HInt ''long'', ''bpf_sysctl_set_new_value'', [(HPtr ''struct bpf_sysctl'', ''ctx''), (HPtr ''const char'', ''buf''), (HInt ''unsigned long'', ''buf_len'')], False, 104)"

definition decl_strtol :: bpf_helper where
  "decl_strtol = (HInt ''long'', ''bpf_strtol'', [(HPtr ''const char'', ''buf''), (HInt ''unsigned long'', ''buf_len''), (HInt ''__u64'', ''flags''), (HPtr ''long'', ''res'')], False, 105)"

definition decl_strtoul :: bpf_helper where
  "decl_strtoul = (HInt ''long'', ''bpf_strtoul'', [(HPtr ''const char'', ''buf''), (HInt ''unsigned long'', ''buf_len''), (HInt ''__u64'', ''flags''), (HPtr ''unsigned long'', ''res'')], False, 106)"

definition decl_sk_storage_get :: bpf_helper where
  "decl_sk_storage_get = (HPtr ''void'', ''bpf_sk_storage_get'', [(HPtr ''void'', ''map''), (HPtr ''void'', ''sk''), (HPtr ''void'', ''value''), (HInt ''__u64'', ''flags'')], False, 107)"

definition decl_sk_storage_delete :: bpf_helper where
  "decl_sk_storage_delete = (HInt ''long'', ''bpf_sk_storage_delete'', [(HPtr ''void'', ''map''), (HPtr ''void'', ''sk'')], False, 108)"

definition decl_send_signal :: bpf_helper where
  "decl_send_signal = (HInt ''long'', ''bpf_send_signal'', [(HInt ''__u32'', ''sig'')], False, 109)"

definition decl_tcp_gen_syncookie :: bpf_helper where
  "decl_tcp_gen_syncookie = (HInt ''__s64'', ''bpf_tcp_gen_syncookie'', [(HPtr ''void'', ''sk''), (HPtr ''void'', ''iph''), (HInt ''__u32'', ''iph_len''), (HPtr ''struct tcphdr'', ''th''), (HInt ''__u32'', ''th_len'')], False, 110)"

definition decl_skb_output :: bpf_helper where
  "decl_skb_output = (HInt ''long'', ''bpf_skb_output'', [(HPtr ''void'', ''ctx''), (HPtr ''void'', ''map''), (HInt ''__u64'', ''flags''), (HPtr ''void'', ''data''), (HInt ''__u64'', ''size'')], False, 111)"

definition decl_probe_read_user :: bpf_helper where
  "decl_probe_read_user = (HInt ''long'', ''bpf_probe_read_user'', [(HPtr ''void'', ''dst''), (HInt ''__u32'', ''size''), (HPtr ''const void'', ''unsafe_ptr'')], False, 112)"

definition decl_probe_read_kernel :: bpf_helper where
  "decl_probe_read_kernel = (HInt ''long'', ''bpf_probe_read_kernel'', [(HPtr ''void'', ''dst''), (HInt ''__u32'', ''size''), (HPtr ''const void'', ''unsafe_ptr'')], False, 113)"

definition decl_probe_read_user_str :: bpf_helper where
  "decl_probe_read_user_str = (HInt ''long'', ''bpf_probe_read_user_str'', [(HPtr ''void'', ''dst''), (HInt ''__u32'', ''size''), (HPtr ''const void'', ''unsafe_ptr'')], False, 114)"

definition decl_probe_read_kernel_str :: bpf_helper where
  "decl_probe_read_kernel_str = (HInt ''long'', ''bpf_probe_read_kernel_str'', [(HPtr ''void'', ''dst''), (HInt ''__u32'', ''size''), (HPtr ''const void'', ''unsafe_ptr'')], False, 115)"

definition decl_tcp_send_ack :: bpf_helper where
  "decl_tcp_send_ack = (HInt ''long'', ''bpf_tcp_send_ack'', [(HPtr ''void'', ''tp''), (HInt ''__u32'', ''rcv_nxt'')], False, 116)"

definition decl_send_signal_thread :: bpf_helper where
  "decl_send_signal_thread = (HInt ''long'', ''bpf_send_signal_thread'', [(HInt ''__u32'', ''sig'')], False, 117)"

definition decl_jiffies64 :: bpf_helper where
  "decl_jiffies64 = (HInt ''__u64'', ''bpf_jiffies64'', [], False, 118)"

definition decl_read_branch_records :: bpf_helper where
  "decl_read_branch_records = (HInt ''long'', ''bpf_read_branch_records'', [(HPtr ''struct bpf_perf_event_data'', ''ctx''), (HPtr ''void'', ''buf''), (HInt ''__u32'', ''size''), (HInt ''__u64'', ''flags'')], False, 119)"

definition decl_get_ns_current_pid_tgid :: bpf_helper where
  "decl_get_ns_current_pid_tgid = (HInt ''long'', ''bpf_get_ns_current_pid_tgid'', [(HInt ''__u64'', ''dev''), (HInt ''__u64'', ''ino''), (HPtr ''struct bpf_pidns_info'', ''nsdata''), (HInt ''__u32'', ''size'')], False, 120)"

definition decl_xdp_output :: bpf_helper where
  "decl_xdp_output = (HInt ''long'', ''bpf_xdp_output'', [(HPtr ''void'', ''ctx''), (HPtr ''void'', ''map''), (HInt ''__u64'', ''flags''), (HPtr ''void'', ''data''), (HInt ''__u64'', ''size'')], False, 121)"

definition decl_get_netns_cookie :: bpf_helper where
  "decl_get_netns_cookie = (HInt ''__u64'', ''bpf_get_netns_cookie'', [(HPtr ''void'', ''ctx'')], False, 122)"

definition decl_get_current_ancestor_cgroup_id :: bpf_helper where
  "decl_get_current_ancestor_cgroup_id = (HInt ''__u64'', ''bpf_get_current_ancestor_cgroup_id'', [(HInt ''int'', ''ancestor_level'')], False, 123)"

definition decl_sk_assign :: bpf_helper where
  "decl_sk_assign = (HInt ''long'', ''bpf_sk_assign'', [(HPtr ''void'', ''ctx''), (HPtr ''void'', ''sk''), (HInt ''__u64'', ''flags'')], False, 124)"

definition decl_ktime_get_boot_ns :: bpf_helper where
  "decl_ktime_get_boot_ns = (HInt ''__u64'', ''bpf_ktime_get_boot_ns'', [], False, 125)"

definition decl_seq_printf :: bpf_helper where
  "decl_seq_printf = (HInt ''long'', ''bpf_seq_printf'', [(HPtr ''struct seq_file'', ''m''), (HPtr ''const char'', ''fmt''), (HInt ''__u32'', ''fmt_size''), (HPtr ''const void'', ''data''), (HInt ''__u32'', ''data_len'')], False, 126)"

definition decl_seq_write :: bpf_helper where
  "decl_seq_write = (HInt ''long'', ''bpf_seq_write'', [(HPtr ''struct seq_file'', ''m''), (HPtr ''const void'', ''data''), (HInt ''__u32'', ''len'')], False, 127)"

definition decl_sk_cgroup_id :: bpf_helper where
  "decl_sk_cgroup_id = (HInt ''__u64'', ''bpf_sk_cgroup_id'', [(HPtr ''void'', ''sk'')], False, 128)"

definition decl_sk_ancestor_cgroup_id :: bpf_helper where
  "decl_sk_ancestor_cgroup_id = (HInt ''__u64'', ''bpf_sk_ancestor_cgroup_id'', [(HPtr ''void'', ''sk''), (HInt ''int'', ''ancestor_level'')], False, 129)"

definition decl_ringbuf_output :: bpf_helper where
  "decl_ringbuf_output = (HInt ''long'', ''bpf_ringbuf_output'', [(HPtr ''void'', ''ringbuf''), (HPtr ''void'', ''data''), (HInt ''__u64'', ''size''), (HInt ''__u64'', ''flags'')], False, 130)"

definition decl_ringbuf_reserve :: bpf_helper where
  "decl_ringbuf_reserve = (HPtr ''void'', ''bpf_ringbuf_reserve'', [(HPtr ''void'', ''ringbuf''), (HInt ''__u64'', ''size''), (HInt ''__u64'', ''flags'')], False, 131)"

definition decl_ringbuf_submit :: bpf_helper where
  "decl_ringbuf_submit = (HVoid, ''bpf_ringbuf_submit'', [(HPtr ''void'', ''data''), (HInt ''__u64'', ''flags'')], False, 132)"

definition decl_ringbuf_discard :: bpf_helper where
  "decl_ringbuf_discard = (HVoid, ''bpf_ringbuf_discard'', [(HPtr ''void'', ''data''), (HInt ''__u64'', ''flags'')], False, 133)"

definition decl_ringbuf_query :: bpf_helper where
  "decl_ringbuf_query = (HInt ''__u64'', ''bpf_ringbuf_query'', [(HPtr ''void'', ''ringbuf''), (HInt ''__u64'', ''flags'')], False, 134)"

definition decl_csum_level :: bpf_helper where
  "decl_csum_level = (HInt ''long'', ''bpf_csum_level'', [(HPtr ''struct __sk_buff'', ''skb''), (HInt ''__u64'', ''level'')], False, 135)"

definition decl_skc_to_tcp6_sock :: bpf_helper where
  "decl_skc_to_tcp6_sock = (HPtr ''struct tcp6_sock'', ''bpf_skc_to_tcp6_sock'', [(HPtr ''void'', ''sk'')], False, 136)"

definition decl_skc_to_tcp_sock :: bpf_helper where
  "decl_skc_to_tcp_sock = (HPtr ''struct tcp_sock'', ''bpf_skc_to_tcp_sock'', [(HPtr ''void'', ''sk'')], False, 137)"

definition decl_skc_to_tcp_timewait_sock :: bpf_helper where
  "decl_skc_to_tcp_timewait_sock = (HPtr ''struct tcp_timewait_sock'', ''bpf_skc_to_tcp_timewait_sock'', [(HPtr ''void'', ''sk'')], False, 138)"

definition decl_skc_to_tcp_request_sock :: bpf_helper where
  "decl_skc_to_tcp_request_sock = (HPtr ''struct tcp_request_sock'', ''bpf_skc_to_tcp_request_sock'', [(HPtr ''void'', ''sk'')], False, 139)"

definition decl_skc_to_udp6_sock :: bpf_helper where
  "decl_skc_to_udp6_sock = (HPtr ''struct udp6_sock'', ''bpf_skc_to_udp6_sock'', [(HPtr ''void'', ''sk'')], False, 140)"

definition decl_get_task_stack :: bpf_helper where
  "decl_get_task_stack = (HInt ''long'', ''bpf_get_task_stack'', [(HPtr ''struct task_struct'', ''task''), (HPtr ''void'', ''buf''), (HInt ''__u32'', ''size''), (HInt ''__u64'', ''flags'')], False, 141)"

definition decl_load_hdr_opt :: bpf_helper where
  "decl_load_hdr_opt = (HInt ''long'', ''bpf_load_hdr_opt'', [(HPtr ''struct bpf_sock_ops'', ''skops''), (HPtr ''void'', ''searchby_res''), (HInt ''__u32'', ''len''), (HInt ''__u64'', ''flags'')], False, 142)"

definition decl_store_hdr_opt :: bpf_helper where
  "decl_store_hdr_opt = (HInt ''long'', ''bpf_store_hdr_opt'', [(HPtr ''struct bpf_sock_ops'', ''skops''), (HPtr ''const void'', ''from''), (HInt ''__u32'', ''len''), (HInt ''__u64'', ''flags'')], False, 143)"

definition decl_reserve_hdr_opt :: bpf_helper where
  "decl_reserve_hdr_opt = (HInt ''long'', ''bpf_reserve_hdr_opt'', [(HPtr ''struct bpf_sock_ops'', ''skops''), (HInt ''__u32'', ''len''), (HInt ''__u64'', ''flags'')], False, 144)"

definition decl_inode_storage_get :: bpf_helper where
  "decl_inode_storage_get = (HPtr ''void'', ''bpf_inode_storage_get'', [(HPtr ''void'', ''map''), (HPtr ''void'', ''inode''), (HPtr ''void'', ''value''), (HInt ''__u64'', ''flags'')], False, 145)"

definition decl_inode_storage_delete :: bpf_helper where
  "decl_inode_storage_delete = (HInt ''int'', ''bpf_inode_storage_delete'', [(HPtr ''void'', ''map''), (HPtr ''void'', ''inode'')], False, 146)"

definition decl_d_path :: bpf_helper where
  "decl_d_path = (HInt ''long'', ''bpf_d_path'', [(HPtr ''const struct path'', ''path''), (HPtr ''char'', ''buf''), (HInt ''__u32'', ''sz'')], False, 147)"

definition decl_copy_from_user :: bpf_helper where
  "decl_copy_from_user = (HInt ''long'', ''bpf_copy_from_user'', [(HPtr ''void'', ''dst''), (HInt ''__u32'', ''size''), (HPtr ''const void'', ''user_ptr'')], False, 148)"

definition decl_snprintf_btf :: bpf_helper where
  "decl_snprintf_btf = (HInt ''long'', ''bpf_snprintf_btf'', [(HPtr ''char'', ''str''), (HInt ''__u32'', ''str_size''), (HPtr ''struct btf_ptr'', ''ptr''), (HInt ''__u32'', ''btf_ptr_size''), (HInt ''__u64'', ''flags'')], False, 149)"

definition decl_seq_printf_btf :: bpf_helper where
  "decl_seq_printf_btf = (HInt ''long'', ''bpf_seq_printf_btf'', [(HPtr ''struct seq_file'', ''m''), (HPtr ''struct btf_ptr'', ''ptr''), (HInt ''__u32'', ''ptr_size''), (HInt ''__u64'', ''flags'')], False, 150)"

definition decl_skb_cgroup_classid :: bpf_helper where
  "decl_skb_cgroup_classid = (HInt ''__u64'', ''bpf_skb_cgroup_classid'', [(HPtr ''struct __sk_buff'', ''skb'')], False, 151)"

definition decl_redirect_neigh :: bpf_helper where
  "decl_redirect_neigh = (HInt ''long'', ''bpf_redirect_neigh'', [(HInt ''__u32'', ''ifindex''), (HPtr ''struct bpf_redir_neigh'', ''params''), (HInt ''int'', ''plen''), (HInt ''__u64'', ''flags'')], False, 152)"

definition decl_per_cpu_ptr :: bpf_helper where
  "decl_per_cpu_ptr = (HPtr ''void'', ''bpf_per_cpu_ptr'', [(HPtr ''const void'', ''percpu_ptr''), (HInt ''__u32'', ''cpu'')], False, 153)"

definition decl_this_cpu_ptr :: bpf_helper where
  "decl_this_cpu_ptr = (HPtr ''void'', ''bpf_this_cpu_ptr'', [(HPtr ''const void'', ''percpu_ptr'')], False, 154)"

definition decl_redirect_peer :: bpf_helper where
  "decl_redirect_peer = (HInt ''long'', ''bpf_redirect_peer'', [(HInt ''__u32'', ''ifindex''), (HInt ''__u64'', ''flags'')], False, 155)"

definition decl_task_storage_get :: bpf_helper where
  "decl_task_storage_get = (HPtr ''void'', ''bpf_task_storage_get'', [(HPtr ''void'', ''map''), (HPtr ''struct task_struct'', ''task''), (HPtr ''void'', ''value''), (HInt ''__u64'', ''flags'')], False, 156)"

definition decl_task_storage_delete :: bpf_helper where
  "decl_task_storage_delete = (HInt ''long'', ''bpf_task_storage_delete'', [(HPtr ''void'', ''map''), (HPtr ''struct task_struct'', ''task'')], False, 157)"

definition decl_get_current_task_btf :: bpf_helper where
  "decl_get_current_task_btf = (HPtr ''struct task_struct'', ''bpf_get_current_task_btf'', [], False, 158)"

definition decl_bprm_opts_set :: bpf_helper where
  "decl_bprm_opts_set = (HInt ''long'', ''bpf_bprm_opts_set'', [(HPtr ''struct linux_binprm'', ''bprm''), (HInt ''__u64'', ''flags'')], False, 159)"

definition decl_ktime_get_coarse_ns :: bpf_helper where
  "decl_ktime_get_coarse_ns = (HInt ''__u64'', ''bpf_ktime_get_coarse_ns'', [], False, 160)"

definition decl_ima_inode_hash :: bpf_helper where
  "decl_ima_inode_hash = (HInt ''long'', ''bpf_ima_inode_hash'', [(HPtr ''struct inode'', ''inode''), (HPtr ''void'', ''dst''), (HInt ''__u32'', ''size'')], False, 161)"

definition decl_sock_from_file :: bpf_helper where
  "decl_sock_from_file = (HPtr ''struct socket'', ''bpf_sock_from_file'', [(HPtr ''struct file'', ''file'')], False, 162)"

definition decl_check_mtu :: bpf_helper where
  "decl_check_mtu = (HInt ''long'', ''bpf_check_mtu'', [(HPtr ''void'', ''ctx''), (HInt ''__u32'', ''ifindex''), (HPtr ''__u32'', ''mtu_len''), (HInt ''__s32'', ''len_diff''), (HInt ''__u64'', ''flags'')], False, 163)"

definition decl_for_each_map_elem :: bpf_helper where
  "decl_for_each_map_elem = (HInt ''long'', ''bpf_for_each_map_elem'', [(HPtr ''void'', ''map''), (HPtr ''void'', ''callback_fn''), (HPtr ''void'', ''callback_ctx''), (HInt ''__u64'', ''flags'')], False, 164)"

definition decl_snprintf :: bpf_helper where
  "decl_snprintf = (HInt ''long'', ''bpf_snprintf'', [(HPtr ''char'', ''str''), (HInt ''__u32'', ''str_size''), (HPtr ''const char'', ''fmt''), (HPtr ''__u64'', ''data''), (HInt ''__u32'', ''data_len'')], False, 165)"

definition decl_sys_bpf :: bpf_helper where
  "decl_sys_bpf = (HInt ''long'', ''bpf_sys_bpf'', [(HInt ''__u32'', ''cmd''), (HPtr ''void'', ''attr''), (HInt ''__u32'', ''attr_size'')], False, 166)"

definition decl_btf_find_by_name_kind :: bpf_helper where
  "decl_btf_find_by_name_kind = (HInt ''long'', ''bpf_btf_find_by_name_kind'', [(HPtr ''char'', ''name''), (HInt ''int'', ''name_sz''), (HInt ''__u32'', ''kind''), (HInt ''int'', ''flags'')], False, 167)"

definition decl_sys_close :: bpf_helper where
  "decl_sys_close = (HInt ''long'', ''bpf_sys_close'', [(HInt ''__u32'', ''fd'')], False, 168)"

definition decl_timer_init :: bpf_helper where
  "decl_timer_init = (HInt ''long'', ''bpf_timer_init'', [(HPtr ''struct bpf_timer'', ''timer''), (HPtr ''void'', ''map''), (HInt ''__u64'', ''flags'')], False, 169)"

definition decl_timer_set_callback :: bpf_helper where
  "decl_timer_set_callback = (HInt ''long'', ''bpf_timer_set_callback'', [(HPtr ''struct bpf_timer'', ''timer''), (HPtr ''void'', ''callback_fn'')], False, 170)"

definition decl_timer_start :: bpf_helper where
  "decl_timer_start = (HInt ''long'', ''bpf_timer_start'', [(HPtr ''struct bpf_timer'', ''timer''), (HInt ''__u64'', ''nsecs''), (HInt ''__u64'', ''flags'')], False, 171)"

definition decl_timer_cancel :: bpf_helper where
  "decl_timer_cancel = (HInt ''long'', ''bpf_timer_cancel'', [(HPtr ''struct bpf_timer'', ''timer'')], False, 172)"

definition decl_get_func_ip :: bpf_helper where
  "decl_get_func_ip = (HInt ''__u64'', ''bpf_get_func_ip'', [(HPtr ''void'', ''ctx'')], False, 173)"

definition decl_get_attach_cookie :: bpf_helper where
  "decl_get_attach_cookie = (HInt ''__u64'', ''bpf_get_attach_cookie'', [(HPtr ''void'', ''ctx'')], False, 174)"

definition decl_task_pt_regs :: bpf_helper where
  "decl_task_pt_regs = (HInt ''long'', ''bpf_task_pt_regs'', [(HPtr ''struct task_struct'', ''task'')], False, 175)"

definition decl_get_branch_snapshot :: bpf_helper where
  "decl_get_branch_snapshot = (HInt ''long'', ''bpf_get_branch_snapshot'', [(HPtr ''void'', ''entries''), (HInt ''__u32'', ''size''), (HInt ''__u64'', ''flags'')], False, 176)"

definition decl_trace_vprintk :: bpf_helper where
  "decl_trace_vprintk = (HInt ''long'', ''bpf_trace_vprintk'', [(HPtr ''const char'', ''fmt''), (HInt ''__u32'', ''fmt_size''), (HPtr ''const void'', ''data''), (HInt ''__u32'', ''data_len'')], False, 177)"

definition decl_skc_to_unix_sock :: bpf_helper where
  "decl_skc_to_unix_sock = (HPtr ''struct unix_sock'', ''bpf_skc_to_unix_sock'', [(HPtr ''void'', ''sk'')], False, 178)"

definition decl_kallsyms_lookup_name :: bpf_helper where
  "decl_kallsyms_lookup_name = (HInt ''long'', ''bpf_kallsyms_lookup_name'', [(HPtr ''const char'', ''name''), (HInt ''int'', ''name_sz''), (HInt ''int'', ''flags''), (HPtr ''__u64'', ''res'')], False, 179)"

definition decl_find_vma :: bpf_helper where
  "decl_find_vma = (HInt ''long'', ''bpf_find_vma'', [(HPtr ''struct task_struct'', ''task''), (HInt ''__u64'', ''addr''), (HPtr ''void'', ''callback_fn''), (HPtr ''void'', ''callback_ctx''), (HInt ''__u64'', ''flags'')], False, 180)"

definition decl_loop :: bpf_helper where
  "decl_loop = (HInt ''long'', ''bpf_loop'', [(HInt ''__u32'', ''nr_loops''), (HPtr ''void'', ''callback_fn''), (HPtr ''void'', ''callback_ctx''), (HInt ''__u64'', ''flags'')], False, 181)"

definition decl_strncmp :: bpf_helper where
  "decl_strncmp = (HInt ''long'', ''bpf_strncmp'', [(HPtr ''const char'', ''s1''), (HInt ''__u32'', ''s1_sz''), (HPtr ''const char'', ''s2'')], False, 182)"

definition decl_get_func_arg :: bpf_helper where
  "decl_get_func_arg = (HInt ''long'', ''bpf_get_func_arg'', [(HPtr ''void'', ''ctx''), (HInt ''__u32'', ''n''), (HPtr ''__u64'', ''value'')], False, 183)"

definition decl_get_func_ret :: bpf_helper where
  "decl_get_func_ret = (HInt ''long'', ''bpf_get_func_ret'', [(HPtr ''void'', ''ctx''), (HPtr ''__u64'', ''value'')], False, 184)"

definition decl_get_func_arg_cnt :: bpf_helper where
  "decl_get_func_arg_cnt = (HInt ''long'', ''bpf_get_func_arg_cnt'', [(HPtr ''void'', ''ctx'')], False, 185)"

definition decl_get_retval :: bpf_helper where
  "decl_get_retval = (HInt ''int'', ''bpf_get_retval'', [], False, 186)"

definition decl_set_retval :: bpf_helper where
  "decl_set_retval = (HInt ''int'', ''bpf_set_retval'', [(HInt ''int'', ''retval'')], False, 187)"

definition decl_xdp_get_buff_len :: bpf_helper where
  "decl_xdp_get_buff_len = (HInt ''__u64'', ''bpf_xdp_get_buff_len'', [(HPtr ''struct xdp_md'', ''xdp_md'')], False, 188)"

definition decl_xdp_load_bytes :: bpf_helper where
  "decl_xdp_load_bytes = (HInt ''long'', ''bpf_xdp_load_bytes'', [(HPtr ''struct xdp_md'', ''xdp_md''), (HInt ''__u32'', ''offset''), (HPtr ''void'', ''buf''), (HInt ''__u32'', ''len'')], False, 189)"

definition decl_xdp_store_bytes :: bpf_helper where
  "decl_xdp_store_bytes = (HInt ''long'', ''bpf_xdp_store_bytes'', [(HPtr ''struct xdp_md'', ''xdp_md''), (HInt ''__u32'', ''offset''), (HPtr ''void'', ''buf''), (HInt ''__u32'', ''len'')], False, 190)"

definition decl_copy_from_user_task :: bpf_helper where
  "decl_copy_from_user_task = (HInt ''long'', ''bpf_copy_from_user_task'', [(HPtr ''void'', ''dst''), (HInt ''__u32'', ''size''), (HPtr ''const void'', ''user_ptr''), (HPtr ''struct task_struct'', ''tsk''), (HInt ''__u64'', ''flags'')], False, 191)"

definition decl_skb_set_tstamp :: bpf_helper where
  "decl_skb_set_tstamp = (HInt ''long'', ''bpf_skb_set_tstamp'', [(HPtr ''struct __sk_buff'', ''skb''), (HInt ''__u64'', ''tstamp''), (HInt ''__u32'', ''tstamp_type'')], False, 192)"

definition decl_ima_file_hash :: bpf_helper where
  "decl_ima_file_hash = (HInt ''long'', ''bpf_ima_file_hash'', [(HPtr ''struct file'', ''file''), (HPtr ''void'', ''dst''), (HInt ''__u32'', ''size'')], False, 193)"

definition decl_kptr_xchg :: bpf_helper where
  "decl_kptr_xchg = (HPtr ''void'', ''bpf_kptr_xchg'', [(HPtr ''void'', ''dst''), (HPtr ''void'', ''ptr'')], False, 194)"

definition decl_map_lookup_percpu_elem :: bpf_helper where
  "decl_map_lookup_percpu_elem = (HPtr ''void'', ''bpf_map_lookup_percpu_elem'', [(HPtr ''void'', ''map''), (HPtr ''const void'', ''key''), (HInt ''__u32'', ''cpu'')], False, 195)"

definition decl_skc_to_mptcp_sock :: bpf_helper where
  "decl_skc_to_mptcp_sock = (HPtr ''struct mptcp_sock'', ''bpf_skc_to_mptcp_sock'', [(HPtr ''void'', ''sk'')], False, 196)"

definition decl_dynptr_from_mem :: bpf_helper where
  "decl_dynptr_from_mem = (HInt ''long'', ''bpf_dynptr_from_mem'', [(HPtr ''void'', ''data''), (HInt ''__u64'', ''size''), (HInt ''__u64'', ''flags''), (HPtr ''struct bpf_dynptr'', ''ptr'')], False, 197)"

definition decl_ringbuf_reserve_dynptr :: bpf_helper where
  "decl_ringbuf_reserve_dynptr = (HInt ''long'', ''bpf_ringbuf_reserve_dynptr'', [(HPtr ''void'', ''ringbuf''), (HInt ''__u32'', ''size''), (HInt ''__u64'', ''flags''), (HPtr ''struct bpf_dynptr'', ''ptr'')], False, 198)"

definition decl_ringbuf_submit_dynptr :: bpf_helper where
  "decl_ringbuf_submit_dynptr = (HVoid, ''bpf_ringbuf_submit_dynptr'', [(HPtr ''struct bpf_dynptr'', ''ptr''), (HInt ''__u64'', ''flags'')], False, 199)"

definition decl_ringbuf_discard_dynptr :: bpf_helper where
  "decl_ringbuf_discard_dynptr = (HVoid, ''bpf_ringbuf_discard_dynptr'', [(HPtr ''struct bpf_dynptr'', ''ptr''), (HInt ''__u64'', ''flags'')], False, 200)"

definition decl_dynptr_read :: bpf_helper where
  "decl_dynptr_read = (HInt ''long'', ''bpf_dynptr_read'', [(HPtr ''void'', ''dst''), (HInt ''__u64'', ''len''), (HPtr ''const struct bpf_dynptr'', ''src''), (HInt ''__u64'', ''offset''), (HInt ''__u64'', ''flags'')], False, 201)"

definition decl_dynptr_write :: bpf_helper where
  "decl_dynptr_write = (HInt ''long'', ''bpf_dynptr_write'', [(HPtr ''const struct bpf_dynptr'', ''dst''), (HInt ''__u64'', ''offset''), (HPtr ''void'', ''src''), (HInt ''__u64'', ''len''), (HInt ''__u64'', ''flags'')], False, 202)"

definition decl_dynptr_data :: bpf_helper where
  "decl_dynptr_data = (HPtr ''void'', ''bpf_dynptr_data'', [(HPtr ''const struct bpf_dynptr'', ''ptr''), (HInt ''__u64'', ''offset''), (HInt ''__u64'', ''len'')], False, 203)"

definition decl_tcp_raw_gen_syncookie_ipv4 :: bpf_helper where
  "decl_tcp_raw_gen_syncookie_ipv4 = (HInt ''__s64'', ''bpf_tcp_raw_gen_syncookie_ipv4'', [(HPtr ''struct iphdr'', ''iph''), (HPtr ''struct tcphdr'', ''th''), (HInt ''__u32'', ''th_len'')], False, 204)"

definition decl_tcp_raw_gen_syncookie_ipv6 :: bpf_helper where
  "decl_tcp_raw_gen_syncookie_ipv6 = (HInt ''__s64'', ''bpf_tcp_raw_gen_syncookie_ipv6'', [(HPtr ''struct ipv6hdr'', ''iph''), (HPtr ''struct tcphdr'', ''th''), (HInt ''__u32'', ''th_len'')], False, 205)"

definition decl_tcp_raw_check_syncookie_ipv4 :: bpf_helper where
  "decl_tcp_raw_check_syncookie_ipv4 = (HInt ''long'', ''bpf_tcp_raw_check_syncookie_ipv4'', [(HPtr ''struct iphdr'', ''iph''), (HPtr ''struct tcphdr'', ''th'')], False, 206)"

definition decl_tcp_raw_check_syncookie_ipv6 :: bpf_helper where
  "decl_tcp_raw_check_syncookie_ipv6 = (HInt ''long'', ''bpf_tcp_raw_check_syncookie_ipv6'', [(HPtr ''struct ipv6hdr'', ''iph''), (HPtr ''struct tcphdr'', ''th'')], False, 207)"

definition decl_ktime_get_tai_ns :: bpf_helper where
  "decl_ktime_get_tai_ns = (HInt ''__u64'', ''bpf_ktime_get_tai_ns'', [], False, 208)"

definition decl_user_ringbuf_drain :: bpf_helper where
  "decl_user_ringbuf_drain = (HInt ''long'', ''bpf_user_ringbuf_drain'', [(HPtr ''void'', ''map''), (HPtr ''void'', ''callback_fn''), (HPtr ''void'', ''ctx''), (HInt ''__u64'', ''flags'')], False, 209)"

definition decl_cgrp_storage_get :: bpf_helper where
  "decl_cgrp_storage_get = (HPtr ''void'', ''bpf_cgrp_storage_get'', [(HPtr ''void'', ''map''), (HPtr ''struct cgroup'', ''cgroup''), (HPtr ''void'', ''value''), (HInt ''__u64'', ''flags'')], False, 210)"

definition decl_cgrp_storage_delete :: bpf_helper where
  "decl_cgrp_storage_delete = (HInt ''long'', ''bpf_cgrp_storage_delete'', [(HPtr ''void'', ''map''), (HPtr ''struct cgroup'', ''cgroup'')], False, 211)"

definition helpers_1_7 :: "bpf_helper list" where
  "helpers_1_7 = [decl_map_lookup_elem, decl_map_update_elem, decl_map_delete_elem, decl_probe_read, decl_ktime_get_ns, decl_trace_printk, decl_get_prandom_u32]"

lemmas helpers_1_7_table = helpers_1_7_def decl_map_lookup_elem_def decl_map_update_elem_def decl_map_delete_elem_def decl_probe_read_def decl_ktime_get_ns_def decl_trace_printk_def decl_get_prandom_u32_def

definition helpers_8_12 :: "bpf_helper list" where
  "helpers_8_12 = [decl_get_smp_processor_id, decl_skb_store_bytes, decl_l3_csum_replace, decl_l4_csum_replace, decl_tail_call]"

lemmas helpers_8_12_table = helpers_8_12_def decl_get_smp_processor_id_def decl_skb_store_bytes_def decl_l3_csum_replace_def decl_l4_csum_replace_def decl_tail_call_def

definition helpers_13_19 :: "bpf_helper list" where
  "helpers_13_19 = [decl_clone_redirect, decl_get_current_pid_tgid, decl_get_current_uid_gid, decl_get_current_comm, decl_get_cgroup_classid, decl_skb_vlan_push, decl_skb_vlan_pop]"

lemmas helpers_13_19_table = helpers_13_19_def decl_clone_redirect_def decl_get_current_pid_tgid_def decl_get_current_uid_gid_def decl_get_current_comm_def decl_get_cgroup_classid_def decl_skb_vlan_push_def decl_skb_vlan_pop_def

definition helpers_20_22 :: "bpf_helper list" where
  "helpers_20_22 = [decl_skb_get_tunnel_key, decl_skb_set_tunnel_key, decl_perf_event_read]"

lemmas helpers_20_22_table = helpers_20_22_def decl_skb_get_tunnel_key_def decl_skb_set_tunnel_key_def decl_perf_event_read_def

definition helpers_23_26 :: "bpf_helper list" where
  "helpers_23_26 = [decl_redirect, decl_get_route_realm, decl_perf_event_output, decl_skb_load_bytes]"

lemmas helpers_23_26_table = helpers_23_26_def decl_redirect_def decl_get_route_realm_def decl_perf_event_output_def decl_skb_load_bytes_def

definition helpers_27_31 :: "bpf_helper list" where
  "helpers_27_31 = [decl_get_stackid, decl_csum_diff, decl_skb_get_tunnel_opt, decl_skb_set_tunnel_opt, decl_skb_change_proto]"

lemmas helpers_27_31_table = helpers_27_31_def decl_get_stackid_def decl_csum_diff_def decl_skb_get_tunnel_opt_def decl_skb_set_tunnel_opt_def decl_skb_change_proto_def

definition helpers_32_38 :: "bpf_helper list" where
  "helpers_32_38 = [decl_skb_change_type, decl_skb_under_cgroup, decl_get_hash_recalc, decl_get_current_task, decl_probe_write_user, decl_current_task_under_cgroup, decl_skb_change_tail]"

lemmas helpers_32_38_table = helpers_32_38_def decl_skb_change_type_def decl_skb_under_cgroup_def decl_get_hash_recalc_def decl_get_current_task_def decl_probe_write_user_def decl_current_task_under_cgroup_def decl_skb_change_tail_def

definition helpers_39_45 :: "bpf_helper list" where
  "helpers_39_45 = [decl_skb_pull_data, decl_csum_update, decl_set_hash_invalid, decl_get_numa_node_id, decl_skb_change_head, decl_xdp_adjust_head, decl_probe_read_str]"

lemmas helpers_39_45_table = helpers_39_45_def decl_skb_pull_data_def decl_csum_update_def decl_set_hash_invalid_def decl_get_numa_node_id_def decl_skb_change_head_def decl_xdp_adjust_head_def decl_probe_read_str_def

definition helpers_46_50 :: "bpf_helper list" where
  "helpers_46_50 = [decl_get_socket_cookie, decl_get_socket_uid, decl_set_hash, decl_setsockopt, decl_skb_adjust_room]"

lemmas helpers_46_50_table = helpers_46_50_def decl_get_socket_cookie_def decl_get_socket_uid_def decl_set_hash_def decl_setsockopt_def decl_skb_adjust_room_def

definition helpers_51_54 :: "bpf_helper list" where
  "helpers_51_54 = [decl_redirect_map, decl_sk_redirect_map, decl_sock_map_update, decl_xdp_adjust_meta]"

lemmas helpers_51_54_table = helpers_51_54_def decl_redirect_map_def decl_sk_redirect_map_def decl_sock_map_update_def decl_xdp_adjust_meta_def

definition helpers_55_58 :: "bpf_helper list" where
  "helpers_55_58 = [decl_perf_event_read_value, decl_perf_prog_read_value, decl_getsockopt, decl_override_return]"

lemmas helpers_55_58_table = helpers_55_58_def decl_perf_event_read_value_def decl_perf_prog_read_value_def decl_getsockopt_def decl_override_return_def

definition helpers_59_62 :: "bpf_helper list" where
  "helpers_59_62 = [decl_sock_ops_cb_flags_set, decl_msg_redirect_map, decl_msg_apply_bytes, decl_msg_cork_bytes]"

lemmas helpers_59_62_table = helpers_59_62_def decl_sock_ops_cb_flags_set_def decl_msg_redirect_map_def decl_msg_apply_bytes_def decl_msg_cork_bytes_def

definition helpers_63_67 :: "bpf_helper list" where
  "helpers_63_67 = [decl_msg_pull_data, decl_bind, decl_xdp_adjust_tail, decl_skb_get_xfrm_state, decl_get_stack]"

lemmas helpers_63_67_table = helpers_63_67_def decl_msg_pull_data_def decl_bind_def decl_xdp_adjust_tail_def decl_skb_get_xfrm_state_def decl_get_stack_def

definition helpers_68_72 :: "bpf_helper list" where
  "helpers_68_72 = [decl_skb_load_bytes_relative, decl_fib_lookup, decl_sock_hash_update, decl_msg_redirect_hash, decl_sk_redirect_hash]"

lemmas helpers_68_72_table = helpers_68_72_def decl_skb_load_bytes_relative_def decl_fib_lookup_def decl_sock_hash_update_def decl_msg_redirect_hash_def decl_sk_redirect_hash_def

definition helpers_73_77 :: "bpf_helper list" where
  "helpers_73_77 = [decl_lwt_push_encap, decl_lwt_seg6_store_bytes, decl_lwt_seg6_adjust_srh, decl_lwt_seg6_action, decl_rc_repeat]"

lemmas helpers_73_77_table = helpers_73_77_def decl_lwt_push_encap_def decl_lwt_seg6_store_bytes_def decl_lwt_seg6_adjust_srh_def decl_lwt_seg6_action_def decl_rc_repeat_def

definition helpers_78_83 :: "bpf_helper list" where
  "helpers_78_83 = [decl_rc_keydown, decl_skb_cgroup_id, decl_get_current_cgroup_id, decl_get_local_storage, decl_sk_select_reuseport, decl_skb_ancestor_cgroup_id]"

lemmas helpers_78_83_table = helpers_78_83_def decl_rc_keydown_def decl_skb_cgroup_id_def decl_get_current_cgroup_id_def decl_get_local_storage_def decl_sk_select_reuseport_def decl_skb_ancestor_cgroup_id_def

definition helpers_84_90 :: "bpf_helper list" where
  "helpers_84_90 = [decl_sk_lookup_tcp, decl_sk_lookup_udp, decl_sk_release, decl_map_push_elem, decl_map_pop_elem, decl_map_peek_elem, decl_msg_push_data]"

lemmas helpers_84_90_table = helpers_84_90_def decl_sk_lookup_tcp_def decl_sk_lookup_udp_def decl_sk_release_def decl_map_push_elem_def decl_map_pop_elem_def decl_map_peek_elem_def decl_msg_push_data_def

definition helpers_91_98 :: "bpf_helper list" where
  "helpers_91_98 = [decl_msg_pop_data, decl_rc_pointer_rel, decl_spin_lock, decl_spin_unlock, decl_sk_fullsock, decl_tcp_sock, decl_skb_ecn_set_ce, decl_get_listener_sock]"

lemmas helpers_91_98_table = helpers_91_98_def decl_msg_pop_data_def decl_rc_pointer_rel_def decl_spin_lock_def decl_spin_unlock_def decl_sk_fullsock_def decl_tcp_sock_def decl_skb_ecn_set_ce_def decl_get_listener_sock_def

definition helpers_99_104 :: "bpf_helper list" where
  "helpers_99_104 = [decl_skc_lookup_tcp, decl_tcp_check_syncookie, decl_sysctl_get_name, decl_sysctl_get_current_value, decl_sysctl_get_new_value, decl_sysctl_set_new_value]"

lemmas helpers_99_104_table = helpers_99_104_def decl_skc_lookup_tcp_def decl_tcp_check_syncookie_def decl_sysctl_get_name_def decl_sysctl_get_current_value_def decl_sysctl_get_new_value_def decl_sysctl_set_new_value_def

definition helpers_105_109 :: "bpf_helper list" where
  "helpers_105_109 = [decl_strtol, decl_strtoul, decl_sk_storage_get, decl_sk_storage_delete, decl_send_signal]"

lemmas helpers_105_109_table = helpers_105_109_def decl_strtol_def decl_strtoul_def decl_sk_storage_get_def decl_sk_storage_delete_def decl_send_signal_def

definition helpers_110_115 :: "bpf_helper list" where
  "helpers_110_115 = [decl_tcp_gen_syncookie, decl_skb_output, decl_probe_read_user, decl_probe_read_kernel, decl_probe_read_user_str, decl_probe_read_kernel_str]"

lemmas helpers_110_115_table = helpers_110_115_def decl_tcp_gen_syncookie_def decl_skb_output_def decl_probe_read_user_def decl_probe_read_kernel_def decl_probe_read_user_str_def decl_probe_read_kernel_str_def

definition helpers_116_123 :: "bpf_helper list" where
  "helpers_116_123 = [decl_tcp_send_ack, decl_send_signal_thread, decl_jiffies64, decl_read_branch_records, decl_get_ns_current_pid_tgid, decl_xdp_output, decl_get_netns_cookie, decl_get_current_ancestor_cgroup_id]"

lemmas helpers_116_123_table = helpers_116_123_def decl_tcp_send_ack_def decl_send_signal_thread_def decl_jiffies64_def decl_read_branch_records_def decl_get_ns_current_pid_tgid_def decl_xdp_output_def decl_get_netns_cookie_def decl_get_current_ancestor_cgroup_id_def

definition helpers_124_129 :: "bpf_helper list" where
  "helpers_124_129 = [decl_sk_assign, decl_ktime_get_boot_ns, decl_seq_printf, decl_seq_write, decl_sk_cgroup_id, decl_sk_ancestor_cgroup_id]"

lemmas helpers_124_129_table = helpers_124_129_def decl_sk_assign_def decl_ktime_get_boot_ns_def decl_seq_printf_def decl_seq_write_def decl_sk_cgroup_id_def decl_sk_ancestor_cgroup_id_def

definition helpers_130_137 :: "bpf_helper list" where
  "helpers_130_137 = [decl_ringbuf_output, decl_ringbuf_reserve, decl_ringbuf_submit, decl_ringbuf_discard, decl_ringbuf_query, decl_csum_level, decl_skc_to_tcp6_sock, decl_skc_to_tcp_sock]"

lemmas helpers_130_137_table = helpers_130_137_def decl_ringbuf_output_def decl_ringbuf_reserve_def decl_ringbuf_submit_def decl_ringbuf_discard_def decl_ringbuf_query_def decl_csum_level_def decl_skc_to_tcp6_sock_def decl_skc_to_tcp_sock_def

definition helpers_138_142 :: "bpf_helper list" where
  "helpers_138_142 = [decl_skc_to_tcp_timewait_sock, decl_skc_to_tcp_request_sock, decl_skc_to_udp6_sock, decl_get_task_stack, decl_load_hdr_opt]"

lemmas helpers_138_142_table = helpers_138_142_def decl_skc_to_tcp_timewait_sock_def decl_skc_to_tcp_request_sock_def decl_skc_to_udp6_sock_def decl_get_task_stack_def decl_load_hdr_opt_def

definition helpers_143_148 :: "bpf_helper list" where
  "helpers_143_148 = [decl_store_hdr_opt, decl_reserve_hdr_opt, decl_inode_storage_get, decl_inode_storage_delete, decl_d_path, decl_copy_from_user]"

lemmas helpers_143_148_table = helpers_143_148_def decl_store_hdr_opt_def decl_reserve_hdr_opt_def decl_inode_storage_get_def decl_inode_storage_delete_def decl_d_path_def decl_copy_from_user_def

definition helpers_149_155 :: "bpf_helper list" where
  "helpers_149_155 = [decl_snprintf_btf, decl_seq_printf_btf, decl_skb_cgroup_classid, decl_redirect_neigh, decl_per_cpu_ptr, decl_this_cpu_ptr, decl_redirect_peer]"

lemmas helpers_149_155_table = helpers_149_155_def decl_snprintf_btf_def decl_seq_printf_btf_def decl_skb_cgroup_classid_def decl_redirect_neigh_def decl_per_cpu_ptr_def decl_this_cpu_ptr_def decl_redirect_peer_def

definition helpers_156_162 :: "bpf_helper list" where
  "helpers_156_162 = [decl_task_storage_get, decl_task_storage_delete, decl_get_current_task_btf, decl_bprm_opts_set, decl_ktime_get_coarse_ns, decl_ima_inode_hash, decl_sock_from_file]"

lemmas helpers_156_162_table = helpers_156_162_def decl_task_storage_get_def decl_task_storage_delete_def decl_get_current_task_btf_def decl_bprm_opts_set_def decl_ktime_get_coarse_ns_def decl_ima_inode_hash_def decl_sock_from_file_def

definition helpers_163_166 :: "bpf_helper list" where
  "helpers_163_166 = [decl_check_mtu, decl_for_each_map_elem, decl_snprintf, decl_sys_bpf]"

lemmas helpers_163_166_table = helpers_163_166_def decl_check_mtu_def decl_for_each_map_elem_def decl_snprintf_def decl_sys_bpf_def

definition helpers_167_174 :: "bpf_helper list" where
  "helpers_167_174 = [decl_btf_find_by_name_kind, decl_sys_close, decl_timer_init, decl_timer_set_callback, decl_timer_start, decl_timer_cancel, decl_get_func_ip, decl_get_attach_cookie]"

lemmas helpers_167_174_table = helpers_167_174_def decl_btf_find_by_name_kind_def decl_sys_close_def decl_timer_init_def decl_timer_set_callback_def decl_timer_start_def decl_timer_cancel_def decl_get_func_ip_def decl_get_attach_cookie_def

definition helpers_175_182 :: "bpf_helper list" where
  "helpers_175_182 = [decl_task_pt_regs, decl_get_branch_snapshot, decl_trace_vprintk, decl_skc_to_unix_sock, decl_kallsyms_lookup_name, decl_find_vma, decl_loop, decl_strncmp]"

lemmas helpers_175_182_table = helpers_175_182_def decl_task_pt_regs_def decl_get_branch_snapshot_def decl_trace_vprintk_def decl_skc_to_unix_sock_def decl_kallsyms_lookup_name_def decl_find_vma_def decl_loop_def decl_strncmp_def

definition helpers_183_191 :: "bpf_helper list" where
  "helpers_183_191 = [decl_get_func_arg, decl_get_func_ret, decl_get_func_arg_cnt, decl_get_retval, decl_set_retval, decl_xdp_get_buff_len, decl_xdp_load_bytes, decl_xdp_store_bytes, decl_copy_from_user_task]"

lemmas helpers_183_191_table = helpers_183_191_def decl_get_func_arg_def decl_get_func_ret_def decl_get_func_arg_cnt_def decl_get_retval_def decl_set_retval_def decl_xdp_get_buff_len_def decl_xdp_load_bytes_def decl_xdp_store_bytes_def decl_copy_from_user_task_def

definition helpers_192_200 :: "bpf_helper list" where
  "helpers_192_200 = [decl_skb_set_tstamp, decl_ima_file_hash, decl_kptr_xchg, decl_map_lookup_percpu_elem, decl_skc_to_mptcp_sock, decl_dynptr_from_mem, decl_ringbuf_reserve_dynptr, decl_ringbuf_submit_dynptr, decl_ringbuf_discard_dynptr]"

lemmas helpers_192_200_table = helpers_192_200_def decl_skb_set_tstamp_def decl_ima_file_hash_def decl_kptr_xchg_def decl_map_lookup_percpu_elem_def decl_skc_to_mptcp_sock_def decl_dynptr_from_mem_def decl_ringbuf_reserve_dynptr_def decl_ringbuf_submit_dynptr_def decl_ringbuf_discard_dynptr_def

definition helpers_201_207 :: "bpf_helper list" where
  "helpers_201_207 = [decl_dynptr_read, decl_dynptr_write, decl_dynptr_data, decl_tcp_raw_gen_syncookie_ipv4, decl_tcp_raw_gen_syncookie_ipv6, decl_tcp_raw_check_syncookie_ipv4, decl_tcp_raw_check_syncookie_ipv6]"

lemmas helpers_201_207_table = helpers_201_207_def decl_dynptr_read_def decl_dynptr_write_def decl_dynptr_data_def decl_tcp_raw_gen_syncookie_ipv4_def decl_tcp_raw_gen_syncookie_ipv6_def decl_tcp_raw_check_syncookie_ipv4_def decl_tcp_raw_check_syncookie_ipv6_def

definition helpers_208_211 :: "bpf_helper list" where
  "helpers_208_211 = [decl_ktime_get_tai_ns, decl_user_ringbuf_drain, decl_cgrp_storage_get, decl_cgrp_storage_delete]"

lemmas helpers_208_211_table = helpers_208_211_def decl_ktime_get_tai_ns_def decl_user_ringbuf_drain_def decl_cgrp_storage_get_def decl_cgrp_storage_delete_def

definition bpf_helper_defs :: "bpf_helper list" where
  "bpf_helper_defs =
     helpers_1_7 @
     helpers_8_12 @
     helpers_13_19 @
     helpers_20_22 @
     helpers_23_26 @
     helpers_27_31 @
     helpers_32_38 @
     helpers_39_45 @
     helpers_46_50 @
     helpers_51_54 @
     helpers_55_58 @
     helpers_59_62 @
     helpers_63_67 @
     helpers_68_72 @
     helpers_73_77 @
     helpers_78_83 @
     helpers_84_90 @
     helpers_91_98 @
     helpers_99_104 @
     helpers_105_109 @
     helpers_110_115 @
     helpers_116_123 @
     helpers_124_129 @
     helpers_130_137 @
     helpers_138_142 @
     helpers_143_148 @
     helpers_149_155 @
     helpers_156_162 @
     helpers_163_166 @
     helpers_167_174 @
     helpers_175_182 @
     helpers_183_191 @
     helpers_192_200 @
     helpers_201_207 @
     helpers_208_211"

lemmas helper_tables = bpf_helper_defs_def
  helpers_1_7_table helpers_8_12_table helpers_13_19_table helpers_20_22_table helpers_23_26_table helpers_27_31_table helpers_32_38_table helpers_39_45_table helpers_46_50_table helpers_51_54_table helpers_55_58_table helpers_59_62_table helpers_63_67_table helpers_68_72_table helpers_73_77_table helpers_78_83_table helpers_84_90_table helpers_91_98_table helpers_99_104_table helpers_105_109_table helpers_110_115_table helpers_116_123_table helpers_124_129_table helpers_130_137_table helpers_138_142_table helpers_143_148_table helpers_149_155_table helpers_156_162_table helpers_163_166_table helpers_167_174_table helpers_175_182_table helpers_183_191_table helpers_192_200_table helpers_201_207_table helpers_208_211_table

definition bpf_func_id_low :: "(string \<times> nat) list" where
  "bpf_func_id_low = [
    (''BPF_FUNC_unspec'', 0),
    (''BPF_FUNC_map_lookup_elem'', 1),
    (''BPF_FUNC_map_update_elem'', 2),
    (''BPF_FUNC_map_delete_elem'', 3),
    (''BPF_FUNC_probe_read'', 4),
    (''BPF_FUNC_ktime_get_ns'', 5),
    (''BPF_FUNC_trace_printk'', 6),
    (''BPF_FUNC_get_prandom_u32'', 7),
    (''BPF_FUNC_get_smp_processor_id'', 8),
    (''BPF_FUNC_skb_store_bytes'', 9),
    (''BPF_FUNC_l3_csum_replace'', 10),
    (''BPF_FUNC_l4_csum_replace'', 11),
    (''BPF_FUNC_tail_call'', 12),
    (''BPF_FUNC_clone_redirect'', 13),
    (''BPF_FUNC_get_current_pid_tgid'', 14),
    (''BPF_FUNC_get_current_uid_gid'', 15),
    (''BPF_FUNC_get_current_comm'', 16),
    (''BPF_FUNC_get_cgroup_classid'', 17),
    (''BPF_FUNC_skb_vlan_push'', 18),
    (''BPF_FUNC_skb_vlan_pop'', 19),
    (''BPF_FUNC_skb_get_tunnel_key'', 20),
    (''BPF_FUNC_skb_set_tunnel_key'', 21),
    (''BPF_FUNC_perf_event_read'', 22),
    (''BPF_FUNC_redirect'', 23),
    (''BPF_FUNC_get_route_realm'', 24),
    (''BPF_FUNC_perf_event_output'', 25),
    (''BPF_FUNC_skb_load_bytes'', 26),
    (''BPF_FUNC_get_stackid'', 27),
    (''BPF_FUNC_csum_diff'', 28),
    (''BPF_FUNC_skb_get_tunnel_opt'', 29),
    (''BPF_FUNC_skb_set_tunnel_opt'', 30),
    (''BPF_FUNC_skb_change_proto'', 31),
    (''BPF_FUNC_skb_change_type'', 32),
    (''BPF_FUNC_skb_under_cgroup'', 33),
    (''BPF_FUNC_get_hash_recalc'', 34),
    (''BPF_FUNC_get_current_task'', 35),
    (''BPF_FUNC_probe_write_user'', 36),
    (''BPF_FUNC_current_task_under_cgroup'', 37),
    (''BPF_FUNC_skb_change_tail'', 38),
    (''BPF_FUNC_skb_pull_data'', 39),
    (''BPF_FUNC_csum_update'', 40),
    (''BPF_FUNC_set_hash_invalid'', 41),
    (''BPF_FUNC_get_numa_node_id'', 42),
    (''BPF_FUNC_skb_change_head'', 43),
    (''BPF_FUNC_xdp_adjust_head'', 44),
    (''BPF_FUNC_probe_read_str'', 45),
    (''BPF_FUNC_get_socket_cookie'', 46),
    (''BPF_FUNC_get_socket_uid'', 47),
    (''BPF_FUNC_set_hash'', 48),
    (''BPF_FUNC_setsockopt'', 49),
    (''BPF_FUNC_skb_adjust_room'', 50),
    (''BPF_FUNC_redirect_map'', 51),
    (''BPF_FUNC_sk_redirect_map'', 52),
    (''BPF_FUNC_sock_map_update'', 53),
    (''BPF_FUNC_xdp_adjust_meta'', 54),
    (''BPF_FUNC_perf_event_read_value'', 55),
    (''BPF_FUNC_perf_prog_read_value'', 56),
    (''BPF_FUNC_getsockopt'', 57),
    (''BPF_FUNC_override_return'', 58),
    (''BPF_FUNC_sock_ops_cb_flags_set'', 59),
    (''BPF_FUNC_msg_redirect_map'', 60),
    (''BPF_FUNC_msg_apply_bytes'', 61),
    (''BPF_FUNC_msg_cork_bytes'', 62),
    (''BPF_FUNC_msg_pull_data'', 63),
    (''BPF_FUNC_bind'', 64),
    (''BPF_FUNC_xdp_adjust_tail'', 65),
    (''BPF_FUNC_skb_get_xfrm_state'', 66),
    (''BPF_FUNC_get_stack'', 67),
    (''BPF_FUNC_skb_load_bytes_relative'', 68),
    (''BPF_FUNC_fib_lookup'', 69),
    (''BPF_FUNC_sock_hash_update'', 70),
    (''BPF_FUNC_msg_redirect_hash'', 71),
    (''BPF_FUNC_sk_redirect_hash'', 72),
    (''BPF_FUNC_lwt_push_encap'', 73),
    (''BPF_FUNC_lwt_seg6_store_bytes'', 74),
    (''BPF_FUNC_lwt_seg6_adjust_srh'', 75),
    (''BPF_FUNC_lwt_seg6_action'', 76),
    (''BPF_FUNC_rc_repeat'', 77),
    (''BPF_FUNC_rc_keydown'', 78),
    (''BPF_FUNC_skb_cgroup_id'', 79),
    (''BPF_FUNC_get_current_cgroup_id'', 80),
    (''BPF_FUNC_get_local_storage'', 81),
    (''BPF_FUNC_sk_select_reuseport'', 82),
    (''BPF_FUNC_skb_ancestor_cgroup_id'', 83),
    (''BPF_FUNC_sk_lookup_tcp'', 84),
    (''BPF_FUNC_sk_lookup_udp'', 85),
    (''BPF_FUNC_sk_release'', 86),
    (''BPF_FUNC_map_push_elem'', 87),
    (''BPF_FUNC_map_pop_elem'', 88),
    (''BPF_FUNC_map_peek_elem'', 89),
    (''BPF_FUNC_msg_push_data'', 90),
    (''BPF_FUNC_msg_pop_data'', 91),
    (''BPF_FUNC_rc_pointer_rel'', 92),
    (''BPF_FUNC_spin_lock'', 93),
    (''BPF_FUNC_spin_unlock'', 94),
    (''BPF_FUNC_sk_fullsock'', 95),
    (''BPF_FUNC_tcp_sock'', 96),
    (''BPF_FUNC_skb_ecn_set_ce'', 97),
    (''BPF_FUNC_get_listener_sock'', 98),
    (''BPF_FUNC_skc_lookup_tcp'', 99),
    (''BPF_FUNC_tcp_check_syncookie'', 100),
    (''BPF_FUNC_sysctl_get_name'', 101),
    (''BPF_FUNC_sysctl_get_current_value'', 102),
    (''BPF_FUNC_sysctl_get_new_value'', 103),
    (''BPF_FUNC_sysctl_set_new_value'', 104),
    (''BPF_FUNC_strtol'', 105)]"

definition bpf_func_id_high :: "(string \<times> nat) list" where
  "bpf_func_id_high = [
    (''BPF_FUNC_strtoul'', 106),
    (''BPF_FUNC_sk_storage_get'', 107),
    (''BPF_FUNC_sk_storage_delete'', 108),
    (''BPF_FUNC_send_signal'', 109),
    (''BPF_FUNC_tcp_gen_syncookie'', 110),
    (''BPF_FUNC_skb_output'', 111),
    (''BPF_FUNC_probe_read_user'', 112),
    (''BPF_FUNC_probe_read_kernel'', 113),
    (''BPF_FUNC_probe_read_user_str'', 114),
    (''BPF_FUNC_probe_read_kernel_str'', 115),
    (''BPF_FUNC_tcp_send_ack'', 116),
    (''BPF_FUNC_send_signal_thread'', 117),
    (''BPF_FUNC_jiffies64'', 118),
    (''BPF_FUNC_read_branch_records'', 119),
    (''BPF_FUNC_get_ns_current_pid_tgid'', 120),
    (''BPF_FUNC_xdp_output'', 121),
    (''BPF_FUNC_get_netns_cookie'', 122),
    (''BPF_FUNC_get_current_ancestor_cgroup_id'', 123),
    (''BPF_FUNC_sk_assign'', 124),
    (''BPF_FUNC_ktime_get_boot_ns'', 125),
    (''BPF_FUNC_seq_printf'', 126),
    (''BPF_FUNC_seq_write'', 127),
    (''BPF_FUNC_sk_cgroup_id'', 128),
    (''BPF_FUNC_sk_ancestor_cgroup_id'', 129),
    (''BPF_FUNC_ringbuf_output'', 130),
    (''BPF_FUNC_ringbuf_reserve'', 131),
    (''BPF_FUNC_ringbuf_submit'', 132),
    (''BPF_FUNC_ringbuf_discard'', 133),
    (''BPF_FUNC_ringbuf_query'', 134),
    (''BPF_FUNC_csum_level'', 135),
    (''BPF_FUNC_skc_to_tcp6_sock'', 136),
    (''BPF_FUNC_skc_to_tcp_sock'', 137),
    (''BPF_FUNC_skc_to_tcp_timewait_sock'', 138),
    (''BPF_FUNC_skc_to_tcp_request_sock'', 139),
    (''BPF_FUNC_skc_to_udp6_sock'', 140),
    (''BPF_FUNC_get_task_stack'', 141),
    (''BPF_FUNC_load_hdr_opt'', 142),
    (''BPF_FUNC_store_hdr_opt'', 143),
    (''BPF_FUNC_reserve_hdr_opt'', 144),
    (''BPF_FUNC_inode_storage_get'', 145),
    (''BPF_FUNC_inode_storage_delete'', 146),
    (''BPF_FUNC_d_path'', 147),
    (''BPF_FUNC_copy_from_user'', 148),
    (''BPF_FUNC_snprintf_btf'', 149),
    (''BPF_FUNC_seq_printf_btf'', 150),
    (''BPF_FUNC_skb_cgroup_classid'', 151),
    (''BPF_FUNC_redirect_neigh'', 152),
    (''BPF_FUNC_per_cpu_ptr'', 153),
    (''BPF_FUNC_this_cpu_ptr'', 154),
    (''BPF_FUNC_redirect_peer'', 155),
    (''BPF_FUNC_task_storage_get'', 156),
    (''BPF_FUNC_task_storage_delete'', 157),
    (''BPF_FUNC_get_current_task_btf'', 158),
    (''BPF_FUNC_bprm_opts_set'', 159),
    (''BPF_FUNC_ktime_get_coarse_ns'', 160),
    (''BPF_FUNC_ima_inode_hash'', 161),
    (''BPF_FUNC_sock_from_file'', 162),
    (''BPF_FUNC_check_mtu'', 163),
    (''BPF_FUNC_for_each_map_elem'', 164),
    (''BPF_FUNC_snprintf'', 165),
    (''BPF_FUNC_sys_bpf'', 166),
    (''BPF_FUNC_btf_find_by_name_kind'', 167),
    (''BPF_FUNC_sys_close'', 168),
    (''BPF_FUNC_timer_init'', 169),
    (''BPF_FUNC_timer_set_callback'', 170),
    (''BPF_FUNC_timer_start'', 171),
    (''BPF_FUNC_timer_cancel'', 172),
    (''BPF_FUNC_get_func_ip'', 173),
    (''BPF_FUNC_get_attach_cookie'', 174),
    (''BPF_FUNC_task_pt_regs'', 175),
    (''BPF_FUNC_get_branch_snapshot'', 176),
    (''BPF_FUNC_trace_vprintk'', 177),
    (''BPF_FUNC_skc_to_unix_sock'', 178),
    (''BPF_FUNC_kallsyms_lookup_name'', 179),
    (''BPF_FUNC_find_vma'', 180),
    (''BPF_FUNC_loop'', 181),
    (''BPF_FUNC_strncmp'', 182),
    (''BPF_FUNC_get_func_arg'', 183),
    (''BPF_FUNC_get_func_ret'', 184),
    (''BPF_FUNC_get_func_arg_cnt'', 185),
    (''BPF_FUNC_get_retval'', 186),
    (''BPF_FUNC_set_retval'', 187),
    (''BPF_FUNC_xdp_get_buff_len'', 188),
    (''BPF_FUNC_xdp_load_bytes'', 189),
    (''BPF_FUNC_xdp_store_bytes'', 190),
    (''BPF_FUNC_copy_from_user_task'', 191),
    (''BPF_FUNC_skb_set_tstamp'', 192),
    (''BPF_FUNC_ima_file_hash'', 193),
    (''BPF_FUNC_kptr_xchg'', 194),
    (''BPF_FUNC_map_lookup_percpu_elem'', 195),
    (''BPF_FUNC_skc_to_mptcp_sock'', 196),
    (''BPF_FUNC_dynptr_from_mem'', 197),
    (''BPF_FUNC_ringbuf_reserve_dynptr'', 198),
    (''BPF_FUNC_ringbuf_submit_dynptr'', 199),
    (''BPF_FUNC_ringbuf_discard_dynptr'', 200),
    (''BPF_FUNC_dynptr_read'', 201),
    (''BPF_FUNC_dynptr_write'', 202),
    (''BPF_FUNC_dynptr_data'', 203),
    (''BPF_FUNC_tcp_raw_gen_syncookie_ipv4'', 204),
    (''BPF_FUNC_tcp_raw_gen_syncookie_ipv6'', 205),
    (''BPF_FUNC_tcp_raw_check_syncookie_ipv4'', 206),
    (''BPF_FUNC_tcp_raw_check_syncookie_ipv6'', 207),
    (''BPF_FUNC_ktime_get_tai_ns'', 208),
    (''BPF_FUNC_user_ringbuf_drain'', 209),
    (''BPF_FUNC_cgrp_storage_get'', 210),
    (''BPF_FUNC_cgrp_storage_delete'', 211),
    (''__BPF_FUNC_MAX_ID'', 212)]"

definition bpf_func_id :: "(string \<times> nat) list" where
  "bpf_func_id = bpf_func_id_low @ bpf_func_id_high"


section \<open>The two lists agree\<close>

primrec numbered :: "nat \<Rightarrow> bpf_helper list \<Rightarrow> bool" where
  "numbered n [] = True"
| "numbered n (h # hs) = (h_id h = n \<and> numbered (Suc n) hs)"

lemma numbered_upt: "numbered n hs \<Longrightarrow> map h_id hs = [n..<n + length hs]"
proof (induction hs arbitrary: n)
  case (Cons h hs)
  have "map h_id hs = [Suc n..<Suc n + length hs]" and "h_id h = n"
    using Cons.IH [of "Suc n"] Cons.prems by simp_all
  then show ?case by (simp add: upt_conv_Cons del: upt_Suc)
qed simp

lemma helpers_numbered: "numbered 1 bpf_helper_defs" "length bpf_helper_defs = 211"
  by (simp_all add: helper_tables h_id_def)

lemma helper_ids: "map h_id bpf_helper_defs = [1..<212]"
  using numbered_upt [OF helpers_numbered(1)] by (simp add: helpers_numbered(2))

text \<open>The enum constant of a helper: \<open>BPF_FUNC_\<close> for the prefix \<open>bpf_\<close>.\<close>

fun func_id_name :: "string \<Rightarrow> string" where
  "func_id_name (c1 # c2 # c3 # c4 # nm) = ''BPF_FUNC_'' @ nm"
| "func_id_name nm = nm"

lemma helper_enum:
  "(''BPF_FUNC_unspec'', 0) # map (\<lambda>h. (func_id_name (h_name h), h_id h)) bpf_helper_defs @ [(''__BPF_FUNC_MAX_ID'', 212)]
   = bpf_func_id"
  by (simp only: helper_tables helper_fields bpf_func_id_def bpf_func_id_low_def bpf_func_id_high_def
      list.map append_Cons append_Nil prod.case func_id_name.simps(1))

lemma helper_prefix: "list_all (\<lambda>h. take 4 (h_name h) = ''bpf_'') bpf_helper_defs"
  by (simp add: helper_tables helper_fields)

lemma helper_registers: "list_all (\<lambda>h. length (h_params h) \<le> 5) bpf_helper_defs"
  by (simp add: helper_tables helper_fields)

section \<open>Calls\<close>

definition helper_id :: "string \<Rightarrow> nat option" where
  "helper_id nm = map_option h_id (find (\<lambda>h. h_name h = nm) bpf_helper_defs)"

text \<open>A call passes its arguments in the registers 1 to 5; a variadic helper may get more than it declares.\<close>

definition call_ok :: "bpf_helper \<Rightarrow> nat \<Rightarrow> bool" where
  "call_ok h n \<longleftrightarrow> n \<le> 5 \<and> (if h_variadic h then length (h_params h) \<le> n else n = length (h_params h))"

text \<open>
  The number a program calls for a helper is the number the kernel's enum gives the helper of
  that name, and the enum has no number besides these, its zero and its end marker.
\<close>

theorem helper_numbers_match_enum:
  "(''BPF_FUNC_unspec'', 0) # map (\<lambda>h. (func_id_name (h_name h), h_id h)) bpf_helper_defs @ [(''__BPF_FUNC_MAX_ID'', 212)]
     = bpf_func_id
   \<and> map h_id bpf_helper_defs = [1..<212]"
  using helper_enum helper_ids by blast

text \<open>
  Every helper declares at most the five parameters that the registers can hold.
\<close>

lemma helper_arguments_fit:
  "list_all (\<lambda>h. call_ok h (length (h_params h))) bpf_helper_defs"
  using helper_registers by (auto simp: list_all_iff call_ok_def)

end
