(* ===== verification/Bpf_Helpers.thy ===== *)
theory Bpf_Helpers
  imports Core_Read Helper_Defs
begin

text \<open>
  The macros of \<open>src/ebpf/include/bpf/bpf_helpers.h\<close> that compute something: version numbers,
  \<open>offsetof\<close> and \<open>container_of\<close>, the variadic argument machinery behind the printing macros, the
  static tail call and the loops over open-coded iterators.  The iterators themselves are kernel
  functions and so parameters.

  Shown here: kernel versions compare like their components; the printing macros hand each helper
  an argument array with the arguments in order and stay within the argument registers; \<open>bpf_for\<close>
  never runs its body outside the stated range, whatever the iterator returns, and runs it once
  for each number of the range when the iterator counts.
\<close>

section \<open>Versions and containers\<close>

definition KERNEL_VERSION :: "u32 \<Rightarrow> u32 \<Rightarrow> u32 \<Rightarrow> u32" where
  "KERNEL_VERSION a b c = push_bit 16 a + push_bit 8 b + (if c > 255 then 255 else c)"

text \<open>\<open>&((type *)0)->member\<close>, with the offset the compiler or the CO-RE loader puts in.\<close>

definition c_offsetof :: "offsets \<Rightarrow> accessor \<Rightarrow> u64" where
  "c_offsetof off a = field_addr off 0 a"

definition container_of :: "offsets \<Rightarrow> addr \<Rightarrow> accessor \<Rightarrow> addr" where
  "container_of off ptr a = ptr - c_offsetof off a"


section \<open>Variadic macros\<close>

definition bpf_nth :: "'a list \<Rightarrow> 'a option" where
  "bpf_nth xs = (if 13 < length xs then Some (xs ! 13) else None)"

definition bpf_narg :: "'a list \<Rightarrow> nat option" where
  "bpf_narg args =
     Option.bind (bpf_nth (None # map (\<lambda>_. None) args @ map Some [12, 11, 10, 9, 8, 7, 6, 5, 4, 3, 2, 1, 0])) id"

text \<open>
  \<open>___bpf_fill\<close>\<open>n\<close>: the numbered macros store their first argument at \<open>p\<close> and leave the others to
  the next lower one.
\<close>

fun bpf_fillN :: "nat \<Rightarrow> 'a list \<Rightarrow> nat \<Rightarrow> 'a list \<Rightarrow> 'a list option" where
  "bpf_fillN 0 arr p args = Some arr"
| "bpf_fillN (Suc 0) arr p [x] = Some (arr[p := x])"
| "bpf_fillN (Suc (Suc n)) arr p (x # args) = bpf_fillN (Suc n) (arr[p := x]) (p + 1) args"
| "bpf_fillN n arr p args = None"

definition bpf_fill :: "'a list \<Rightarrow> 'a list \<Rightarrow> 'a list option" where
  "bpf_fill arr args = Option.bind (bpf_narg args) (\<lambda>n. bpf_fillN n arr 0 args)"

text \<open>The array \<open>___param\<close> of a printing macro, which starts uninitialised, and its size in bytes.\<close>

definition bpf_params :: "u64 list \<Rightarrow> u64 list \<Rightarrow> (u64 list \<times> nat) option" where
  "bpf_params garbage args =
     Option.bind (bpf_narg args) (\<lambda>n.
       map_option (\<lambda>arr. (arr, 8 * n)) (bpf_fill (take n (garbage @ replicate n 0)) args))"

text \<open>A helper call that a printing macro makes: the helper's name, the format with its size, and the rest.\<close>

datatype print_call =
    SeqPrintf addr string nat "u64 list" nat
  | Snprintf addr u32 string "u64 list" nat
  | TracePrintk string nat "u64 list"
  | TraceVprintk string nat "u64 list" nat
  | StreamVprintk int string "u64 list" nat

definition sizeof_fmt :: "string \<Rightarrow> nat" where
  "sizeof_fmt fmt = length fmt + 1"

definition BPF_SEQ_PRINTF :: "u64 list \<Rightarrow> addr \<Rightarrow> string \<Rightarrow> u64 list \<Rightarrow> print_call option" where
  "BPF_SEQ_PRINTF g sq fmt args =
     map_option (\<lambda>(arr, n). SeqPrintf sq fmt (sizeof_fmt fmt) arr n) (bpf_params g args)"

definition BPF_SNPRINTF :: "u64 list \<Rightarrow> addr \<Rightarrow> u32 \<Rightarrow> string \<Rightarrow> u64 list \<Rightarrow> print_call option" where
  "BPF_SNPRINTF g out_ptr out_size fmt args =
     map_option (\<lambda>(arr, n). Snprintf out_ptr out_size fmt arr n) (bpf_params g args)"

definition bpf_printk3 :: "string \<Rightarrow> u64 list \<Rightarrow> print_call" where
  "bpf_printk3 fmt args = TracePrintk fmt (sizeof_fmt fmt) args"

definition bpf_vprintk :: "u64 list \<Rightarrow> string \<Rightarrow> u64 list \<Rightarrow> print_call option" where
  "bpf_vprintk g fmt args =
     map_option (\<lambda>(arr, n). TraceVprintk fmt (sizeof_fmt fmt) arr n) (bpf_params g args)"

definition bpf_stream_printk :: "u64 list \<Rightarrow> int \<Rightarrow> string \<Rightarrow> u64 list \<Rightarrow> print_call option" where
  "bpf_stream_printk g stream_id fmt args =
     map_option (\<lambda>(arr, n). StreamVprintk stream_id fmt arr n) (bpf_params g args)"

text \<open>\<open>___bpf_pick_printk\<close>: true picks \<open>__bpf_printk\<close>, false \<open>__bpf_vprintk\<close>.\<close>

definition bpf_pick_printk :: "'a list \<Rightarrow> bool option" where
  "bpf_pick_printk args =
     Option.bind (bpf_nth (None # map (\<lambda>_. None) args @ map Some (replicate 9 False @ replicate 4 True))) id"

definition bpf_printk :: "u64 list \<Rightarrow> string \<Rightarrow> u64 list \<Rightarrow> print_call option" where
  "bpf_printk g fmt args =
     (case bpf_pick_printk args of
        Some True \<Rightarrow> Some (bpf_printk3 fmt args)
      | Some False \<Rightarrow> bpf_vprintk g fmt args
      | None \<Rightarrow> None)"

text \<open>How many arguments a call passes to its helper, and that helper's name.\<close>

fun call_args :: "print_call \<Rightarrow> string \<times> nat" where
  "call_args (SeqPrintf sq fmt n arr m) = (''bpf_seq_printf'', 5)"
| "call_args (Snprintf p sz fmt arr m) = (''bpf_snprintf'', 5)"
| "call_args (TracePrintk fmt n args) = (''bpf_trace_printk'', 2 + length args)"
| "call_args (TraceVprintk fmt n arr m) = (''bpf_trace_vprintk'', 4)"
| "call_args (StreamVprintk sid fmt arr m) = (''bpf_stream_vprintk_impl'', 5)"


section \<open>Static tail calls\<close>

datatype bpf_insn = MovReg nat u64 | CallHelper nat

text \<open>Only a constant slot compiles; the inline assembly sets the three argument registers and calls 12.\<close>

definition bpf_tail_call_static :: "addr \<Rightarrow> addr \<Rightarrow> bool \<Rightarrow> u32 \<Rightarrow> bpf_insn list option" where
  "bpf_tail_call_static ctx mp const slot =
     (if \<not> const then None
      else Some [MovReg 1 ctx, MovReg 2 mp, MovReg 3 (ucast slot), CallHelper 12])"


section \<open>Attributes of maps and symbols\<close>

datatype libbpf_pin_type = LIBBPF_PIN_NONE | LIBBPF_PIN_BY_NAME

primrec pin_type_value :: "libbpf_pin_type \<Rightarrow> nat" where
  "pin_type_value LIBBPF_PIN_NONE = 0"
| "pin_type_value LIBBPF_PIN_BY_NAME = 1"

datatype libbpf_tristate = TRI_NO | TRI_YES | TRI_MODULE

primrec tristate_value :: "libbpf_tristate \<Rightarrow> nat" where
  "tristate_value TRI_NO = 0"
| "tristate_value TRI_YES = 1"
| "tristate_value TRI_MODULE = 2"

text \<open>\<open>!!sym\<close>: a weak symbol exists when its address is not zero.\<close>

definition bpf_ksym_exists :: "addr \<Rightarrow> bool" where
  "bpf_ksym_exists ks \<longleftrightarrow> ks \<noteq> 0"


section \<open>Loops\<close>

text \<open>
  The body of a loop takes the loop variable and a state and says whether it leaves the loop with
  \<open>break\<close>.  \<open>next\<close> is the iterator function of the kernel.  A loop whose iterator never ends does not
  return: the value is \<open>None\<close>.
\<close>

partial_function (option) bpf_for_each ::
  "('it \<Rightarrow> 'e option \<times> 'it) \<Rightarrow> ('e \<Rightarrow> 's \<Rightarrow> bool \<times> 's) \<Rightarrow> 'it \<Rightarrow> 's \<Rightarrow> 's option" where
  "bpf_for_each nxt body it s =
     (case nxt it of
        (None, it') \<Rightarrow> Some s
      | (Some e, it') \<Rightarrow>
          (case body e s of (brk, s') \<Rightarrow> if brk then Some s' else bpf_for_each nxt body it' s'))"

partial_function (option) bpf_for_loop ::
  "('it \<Rightarrow> int option \<times> 'it) \<Rightarrow> int \<Rightarrow> int \<Rightarrow> (int \<Rightarrow> 's \<Rightarrow> bool \<times> 's) \<Rightarrow> 'it \<Rightarrow> 's \<Rightarrow> 's option" where
  "bpf_for_loop nxt start stop body it s =
     (case nxt it of
        (None, it') \<Rightarrow> Some s
      | (Some i, it') \<Rightarrow>
          if start \<le> i \<and> i < stop
          then case body i s of (brk, s') \<Rightarrow> if brk then Some s' else bpf_for_loop nxt start stop body it' s'
          else Some s)"

definition bpf_for ::
  "(int \<Rightarrow> int \<Rightarrow> 'it) \<Rightarrow> ('it \<Rightarrow> int option \<times> 'it) \<Rightarrow> int \<Rightarrow> int \<Rightarrow> (int \<Rightarrow> 's \<Rightarrow> bool \<times> 's) \<Rightarrow> 's \<Rightarrow> 's option" where
  "bpf_for new nxt start stop body s = bpf_for_loop nxt start stop body (new start stop) s"

definition bpf_repeat ::
  "(int \<Rightarrow> int \<Rightarrow> 'it) \<Rightarrow> ('it \<Rightarrow> int option \<times> 'it) \<Rightarrow> int \<Rightarrow> ('s \<Rightarrow> bool \<times> 's) \<Rightarrow> 's \<Rightarrow> 's option" where
  "bpf_repeat new nxt N body s = bpf_for_each nxt (\<lambda>_. body) (new 0 N) s"

text \<open>An iterator that yields the given elements and then ends.\<close>

inductive yields :: "('it \<Rightarrow> 'e option \<times> 'it) \<Rightarrow> 'it \<Rightarrow> 'e list \<Rightarrow> bool" for nxt where
  finish: "nxt it = (None, it') \<Longrightarrow> yields nxt it []"
| more: "nxt it = (Some e, it') \<Longrightarrow> yields nxt it' es \<Longrightarrow> yields nxt it (e # es)"

inductive_cases yieldsE: "yields nxt it es"

text \<open>Running a body over a list until it breaks.\<close>

primrec run_until :: "('e \<Rightarrow> 's \<Rightarrow> bool \<times> 's) \<Rightarrow> 'e list \<Rightarrow> 's \<Rightarrow> 's" where
  "run_until body [] s = s"
| "run_until body (e # es) s = (case body e s of (brk, s') \<Rightarrow> if brk then s' else run_until body es s')"


section \<open>Results\<close>

lemma container_of_field [simp]: "container_of off (field_addr off p a) a = p"
  by (simp add: container_of_def c_offsetof_def field_addr_def)

lemma bpf_nth_select:
  assumes "length args \<le> 12" and "length sel = 13"
  shows "bpf_nth (None # map (\<lambda>_. None) args @ map Some sel) = Some (Some (sel ! (12 - length args)))"
  using assms by (simp add: bpf_nth_def nth_append nth_Cons')

lemma bpf_nth_none:
  "12 < length args \<Longrightarrow> Option.bind (bpf_nth (None # map (\<lambda>_. None) args @ map Some sel)) id = None"
  by (simp add: bpf_nth_def nth_append nth_Cons')

lemma bpf_narg_eq: "bpf_narg args = (if length args \<le> 12 then Some (length args) else None)"
proof -
  have "[12, 11, 10, 9, 8, 7, 6, 5, 4, 3, 2, 1, 0 :: nat] ! (12 - n) = n" if "n \<le> 12" for n
    using that by (auto simp: le_Suc_eq numeral_eq_Suc)
  then show ?thesis
    by (simp add: bpf_narg_def bpf_nth_select bpf_nth_none del: list.map)
qed

lemma bpf_pick_printk_eq:
  "bpf_pick_printk args = (if length args \<le> 12 then Some (length args \<le> 3) else None)"
proof -
  have "(replicate 9 False @ replicate 4 True) ! (12 - n) \<longleftrightarrow> n \<le> 3" if "n \<le> 12" for n :: nat
    using that by (auto simp: nth_append)
  then show ?thesis
    by (simp add: bpf_pick_printk_def bpf_nth_select bpf_nth_none del: list.map map_append)
qed

lemma bpf_fillN_args:
  "args \<noteq> [] \<Longrightarrow> p + length args = length arr \<Longrightarrow>
   bpf_fillN (length args) arr p args = Some (take p arr @ args)"
proof (induction args arbitrary: arr p)
  case (Cons x args)
  show ?case
  proof (cases args)
    case Nil
    with Cons.prems show ?thesis
      by (simp add: upd_conv_take_nth_drop)
  next
    case (Cons y ys)
    then obtain n where n: "length args = Suc n" by simp
    have "take (p + 1) (arr[p := x]) = take p arr @ [x]"
      using Cons.prems by (simp add: take_Suc_conv_app_nth)
    with n Cons Cons.IH [of "p + 1" "arr[p := x]"] Cons.prems show ?thesis by simp
  qed
qed simp

lemma bpf_params_eq:
  "bpf_params g args = (if length args \<le> 12 then Some (args, 8 * length args) else None)"
proof (cases "args = []")
  case False
  have "length (take (length args) (g @ replicate (length args) 0)) = length args" by simp
  then have "bpf_fillN (length args) (take (length args) (g @ replicate (length args) 0)) 0 args = Some args"
    using bpf_fillN_args [OF False, of 0 "take (length args) (g @ replicate (length args) 0)"] by simp
  then show ?thesis by (simp add: bpf_params_def bpf_fill_def bpf_narg_eq)
qed (simp add: bpf_params_def bpf_fill_def bpf_narg_eq)

text \<open>
  \<open>bpf_printk\<close> expands for up to twelve arguments.  It calls \<open>bpf_trace_printk\<close> with the arguments
  themselves while they fit the argument registers and \<open>bpf_trace_vprintk\<close> with an array of all
  arguments in order otherwise, so no call needs more than five registers.
\<close>

theorem bpf_printk_call:
  "bpf_printk g fmt args =
     (if 12 < length args then None
      else Some (if length args \<le> 3 then TracePrintk fmt (length fmt + 1) args
                 else TraceVprintk fmt (length fmt + 1) args (8 * length args)))
   \<and> pred_option (\<lambda>c. snd (call_args c) \<le> 5) (bpf_printk g fmt args)"
  by (auto simp: bpf_printk_def bpf_pick_printk_eq bpf_printk3_def bpf_vprintk_def bpf_params_eq sizeof_fmt_def)

lemma unat_KERNEL_VERSION:
  assumes "a < 2 ^ 15" and "b < 2 ^ 8"
  shows "unat (KERNEL_VERSION a b c) = unat a * 2 ^ 16 + unat b * 2 ^ 8 + min 255 (unat c)"
proof -
  have "unat a < 2 ^ 15" and "unat b < 2 ^ 8"
    using assms by (simp_all add: word_less_nat_alt)
  moreover have "unat (if c > 255 then 255 else c :: u32) = min 255 (unat c)"
    by (auto simp: word_less_nat_alt)
  ultimately show ?thesis
    by (simp add: KERNEL_VERSION_def push_bit_eq_mult unat_word_ariths)
qed

text \<open>
  Kernel versions compare by their major, minor and patch numbers, in that order; patch levels
  above 255 all count as 255.
\<close>

theorem KERNEL_VERSION_le:
  assumes "a < 2 ^ 15" and "b < 2 ^ 8" and "a' < 2 ^ 15" and "b' < 2 ^ 8"
  shows "KERNEL_VERSION a b c \<le> KERNEL_VERSION a' b' c' \<longleftrightarrow>
    a < a' \<or> a = a' \<and> (b < b' \<or> b = b' \<and> min 255 (unat c) \<le> min 255 (unat c'))"
proof -
  have "unat b < 256" and "unat b' < 256"
    using assms by (simp_all add: word_less_nat_alt)
  then show ?thesis
    using unat_KERNEL_VERSION [OF assms(1,2)] unat_KERNEL_VERSION [OF assms(3,4)]
    by (simp add: word_le_nat_alt word_less_nat_alt word_unat_eq_iff) linarith
qed

theorem KERNEL_VERSION_le_witness:
  "KERNEL_VERSION 4 18 300 \<le> KERNEL_VERSION 5 4 0 \<and> \<not> KERNEL_VERSION 5 4 1 \<le> KERNEL_VERSION 5 4 0"
  using KERNEL_VERSION_le [of 4 18 5 4 300 0] KERNEL_VERSION_le [of 5 4 5 4 1 0] by simp

lemma bpf_for_loop_agree:
  assumes "bpf_for_loop nxt start stop body it s = Some r"
    and "\<And>i s. start \<le> i \<Longrightarrow> i < stop \<Longrightarrow> body i s = body' i s"
  shows "bpf_for_loop nxt start stop body' it s = Some r"
  using assms
proof (induction rule: bpf_for_loop.raw_induct [rotated, consumes 1, case_names step])
  case (step loop nxt start stop body it s r)
  then show ?case
    by (subst bpf_for_loop.simps) (auto split: prod.splits option.splits if_splits)
qed

text \<open>
  \<open>bpf_for\<close> uses its body on numbers of the range from \<open>start\<close> to \<open>stop - 1\<close> only: bodies that
  agree there give the same loop, whatever numbers the kernel's iterator returns.
\<close>

theorem bpf_for_in_range:
  assumes "\<And>i s. start \<le> i \<Longrightarrow> i < stop \<Longrightarrow> body i s = body' i s"
  shows "bpf_for new nxt start stop body s = bpf_for new nxt start stop body' s"
  using bpf_for_loop_agree [of nxt start stop body "new start stop" s _ body']
    bpf_for_loop_agree [of nxt start stop body' "new start stop" s _ body] assms
  unfolding bpf_for_def by (cases "bpf_for_loop nxt start stop body (new start stop) s";
      cases "bpf_for_loop nxt start stop body' (new start stop) s") auto

lemma bpf_for_each_yields:
  "yields nxt it es \<Longrightarrow> bpf_for_each nxt body it s = Some (run_until body es s)"
proof (induction arbitrary: s rule: yields.induct)
  case (finish it it')
  then show ?case by (subst bpf_for_each.simps) simp
next
  case (more it e it' es)
  then show ?case by (subst bpf_for_each.simps) (auto split: prod.splits)
qed

lemma bpf_for_loop_yields:
  "yields nxt it es \<Longrightarrow>
   bpf_for_loop nxt start stop body it s = Some (run_until body (takeWhile (\<lambda>i. start \<le> i \<and> i < stop) es) s)"
proof (induction arbitrary: s rule: yields.induct)
  case (finish it it')
  then show ?case by (subst bpf_for_loop.simps) simp
next
  case (more it e it' es)
  then show ?case by (subst bpf_for_loop.simps) (auto split: prod.splits)
qed

text \<open>
  Over an iterator that counts from \<open>start\<close> to \<open>stop - 1\<close>, \<open>bpf_for\<close> returns and has run its body
  once on each number in ascending order until the body breaks.
\<close>

theorem bpf_for_counts:
  assumes "yields nxt (new start stop) [start..stop - 1]"
  shows "bpf_for new nxt start stop body s = Some (run_until body [start..stop - 1] s)"
proof -
  have "takeWhile (\<lambda>i. start \<le> i \<and> i < stop) [start..stop - 1] = [start..stop - 1]"
    by (auto simp: takeWhile_eq_all_conv)
  then show ?thesis
    using bpf_for_loop_yields [OF assms, of start stop body s] by (simp only: bpf_for_def)
qed

section \<open>A counting iterator\<close>

definition num_new :: "int \<Rightarrow> int \<Rightarrow> int \<times> int" where
  "num_new start stop = (start, stop)"

definition num_next :: "int \<times> int \<Rightarrow> int option \<times> int \<times> int" where
  "num_next = (\<lambda>(i, stop). if i < stop then (Some i, i + 1, stop) else (None, i, stop))"

lemma num_yields: "yields num_next (num_new 2 5) [2..5 - 1]"
proof -
  have "yields num_next (2, 5) [2, 3, 4]"
    by (rule yields.more yields.finish | simp add: num_next_def)+
  moreover have "[2..5 - 1] = [2, 3, 4 :: int]" by (simp add: upto_rec1)
  ultimately show ?thesis by (simp add: num_new_def)
qed

theorem bpf_for_in_range_witness:
  "bpf_for num_new num_next 2 5 (\<lambda>i s. (False, s + i)) 0
   = bpf_for num_new num_next 2 5 (\<lambda>i s. if i = 7 then (True, 0) else (False, s + i)) (0 :: int)"
  by (rule bpf_for_in_range) simp

theorem bpf_for_counts_witness:
  "bpf_for num_new num_next 2 5 (\<lambda>i s. (False, s @ [i])) [] = Some [2, 3, 4]"
  using bpf_for_counts [of num_next num_new 2 5 "\<lambda>i s. (False, s @ [i])" "[]", OF num_yields] by (simp add: upto_rec1)

text \<open>
  The static tail call passes context, map and slot in the registers of the first three
  parameters of \<open>bpf_tail_call\<close> and calls the number that is declared for that helper.
\<close>

lemma tail_call_static_helper:
  "bpf_tail_call_static ctx mp True slot = Some [MovReg 1 ctx, MovReg 2 mp, MovReg 3 (ucast slot), CallHelper 12]
   \<and> (HInt ''long'', ''bpf_tail_call'', [(HPtr ''void'', ''ctx''), (HPtr ''void'', ''prog_array_map''), (HInt ''__u32'', ''index'')], False, 12)
       \<in> set bpf_helper_defs"
  by (simp add: bpf_tail_call_static_def helper_tables)

end
