(* ===== verification/Tracing.thy ===== *)
theory Tracing
  imports Tracing_Arch Bpf_Helpers
begin

text \<open>
  The program wrappers of \<open>src/ebpf/include/bpf/bpf_tracing.h\<close>: \<open>BPF_PROG\<close> and \<open>BPF_PROG2\<close> unpack the
  array of 64-bit words a tracing program is called with, \<open>BPF_KPROBE\<close>, \<open>BPF_KRETPROBE\<close> and
  \<open>BPF_KSYSCALL\<close> take their arguments from saved registers.  A wrapper that does not compile for a
  number of arguments or a target yields \<open>None\<close>.

  Shown here: \<open>BPF_PROG\<close> hands over the words in order; \<open>BPF_PROG2\<close> gives every argument the words
  that hold it, one or two of them, and so recovers what the caller passed; a kprobe sees exactly
  the registers of its parameters; the two ways to read system call arguments use the same
  registers, of the outer or of the inner register struct.
\<close>

section \<open>Register access\<close>

text \<open>
  How a register of a saved register struct is read: the struct the pointer is cast to, the
  register and the address of the struct.  One reader loads directly, the other through
  \<open>BPF_CORE_READ\<close>.
\<close>

type_synonym reg_reader = "string option \<Rightarrow> pt_reg \<Rightarrow> addr \<Rightarrow> u64"

definition read_reg :: "reg_reader \<Rightarrow> string option \<Rightarrow> pt_reg \<Rightarrow> addr \<Rightarrow> u64 option" where
  "read_reg rd cst r x = (case r of Unsupported \<Rightarrow> None | _ \<Rightarrow> Some (rd cst r x))"

definition PT_REGS_PARM :: "reg_reader \<Rightarrow> pt_arch option \<Rightarrow> nat \<Rightarrow> addr \<Rightarrow> u64 option" where
  "PT_REGS_PARM rd arch n x = Option.bind arch (\<lambda>a. read_reg rd (regs_cast a) (parm_reg a n) x)"

definition PT_REGS_RET :: "reg_reader \<Rightarrow> pt_arch option \<Rightarrow> addr \<Rightarrow> u64 option" where
  "PT_REGS_RET rd arch x = Option.bind arch (\<lambda>a. read_reg rd (regs_cast a) (ret_reg a) x)"

definition PT_REGS_FP :: "reg_reader \<Rightarrow> pt_arch option \<Rightarrow> addr \<Rightarrow> u64 option" where
  "PT_REGS_FP rd arch x = Option.bind arch (\<lambda>a. read_reg rd (regs_cast a) (fp_reg a) x)"

definition PT_REGS_RC :: "reg_reader \<Rightarrow> pt_arch option \<Rightarrow> addr \<Rightarrow> u64 option" where
  "PT_REGS_RC rd arch x = Option.bind arch (\<lambda>a. read_reg rd (regs_cast a) (rc_reg a) x)"

definition PT_REGS_SP :: "reg_reader \<Rightarrow> pt_arch option \<Rightarrow> addr \<Rightarrow> u64 option" where
  "PT_REGS_SP rd arch x = Option.bind arch (\<lambda>a. read_reg rd (regs_cast a) (sp_reg a) x)"

definition PT_REGS_IP :: "reg_reader \<Rightarrow> pt_arch option \<Rightarrow> addr \<Rightarrow> u64 option" where
  "PT_REGS_IP rd arch x = Option.bind arch (\<lambda>a. read_reg rd (regs_cast a) (ip_reg a) x)"

text \<open>The first system call argument has a cast of its own on some targets.\<close>

definition PT_REGS_PARM_SYSCALL :: "reg_reader \<Rightarrow> pt_arch option \<Rightarrow> nat \<Rightarrow> addr \<Rightarrow> u64 option" where
  "PT_REGS_PARM_SYSCALL rd arch n x =
     Option.bind arch (\<lambda>a.
       read_reg rd (if n = 1 \<and> sys1_cast a \<noteq> None then sys1_cast a else regs_cast a) (sys_parm_reg a n) x)"

definition PT_REGS_SYSCALL_REGS :: "reg_reader \<Rightarrow> pt_arch option \<Rightarrow> addr \<Rightarrow> addr option" where
  "PT_REGS_SYSCALL_REGS rd arch ctx =
     (case arch of
        Some a \<Rightarrow> if syscall_regs_ctx a then Some ctx else PT_REGS_PARM rd arch 1 ctx
      | None \<Rightarrow> None)"

text \<open>
  The return address of a probed function: from the link register, from the register that holds it,
  or from the stack.
\<close>

definition BPF_KPROBE_READ_RET_IP ::
  "kernel \<Rightarrow> reg_reader \<Rightarrow> build \<Rightarrow> target \<Rightarrow> addr \<Rightarrow> u64 option" where
  "BPF_KPROBE_READ_RET_IP k rd b t ctx =
     (if t = POWERPC then Some (rd None (Reg [''link'']) ctx)
      else if t = SPARC \<or> t = ARM64 then PT_REGS_RET rd (Some (pt_regs_of b t)) ctx
      else map_option (\<lambda>p. le_word (snd (bpf_probe_read_kernel k p 8))) (PT_REGS_RET rd (Some (pt_regs_of b t)) ctx))"

definition BPF_KRETPROBE_READ_RET_IP ::
  "kernel \<Rightarrow> reg_reader \<Rightarrow> build \<Rightarrow> target \<Rightarrow> addr \<Rightarrow> u64 option" where
  "BPF_KRETPROBE_READ_RET_IP k rd b t ctx =
     (if t = POWERPC \<or> t = SPARC \<or> t = ARM64 then BPF_KPROBE_READ_RET_IP k rd b t ctx
      else map_option (\<lambda>p. le_word (snd (bpf_probe_read_kernel k (p + 8) 8))) (PT_REGS_FP rd (Some (pt_regs_of b t)) ctx))"


section \<open>BPF_PROG\<close>

text \<open>
  \<open>___bpf_ctx_cast\<close>\<open>n\<close>: each numbered macro puts the next context word after what the lower one
  gives; the context pointer itself comes first.
\<close>

datatype 'a prog_arg = Ctx | Word 'a

fun ctx_castN :: "nat \<Rightarrow> u64 list \<Rightarrow> u64 prog_arg list option" where
  "ctx_castN 0 ctx = Some [Ctx]"
| "ctx_castN (Suc n) ctx =
     (if n < 12 then map_option (\<lambda>as. as @ [Word (ctx ! n)]) (ctx_castN n ctx) else None)"

definition BPF_PROG :: "'p list \<Rightarrow> (u64 prog_arg list \<Rightarrow> 'r) \<Rightarrow> u64 list \<Rightarrow> 'r option" where
  "BPF_PROG params body ctx = Option.bind (bpf_narg params) (\<lambda>n. map_option body (ctx_castN n ctx))"


section \<open>BPF_PROG2\<close>

text \<open>Two tokens per argument: its type, given here by its size, and its name.\<close>

definition bpf_nth2 :: "'a list \<Rightarrow> 'a option" where
  "bpf_nth2 xs = (if 25 < length xs then Some (xs ! 25) else None)"

definition bpf_narg2 :: "'a list \<Rightarrow> nat option" where
  "bpf_narg2 args =
     Option.bind (bpf_nth2 (None # map (\<lambda>_. None) args @
       map Some [12, 12, 11, 11, 10, 10, 9, 9, 8, 8, 7, 7, 6, 6, 5, 5, 4, 4, 3, 3, 2, 2, 1, 1, 0])) id"

definition bpf_treg_cnt :: "nat \<Rightarrow> nat option" where
  "bpf_treg_cnt sz =
     (if sz = 1 then Some 1 else if sz = 2 then Some 1 else if sz = 4 then Some 1 else if sz = 8 then Some 1
      else if sz = 16 then Some 2 else None)"

fun bpf_reg_cnt :: "nat list \<Rightarrow> nat option" where
  "bpf_reg_cnt [] = Some 0"
| "bpf_reg_cnt (t # args) =
     (case (bpf_reg_cnt args, bpf_treg_cnt t) of (Some m, Some n) \<Rightarrow> Some (m + n) | _ \<Rightarrow> None)"

text \<open>The bytes of the argument: the low bytes of one word, or two words.\<close>

definition bpf_union_arg :: "u64 list \<Rightarrow> nat \<Rightarrow> nat \<Rightarrow> byte list" where
  "bpf_union_arg ctx t n =
     (if t = 16 then le_bytes 8 (ctx ! n) @ le_bytes 8 (ctx ! (n + 1)) else le_bytes t (ctx ! n))"

fun bpf_ctx_arg :: "u64 list \<Rightarrow> nat \<Rightarrow> nat list \<Rightarrow> byte list list option" where
  "bpf_ctx_arg ctx n [] = Some []"
| "bpf_ctx_arg ctx n (t # args) =
     (case (bpf_reg_cnt (t # args), bpf_ctx_arg ctx n args) of
        (Some m, Some as) \<Rightarrow> Some (bpf_union_arg ctx t (n - m) # as)
      | _ \<Rightarrow> None)"

definition BPF_PROG2 :: "nat list \<Rightarrow> (byte list list \<Rightarrow> 'r) \<Rightarrow> u64 list \<Rightarrow> 'r option" where
  "BPF_PROG2 sizes body ctx =
     (case bpf_narg2 (concat (map (\<lambda>t. [t, t]) sizes)) of
        Some k \<Rightarrow> Option.bind (bpf_reg_cnt sizes) (\<lambda>n. map_option body (bpf_ctx_arg ctx n sizes))
      | None \<Rightarrow> None)"


section \<open>Probes on functions and system calls\<close>

fun kprobe_argsN :: "reg_reader \<Rightarrow> pt_arch option \<Rightarrow> nat \<Rightarrow> addr \<Rightarrow> u64 prog_arg list option" where
  "kprobe_argsN rd arch 0 ctx = Some [Ctx]"
| "kprobe_argsN rd arch (Suc n) ctx =
     (if n < 8
      then case (kprobe_argsN rd arch n ctx, PT_REGS_PARM rd arch (Suc n) ctx) of
             (Some as, Some v) \<Rightarrow> Some (as @ [Word v])
           | _ \<Rightarrow> None
      else None)"

definition BPF_KPROBE ::
  "reg_reader \<Rightarrow> pt_arch option \<Rightarrow> 'p list \<Rightarrow> (u64 prog_arg list \<Rightarrow> 'r) \<Rightarrow> addr \<Rightarrow> 'r option" where
  "BPF_KPROBE rd arch params body ctx =
     Option.bind (bpf_narg params) (\<lambda>n. map_option body (kprobe_argsN rd arch n ctx))"

definition BPF_KRETPROBE ::
  "reg_reader \<Rightarrow> pt_arch option \<Rightarrow> 'p list \<Rightarrow> (u64 prog_arg list \<Rightarrow> 'r) \<Rightarrow> addr \<Rightarrow> 'r option" where
  "BPF_KRETPROBE rd arch params body ctx =
     (case bpf_narg params of
        Some 0 \<Rightarrow> Some (body [Ctx])
      | Some (Suc 0) \<Rightarrow> map_option (\<lambda>v. body [Ctx, Word v]) (PT_REGS_RC rd arch ctx)
      | _ \<Rightarrow> None)"

text \<open>\<open>___bpf_syscall_args\<close> and \<open>___bpf_syswrap_args\<close> differ in the reader only.\<close>

fun syscall_argsN :: "reg_reader \<Rightarrow> pt_arch option \<Rightarrow> nat \<Rightarrow> addr \<Rightarrow> u64 prog_arg list option" where
  "syscall_argsN rd arch 0 regs = Some [Ctx]"
| "syscall_argsN rd arch (Suc n) regs =
     (if n < 7
      then case (syscall_argsN rd arch n regs, PT_REGS_PARM_SYSCALL rd arch (Suc n) regs) of
             (Some as, Some v) \<Rightarrow> Some (as @ [Word v])
           | _ \<Rightarrow> None
      else None)"

definition BPF_KSYSCALL ::
  "reg_reader \<Rightarrow> reg_reader \<Rightarrow> bool \<Rightarrow> pt_arch option \<Rightarrow> 'p list \<Rightarrow> (u64 prog_arg list \<Rightarrow> 'r) \<Rightarrow> addr \<Rightarrow> 'r option" where
  "BPF_KSYSCALL rd core_rd has_wrapper arch params body ctx =
     Option.bind (if has_wrapper then PT_REGS_PARM rd arch 1 ctx else Some ctx) (\<lambda>regs.
       Option.bind (bpf_narg params) (\<lambda>n.
         map_option body (if has_wrapper then syscall_argsN core_rd arch n regs else syscall_argsN rd arch n regs)))"


section \<open>Results\<close>

lemma ctx_castN_eq:
  "ctx_castN n ctx = (if n \<le> 12 then Some (Ctx # map (\<lambda>i. Word (ctx ! i)) [0..<n]) else None)"
  by (induction n) auto

text \<open>
  \<open>BPF_PROG\<close> compiles for up to twelve parameters and calls the program with the context and the
  first words of the context array, one per parameter, in order.
\<close>

theorem BPF_PROG_args:
  "BPF_PROG params body ctx =
     (if length params \<le> 12 then Some (body (Ctx # map (\<lambda>i. Word (ctx ! i)) [0..<length params])) else None)"
  by (simp add: BPF_PROG_def bpf_narg_eq ctx_castN_eq)

lemma kprobe_argsN_eq:
  assumes "Unsupported \<notin> set (parms a)" and "length (parms a) \<le> 8"
  shows "kprobe_argsN rd (Some a) n ctx =
    (if n \<le> length (parms a) then Some (Ctx # map (\<lambda>r. Word (rd (regs_cast a) r ctx)) (take n (parms a))) else None)"
proof (induction n)
  case (Suc n)
  show ?case
  proof (cases "n < length (parms a)")
    case True
    then have "parms a ! n \<noteq> Unsupported" using assms(1) nth_mem by metis
    then have "PT_REGS_PARM rd (Some a) (Suc n) ctx = Some (rd (regs_cast a) (parms a ! n) ctx)"
      using True by (auto simp: PT_REGS_PARM_def parm_reg_def read_reg_def split: pt_reg.splits)
    with True Suc assms(2) show ?thesis by (simp add: take_Suc_conv_app_nth)
  next
    case False
    with Suc show ?thesis by (simp add: PT_REGS_PARM_def parm_reg_def read_reg_def split: option.splits)
  qed
qed simp

text \<open>
  On every target a kprobe with as many parameters as the target has argument registers, or
  fewer, is called with the context and the values of the first argument registers, in order; with
  more parameters it does not compile.
\<close>

theorem BPF_KPROBE_args:
  "BPF_KPROBE rd (Some (pt_regs_of b t)) params body ctx =
     (if length params \<le> length (parms (pt_regs_of b t))
      then Some (body (Ctx # map (\<lambda>r. Word (rd (regs_cast (pt_regs_of b t)) r ctx))
                               (take (length params) (parms (pt_regs_of b t)))))
      else None)"
  using parms_supported [of b t] parms_length [of b t]
  by (auto simp: BPF_KPROBE_def bpf_narg_eq kprobe_argsN_eq)


subsection \<open>Struct arguments\<close>

text \<open>The words in which a caller passes an argument with the bytes \<open>bs\<close>; unused high bytes are arbitrary.\<close>

definition arg_words :: "byte list \<Rightarrow> u64 list \<Rightarrow> bool" where
  "arg_words bs ws \<longleftrightarrow>
     (if length bs = 16 then length ws = 2 \<and> le_bytes 8 (ws ! 0) @ le_bytes 8 (ws ! 1) = bs
      else length bs \<in> {1, 2, 4, 8} \<and> length ws = 1 \<and> le_bytes (length bs) (ws ! 0) = bs)"

lemma bpf_narg2_eq:
  assumes "length args = 2 * m"
  shows "bpf_narg2 args = (if m \<le> 12 then Some m else None)"
proof -
  let ?sel = "[12, 12, 11, 11, 10, 10, 9, 9, 8, 8, 7, 7, 6, 6, 5, 5, 4, 4, 3, 3, 2, 2, 1, 1, 0 :: nat]"
  have "?sel ! (24 - 2 * m) = m" if "m \<le> 12"
    using that by (auto simp: le_Suc_eq numeral_eq_Suc)
  moreover have "bpf_nth2 (None # map (\<lambda>_. None) args @ map Some ?sel) = Some (Some (?sel ! (24 - 2 * m)))" if "m \<le> 12"
    using that assms by (simp add: bpf_nth2_def nth_append nth_Cons' del: list.map)
  moreover have "Option.bind (bpf_nth2 (None # map (\<lambda>_. None) args @ map Some ?sel)) id = None" if "12 < m"
    using that assms by (simp add: bpf_nth2_def nth_append nth_Cons' del: list.map)
  ultimately show ?thesis unfolding bpf_narg2_def by auto
qed

lemma arg_words_cnt: "arg_words bs ws \<Longrightarrow> bpf_treg_cnt (length bs) = Some (length ws)"
  by (auto simp: arg_words_def bpf_treg_cnt_def split: if_splits)

lemma reg_cnt_words:
  "list_all2 arg_words args wss \<Longrightarrow> bpf_reg_cnt (map length args) = Some (length (concat wss))"
  by (induction rule: list_all2_induct) (auto simp: arg_words_cnt)

lemma union_arg_words:
  assumes "arg_words bs ws"
  shows "bpf_union_arg (pre @ ws @ post) (length bs) (length pre) = bs"
proof (cases "length bs = 16")
  case True
  with assms obtain v w where "ws = [v, w]"
    by (auto simp: arg_words_def length_Suc_conv numeral_2_eq_2)
  with assms True show ?thesis by (simp add: bpf_union_arg_def arg_words_def nth_append)
next
  case False
  with assms obtain w where "ws = [w]" by (auto simp: arg_words_def length_Suc_conv)
  with assms False show ?thesis by (simp add: bpf_union_arg_def arg_words_def nth_append)
qed

lemma ctx_arg_words:
  "list_all2 arg_words args wss \<Longrightarrow>
   bpf_ctx_arg (pre @ concat wss) (length (pre @ concat wss)) (map length args) = Some args"
proof (induction arbitrary: pre rule: list_all2_induct)
  case (Cons bs args ws wss)
  have "bpf_reg_cnt (length bs # map length args) = Some (length ws + length (concat wss))"
    using reg_cnt_words [OF Cons(2)] arg_words_cnt [OF Cons(1)] by (simp add: add.commute)
  moreover have "bpf_ctx_arg (pre @ ws @ concat wss) (length (pre @ ws @ concat wss)) (map length args) = Some args"
    using Cons.IH [of "pre @ ws"] by simp
  ultimately show ?case
    using union_arg_words [OF Cons(1), of pre "concat wss"] by simp
qed simp

text \<open>
  C34: \<open>BPF_PROG2\<close> recovers its arguments.  When the context array holds the words of up to twelve
  arguments of 1, 2, 4, 8 or 16 bytes one after the other, two words for the sixteen-byte ones, the
  program is called with the bytes of exactly these arguments.
\<close>

theorem BPF_PROG2_args:
  assumes "list_all2 arg_words args wss" and "length args \<le> 12"
  shows "BPF_PROG2 (map length args) body (concat wss) = Some (body args)"
proof -
  have "length (concat (map (\<lambda>t. [t, t]) (map length args))) = 2 * length args"
    by (simp add: length_concat comp_def sum_list_triv)
  from bpf_narg2_eq [OF this] assms(2)
  have "bpf_narg2 (concat (map (\<lambda>t. [t, t]) (map length args))) = Some (length args)"
    by simp
  then show ?thesis
    using reg_cnt_words [OF assms(1)] ctx_arg_words [OF assms(1), of "[]"] by (simp add: BPF_PROG2_def)
qed

theorem BPF_PROG2_args_witness:
  "BPF_PROG2 [4, 16, 1] id [0xFFFFFFFF00000007, 1, 2, 9]
   = Some [[7, 0, 0, 0], [1, 0, 0, 0, 0, 0, 0, 0, 2, 0, 0, 0, 0, 0, 0, 0], [9]]"
proof -
  have "list_all2 arg_words [[7, 0, 0, 0], [1, 0, 0, 0, 0, 0, 0, 0, 2, 0, 0, 0, 0, 0, 0, 0], [9]]
      [[0xFFFFFFFF00000007], [1, 2], [9]]"
    by (simp add: arg_words_def le_bytes_numeral drop_bit_eq_div)
  from BPF_PROG2_args [OF this, of id] show ?thesis by (simp add: numeral_eq_Suc)
qed

subsection \<open>System calls\<close>

lemma syscall_argsN_eq:
  assumes "Unsupported \<notin> set (sys_parms a)" and "length (sys_parms a) \<le> 7"
  shows "syscall_argsN rd (Some a) n regs =
    (if n \<le> length (sys_parms a)
     then Some (Ctx # map (\<lambda>i. Word (rd (if i = 0 \<and> sys1_cast a \<noteq> None then sys1_cast a else regs_cast a)
                                    (sys_parms a ! i) regs)) [0..<n])
     else None)"
proof (induction n)
  case (Suc n)
  show ?case
  proof (cases "n < length (sys_parms a)")
    case True
    then have "sys_parms a ! n \<noteq> Unsupported" using assms(1) nth_mem by metis
    then have "PT_REGS_PARM_SYSCALL rd (Some a) (Suc n) regs
        = Some (rd (if n = 0 \<and> sys1_cast a \<noteq> None then sys1_cast a else regs_cast a) (sys_parms a ! n) regs)"
      using True
      by (cases "sys_parms a ! n"; cases n) (simp_all add: PT_REGS_PARM_SYSCALL_def sys_parm_reg_def read_reg_def Suc_le_eq)
    with True Suc assms(2) show ?thesis by simp
  next
    case False
    with Suc show ?thesis by (simp add: PT_REGS_PARM_SYSCALL_def sys_parm_reg_def read_reg_def split: option.splits)
  qed
qed simp

text \<open>
  On every target a system call probe with up to six parameters is called with the values of the
  first system call registers, in order: of the registers the probe was called with when the kernel
  has no system call wrapper, and of the register struct that the wrapper's first argument points
  to, read through \<open>BPF_CORE_READ\<close>, when it has one.
\<close>

theorem BPF_KSYSCALL_args:
  assumes "length params \<le> 6"
  shows "BPF_KSYSCALL rd core_rd has_wrapper (Some (pt_regs_of b t)) params body ctx =
    (let a = pt_regs_of b t;
         reader = (if has_wrapper then core_rd else rd);
         regs = (if has_wrapper then rd (regs_cast a) (parms a ! 0) ctx else ctx)
     in Some (body (Ctx # map (\<lambda>i. Word (reader (if i = 0 \<and> sys1_cast a \<noteq> None then sys1_cast a else regs_cast a)
                                              (sys_parms a ! i) regs)) [0..<length params])))"
proof -
  let ?a = "pt_regs_of b t"
  have sup: "Unsupported \<notin> set (sys_parms ?a)" "length (sys_parms ?a) \<le> 7" "6 \<le> length (sys_parms ?a)"
    using parms_supported [of b t] sys_parms_length [of b t] by auto
  have "parms ?a ! 0 \<noteq> Unsupported"
    using parms_supported [of b t] parms_length [of b t] nth_mem [of 0 "parms ?a"] by fastforce
  then have "PT_REGS_PARM rd (Some ?a) 1 ctx = Some (rd (regs_cast ?a) (parms ?a ! 0) ctx)"
    using parms_length [of b t]
    by (auto simp: PT_REGS_PARM_def parm_reg_def read_reg_def split: pt_reg.splits)
  with sup assms show ?thesis
    by (simp add: BPF_KSYSCALL_def bpf_narg_eq syscall_argsN_eq [OF sup(1,2)] Let_def)
qed

theorem BPF_KSYSCALL_args_witness:
  "BPF_KSYSCALL (\<lambda>c r x. x + 1) (\<lambda>c r x. x + 2) True
     (Some (pt_regs_of \<lparr>kernel_types = True, i386 = False, arch64 = False\<rparr> X86)) [(), ()] id 100
   = Some [Ctx, Word 103, Word 103]"
  using BPF_KSYSCALL_args [of "[(), ()]" "\<lambda>c r x. x + 1" "\<lambda>c r x. x + 2" True
      "\<lparr>kernel_types = True, i386 = False, arch64 = False\<rparr>" X86 id 100]
  by (simp add: Let_def upt_rec)

end
