(* ===== verification/Vmlinux_Task.thy ===== *)
theory Vmlinux_Task
  imports Vmlinux_Fs
begin

text \<open>
  \<open>struct task_struct\<close> of \<open>src/ebpf/vmlinux.h\<close> and every type it embeds by value, transcribed
  like the types of \<open>Vmlinux_Fs\<close>.  The exec tracepoint follows \<open>task_struct.nsproxy\<close>, whose
  offset depends on the size of all members before it.
\<close>

definition struct___call_single_node :: ctype where
  "struct___call_single_node = CStruct ''__call_single_node'' [
    CField ''llist'' struct_llist_node,
    CField '''' (CUnion '''' [
      CField ''u_flags'' c_uint,
      CField ''a_flags'' ty_atomic_t]),
    CField ''src'' ty_u16,
    CField ''dst'' ty_u16]"

definition struct_kmap_ctrl :: ctype where
  "struct_kmap_ctrl = CStruct ''kmap_ctrl'' []"

definition struct_llist_head :: ctype where
  "struct_llist_head = CStruct ''llist_head'' [
    CField ''first'' (CPtr ''struct llist_node'')]"

definition struct_page_frag :: ctype where
  "struct_page_frag = CStruct ''page_frag'' [
    CField ''page'' (CPtr ''struct page''),
    CField ''offset'' ty___u32,
    CField ''size'' ty___u32]"

definition struct_plist_node :: ctype where
  "struct_plist_node = CStruct ''plist_node'' [
    CField ''prio'' c_int,
    CField ''prio_list'' struct_list_head,
    CField ''node_list'' struct_list_head]"

definition struct_rb_root :: ctype where
  "struct_rb_root = CStruct ''rb_root'' [
    CField ''rb_node'' (CPtr ''struct rb_node'')]"

definition struct_rb_root_cached :: ctype where
  "struct_rb_root_cached = CStruct ''rb_root_cached'' [
    CField ''rb_root'' struct_rb_root,
    CField ''rb_leftmost'' (CPtr ''struct rb_node'')]"

definition struct_timerqueue_head :: ctype where
  "struct_timerqueue_head = CStruct ''timerqueue_head'' [
    CField ''rb_root'' struct_rb_root_cached]"

definition struct_posix_cputimer_base :: ctype where
  "struct_posix_cputimer_base = CStruct ''posix_cputimer_base'' [
    CField ''nextevt'' ty_u64,
    CField ''tqhead'' struct_timerqueue_head]"

definition struct_posix_cputimers :: ctype where
  "struct_posix_cputimers = CStruct ''posix_cputimers'' [
    CField ''bases'' (CArray struct_posix_cputimer_base 3),
    CField ''timers_active'' c_uint,
    CField ''expiry_active'' c_uint]"

definition struct_posix_cputimers_work :: ctype where
  "struct_posix_cputimers_work = CStruct ''posix_cputimers_work'' [
    CField ''work'' struct_callback_head,
    CField ''mutex'' struct_mutex,
    CField ''scheduled'' c_uint]"

definition struct_prev_cputime :: ctype where
  "struct_prev_cputime = CStruct ''prev_cputime'' [
    CField ''utime'' ty_u64,
    CField ''stime'' ty_u64,
    CField ''lock'' ty_raw_spinlock_t]"

definition struct_rb_node :: ctype where
  "struct_rb_node = CStruct ''rb_node'' [
    CField ''__rb_parent_color'' c_ulong,
    CField ''rb_right'' (CPtr ''struct rb_node''),
    CField ''rb_left'' (CPtr ''struct rb_node'')]"

definition ty___kernel_clockid_t :: ctype where [alias_defs]:
  "ty___kernel_clockid_t = c_int"

definition ty_clockid_t :: ctype where [alias_defs]:
  "ty_clockid_t = ty___kernel_clockid_t"

definition struct_restart_block :: ctype where
  "struct_restart_block = CStruct ''restart_block'' [
    CField ''arch_data'' c_ulong,
    CField ''fn'' (CPtr ''function''),
    CField '''' (CUnion '''' [
      CField ''futex'' (CStruct '''' [
        CField ''uaddr'' (CPtr ''u32''),
        CField ''val'' ty_u32,
        CField ''flags'' ty_u32,
        CField ''bitset'' ty_u32,
        CField ''time'' ty_u64,
        CField ''uaddr2'' (CPtr ''u32'')]),
      CField ''nanosleep'' (CStruct '''' [
        CField ''clockid'' ty_clockid_t,
        CField ''type'' (CEnum ''timespec_type''),
        CField '''' (CUnion '''' [
          CField ''rmtp'' (CPtr ''struct __kernel_timespec''),
          CField ''compat_rmtp'' (CPtr ''struct old_timespec32'')]),
        CField ''expires'' ty_u64]),
      CField ''poll'' (CStruct '''' [
        CField ''ufds'' (CPtr ''struct pollfd''),
        CField ''nfds'' c_int,
        CField ''has_timeout'' c_int,
        CField ''tv_sec'' c_ulong,
        CField ''tv_nsec'' c_ulong])])]"

definition ty_ktime_t :: ctype where [alias_defs]:
  "ty_ktime_t = ty_s64"

definition struct_timerqueue_node :: ctype where
  "struct_timerqueue_node = CStruct ''timerqueue_node'' [
    CField ''node'' struct_rb_node,
    CField ''expires'' ty_ktime_t]"

definition struct_hrtimer :: ctype where
  "struct_hrtimer = CStruct ''hrtimer'' [
    CField ''node'' struct_timerqueue_node,
    CField ''_softexpires'' ty_ktime_t,
    CField ''function'' (CPtr ''function''),
    CField ''base'' (CPtr ''struct hrtimer_clock_base''),
    CField ''state'' ty_u8,
    CField ''is_rel'' ty_u8,
    CField ''is_soft'' ty_u8,
    CField ''is_hard'' ty_u8]"

definition ty_dl_server_has_tasks_f :: ctype where [alias_defs]:
  "ty_dl_server_has_tasks_f = CPtr ''function''"

definition ty_dl_server_pick_f :: ctype where [alias_defs]:
  "ty_dl_server_pick_f = CPtr ''function''"

definition struct_sched_dl_entity :: ctype where
  "struct_sched_dl_entity = CStruct ''sched_dl_entity'' [
    CField ''rb_node'' struct_rb_node,
    CField ''dl_runtime'' ty_u64,
    CField ''dl_deadline'' ty_u64,
    CField ''dl_period'' ty_u64,
    CField ''dl_bw'' ty_u64,
    CField ''dl_density'' ty_u64,
    CField ''runtime'' ty_s64,
    CField ''deadline'' ty_u64,
    CField ''flags'' c_uint,
    CBits ''dl_throttled'' c_uint 1,
    CBits ''dl_yielded'' c_uint 1,
    CBits ''dl_non_contending'' c_uint 1,
    CBits ''dl_overrun'' c_uint 1,
    CBits ''dl_server'' c_uint 1,
    CBits ''dl_server_active'' c_uint 1,
    CBits ''dl_defer'' c_uint 1,
    CBits ''dl_defer_armed'' c_uint 1,
    CBits ''dl_defer_running'' c_uint 1,
    CField ''dl_timer'' struct_hrtimer,
    CField ''inactive_timer'' struct_hrtimer,
    CField ''rq'' (CPtr ''struct rq''),
    CField ''server_has_tasks'' ty_dl_server_has_tasks_f,
    CField ''server_pick_task'' ty_dl_server_pick_f,
    CField ''pi_se'' (CPtr ''struct sched_dl_entity'')]"

definition struct_load_weight :: ctype where
  "struct_load_weight = CStruct ''load_weight'' [
    CField ''weight'' c_ulong,
    CField ''inv_weight'' ty_u32]"

definition struct_sched_avg :: ctype where
  "struct_sched_avg = CStruct ''sched_avg'' [
    CField ''last_update_time'' ty_u64,
    CField ''load_sum'' ty_u64,
    CField ''runnable_sum'' ty_u64,
    CField ''util_sum'' ty_u32,
    CField ''period_contrib'' ty_u32,
    CField ''load_avg'' c_ulong,
    CField ''runnable_avg'' c_ulong,
    CField ''util_avg'' c_ulong,
    CField ''util_est'' c_uint]"

definition struct_sched_entity :: ctype where
  "struct_sched_entity = CStruct ''sched_entity'' [
    CField ''load'' struct_load_weight,
    CField ''run_node'' struct_rb_node,
    CField ''deadline'' ty_u64,
    CField ''min_vruntime'' ty_u64,
    CField ''min_slice'' ty_u64,
    CField ''group_node'' struct_list_head,
    CField ''on_rq'' c_uchar,
    CField ''sched_delayed'' c_uchar,
    CField ''rel_deadline'' c_uchar,
    CField ''custom_slice'' c_uchar,
    CField ''exec_start'' ty_u64,
    CField ''sum_exec_runtime'' ty_u64,
    CField ''prev_sum_exec_runtime'' ty_u64,
    CField ''vruntime'' ty_u64,
    CField ''vlag'' ty_s64,
    CField ''slice'' ty_u64,
    CField ''nr_migrations'' ty_u64,
    CField ''depth'' c_int,
    CField ''parent'' (CPtr ''struct sched_entity''),
    CField ''cfs_rq'' (CPtr ''struct cfs_rq''),
    CField ''my_q'' (CPtr ''struct cfs_rq''),
    CField ''runnable_weight'' c_ulong,
    CBits '''' c_long 64,
    CField ''avg'' struct_sched_avg]"

definition struct_sched_info :: ctype where
  "struct_sched_info = CStruct ''sched_info'' [
    CField ''pcount'' c_ulong,
    CField ''run_delay'' c_ullong,
    CField ''max_run_delay'' c_ullong,
    CField ''min_run_delay'' c_ullong,
    CField ''last_arrival'' c_ullong,
    CField ''last_queued'' c_ullong]"

definition struct_sched_rt_entity :: ctype where
  "struct_sched_rt_entity = CStruct ''sched_rt_entity'' [
    CField ''run_list'' struct_list_head,
    CField ''timeout'' c_ulong,
    CField ''watchdog_stamp'' c_ulong,
    CField ''time_slice'' c_uint,
    CField ''on_rq'' c_ushort,
    CField ''on_list'' c_ushort,
    CField ''back'' (CPtr ''struct sched_rt_entity'')]"

definition struct_sched_statistics :: ctype where
  "struct_sched_statistics = CStruct ''sched_statistics'' [
    CField ''wait_start'' ty_u64,
    CField ''wait_max'' ty_u64,
    CField ''wait_count'' ty_u64,
    CField ''wait_sum'' ty_u64,
    CField ''iowait_count'' ty_u64,
    CField ''iowait_sum'' ty_u64,
    CField ''sleep_start'' ty_u64,
    CField ''sleep_max'' ty_u64,
    CField ''sum_sleep_runtime'' ty_s64,
    CField ''block_start'' ty_u64,
    CField ''block_max'' ty_u64,
    CField ''sum_block_runtime'' ty_s64,
    CField ''exec_max'' ty_s64,
    CField ''slice_max'' ty_u64,
    CField ''nr_migrations_cold'' ty_u64,
    CField ''nr_failed_migrations_affine'' ty_u64,
    CField ''nr_failed_migrations_running'' ty_u64,
    CField ''nr_failed_migrations_hot'' ty_u64,
    CField ''nr_forced_migrations'' ty_u64,
    CField ''nr_wakeups'' ty_u64,
    CField ''nr_wakeups_sync'' ty_u64,
    CField ''nr_wakeups_migrate'' ty_u64,
    CField ''nr_wakeups_local'' ty_u64,
    CField ''nr_wakeups_remote'' ty_u64,
    CField ''nr_wakeups_affine'' ty_u64,
    CField ''nr_wakeups_affine_attempts'' ty_u64,
    CField ''nr_wakeups_passive'' ty_u64,
    CField ''nr_wakeups_idle'' ty_u64,
    CBits '''' c_long 64,
    CBits '''' c_long 64,
    CBits '''' c_long 64,
    CBits '''' c_long 64]"

definition struct_seccomp :: ctype where
  "struct_seccomp = CStruct ''seccomp'' [
    CField ''mode'' c_int,
    CField ''filter_count'' ty_atomic_t,
    CField ''filter'' (CPtr ''struct seccomp_filter'')]"

definition ty_sigset_t :: ctype where
  "ty_sigset_t = CStruct '''' [
    CField ''sig'' (CArray c_ulong 1)]"

definition struct_sigpending :: ctype where
  "struct_sigpending = CStruct ''sigpending'' [
    CField ''list'' struct_list_head,
    CField ''signal'' ty_sigset_t]"

definition ty_bool :: ctype where [alias_defs]:
  "ty_bool = c_bool"

definition struct_syscall_user_dispatch :: ctype where
  "struct_syscall_user_dispatch = CStruct ''syscall_user_dispatch'' [
    CField ''selector'' (CPtr ''char''),
    CField ''offset'' c_ulong,
    CField ''len'' c_ulong,
    CField ''on_dispatch'' ty_bool]"

definition struct_sysv_sem :: ctype where
  "struct_sysv_sem = CStruct ''sysv_sem'' [
    CField ''undo_list'' (CPtr ''struct sem_undo_list'')]"

definition struct_sysv_shm :: ctype where
  "struct_sysv_shm = CStruct ''sysv_shm'' [
    CField ''shm_clist'' struct_list_head]"

definition struct_task_io_accounting :: ctype where
  "struct_task_io_accounting = CStruct ''task_io_accounting'' [
    CField ''rchar'' ty_u64,
    CField ''wchar'' ty_u64,
    CField ''syscr'' ty_u64,
    CField ''syscw'' ty_u64,
    CField ''read_bytes'' ty_u64,
    CField ''write_bytes'' ty_u64,
    CField ''cancelled_write_bytes'' ty_u64]"

definition struct_thread_info :: ctype where
  "struct_thread_info = CStruct ''thread_info'' [
    CField ''flags'' c_ulong,
    CField ''syscall_work'' c_ulong,
    CField ''status'' ty_u32,
    CField ''cpu'' ty_u32]"

definition struct_desc_struct :: ctype where
  "struct_desc_struct = CStruct ''desc_struct'' [
    CField ''limit0'' ty_u16,
    CField ''base0'' ty_u16,
    CBits ''base1'' ty_u16 8,
    CBits ''type'' ty_u16 4,
    CBits ''s'' ty_u16 1,
    CBits ''dpl'' ty_u16 2,
    CBits ''p'' ty_u16 1,
    CBits ''limit1'' ty_u16 4,
    CBits ''avl'' ty_u16 1,
    CBits ''l'' ty_u16 1,
    CBits ''d'' ty_u16 1,
    CBits ''g'' ty_u16 1,
    CBits ''base2'' ty_u16 8]"

definition struct_fregs_state :: ctype where
  "struct_fregs_state = CStruct ''fregs_state'' [
    CField ''cwd'' ty_u32,
    CField ''swd'' ty_u32,
    CField ''twd'' ty_u32,
    CField ''fip'' ty_u32,
    CField ''fcs'' ty_u32,
    CField ''foo'' ty_u32,
    CField ''fos'' ty_u32,
    CField ''st_space'' (CArray ty_u32 20),
    CField ''status'' ty_u32]"

definition struct_fxregs_state :: ctype where
  "struct_fxregs_state = CStruct ''fxregs_state'' [
    CField ''cwd'' ty_u16,
    CField ''swd'' ty_u16,
    CField ''twd'' ty_u16,
    CField ''fop'' ty_u16,
    CField '''' (CUnion '''' [
      CField '''' (CStruct '''' [
        CField ''rip'' ty_u64,
        CField ''rdp'' ty_u64]),
      CField '''' (CStruct '''' [
        CField ''fip'' ty_u32,
        CField ''fcs'' ty_u32,
        CField ''foo'' ty_u32,
        CField ''fos'' ty_u32])]),
    CField ''mxcsr'' ty_u32,
    CField ''mxcsr_mask'' ty_u32,
    CField ''st_space'' (CArray ty_u32 32),
    CField ''xmm_space'' (CArray ty_u32 64),
    CField ''padding'' (CArray ty_u32 12),
    CField '''' (CUnion '''' [
      CField ''padding1'' (CArray ty_u32 12),
      CField ''sw_reserved'' (CArray ty_u32 12)])]"

definition struct_swregs_state :: ctype where
  "struct_swregs_state = CStruct ''swregs_state'' [
    CField ''cwd'' ty_u32,
    CField ''swd'' ty_u32,
    CField ''twd'' ty_u32,
    CField ''fip'' ty_u32,
    CField ''fcs'' ty_u32,
    CField ''foo'' ty_u32,
    CField ''fos'' ty_u32,
    CField ''st_space'' (CArray ty_u32 20),
    CField ''ftop'' ty_u8,
    CField ''changed'' ty_u8,
    CField ''lookahead'' ty_u8,
    CField ''no_update'' ty_u8,
    CField ''rm'' ty_u8,
    CField ''alimit'' ty_u8,
    CField ''info'' (CPtr ''struct math_emu_info''),
    CField ''entry_eip'' ty_u32]"

definition struct_xstate_header :: ctype where
  "struct_xstate_header = CStruct ''xstate_header'' [
    CField ''xfeatures'' ty_u64,
    CField ''xcomp_bv'' ty_u64,
    CField ''reserved'' (CArray ty_u64 6)]"

definition struct_xregs_state :: ctype where
  "struct_xregs_state = CStruct ''xregs_state'' [
    CField ''i387'' struct_fxregs_state,
    CField ''header'' struct_xstate_header,
    CField ''extended_state_area'' (CArray ty_u8 0)]"

definition union_fpregs_state :: ctype where
  "union_fpregs_state = CUnion ''fpregs_state'' [
    CField ''fsave'' struct_fregs_state,
    CField ''fxsave'' struct_fxregs_state,
    CField ''soft'' struct_swregs_state,
    CField ''xsave'' struct_xregs_state,
    CField ''__padding'' (CArray ty_u8 4096)]"

definition struct_fpstate :: ctype where
  "struct_fpstate = CStruct ''fpstate'' [
    CField ''size'' c_uint,
    CField ''user_size'' c_uint,
    CField ''xfeatures'' ty_u64,
    CField ''user_xfeatures'' ty_u64,
    CField ''xfd'' ty_u64,
    CBits ''is_valloc'' c_uint 1,
    CBits ''is_guest'' c_uint 1,
    CBits ''is_confidential'' c_uint 1,
    CBits ''in_use'' c_uint 1,
    CBits '''' c_long 64,
    CBits '''' c_long 64,
    CBits '''' c_long 64,
    CField ''regs'' union_fpregs_state]"

definition struct_fpu_state_perm :: ctype where
  "struct_fpu_state_perm = CStruct ''fpu_state_perm'' [
    CField ''__state_perm'' ty_u64,
    CField ''__state_size'' c_uint,
    CField ''__user_state_size'' c_uint]"

definition struct_fpu :: ctype where
  "struct_fpu = CStruct ''fpu'' [
    CField ''last_cpu'' c_uint,
    CField ''avx512_timestamp'' c_ulong,
    CField ''fpstate'' (CPtr ''struct fpstate''),
    CField ''__task_fpstate'' (CPtr ''struct fpstate''),
    CField ''perm'' struct_fpu_state_perm,
    CField ''guest_perm'' struct_fpu_state_perm,
    CField ''__fpstate'' struct_fpstate]"

definition struct_thread_struct :: ctype where
  "struct_thread_struct = CStruct ''thread_struct'' [
    CField ''tls_array'' (CArray struct_desc_struct 3),
    CField ''sp'' c_ulong,
    CField ''es'' c_ushort,
    CField ''ds'' c_ushort,
    CField ''fsindex'' c_ushort,
    CField ''gsindex'' c_ushort,
    CField ''fsbase'' c_ulong,
    CField ''gsbase'' c_ulong,
    CField ''ptrace_bps'' (CArray (CPtr ''struct perf_event'') 4),
    CField ''virtual_dr6'' c_ulong,
    CField ''ptrace_dr7'' c_ulong,
    CField ''cr2'' c_ulong,
    CField ''trap_nr'' c_ulong,
    CField ''error_code'' c_ulong,
    CField ''io_bitmap'' (CPtr ''struct io_bitmap''),
    CField ''iopl_emul'' c_ulong,
    CBits ''iopl_warn'' c_uint 1,
    CField ''pkru'' ty_u32,
    CBits '''' c_long 64,
    CBits '''' c_long 64,
    CBits '''' c_long 64,
    CBits '''' c_long 64,
    CBits '''' c_long 64,
    CField ''fpu'' struct_fpu]"

definition struct_timer_list :: ctype where
  "struct_timer_list = CStruct ''timer_list'' [
    CField ''entry'' struct_hlist_node,
    CField ''expires'' c_ulong,
    CField ''function'' (CPtr ''function''),
    CField ''flags'' ty_u32]"

definition struct_cpumask :: ctype where
  "struct_cpumask = CStruct ''cpumask'' [
    CField ''bits'' (CArray c_ulong 1)]"

definition struct_arch_tlbflush_unmap_batch :: ctype where
  "struct_arch_tlbflush_unmap_batch = CStruct ''arch_tlbflush_unmap_batch'' [
    CField ''cpumask'' struct_cpumask]"

definition struct_tlbflush_unmap_batch :: ctype where
  "struct_tlbflush_unmap_batch = CStruct ''tlbflush_unmap_batch'' [
    CField ''arch'' struct_arch_tlbflush_unmap_batch,
    CField ''flush_required'' ty_bool,
    CField ''writable'' ty_bool]"

definition struct_wake_q_node :: ctype where
  "struct_wake_q_node = CStruct ''wake_q_node'' [
    CField ''next'' (CPtr ''struct wake_q_node'')]"

definition ty_cpumask_t :: ctype where [alias_defs]:
  "ty_cpumask_t = struct_cpumask"

definition ty___kernel_uid32_t :: ctype where [alias_defs]:
  "ty___kernel_uid32_t = c_uint"

definition ty_uid_t :: ctype where [alias_defs]:
  "ty_uid_t = ty___kernel_uid32_t"

definition ty_kuid_t :: ctype where
  "ty_kuid_t = CStruct '''' [
    CField ''val'' ty_uid_t]"

definition ty_nodemask_t :: ctype where
  "ty_nodemask_t = CStruct '''' [
    CField ''bits'' (CArray c_ulong 1)]"

definition ty_size_t :: ctype where [alias_defs]:
  "ty_size_t = ty___kernel_size_t"

definition union_rcu_special :: ctype where
  "union_rcu_special = CUnion ''rcu_special'' [
    CField ''b'' (CStruct '''' [
      CField ''blocked'' ty_u8,
      CField ''need_qs'' ty_u8,
      CField ''exp_hint'' ty_u8,
      CField ''need_mb'' ty_u8]),
    CField ''s'' ty_u32]"

definition task_struct_head :: "cmember list" where
  "task_struct_head = [
    CField ''thread_info'' struct_thread_info,
    CField ''__state'' c_uint,
    CField ''saved_state'' c_uint,
    CField ''stack'' (CPtr ''void''),
    CField ''usage'' ty_refcount_t,
    CField ''flags'' c_uint,
    CField ''ptrace'' c_uint,
    CField ''on_cpu'' c_int,
    CField ''wake_entry'' struct___call_single_node,
    CField ''wakee_flips'' c_uint,
    CField ''wakee_flip_decay_ts'' c_ulong,
    CField ''last_wakee'' (CPtr ''struct task_struct''),
    CField ''recent_used_cpu'' c_int,
    CField ''wake_cpu'' c_int,
    CField ''on_rq'' c_int,
    CField ''prio'' c_int,
    CField ''static_prio'' c_int,
    CField ''normal_prio'' c_int,
    CField ''rt_priority'' c_uint,
    CField ''se'' struct_sched_entity,
    CField ''rt'' struct_sched_rt_entity,
    CField ''dl'' struct_sched_dl_entity,
    CField ''dl_server'' (CPtr ''struct sched_dl_entity''),
    CField ''sched_class'' (CPtr ''const struct sched_class''),
    CField ''sched_task_group'' (CPtr ''struct task_group''),
    CField ''stats'' struct_sched_statistics,
    CField ''btrace_seq'' c_uint,
    CField ''policy'' c_uint,
    CField ''max_allowed_capacity'' c_ulong,
    CField ''nr_cpus_allowed'' c_int,
    CField ''cpus_ptr'' (CPtr ''const cpumask_t''),
    CField ''user_cpus_ptr'' (CPtr ''cpumask_t''),
    CField ''cpus_mask'' ty_cpumask_t,
    CField ''migration_pending'' (CPtr ''void''),
    CField ''migration_disabled'' c_ushort,
    CField ''migration_flags'' c_ushort,
    CField ''rcu_read_lock_nesting'' c_int,
    CField ''rcu_read_unlock_special'' union_rcu_special,
    CField ''rcu_node_entry'' struct_list_head,
    CField ''rcu_blocked_node'' (CPtr ''struct rcu_node''),
    CField ''rcu_tasks_nvcsw'' c_ulong,
    CField ''rcu_tasks_holdout'' ty_u8,
    CField ''rcu_tasks_idx'' ty_u8,
    CField ''rcu_tasks_idle_cpu'' c_int,
    CField ''rcu_tasks_holdout_list'' struct_list_head,
    CField ''rcu_tasks_exit_cpu'' c_int,
    CField ''rcu_tasks_exit_list'' struct_list_head,
    CField ''trc_reader_nesting'' c_int,
    CField ''trc_ipi_to_cpu'' c_int,
    CField ''trc_reader_special'' union_rcu_special,
    CField ''trc_holdout_list'' struct_list_head,
    CField ''trc_blkd_node'' struct_list_head,
    CField ''trc_blkd_cpu'' c_int,
    CField ''sched_info'' struct_sched_info,
    CField ''tasks'' struct_list_head,
    CField ''pushable_tasks'' struct_plist_node,
    CField ''pushable_dl_tasks'' struct_rb_node,
    CField ''mm'' (CPtr ''struct mm_struct''),
    CField ''active_mm'' (CPtr ''struct mm_struct''),
    CField ''faults_disabled_mapping'' (CPtr ''struct address_space''),
    CField ''exit_state'' c_int,
    CField ''exit_code'' c_int,
    CField ''exit_signal'' c_int,
    CField ''pdeath_signal'' c_int,
    CField ''jobctl'' c_ulong,
    CField ''personality'' c_uint,
    CBits ''sched_reset_on_fork'' c_uint 1,
    CBits ''sched_contributes_to_load'' c_uint 1,
    CBits ''sched_migrated'' c_uint 1,
    CBits ''sched_task_hot'' c_uint 1,
    CBits '''' c_long 28,
    CBits ''sched_remote_wakeup'' c_uint 1,
    CBits ''sched_rt_mutex'' c_uint 1,
    CBits ''in_execve'' c_uint 1,
    CBits ''in_iowait'' c_uint 1,
    CBits ''restore_sigmask'' c_uint 1,
    CBits ''no_cgroup_migration'' c_uint 1,
    CBits ''frozen'' c_uint 1,
    CBits ''use_memdelay'' c_uint 1,
    CBits ''in_eventfd'' c_uint 1,
    CBits ''pasid_activated'' c_uint 1,
    CBits ''reported_split_lock'' c_uint 1,
    CBits ''in_thrashing'' c_uint 1,
    CField ''atomic_flags'' c_ulong,
    CField ''restart_block'' struct_restart_block]"

definition task_struct_tail :: "cmember list" where
  "task_struct_tail = [
    CField ''pid'' ty_pid_t,
    CField ''tgid'' ty_pid_t,
    CField ''stack_canary'' c_ulong,
    CField ''real_parent'' (CPtr ''struct task_struct''),
    CField ''parent'' (CPtr ''struct task_struct''),
    CField ''children'' struct_list_head,
    CField ''sibling'' struct_list_head,
    CField ''group_leader'' (CPtr ''struct task_struct''),
    CField ''ptraced'' struct_list_head,
    CField ''ptrace_entry'' struct_list_head,
    CField ''thread_pid'' (CPtr ''struct pid''),
    CField ''pid_links'' (CArray struct_hlist_node 4),
    CField ''thread_node'' struct_list_head,
    CField ''vfork_done'' (CPtr ''struct completion''),
    CField ''set_child_tid'' (CPtr ''int''),
    CField ''clear_child_tid'' (CPtr ''int''),
    CField ''worker_private'' (CPtr ''void''),
    CField ''utime'' ty_u64,
    CField ''stime'' ty_u64,
    CField ''gtime'' ty_u64,
    CField ''prev_cputime'' struct_prev_cputime,
    CField ''nvcsw'' c_ulong,
    CField ''nivcsw'' c_ulong,
    CField ''start_time'' ty_u64,
    CField ''start_boottime'' ty_u64,
    CField ''min_flt'' c_ulong,
    CField ''maj_flt'' c_ulong,
    CField ''posix_cputimers'' struct_posix_cputimers,
    CField ''posix_cputimers_work'' struct_posix_cputimers_work,
    CField ''ptracer_cred'' (CPtr ''const struct cred''),
    CField ''real_cred'' (CPtr ''const struct cred''),
    CField ''cred'' (CPtr ''const struct cred''),
    CField ''cached_requested_key'' (CPtr ''struct key''),
    CField ''comm'' (CArray c_char 16),
    CField ''nameidata'' (CPtr ''struct nameidata''),
    CField ''sysvsem'' struct_sysv_sem,
    CField ''sysvshm'' struct_sysv_shm,
    CField ''fs'' (CPtr ''struct fs_struct''),
    CField ''files'' (CPtr ''struct files_struct''),
    CField ''io_uring'' (CPtr ''struct io_uring_task''),
    CField ''nsproxy'' (CPtr ''struct nsproxy''),
    CField ''signal'' (CPtr ''struct signal_struct''),
    CField ''sighand'' (CPtr ''struct sighand_struct''),
    CField ''blocked'' ty_sigset_t,
    CField ''real_blocked'' ty_sigset_t,
    CField ''saved_sigmask'' ty_sigset_t,
    CField ''pending'' struct_sigpending,
    CField ''sas_ss_sp'' c_ulong,
    CField ''sas_ss_size'' ty_size_t,
    CField ''sas_ss_flags'' c_uint,
    CField ''task_works'' (CPtr ''struct callback_head''),
    CField ''audit_context'' (CPtr ''struct audit_context''),
    CField ''loginuid'' ty_kuid_t,
    CField ''sessionid'' c_uint,
    CField ''seccomp'' struct_seccomp,
    CField ''syscall_dispatch'' struct_syscall_user_dispatch,
    CField ''parent_exec_id'' ty_u64,
    CField ''self_exec_id'' ty_u64,
    CField ''alloc_lock'' ty_spinlock_t,
    CField ''pi_lock'' ty_raw_spinlock_t,
    CField ''wake_q'' struct_wake_q_node,
    CField ''pi_waiters'' struct_rb_root_cached,
    CField ''pi_top_task'' (CPtr ''struct task_struct''),
    CField ''pi_blocked_on'' (CPtr ''struct rt_mutex_waiter''),
    CField ''journal_info'' (CPtr ''void''),
    CField ''bio_list'' (CPtr ''struct bio_list''),
    CField ''plug'' (CPtr ''struct blk_plug''),
    CField ''reclaim_state'' (CPtr ''struct reclaim_state''),
    CField ''io_context'' (CPtr ''struct io_context''),
    CField ''capture_control'' (CPtr ''struct capture_control''),
    CField ''ptrace_message'' c_ulong,
    CField ''last_siginfo'' (CPtr ''kernel_siginfo_t''),
    CField ''ioac'' struct_task_io_accounting,
    CField ''acct_rss_mem1'' ty_u64,
    CField ''acct_vm_mem1'' ty_u64,
    CField ''acct_timexpd'' ty_u64,
    CField ''mems_allowed'' ty_nodemask_t,
    CField ''mems_allowed_seq'' ty_seqcount_spinlock_t,
    CField ''cpuset_mem_spread_rotor'' c_int,
    CField ''cgroups'' (CPtr ''struct css_set''),
    CField ''cg_list'' struct_list_head,
    CField ''robust_list'' (CPtr ''struct robust_list_head''),
    CField ''compat_robust_list'' (CPtr ''struct compat_robust_list_head''),
    CField ''pi_state_list'' struct_list_head,
    CField ''pi_state_cache'' (CPtr ''struct futex_pi_state''),
    CField ''futex_exit_mutex'' struct_mutex,
    CField ''futex_state'' c_uint,
    CField ''perf_recursion'' (CArray ty_u8 4),
    CField ''perf_event_ctxp'' (CPtr ''struct perf_event_context''),
    CField ''perf_event_mutex'' struct_mutex,
    CField ''perf_event_list'' struct_list_head,
    CField ''mempolicy'' (CPtr ''struct mempolicy''),
    CField ''il_prev'' c_short,
    CField ''il_weight'' ty_u8,
    CField ''pref_node_fork'' c_short,
    CField ''rseq'' (CPtr ''struct rseq''),
    CField ''rseq_len'' ty_u32,
    CField ''rseq_sig'' ty_u32,
    CField ''rseq_event_mask'' c_ulong,
    CField ''mm_cid'' c_int,
    CField ''last_mm_cid'' c_int,
    CField ''migrate_from_cpu'' c_int,
    CField ''mm_cid_active'' c_int,
    CField ''cid_work'' struct_callback_head,
    CField ''tlb_ubc'' struct_tlbflush_unmap_batch,
    CField ''splice_pipe'' (CPtr ''struct pipe_inode_info''),
    CField ''task_frag'' struct_page_frag,
    CField ''delays'' (CPtr ''struct task_delay_info''),
    CField ''nr_dirtied'' c_int,
    CField ''nr_dirtied_pause'' c_int,
    CField ''dirty_paused_when'' c_ulong,
    CField ''timer_slack_ns'' ty_u64,
    CField ''default_timer_slack_ns'' ty_u64,
    CField ''trace_recursion'' c_ulong,
    CField ''throttle_disk'' (CPtr ''struct gendisk''),
    CField ''utask'' (CPtr ''struct uprobe_task''),
    CField ''kmap_ctrl'' struct_kmap_ctrl,
    CField ''rcu'' struct_callback_head,
    CField ''rcu_users'' ty_refcount_t,
    CField ''pagefault_disabled'' c_int,
    CField ''oom_reaper_list'' (CPtr ''struct task_struct''),
    CField ''oom_reaper_timer'' struct_timer_list,
    CField ''stack_vm_area'' (CPtr ''struct vm_struct''),
    CField ''stack_refcount'' ty_refcount_t,
    CField ''security'' (CPtr ''void''),
    CField ''bpf_storage'' (CPtr ''struct bpf_local_storage''),
    CField ''bpf_ctx'' (CPtr ''struct bpf_run_ctx''),
    CField ''bpf_net_context'' (CPtr ''struct bpf_net_context''),
    CField ''mce_vaddr'' (CPtr ''void''),
    CField ''mce_kflags'' ty___u64,
    CField ''mce_addr'' ty_u64,
    CBits ''mce_ripv'' ty___u64 1,
    CBits ''mce_whole_page'' ty___u64 1,
    CBits ''__mce_reserved'' ty___u64 62,
    CField ''mce_kill_me'' struct_callback_head,
    CField ''mce_count'' c_int,
    CField ''kretprobe_instances'' struct_llist_head,
    CField ''rethooks'' struct_llist_head,
    CField ''l1d_flush_kill'' struct_callback_head,
    CBits '''' c_long 64,
    CBits '''' c_long 64,
    CBits '''' c_long 64,
    CField ''thread'' struct_thread_struct]"

definition struct_task_struct :: ctype where
  "struct_task_struct = CStruct ''task_struct'' (task_struct_head @ task_struct_tail)"

section \<open>Layout\<close>

text \<open>
  Size and alignment of each aggregate, from the innermost type outwards, and that it is
  well-formed.  The simplifier evaluates the layout functions; the facts feed the layout of the
  types that embed these ones.
\<close>

lemma struct___call_single_node_layout [layout_simps]:
  "csize struct___call_single_node = 16" "calign struct___call_single_node = 8" "cwf struct___call_single_node"
  by (simp_all add: struct___call_single_node_def alias_defs layout_simps round_up_def)

lemma struct_kmap_ctrl_layout [layout_simps]:
  "csize struct_kmap_ctrl = 0" "calign struct_kmap_ctrl = 1" "cwf struct_kmap_ctrl"
  by (simp_all add: struct_kmap_ctrl_def alias_defs layout_simps round_up_def)

lemma struct_llist_head_layout [layout_simps]:
  "csize struct_llist_head = 8" "calign struct_llist_head = 8" "cwf struct_llist_head"
  by (simp_all add: struct_llist_head_def alias_defs layout_simps round_up_def)

lemma struct_page_frag_layout [layout_simps]:
  "csize struct_page_frag = 16" "calign struct_page_frag = 8" "cwf struct_page_frag"
  by (simp_all add: struct_page_frag_def alias_defs layout_simps round_up_def)

lemma struct_plist_node_layout [layout_simps]:
  "csize struct_plist_node = 40" "calign struct_plist_node = 8" "cwf struct_plist_node"
  by (simp_all add: struct_plist_node_def alias_defs layout_simps round_up_def)

lemma struct_rb_root_layout [layout_simps]:
  "csize struct_rb_root = 8" "calign struct_rb_root = 8" "cwf struct_rb_root"
  by (simp_all add: struct_rb_root_def alias_defs layout_simps round_up_def)

lemma struct_rb_root_cached_layout [layout_simps]:
  "csize struct_rb_root_cached = 16" "calign struct_rb_root_cached = 8" "cwf struct_rb_root_cached"
  by (simp_all add: struct_rb_root_cached_def alias_defs layout_simps round_up_def)

lemma struct_timerqueue_head_layout [layout_simps]:
  "csize struct_timerqueue_head = 16" "calign struct_timerqueue_head = 8" "cwf struct_timerqueue_head"
  by (simp_all add: struct_timerqueue_head_def alias_defs layout_simps round_up_def)

lemma struct_posix_cputimer_base_layout [layout_simps]:
  "csize struct_posix_cputimer_base = 24" "calign struct_posix_cputimer_base = 8" "cwf struct_posix_cputimer_base"
  by (simp_all add: struct_posix_cputimer_base_def alias_defs layout_simps round_up_def)

lemma struct_posix_cputimers_layout [layout_simps]:
  "csize struct_posix_cputimers = 80" "calign struct_posix_cputimers = 8" "cwf struct_posix_cputimers"
  by (simp_all add: struct_posix_cputimers_def alias_defs layout_simps round_up_def)

lemma struct_posix_cputimers_work_layout [layout_simps]:
  "csize struct_posix_cputimers_work = 56" "calign struct_posix_cputimers_work = 8" "cwf struct_posix_cputimers_work"
  by (simp_all add: struct_posix_cputimers_work_def alias_defs layout_simps round_up_def)

lemma struct_prev_cputime_layout [layout_simps]:
  "csize struct_prev_cputime = 24" "calign struct_prev_cputime = 8" "cwf struct_prev_cputime"
  by (simp_all add: struct_prev_cputime_def alias_defs layout_simps round_up_def)

lemma struct_rb_node_layout [layout_simps]:
  "csize struct_rb_node = 24" "calign struct_rb_node = 8" "cwf struct_rb_node"
  by (simp_all add: struct_rb_node_def alias_defs layout_simps round_up_def)

lemma struct_restart_block_layout [layout_simps]:
  "csize struct_restart_block = 56" "calign struct_restart_block = 8" "cwf struct_restart_block"
  by (simp_all add: struct_restart_block_def alias_defs layout_simps round_up_def)

lemma struct_timerqueue_node_layout [layout_simps]:
  "csize struct_timerqueue_node = 32" "calign struct_timerqueue_node = 8" "cwf struct_timerqueue_node"
  by (simp_all add: struct_timerqueue_node_def alias_defs layout_simps round_up_def)

lemma struct_hrtimer_layout [layout_simps]:
  "csize struct_hrtimer = 64" "calign struct_hrtimer = 8" "cwf struct_hrtimer"
  by (simp_all add: struct_hrtimer_def alias_defs layout_simps round_up_def)

lemma struct_sched_dl_entity_layout [layout_simps]:
  "csize struct_sched_dl_entity = 248" "calign struct_sched_dl_entity = 8" "cwf struct_sched_dl_entity"
  by (simp_all add: struct_sched_dl_entity_def alias_defs layout_simps round_up_def)

lemma struct_load_weight_layout [layout_simps]:
  "csize struct_load_weight = 16" "calign struct_load_weight = 8" "cwf struct_load_weight"
  by (simp_all add: struct_load_weight_def alias_defs layout_simps round_up_def)

lemma struct_sched_avg_layout [layout_simps]:
  "csize struct_sched_avg = 64" "calign struct_sched_avg = 8" "cwf struct_sched_avg"
  by (simp_all add: struct_sched_avg_def alias_defs layout_simps round_up_def)

lemma struct_sched_entity_layout [layout_simps]:
  "csize struct_sched_entity = 256" "calign struct_sched_entity = 8" "cwf struct_sched_entity"
  by (simp_all add: struct_sched_entity_def alias_defs layout_simps round_up_def)

lemma struct_sched_info_layout [layout_simps]:
  "csize struct_sched_info = 48" "calign struct_sched_info = 8" "cwf struct_sched_info"
  by (simp_all add: struct_sched_info_def alias_defs layout_simps round_up_def)

lemma struct_sched_rt_entity_layout [layout_simps]:
  "csize struct_sched_rt_entity = 48" "calign struct_sched_rt_entity = 8" "cwf struct_sched_rt_entity"
  by (simp_all add: struct_sched_rt_entity_def alias_defs layout_simps round_up_def)

lemma struct_sched_statistics_layout [layout_simps]:
  "csize struct_sched_statistics = 256" "calign struct_sched_statistics = 8" "cwf struct_sched_statistics"
  by (simp_all add: struct_sched_statistics_def alias_defs layout_simps round_up_def)

lemma struct_seccomp_layout [layout_simps]:
  "csize struct_seccomp = 16" "calign struct_seccomp = 8" "cwf struct_seccomp"
  by (simp_all add: struct_seccomp_def alias_defs layout_simps round_up_def)

lemma ty_sigset_t_layout [layout_simps]:
  "csize ty_sigset_t = 8" "calign ty_sigset_t = 8" "cwf ty_sigset_t"
  by (simp_all add: ty_sigset_t_def alias_defs layout_simps round_up_def)

lemma struct_sigpending_layout [layout_simps]:
  "csize struct_sigpending = 24" "calign struct_sigpending = 8" "cwf struct_sigpending"
  by (simp_all add: struct_sigpending_def alias_defs layout_simps round_up_def)

lemma struct_syscall_user_dispatch_layout [layout_simps]:
  "csize struct_syscall_user_dispatch = 32" "calign struct_syscall_user_dispatch = 8" "cwf struct_syscall_user_dispatch"
  by (simp_all add: struct_syscall_user_dispatch_def alias_defs layout_simps round_up_def)

lemma struct_sysv_sem_layout [layout_simps]:
  "csize struct_sysv_sem = 8" "calign struct_sysv_sem = 8" "cwf struct_sysv_sem"
  by (simp_all add: struct_sysv_sem_def alias_defs layout_simps round_up_def)

lemma struct_sysv_shm_layout [layout_simps]:
  "csize struct_sysv_shm = 16" "calign struct_sysv_shm = 8" "cwf struct_sysv_shm"
  by (simp_all add: struct_sysv_shm_def alias_defs layout_simps round_up_def)

lemma struct_task_io_accounting_layout [layout_simps]:
  "csize struct_task_io_accounting = 56" "calign struct_task_io_accounting = 8" "cwf struct_task_io_accounting"
  by (simp_all add: struct_task_io_accounting_def alias_defs layout_simps round_up_def)

lemma struct_thread_info_layout [layout_simps]:
  "csize struct_thread_info = 24" "calign struct_thread_info = 8" "cwf struct_thread_info"
  by (simp_all add: struct_thread_info_def alias_defs layout_simps round_up_def)

lemma struct_desc_struct_layout [layout_simps]:
  "csize struct_desc_struct = 8" "calign struct_desc_struct = 2" "cwf struct_desc_struct"
  by (simp_all add: struct_desc_struct_def alias_defs layout_simps round_up_def)

lemma struct_fregs_state_layout [layout_simps]:
  "csize struct_fregs_state = 112" "calign struct_fregs_state = 4" "cwf struct_fregs_state"
  by (simp_all add: struct_fregs_state_def alias_defs layout_simps round_up_def)

lemma struct_fxregs_state_layout [layout_simps]:
  "csize struct_fxregs_state = 512" "calign struct_fxregs_state = 8" "cwf struct_fxregs_state"
  by (simp_all add: struct_fxregs_state_def alias_defs layout_simps round_up_def)

lemma struct_swregs_state_layout [layout_simps]:
  "csize struct_swregs_state = 136" "calign struct_swregs_state = 8" "cwf struct_swregs_state"
  by (simp_all add: struct_swregs_state_def alias_defs layout_simps round_up_def)

lemma struct_xstate_header_layout [layout_simps]:
  "csize struct_xstate_header = 64" "calign struct_xstate_header = 8" "cwf struct_xstate_header"
  by (simp_all add: struct_xstate_header_def alias_defs layout_simps round_up_def)

lemma struct_xregs_state_layout [layout_simps]:
  "csize struct_xregs_state = 576" "calign struct_xregs_state = 8" "cwf struct_xregs_state"
  by (simp_all add: struct_xregs_state_def alias_defs layout_simps round_up_def)

lemma union_fpregs_state_layout [layout_simps]:
  "csize union_fpregs_state = 4096" "calign union_fpregs_state = 8" "cwf union_fpregs_state"
  by (simp_all add: union_fpregs_state_def alias_defs layout_simps round_up_def)

lemma struct_fpstate_layout [layout_simps]:
  "csize struct_fpstate = 4160" "calign struct_fpstate = 8" "cwf struct_fpstate"
  by (simp_all add: struct_fpstate_def alias_defs layout_simps round_up_def)

lemma struct_fpu_state_perm_layout [layout_simps]:
  "csize struct_fpu_state_perm = 16" "calign struct_fpu_state_perm = 8" "cwf struct_fpu_state_perm"
  by (simp_all add: struct_fpu_state_perm_def alias_defs layout_simps round_up_def)

lemma struct_fpu_layout [layout_simps]:
  "csize struct_fpu = 4224" "calign struct_fpu = 8" "cwf struct_fpu"
  by (simp_all add: struct_fpu_def alias_defs layout_simps round_up_def)

lemma struct_thread_struct_layout [layout_simps]:
  "csize struct_thread_struct = 4416" "calign struct_thread_struct = 8" "cwf struct_thread_struct"
  by (simp_all add: struct_thread_struct_def alias_defs layout_simps round_up_def)

lemma struct_timer_list_layout [layout_simps]:
  "csize struct_timer_list = 40" "calign struct_timer_list = 8" "cwf struct_timer_list"
  by (simp_all add: struct_timer_list_def alias_defs layout_simps round_up_def)

lemma struct_cpumask_layout [layout_simps]:
  "csize struct_cpumask = 8" "calign struct_cpumask = 8" "cwf struct_cpumask"
  by (simp_all add: struct_cpumask_def alias_defs layout_simps round_up_def)

lemma struct_arch_tlbflush_unmap_batch_layout [layout_simps]:
  "csize struct_arch_tlbflush_unmap_batch = 8" "calign struct_arch_tlbflush_unmap_batch = 8" "cwf struct_arch_tlbflush_unmap_batch"
  by (simp_all add: struct_arch_tlbflush_unmap_batch_def alias_defs layout_simps round_up_def)

lemma struct_tlbflush_unmap_batch_layout [layout_simps]:
  "csize struct_tlbflush_unmap_batch = 16" "calign struct_tlbflush_unmap_batch = 8" "cwf struct_tlbflush_unmap_batch"
  by (simp_all add: struct_tlbflush_unmap_batch_def alias_defs layout_simps round_up_def)

lemma struct_wake_q_node_layout [layout_simps]:
  "csize struct_wake_q_node = 8" "calign struct_wake_q_node = 8" "cwf struct_wake_q_node"
  by (simp_all add: struct_wake_q_node_def alias_defs layout_simps round_up_def)

lemma ty_kuid_t_layout [layout_simps]:
  "csize ty_kuid_t = 4" "calign ty_kuid_t = 4" "cwf ty_kuid_t"
  by (simp_all add: ty_kuid_t_def alias_defs layout_simps round_up_def)

lemma ty_nodemask_t_layout [layout_simps]:
  "csize ty_nodemask_t = 8" "calign ty_nodemask_t = 8" "cwf ty_nodemask_t"
  by (simp_all add: ty_nodemask_t_def alias_defs layout_simps round_up_def)

lemma union_rcu_special_layout [layout_simps]:
  "csize union_rcu_special = 4" "calign union_rcu_special = 4" "cwf union_rcu_special"
  by (simp_all add: union_rcu_special_def alias_defs layout_simps round_up_def)

lemma struct_task_struct_layout [layout_simps]:
  "csize struct_task_struct = 7360" "calign struct_task_struct = 8" "cwf struct_task_struct"
  by (simp_all add: struct_task_struct_def task_struct_head_def task_struct_tail_def alias_defs layout_simps round_up_def)

end
