(* ===== verification/Step_Systems.thy ===== *)
theory Step_Systems
  imports Main
begin

text \<open>
  What the step relations of the development share: an invariant that every step keeps holds in every
  state that a run reaches.  The programs of the kernel, the consumers of the ring buffers and the file
  watcher are interpretations.
\<close>

locale preserved =
  fixes step :: "'s \<Rightarrow> 's \<Rightarrow> bool" and inv :: "'s \<Rightarrow> bool"
  assumes step_keeps: "step s t \<Longrightarrow> inv s \<Longrightarrow> inv t"
begin

lemma run_keeps: "step\<^sup>*\<^sup>* s t \<Longrightarrow> inv s \<Longrightarrow> inv t"
  by (induction rule: rtranclp_induct) (auto intro: step_keeps)

end

text \<open>A system with an initial state that has the invariant.\<close>

locale invariant_of = preserved step inv for step :: "'s \<Rightarrow> 's \<Rightarrow> bool" and inv :: "'s \<Rightarrow> bool" +
  fixes init :: 's
  assumes init_inv: "inv init"
begin

lemma reachable: "step\<^sup>*\<^sup>* init s \<Longrightarrow> inv s"
  by (rule run_keeps [OF _ init_inv])

end

end
