(* ===== verification/Probes.thy ===== *)
theory Probes
  imports Event_Record Tracing Vmlinux_Task Step_Systems
begin

text \<open>
  The eBPF program of \<open>src/ebpf/diffkeeper.bpf.c\<close>: the two write probes and the exec tracepoint.
  A program runs on a \<open>kernel\<close> (helpers, relocations, memory) and submits samples to the two ring
  buffers, the only state the program has.

  Shown here: what a probe submits, field by field, for every kernel that keeps the documented
  helper laws and for every layout of the kernel types; that every sample in a ring buffer has the
  size of its struct after any sequence of probe runs; what \<open>fentry_vfs_writev\<close> counts.
\<close>

section \<open>Ring buffers\<close>

record bpf_maps =
  events :: "byte list list"
  lifecycle_events :: "byte list list"

definition events_max_entries :: nat where
  "events_max_entries = 2 ^ 20"

definition lifecycle_events_max_entries :: nat where
  "lifecycle_events_max_entries = 2 ^ 20"

definition submit_event :: "byte list \<Rightarrow> bpf_maps \<Rightarrow> bpf_maps" where
  "submit_event ev s = s\<lparr>events := events s @ [ev]\<rparr>"

definition submit_lifecycle :: "byte list \<Rightarrow> bpf_maps \<Rightarrow> bpf_maps" where
  "submit_lifecycle ev s = s\<lparr>lifecycle_events := lifecycle_events s @ [ev]\<rparr>"

text \<open>
  \<open>BPF_CORE_READ\<close> of an eight-byte member.  A helper that fails leaves zero in the bytes it does not
  store.
\<close>

definition core_read64 :: "kernel \<Rightarrow> addr \<Rightarrow> accessor \<Rightarrow> u64" where
  "core_read64 k src a = (case BPF_CORE_READ k 8 src [a] of Some bs \<Rightarrow> le_word bs | None \<Rightarrow> 0)"

text \<open>\<open>bpf_get_current_pid_tgid() >> 32\<close>, stored in 32 bits.\<close>

definition current_tgid :: "kernel \<Rightarrow> u32" where
  "current_tgid k = ucast (drop_bit 32 (bpf_get_current_pid_tgid k))"


section \<open>The programs\<close>

text \<open>Lines 45 to 52: the fields of the reserved sample, in the order they are stored.\<close>

definition fill_syscall_event :: "kernel \<Rightarrow> addr \<Rightarrow> u64 \<Rightarrow> byte list \<Rightarrow> byte list" where
  "fill_syscall_event k file count ev =
     (let ev = put_member syscall_event ''pid'' (le_bytes 4 (current_tgid k)) ev;
          ev = put_member syscall_event ''bytes'' (le_bytes 8 count) ev;
          ev = put_member syscall_event ''path'' (replicate 256 0) ev;
          dentry = core_read64 k file (''file'', [''f_path'', ''dentry'']);
          name = core_read64 k dentry (''dentry'', [''d_name'', ''name'']);
          path = snd (bpf_probe_read_kernel_str k name 256)
      in put_member syscall_event ''path'' path ev)"

definition emit_syscall_event :: "kernel \<Rightarrow> addr \<Rightarrow> u64 \<Rightarrow> bpf_maps \<Rightarrow> int \<times> bpf_maps" where
  "emit_syscall_event k file count s =
     (if file = 0 then (0, s)
      else case bpf_ringbuf_reserve k ''events'' (csize syscall_event) of
        None \<Rightarrow> (0, s)
      | Some ev \<Rightarrow> (0, submit_event (fill_syscall_event k file count ev) s))"

definition fentry_vfs_write :: "kernel \<Rightarrow> addr \<Rightarrow> addr \<Rightarrow> u64 \<Rightarrow> addr \<Rightarrow> bpf_maps \<Rightarrow> int \<times> bpf_maps" where
  "fentry_vfs_write k file buf count pos s = emit_syscall_event k file count s"

text \<open>The unrolled loop over the segments: \<open>i\<close> is compared with \<open>nr_segs\<close> as an unsigned 64-bit value.\<close>

function writev_total :: "kernel \<Rightarrow> addr \<Rightarrow> u64 \<Rightarrow> nat \<Rightarrow> u64 \<Rightarrow> u64" where
  "writev_total k iov nr_segs i acc =
     (if i < 6
      then if nr_segs \<le> word_of_nat i then acc
           else writev_total k iov nr_segs (Suc i)
             (acc + core_read64 k (iov + word_of_nat (i * csize struct_iovec)) (''iovec'', [''iov_len'']))
      else acc)"
  by pat_completeness auto
termination
  by (relation "measure (\<lambda>(k, iov, nr_segs, i, acc). 6 - i)") auto

declare writev_total.simps [simp del]

definition fentry_vfs_writev :: "kernel \<Rightarrow> addr \<Rightarrow> addr \<Rightarrow> u64 \<Rightarrow> bpf_maps \<Rightarrow> int \<times> bpf_maps" where
  "fentry_vfs_writev k iocb iov nr_segs s =
     (let file = core_read64 k iocb (''kiocb'', [''ki_filp''])
      in emit_syscall_event k file (writev_total k iov nr_segs 0 0) s)"

text \<open>
  Lines 94 to 115.  \<open>uts->name.nodename\<close> is an array, so the argument is its address;
  \<open>ctx->__data_loc_filename\<close> is a load through the context pointer.
\<close>

definition data_loc_filename :: "kernel \<Rightarrow> addr \<Rightarrow> u32" where
  "data_loc_filename k ctx =
     le_word (direct_load k (field_addr (core_offsets k) ctx
       (''trace_event_raw_sched_process_exec'', [''__data_loc_filename''])) 4)"

definition fill_namespace :: "kernel \<Rightarrow> addr \<Rightarrow> byte list \<Rightarrow> byte list" where
  "fill_namespace k ns event =
     (if ns \<noteq> 0
      then let uts = core_read64 k ns (''nsproxy'', [''uts_ns''])
           in if uts \<noteq> 0
              then put_member lifecycle_event ''namespace''
                     (snd (bpf_probe_read_kernel_str k
                        (field_addr (core_offsets k) uts (''uts_namespace'', [''name'', ''nodename''])) 64)) event
              else event
      else put_member lifecycle_event ''namespace'' (replicate 64 0) event)"

definition fill_lifecycle_event :: "kernel \<Rightarrow> addr \<Rightarrow> byte list \<Rightarrow> byte list" where
  "fill_lifecycle_event k ctx event =
     (let event = put_member lifecycle_event ''pid'' (le_bytes 4 (current_tgid k)) event;
          event = put_member lifecycle_event ''state'' (le_bytes 4 (1 :: u32)) event;
          event = put_member lifecycle_event ''runtime'' (snd (bpf_get_current_comm k 16)) event;
          task = bpf_get_current_task k;
          ns = core_read64 k task (''task_struct'', [''nsproxy'']);
          event = fill_namespace k ns event;
          offset = data_loc_filename k ctx AND 0xFFFF;
          filename = ctx + ucast offset
      in put_member lifecycle_event ''container'' (snd (bpf_probe_read_kernel_str k filename 64)) event)"

definition handle_sched_exec :: "kernel \<Rightarrow> addr \<Rightarrow> bpf_maps \<Rightarrow> int \<times> bpf_maps" where
  "handle_sched_exec k ctx s =
     (case bpf_ringbuf_reserve k ''lifecycle_events'' (csize lifecycle_event) of
        None \<Rightarrow> (0, s)
      | Some event \<Rightarrow> (0, submit_lifecycle (fill_lifecycle_event k ctx event) s))"

text \<open>
  The functions that \<open>BPF_PROG\<close> declares for the two write probes: the kernel calls them with the
  array of the traced function's arguments.
\<close>

definition vfs_write_prog :: "kernel \<Rightarrow> u64 list \<Rightarrow> bpf_maps \<Rightarrow> (int \<times> bpf_maps) option" where
  "vfs_write_prog k ctx s =
     Option.bind (BPF_PROG [''file'', ''buf'', ''count'', ''pos'']
       (\<lambda>args. case args of
          [Ctx, Word fl, Word buf, Word count, Word pos] \<Rightarrow> Some (fentry_vfs_write k fl buf count pos s)
        | _ \<Rightarrow> None) ctx) id"

definition vfs_writev_prog :: "kernel \<Rightarrow> u64 list \<Rightarrow> bpf_maps \<Rightarrow> (int \<times> bpf_maps) option" where
  "vfs_writev_prog k ctx s =
     Option.bind (BPF_PROG [''iocb'', ''iov'', ''nr_segs'']
       (\<lambda>args. case args of
          [Ctx, Word iocb, Word iov, Word nr_segs] \<Rightarrow> Some (fentry_vfs_writev k iocb iov nr_segs s)
        | _ \<Rightarrow> None) ctx) id"

lemma prog_entry:
  "vfs_write_prog k (fl # buf # count # pos # rest) s = Some (fentry_vfs_write k fl buf count pos s)"
  "vfs_writev_prog k (iocb # iov # nr_segs # rest) s = Some (fentry_vfs_writev k iocb iov nr_segs s)"
  by (simp_all add: vfs_write_prog_def vfs_writev_prog_def BPF_PROG_def bpf_narg_eq ctx_castN_eq upt_rec)


section \<open>Kernel objects in memory\<close>

text \<open>
  What it means that kernel memory holds a file with a name, a task with a host name, an iovec
  array: the members are where the types of that kernel put them.
\<close>

definition holds64 :: "memory \<Rightarrow> addr \<Rightarrow> u64 \<Rightarrow> bool" where
  "holds64 m a w \<longleftrightarrow> mem_bytes m a 8 = Some (le_bytes 8 w)"

definition member_holds ::
  "(string \<Rightarrow> ctype option) \<Rightarrow> memory \<Rightarrow> addr \<Rightarrow> accessor \<Rightarrow> u64 \<Rightarrow> bool" where
  "member_holds btf m src a w \<longleftrightarrow>
     (\<exists>off. btf_offset btf (fst a) (snd a) = Some off \<and> holds64 m (src + word_of_nat off) w)"

definition file_named :: "(string \<Rightarrow> ctype option) \<Rightarrow> memory \<Rightarrow> addr \<Rightarrow> byte list \<Rightarrow> bool" where
  "file_named btf m file s \<longleftrightarrow>
     (\<exists>dentry name. member_holds btf m file (''file'', [''f_path'', ''dentry'']) dentry \<and>
        member_holds btf m dentry (''dentry'', [''d_name'', ''name'']) name \<and> str_at m name s)"

definition task_host :: "(string \<Rightarrow> ctype option) \<Rightarrow> memory \<Rightarrow> addr \<Rightarrow> byte list \<Rightarrow> bool" where
  "task_host btf m task s \<longleftrightarrow>
     (\<exists>ns uts off. member_holds btf m task (''task_struct'', [''nsproxy'']) ns \<and> ns \<noteq> 0 \<and>
        member_holds btf m ns (''nsproxy'', [''uts_ns'']) uts \<and> uts \<noteq> 0 \<and>
        btf_offset btf ''uts_namespace'' [''name'', ''nodename''] = Some off \<and>
        str_at m (uts + word_of_nat off) s)"

definition exec_filename :: "(string \<Rightarrow> ctype option) \<Rightarrow> memory \<Rightarrow> addr \<Rightarrow> byte list \<Rightarrow> bool" where
  "exec_filename btf m ctx s \<longleftrightarrow>
     (\<exists>off loc. btf_offset btf ''trace_event_raw_sched_process_exec'' [''__data_loc_filename''] = Some off \<and>
        mem_bytes m (ctx + word_of_nat off) 4 = Some (le_bytes 4 (loc :: u32)) \<and>
        str_at m (ctx + ucast (loc AND 0xFFFF)) s)"

definition iov_holds :: "(string \<Rightarrow> ctype option) \<Rightarrow> memory \<Rightarrow> addr \<Rightarrow> u64 list \<Rightarrow> bool" where
  "iov_holds btf m iov lens \<longleftrightarrow>
     (\<forall>i < length lens. member_holds btf m (iov + word_of_nat (16 * i)) (''iovec'', [''iov_len'']) (lens ! i))"

lemma iovec_size [simp]: "csize struct_iovec = 16"
  by (simp add: struct_iovec_def alias_defs layout_simps round_up_def)

lemma core_offsets_relocated:
  "relocated btf k \<Longrightarrow> btf_offset btf tag path = Some off \<Longrightarrow> core_offsets k tag path = off"
  by (auto simp: relocated_def core_offsets_def)

lemma core_read64_member:
  assumes "helper_laws k" and "relocated btf k" and "member_holds btf (k_mem k) src a w"
  shows "core_read64 k src a = w"
  using assms core_offsets_relocated [OF assms(2)] helper_laws_read [OF assms(1)]
  by (auto simp: core_read64_def member_holds_def holds64_def field_addr_def le_word_le_bytes_full)

lemma direct_load_bytes: "mem_bytes (k_mem k) a n = Some bs \<Longrightarrow> direct_load k a n = bs"
  by (simp add: direct_load_def)


section \<open>What the write probe submits\<close>

lemma fill_syscall_event_members:
  fixes fl :: addr
  assumes "helper_laws k" and "length ev = csize syscall_event"
  defines "path \<equiv> snd (bpf_probe_read_kernel_str k
      (core_read64 k (core_read64 k fl (''file'', [''f_path'', ''dentry''])) (''dentry'', [''d_name'', ''name''])) 256)"
  shows "length (fill_syscall_event k fl count ev) = csize syscall_event
    \<and> get_member syscall_event ''pid'' (fill_syscall_event k fl count ev) = le_bytes 4 (current_tgid k)
    \<and> get_member syscall_event ''bytes'' (fill_syscall_event k fl count ev) = le_bytes 8 count
    \<and> get_member syscall_event ''path'' (fill_syscall_event k fl count ev) = path @ replicate (256 - length path) 0"
proof -
  have path: "length path \<le> 256"
    using assms(1) unfolding path_def by (rule helper_laws_str_length)
  note rw = se.length_put [OF syscall_event_ranges(1)] se.length_put [OF syscall_event_ranges(2)]
    se.length_put [OF syscall_event_ranges(3)]
    se.get_put_same [OF syscall_event_ranges(1)] se.get_put_same [OF syscall_event_ranges(2)]
    se.get_put_same [OF syscall_event_ranges(3)]
    se.get_put_other [OF syscall_event_ranges(1) syscall_event_ranges(2)]
    se.get_put_other [OF syscall_event_ranges(1) syscall_event_ranges(3)]
    se.get_put_other [OF syscall_event_ranges(2) syscall_event_ranges(3)]
    se.length_get [OF syscall_event_ranges(1)] se.length_get [OF syscall_event_ranges(2)]
    se.length_get [OF syscall_event_ranges(3)]
  show ?thesis
    using assms(2) path unfolding fill_syscall_event_def Let_def path_def [symmetric]
    by (simp add: rw)
qed

lemma emit_null [simp]: "emit_syscall_event k 0 count s = (0, s)"
  by (simp add: emit_syscall_event_def)

text \<open>
  The sample a write probe submits for a file called \<open>nm\<close>: the name cut to 255 bytes and padded
  with zero bytes.
\<close>

lemma emit_syscall_event_sample:
  assumes "helper_laws k" and "relocated btf k" and "fl \<noteq> 0" and "file_named btf (k_mem k) fl nm"
    and "bpf_ringbuf_reserve k ''events'' 272 = Some buf"
  obtains ev where "emit_syscall_event k fl count s = (0, submit_event ev s)" and "length ev = 272"
    and "get_member syscall_event ''pid'' ev = le_bytes 4 (current_tgid k)"
    and "get_member syscall_event ''bytes'' ev = le_bytes 8 count"
    and "get_member syscall_event ''path'' ev = take 255 nm @ replicate (256 - length (take 255 nm)) 0"
proof -
  from assms(4) obtain dentry name where d: "member_holds btf (k_mem k) fl (''file'', [''f_path'', ''dentry'']) dentry"
    and n: "member_holds btf (k_mem k) dentry (''dentry'', [''d_name'', ''name'']) name"
    and str: "str_at (k_mem k) name nm"
    by (auto simp: file_named_def)
  have "snd (bpf_probe_read_kernel_str k name 256) = take 255 nm @ [0]"
    using helper_laws_str [OF assms(1) str, of 256] by simp
  moreover have "[0] @ replicate (256 - length (take 255 nm @ [0])) 0 = (replicate (256 - length (take 255 nm)) 0 :: byte list)"
    by (simp add: Suc_diff_le replicate_append_same flip: replicate_Suc)
  moreover have "length buf = csize syscall_event"
    using helper_laws_reserve [OF assms(1,5)] by simp
  ultimately show thesis
    using that [of "fill_syscall_event k fl count buf"] fill_syscall_event_members [OF assms(1), of buf fl count]
      core_read64_member [OF assms(1,2) d] core_read64_member [OF assms(1,2) n] assms(3,5)
    by (simp add: emit_syscall_event_def)
qed


section \<open>What the vectored write probe counts\<close>

lemma iov_holds_nth:
  assumes "helper_laws k" and "relocated btf k" and "iov_holds btf (k_mem k) iov lens" and "i < length lens"
  shows "core_read64 k (iov + word_of_nat (i * 16)) (''iovec'', [''iov_len'']) = lens ! i"
  using assms core_read64_member [OF assms(1,2)] by (simp add: iov_holds_def mult.commute)

lemma writev_total_from:
  assumes "helper_laws k" and "relocated btf k" and "iov_holds btf (k_mem k) iov lens"
    and "unat nr_segs = length lens"
  shows "writev_total k iov nr_segs i acc = acc + sum_list (drop i (take 6 lens))"
proof (induction "6 - i" arbitrary: i acc)
  case 0
  then show ?case by (simp add: writev_total.simps)
next
  case (Suc d)
  then have i: "i < 6" and d: "d = 6 - Suc i" by auto
  then have le: "nr_segs \<le> word_of_nat i \<longleftrightarrow> length lens \<le> i"
    using assms(4) by (simp add: word_le_nat_alt unat_of_nat)
  show ?case
  proof (cases "i < length lens")
    case True
    with i have "drop i (take 6 lens) = lens ! i # drop (Suc i) (take 6 lens)"
      by (subst Cons_nth_drop_Suc [symmetric]) auto
    with True i le show ?thesis
      using Suc.hyps(1) [OF d] iov_holds_nth [OF assms(1-3)]
      by (subst writev_total.simps) (simp add: add.assoc)
  next
    case False
    with i le show ?thesis by (subst writev_total.simps) simp
  qed
qed

lemma writev_total_sum:
  assumes "helper_laws k" and "relocated btf k" and "iov_holds btf (k_mem k) iov lens"
    and "unat nr_segs = length lens"
  shows "writev_total k iov nr_segs 0 0 = sum_list (take 6 lens)"
  using writev_total_from [OF assms, of 0 0] by simp


section \<open>What the exec tracepoint submits\<close>

lemma namespace_put_keeps:
  assumes "helper_laws k" and "length event = csize lifecycle_event"
  shows "length (fill_namespace k ns event) = csize lifecycle_event
    \<and> (\<forall>nm off n. member_range lifecycle_event nm = Some (off, n) \<longrightarrow> nm \<noteq> ''namespace'' \<longrightarrow>
        get_member lifecycle_event nm (fill_namespace k ns event) = get_member lifecycle_event nm event)"
  using assms helper_laws_str_length [OF assms(1)]
  by (auto simp: fill_namespace_def Let_def le.length_put [OF lifecycle_event_ranges(4)]
      le.get_put_other [OF _ lifecycle_event_ranges(4)])

lemmas le_put = le.length_put [OF lifecycle_event_ranges(1)] le.length_put [OF lifecycle_event_ranges(2)]
  le.length_put [OF lifecycle_event_ranges(3)] le.length_put [OF lifecycle_event_ranges(5)]

lemmas le_get_same = le.get_put_same [OF lifecycle_event_ranges(1)] le.get_put_same [OF lifecycle_event_ranges(2)]
  le.get_put_same [OF lifecycle_event_ranges(3)] le.get_put_same [OF lifecycle_event_ranges(4)]
  le.get_put_same [OF lifecycle_event_ranges(5)]

lemmas le_get_other = le.get_put_other [OF _ lifecycle_event_ranges(1)] le.get_put_other [OF _ lifecycle_event_ranges(2)]
  le.get_put_other [OF _ lifecycle_event_ranges(3)] le.get_put_other [OF _ lifecycle_event_ranges(4)]
  le.get_put_other [OF _ lifecycle_event_ranges(5)]

text \<open>The bytes of a string member after a string read: the string, its terminator, and what was there before.\<close>

definition str_over :: "byte list \<Rightarrow> nat \<Rightarrow> byte list \<Rightarrow> byte list" where
  "str_over s n old = take (n - 1) s @ [0] @ drop (length (take (n - 1) s) + 1) old"

lemma fill_namespace_host:
  assumes "helper_laws k" and "relocated btf k" and "length event = csize lifecycle_event"
    and "task_host btf (k_mem k) task host"
  shows "get_member lifecycle_event ''namespace''
      (fill_namespace k (core_read64 k task (''task_struct'', [''nsproxy''])) event)
    = str_over host 64 (get_member lifecycle_event ''namespace'' event)"
proof -
  from assms(4) obtain ns uts off where ns: "member_holds btf (k_mem k) task (''task_struct'', [''nsproxy'']) ns" "ns \<noteq> 0"
    and uts: "member_holds btf (k_mem k) ns (''nsproxy'', [''uts_ns'']) uts" "uts \<noteq> 0"
    and off: "btf_offset btf ''uts_namespace'' [''name'', ''nodename''] = Some off"
    and str: "str_at (k_mem k) (uts + word_of_nat off) host"
    by (auto simp: task_host_def)
  have "snd (bpf_probe_read_kernel_str k (uts + word_of_nat off) 64) = take 63 host @ [0]"
    using helper_laws_str [OF assms(1) str, of 64] by simp
  with ns uts show ?thesis
    using assms(3) core_read64_member [OF assms(1,2) ns(1)] core_read64_member [OF assms(1,2) uts(1)]
      core_offsets_relocated [OF assms(2) off]
    by (simp add: fill_namespace_def field_addr_def le_get_same str_over_def)
qed

lemma exec_filename_read:
  assumes "helper_laws k" and "relocated btf k" and "exec_filename btf (k_mem k) ctx fname"
  shows "snd (bpf_probe_read_kernel_str k (ctx + ucast (data_loc_filename k ctx AND 0xFFFF)) 64) = take 63 fname @ [0]"
proof -
  from assms(3) obtain off loc where off: "btf_offset btf ''trace_event_raw_sched_process_exec'' [''__data_loc_filename''] = Some off"
    and loc: "mem_bytes (k_mem k) (ctx + word_of_nat off) 4 = Some (le_bytes 4 (loc :: u32))"
    and str: "str_at (k_mem k) (ctx + ucast (loc AND 0xFFFF)) fname"
    by (auto simp: exec_filename_def)
  have "data_loc_filename k ctx = loc"
    using core_offsets_relocated [OF assms(2) off] loc
    by (simp add: data_loc_filename_def field_addr_def direct_load_bytes le_word_le_bytes_full del: le_bytes.simps)
  then show ?thesis
    using helper_laws_str [OF assms(1) str, of 64] by simp
qed

lemma length_comm:
  "helper_laws k \<Longrightarrow> length (snd (bpf_get_current_comm k 16)) = 16"
  by (rule helper_laws_comm) auto

text \<open>
  The sample of an exec event in a reserved buffer \<open>buf\<close>: both strings are followed by the bytes
  that \<open>buf\<close> held, since neither member is cleared first.
\<close>

lemma handle_sched_exec_sample:
  assumes "helper_laws k" and "relocated btf k"
    and "task_host btf (k_mem k) (bpf_get_current_task k) host" and "exec_filename btf (k_mem k) ctx fname"
    and "bpf_ringbuf_reserve k ''lifecycle_events'' 152 = Some buf"
  obtains ev where "handle_sched_exec k ctx s = (0, submit_lifecycle ev s)" and "length ev = 152"
    and "get_member lifecycle_event ''pid'' ev = le_bytes 4 (current_tgid k)"
    and "get_member lifecycle_event ''state'' ev = le_bytes 4 (1 :: u32)"
    and "get_member lifecycle_event ''runtime'' ev = snd (bpf_get_current_comm k 16)"
    and "get_member lifecycle_event ''namespace'' ev = str_over host 64 (get_member lifecycle_event ''namespace'' buf)"
    and "get_member lifecycle_event ''container'' ev = str_over fname 64 (get_member lifecycle_event ''container'' buf)"
proof -
  have buf: "length buf = csize lifecycle_event"
    using helper_laws_reserve [OF assms(1,5)] by simp
  note keep = namespace_put_keeps [OF assms(1), THEN conjunct1]
    namespace_put_keeps [OF assms(1), THEN conjunct2, rule_format]
  have "handle_sched_exec k ctx s = (0, submit_lifecycle (fill_lifecycle_event k ctx buf) s)"
    using assms(5) by (simp add: handle_sched_exec_def)
  then show thesis
    using that [of "fill_lifecycle_event k ctx buf"] buf length_comm [OF assms(1)]
    unfolding fill_lifecycle_event_def Let_def exec_filename_read [OF assms(1,2,4)]
    by (simp add: le_put le_get_same le_get_other keep le.length_get [OF lifecycle_event_ranges(1)]
        le.length_get [OF lifecycle_event_ranges(2)] le.length_get [OF lifecycle_event_ranges(3)]
        fill_namespace_host [OF assms(1,2) _ assms(3)] str_over_def)
qed


section \<open>Runs of the probes\<close>

lemma fill_lifecycle_event_length:
  assumes "helper_laws k" and "length buf = csize lifecycle_event"
  shows "length (fill_lifecycle_event k ctx buf) = csize lifecycle_event"
  using assms length_comm [OF assms(1)] helper_laws_str_length [OF assms(1)]
    namespace_put_keeps [OF assms(1), THEN conjunct1]
  by (simp add: fill_lifecycle_event_def Let_def le_put)

text \<open>
  One run of a program on some kernel state, or one sample taken by the reader.  The kernel memory,
  the current task and the state of the reservation may be different at every step.
\<close>

inductive probe_step :: "bpf_maps \<Rightarrow> bpf_maps \<Rightarrow> bool" where
  vfs_write: "helper_laws k \<Longrightarrow> fentry_vfs_write k fl buf count pos s = (r, s') \<Longrightarrow> probe_step s s'"
| vfs_writev: "helper_laws k \<Longrightarrow> fentry_vfs_writev k iocb iov nr_segs s = (r, s') \<Longrightarrow> probe_step s s'"
| sched_exec: "helper_laws k \<Longrightarrow> handle_sched_exec k ctx s = (r, s') \<Longrightarrow> probe_step s s'"
| read_event: "events s = ev # evs \<Longrightarrow> probe_step s (s\<lparr>events := evs\<rparr>)"
| read_lifecycle: "lifecycle_events s = ev # evs \<Longrightarrow> probe_step s (s\<lparr>lifecycle_events := evs\<rparr>)"

inductive_cases probe_stepE: "probe_step s s'"

definition wf_maps :: "bpf_maps \<Rightarrow> bool" where
  "wf_maps s \<longleftrightarrow> list_all (\<lambda>ev. length ev = 272) (events s) \<and> list_all (\<lambda>ev. length ev = 152) (lifecycle_events s)"

lemma emit_syscall_event_wf:
  "helper_laws k \<Longrightarrow> wf_maps s \<Longrightarrow> wf_maps (snd (emit_syscall_event k fl count s))"
  using fill_syscall_event_members [of k]
  by (auto simp: emit_syscall_event_def wf_maps_def submit_event_def helper_laws_reserve split: option.splits)

lemma handle_sched_exec_wf:
  "helper_laws k \<Longrightarrow> wf_maps s \<Longrightarrow> wf_maps (snd (handle_sched_exec k ctx s))"
  using fill_lifecycle_event_length [of k]
  by (auto simp: handle_sched_exec_def wf_maps_def submit_lifecycle_def helper_laws_reserve split: option.splits)

lemma probe_step_wf: "probe_step s s' \<Longrightarrow> wf_maps s \<Longrightarrow> wf_maps s'"
proof (induction rule: probe_step.induct)
  case (vfs_write k fl buf count pos s r s')
  then show ?case using emit_syscall_event_wf [of k s fl count] by (simp add: fentry_vfs_write_def)
next
  case (vfs_writev k iocb iov nr_segs s r s')
  then show ?case
    using emit_syscall_event_wf [of k s "core_read64 k iocb (''kiocb'', [''ki_filp''])" "writev_total k iov nr_segs 0 0"]
    by (simp add: fentry_vfs_writev_def)
next
  case (sched_exec k ctx s r s')
  then show ?case using handle_sched_exec_wf [of k s ctx] by simp
qed (auto simp: wf_maps_def)

text \<open>The empty ring buffers are the initial state.\<close>

interpretation probes: invariant_of probe_step wf_maps "\<lparr>events = [], lifecycle_events = []\<rparr>"
proof
  show "wf_maps s' " if "probe_step s s'" and "wf_maps s" for s s'
    using that by (rule probe_step_wf)
qed (simp add: wf_maps_def)

end
