(* ===== verification/Core_Bitfield.thy ===== *)
theory Core_Bitfield
  imports Core_Read
begin

text \<open>
  The bit-field macros of \<open>src/ebpf/include/bpf/bpf_core_read.h\<close>: what they read, that a read
  returns what a write stored, and that a write leaves the rest of the storage unit and of memory
  alone.  A relocation describes a field of \<open>w\<close> bits that starts at bit \<open>p\<close> of a storage unit of
  one, two, four or eight bytes by the two shifts that move it to the top of a 64-bit register and
  down again.
\<close>

definition field_at :: "kernel \<Rightarrow> accessor \<Rightarrow> nat \<Rightarrow> nat \<Rightarrow> nat \<Rightarrow> bool" where
  "field_at k fld sz p w \<longleftrightarrow>
     (sz = 1 \<or> sz = 2 \<or> sz = 4 \<or> sz = 8) \<and> 0 < w \<and> p + w \<le> 8 * sz \<and>
     CORE_RELO k fld BPF_FIELD_BYTE_SIZE = sz \<and>
     CORE_RELO k fld BPF_FIELD_LSHIFT_U64 = 64 - (p + w) \<and>
     CORE_RELO k fld BPF_FIELD_RSHIFT_U64 = 64 - w"

text \<open>The value a C bit-field of that width and sign has in a storage unit.\<close>

definition field_value :: "bool \<Rightarrow> nat \<Rightarrow> nat \<Rightarrow> u64 \<Rightarrow> u64" where
  "field_value sgnd p w val =
     (if sgnd then signed_take_bit (w - 1) (drop_bit p val) else take_bit w (drop_bit p val))"

lemma field_at_bounds: "field_at k fld sz p w \<Longrightarrow> 0 < w \<and> p + w \<le> 8 * sz \<and> sz \<le> 8 \<and> p + w \<le> 64"
  by (auto simp: field_at_def)


section \<open>Reading\<close>

lemma shift_pair_unsigned:
  fixes val :: u64
  assumes "0 < w" and "p + w \<le> 64"
  shows "drop_bit (64 - w) (push_bit (64 - (p + w)) val) = take_bit w (drop_bit p val)"
proof (rule bit_word_eqI)
  fix n assume "n < LENGTH(64)"
  with assms show "bit (drop_bit (64 - w) (push_bit (64 - (p + w)) val)) n \<longleftrightarrow> bit (take_bit w (drop_bit p val)) n"
    by (auto simp: bit_drop_bit_eq bit_push_bit_iff bit_take_bit_iff algebra_simps dest: bit_imp_le_length)
qed

lemma shift_pair_signed:
  fixes val :: u64
  assumes "0 < w" and "p + w \<le> 64"
  shows "signed_drop_bit (64 - w) (push_bit (64 - (p + w)) val) = signed_take_bit (w - 1) (drop_bit p val)"
proof (rule bit_word_eqI)
  fix n assume n: "n < LENGTH(64)"
  show "bit (signed_drop_bit (64 - w) (push_bit (64 - (p + w)) val)) n
    \<longleftrightarrow> bit (signed_take_bit (w - 1) (drop_bit p val)) n"
  proof (cases "n < w")
    case True
    then have "min (w - 1) n = n" and "64 - w + n < 64" and "64 - (p + w) \<le> 64 - w + n"
      and "64 - w + n - (64 - (p + w)) = p + n" and "\<not> 64 - (64 - w) \<le> n" using assms by auto
    then show ?thesis
      by (simp add: bit_signed_drop_bit_iff bit_signed_take_bit_iff bit_drop_bit_eq bit_push_bit_iff)
  next
    case False
    then have "min (w - 1) n = w - 1" and "64 - (p + w) \<le> 63" using assms by auto
    with False assms n show ?thesis
      by (simp add: bit_signed_drop_bit_iff bit_signed_take_bit_iff bit_drop_bit_eq bit_push_bit_iff)
  qed
qed

lemma shift_out_value:
  assumes "field_at k fld sz p w"
  shows "shift_out k fld val = field_value (CORE_RELO k fld BPF_FIELD_SIGNED \<noteq> 0) p w val"
  using assms field_at_bounds [OF assms]
  by (simp add: shift_out_def field_value_def field_at_def shift_pair_unsigned shift_pair_signed Let_def)


section \<open>Writing\<close>

lemma bit_bitfield_mask:
  assumes "0 < w" and "p + w \<le> 64" and "n < 64"
  shows "bit (bitfield_mask (64 - (p + w)) (64 - w)) n \<longleftrightarrow> p \<le> n \<and> n < p + w"
  using assms by (auto simp: bitfield_mask_def bit_drop_bit_eq bit_push_bit_iff bit_not_iff bit_mask_iff)

lemma rpad_eq:
  assumes "p + w \<le> 64"
  shows "unat (word_of_nat (64 - w) - word_of_nat (64 - (p + w)) :: u32) = p"
proof -
  have "word_of_nat (64 - w) - word_of_nat (64 - (p + w)) = (word_of_nat p :: u32)"
    using assms by (subst of_nat_diff [symmetric]) auto
  then show ?thesis using assms by (simp add: unat_of_nat)
qed

lemma bit_merge_bits:
  assumes "0 < w" and "p + w \<le> 64" and "n < 64"
  shows "bit (merge_bits (64 - (p + w)) (64 - w) nval val) n
    \<longleftrightarrow> (if p \<le> n \<and> n < p + w then bit nval (n - p) else bit val n)"
  using assms unfolding merge_bits_def Let_def rpad_eq [OF assms(2)]
  by (auto simp: bit_or_iff bit_and_iff bit_not_iff bit_bitfield_mask bit_push_bit_iff)

lemma field_value_merge:
  assumes "0 < w" and "p + w \<le> 64" and "p + w \<le> m"
  shows "field_value sgnd p w (take_bit m (merge_bits (64 - (p + w)) (64 - w) nval val))
    = field_value sgnd 0 w nval"
proof (rule bit_word_eqI)
  fix n assume n: "n < LENGTH(64)"
  have "bit (take_bit m (merge_bits (64 - (p + w)) (64 - w) nval val)) (p + i) \<longleftrightarrow> bit nval i" if "i < w" for i
    using assms that by (simp add: bit_take_bit_iff bit_merge_bits)
  from this [of n] this [of "w - 1"] assms n
  show "bit (field_value sgnd p w (take_bit m (merge_bits (64 - (p + w)) (64 - w) nval val))) n
    \<longleftrightarrow> bit (field_value sgnd 0 w nval) n"
    by (auto simp: field_value_def bit_take_bit_iff bit_signed_take_bit_iff bit_drop_bit_eq min_def split: if_splits)
qed

lemma word_bytes_in [simp]:
  "word_in little (bytes_in little n w) = take_bit (8 * n) w" "length (bytes_in little n w) = n"
  by (simp_all add: word_in_def bytes_in_def le_word_le_bytes)

lemma load_after_write:
  assumes "sz = 1 \<or> sz = 2 \<or> sz = 4 \<or> sz = 8"
  shows "load_sized little (k\<lparr>k_mem := write_mem (k_mem k) a (bytes_in little sz val)\<rparr>) a sz = take_bit (8 * sz) val"
proof -
  have "mem_bytes (write_mem (k_mem k) a (bytes_in little sz val)) a sz = Some (bytes_in little sz val)"
    using mem_bytes_write [of "bytes_in little sz val" "k_mem k" a] assms by auto
  with assms show ?thesis
    by (simp add: load_sized_def direct_load_def del: One_nat_def)
qed

lemma relo_after_write [simp]:
  "CORE_RELO (BPF_CORE_WRITE_BITFIELD little k s fld nval) = CORE_RELO k"
  "bitfield_addr (BPF_CORE_WRITE_BITFIELD little k s fld nval) = bitfield_addr k"
  by (auto simp: fun_eq_iff CORE_RELO_def bitfield_addr_def BPF_CORE_WRITE_BITFIELD_def Let_def)

lemma load_after_bitfield_write:
  assumes "field_at k fld sz p w"
  shows "load_sized little (BPF_CORE_WRITE_BITFIELD little k s fld nval) (bitfield_addr k s fld) sz =
    take_bit (8 * sz) (merge_bits (64 - (p + w)) (64 - w) nval (load_sized little k (bitfield_addr k s fld) sz))"
  using assms load_after_write [of sz little k]
  by (auto simp: BPF_CORE_WRITE_BITFIELD_def Let_def field_at_def)

text \<open>
  C32: \<open>BPF_CORE_READ_BITFIELD\<close> after \<open>BPF_CORE_WRITE_BITFIELD\<close> returns the written value reduced to
  the width of the field, sign-extended exactly when the field is signed in the target kernel, whatever the byte order of the target.
\<close>

theorem bitfield_write_read:
  assumes "field_at k fld sz p w"
  shows "BPF_CORE_READ_BITFIELD little (BPF_CORE_WRITE_BITFIELD little k s fld nval) s fld =
    (if CORE_RELO k fld BPF_FIELD_SIGNED \<noteq> 0 then signed_take_bit (w - 1) nval else take_bit w nval)"
proof -
  let ?k = "BPF_CORE_WRITE_BITFIELD little k s fld nval"
  have at: "field_at ?k fld sz p w"
    using assms by (simp add: field_at_def)
  have "BPF_CORE_READ_BITFIELD little ?k s fld =
      field_value (CORE_RELO k fld BPF_FIELD_SIGNED \<noteq> 0) p w (load_sized little ?k (bitfield_addr k s fld) sz)"
    using assms by (simp add: BPF_CORE_READ_BITFIELD_def shift_out_value [OF at] field_at_def)
  also have "\<dots> = field_value (CORE_RELO k fld BPF_FIELD_SIGNED \<noteq> 0) 0 w nval"
    using field_at_bounds [OF assms] by (simp add: load_after_bitfield_write [OF assms] field_value_merge)
  finally show ?thesis by (simp add: field_value_def)
qed

text \<open>
  C33: a bit-field write changes only the bits of the field: every other bit of the storage unit
  keeps its value, and memory outside the storage unit is untouched.
\<close>

theorem bitfield_write_frame:
  assumes "field_at k fld sz p w"
  shows "(\<forall>n < 8 * sz. n < p \<or> p + w \<le> n \<longrightarrow>
      bit (load_sized little (BPF_CORE_WRITE_BITFIELD little k s fld nval) (bitfield_addr k s fld) sz) n
      = bit (load_sized little k (bitfield_addr k s fld) sz) n)
    \<and> (\<forall>x. (\<forall>i < sz. x \<noteq> bitfield_addr k s fld + word_of_nat i) \<longrightarrow>
      k_mem (BPF_CORE_WRITE_BITFIELD little k s fld nval) x = k_mem k x)"
proof (intro conjI allI impI)
  fix n assume "n < 8 * sz" and "n < p \<or> p + w \<le> n"
  then show "bit (load_sized little (BPF_CORE_WRITE_BITFIELD little k s fld nval) (bitfield_addr k s fld) sz) n
      = bit (load_sized little k (bitfield_addr k s fld) sz) n"
    using field_at_bounds [OF assms]
    by (auto simp: load_after_bitfield_write [OF assms] bit_take_bit_iff bit_merge_bits)
next
  fix x assume "\<forall>i < sz. x \<noteq> bitfield_addr k s fld + word_of_nat i"
  then show "k_mem (BPF_CORE_WRITE_BITFIELD little k s fld nval) x = k_mem k x"
    using assms by (auto simp: BPF_CORE_WRITE_BITFIELD_def Let_def field_at_def intro!: write_mem_other)
qed

text \<open>
  On readable memory the helper-based and the direct bit-field read agree on targets of either byte order, and both
  yield the value the C bit-field has: its bits of the storage unit, sign-extended when the field is signed.
\<close>

lemma le_word_zeros [simp]: "le_word (bs @ replicate n 0) = le_word bs"
proof (induction bs)
  case Nil
  show ?case by (induction n) auto
qed simp

theorem bitfield_read_value:
  assumes "field_at k fld sz p w" and "helper_laws k"
    and "mem_bytes (k_mem k) (bitfield_addr k s fld) sz = Some bs"
  shows "BPF_CORE_READ_BITFIELD little k s fld = field_value (CORE_RELO k fld BPF_FIELD_SIGNED \<noteq> 0) p w (word_in little bs)
    \<and> BPF_CORE_READ_BITFIELD_PROBED little k s fld = BPF_CORE_READ_BITFIELD little k s fld"
proof -
  have sz: "CORE_RELO k fld BPF_FIELD_BYTE_SIZE = sz" "sz = 1 \<or> sz = 2 \<or> sz = 4 \<or> sz = 8" using assms(1) by (auto simp: field_at_def)
  have len: "length bs = sz" using mem_bytes_length [OF assms(3)] .
  have "load_sized little k (bitfield_addr k s fld) sz = word_in little bs"
    using sz(2) assms(3) by (simp add: load_sized_def direct_load_def)
  moreover have "bpf_probe_read_kernel k (bitfield_addr k s fld) sz = (0, bs)"
    using assms by (blast intro: helper_laws_read)
  then have "word_in little (CORE_BITFIELD_PROBE_READ little k s fld) = word_in little bs"
    using sz len by (auto simp: CORE_BITFIELD_PROBE_READ_def word_in_def le_word_zeros)
  ultimately show ?thesis
    by (simp add: BPF_CORE_READ_BITFIELD_def BPF_CORE_READ_BITFIELD_PROBED_def shift_out_value [OF assms(1)] sz(1))
qed


section \<open>Concrete fields\<close>

text \<open>
  A three-bit field at bit 2 of a byte, signed or not, in a kernel with two bytes of memory at
  address 64.
\<close>

definition bit_kernel :: "bool \<Rightarrow> kernel" where
  "bit_kernel sgnd = (plain_kernel [64 \<mapsto> 0xD6, 65 \<mapsto> 0xFF] Map.empty 0 [] 0 (\<lambda>_. (0, True)))
     \<lparr>preserve_field_info := (\<lambda>_ _ info. case info of
        BPF_FIELD_BYTE_OFFSET \<Rightarrow> 4 | BPF_FIELD_BYTE_SIZE \<Rightarrow> 1 | BPF_FIELD_EXISTS \<Rightarrow> 1
      | BPF_FIELD_SIGNED \<Rightarrow> if sgnd then 1 else 0 | BPF_FIELD_LSHIFT_U64 \<Rightarrow> 59 | BPF_FIELD_RSHIFT_U64 \<Rightarrow> 61)\<rparr>"

lemma bit_kernel_at: "field_at (bit_kernel sgnd) fld 1 2 3"
  by (simp add: field_at_def CORE_RELO_def bit_kernel_def)

lemma bit_kernel_addr: "bitfield_addr (bit_kernel sgnd) 60 fld = 64"
  by (simp add: bitfield_addr_def CORE_RELO_def bit_kernel_def)

lemma bit_kernel_signed: "(CORE_RELO (bit_kernel sgnd) fld BPF_FIELD_SIGNED \<noteq> 0) = sgnd"
  by (simp add: CORE_RELO_def bit_kernel_def)

lemma bit_kernel_laws: "helper_laws (bit_kernel sgnd)"
  using plain_kernel_laws by (simp add: helper_laws_def bit_kernel_def)

lemma bit_kernel_bytes: "mem_bytes (k_mem (bit_kernel sgnd)) 64 1 = Some [0xD6]"
  by (simp add: bit_kernel_def plain_kernel_def)

theorem bitfield_write_read_witness:
  "BPF_CORE_READ_BITFIELD True (BPF_CORE_WRITE_BITFIELD True (bit_kernel True) 60 (''s'', [''f'']) 0x16) 60 (''s'', [''f'']) = - 2
   \<and> BPF_CORE_READ_BITFIELD False (BPF_CORE_WRITE_BITFIELD False (bit_kernel False) 60 (''s'', [''f'']) 0x16) 60 (''s'', [''f'']) = 6"
  unfolding bitfield_write_read [OF bit_kernel_at] bit_kernel_signed
  by (simp add: signed_take_bit_def take_bit_eq_mod bit_iff_odd mask_eq_exp_minus_1 numeral_eq_Suc)

theorem bitfield_write_frame_witness:
  "bit (load_sized False (BPF_CORE_WRITE_BITFIELD False (bit_kernel True) 60 (''s'', [''f'']) 0) 64 1) 7
     = bit (load_sized False (bit_kernel True) 64 1) 7
   \<and> k_mem (BPF_CORE_WRITE_BITFIELD False (bit_kernel True) 60 (''s'', [''f'']) 0) 65 = Some 0xFF"
  using bitfield_write_frame [OF bit_kernel_at [of True "(''s'', [''f''])"], of False 60 0]
  unfolding bit_kernel_addr by (simp add: bit_kernel_def plain_kernel_def)

theorem bitfield_read_value_witness:
  "BPF_CORE_READ_BITFIELD False (bit_kernel True) 60 (''s'', [''f'']) = - 3
   \<and> BPF_CORE_READ_BITFIELD_PROBED False (bit_kernel True) 60 (''s'', [''f'']) = - 3"
  using bitfield_read_value [OF bit_kernel_at bit_kernel_laws, where little = False and s = 60 and bs = "[0xD6]"]
  unfolding bit_kernel_addr bit_kernel_signed bit_kernel_bytes
  by (simp add: field_value_def word_in_def signed_take_bit_def take_bit_eq_mod bit_iff_odd mask_eq_exp_minus_1)

end
