(* ===== verification/Decode.thy ===== *)
theory Decode
  imports Go_Base Probes Core_Bitfield
begin

text \<open>
  The agent's side of the ring buffers, \<open>src/pkg/ebpf/manager_linux.go\<close>: decoding of the raw samples
  into the events of \<open>src/pkg/ebpf/types.go\<close>, and the end-to-end statements that connect a run of an
  eBPF program with the event the agent sees.
\<close>

section \<open>Events\<close>

text \<open>Go strings are byte sequences; a time stamp is a number of nanoseconds.\<close>

record Event =
  PID :: u32
  Path :: "byte list"
  Bytes :: u64
  Timestamp :: int

record LifecycleEvent =
  Runtime :: "byte list"
  Namespace :: "byte list"
  ContainerID :: "byte list"
  lc_PID :: u32
  State :: string
  lc_Timestamp :: int

definition decodeSyscallEvent :: "int \<Rightarrow> byte list \<Rightarrow> go_io_error + Event" where
  "decodeSyscallEvent now raw =
     (case binary_Read [4, 4, 8, 256] raw of
        Inl e \<Rightarrow> Inl e
      | Inr payload \<Rightarrow> Inr \<lparr>PID = le_word (payload ! 0), Path = trim_nul (payload ! 3),
                           Bytes = le_word (payload ! 2), Timestamp = now\<rparr>)"

definition lifecycleState :: "u32 \<Rightarrow> string" where
  "lifecycleState i =
     (if i = 0 then ''unknown'' else if i = 1 then ''create'' else if i = 2 then ''start''
      else if i = 3 then ''stop'' else ''state:'' @ show_nat (unat i))"

definition decodeLifecycleEvent :: "int \<Rightarrow> byte list \<Rightarrow> go_io_error + LifecycleEvent" where
  "decodeLifecycleEvent now raw =
     (case binary_Read [4, 4, 16, 64, 64] raw of
        Inl e \<Rightarrow> Inl e
      | Inr payload \<Rightarrow> Inr \<lparr>Runtime = trim_nul (payload ! 2), Namespace = trim_nul (payload ! 3),
                           ContainerID = trim_nul (payload ! 4), lc_PID = le_word (payload ! 0),
                           State = lifecycleState (le_word (payload ! 1)), lc_Timestamp = now\<rparr>)"

text \<open>The Go payload structs read the bytes that the C structs put there.\<close>

lemma syscall_payload:
  "length raw = 272 \<Longrightarrow> decodeSyscallEvent now raw =
     Inr \<lparr>PID = le_word (get_member syscall_event ''pid'' raw),
          Path = trim_nul (get_member syscall_event ''path'' raw),
          Bytes = le_word (get_member syscall_event ''bytes'' raw), Timestamp = now\<rparr>"
  by (simp add: decodeSyscallEvent_def binary_Read_ok chop_nth get_member_def del: chop.simps)

lemma lifecycle_payload:
  "length raw = 152 \<Longrightarrow> decodeLifecycleEvent now raw =
     Inr \<lparr>Runtime = trim_nul (get_member lifecycle_event ''runtime'' raw),
          Namespace = trim_nul (get_member lifecycle_event ''namespace'' raw),
          ContainerID = trim_nul (get_member lifecycle_event ''container'' raw),
          lc_PID = le_word (get_member lifecycle_event ''pid'' raw),
          State = lifecycleState (le_word (get_member lifecycle_event ''state'' raw)), lc_Timestamp = now\<rparr>"
  by (simp add: decodeLifecycleEvent_def binary_Read_ok chop_nth get_member_def del: chop.simps)

lemma str_at_no_nul: "str_at m a s \<Longrightarrow> 0 \<notin> set s"
  by (simp add: str_at_def)

lemma file_named_no_nul: "file_named btf m fl nm \<Longrightarrow> 0 \<notin> set nm"
  by (auto simp: file_named_def str_at_def)

lemma no_nul_take: "0 \<notin> set s \<Longrightarrow> 0 \<notin> set (take n s)"
  using in_set_takeD by metis

lemma emit_decoded:
  assumes "helper_laws k" and "relocated btf k" and "fl \<noteq> 0" and "file_named btf (k_mem k) fl nm"
    and "bpf_ringbuf_reserve k ''events'' 272 = Some buf"
  shows "\<exists>ev. emit_syscall_event k fl count s = (0, s\<lparr>events := events s @ [ev]\<rparr>)
    \<and> decodeSyscallEvent now ev =
        Inr \<lparr>PID = current_tgid k, Path = take 255 nm, Bytes = count, Timestamp = now\<rparr>"
proof -
  obtain ev where ev: "emit_syscall_event k fl count s = (0, submit_event ev s)" "length ev = 272"
    "get_member syscall_event ''pid'' ev = le_bytes 4 (current_tgid k)"
    "get_member syscall_event ''bytes'' ev = le_bytes 8 count"
    "get_member syscall_event ''path'' ev = take 255 nm @ replicate (256 - length (take 255 nm)) 0"
    by (rule emit_syscall_event_sample [OF assms])
  have "0 \<notin> set (take 255 nm)"
    using assms(4) by (intro no_nul_take file_named_no_nul)
  then have "trim_nul (take 255 nm @ replicate n 0) = take 255 nm" for n
    by (rule trim_nul_padded)
  with ev show ?thesis
    by (intro exI [of _ ev]) (simp add: syscall_payload submit_event_def le_word_le_bytes_full del: le_bytes.simps)
qed


section \<open>Names over old bytes\<close>

lemma trim_str_over_zero:
  assumes "0 \<notin> set s" and "0 < n"
  shows "trim_nul (str_over s n (replicate n 0)) = take (n - 1) s"
proof -
  have "str_over s n (replicate n 0) = take (n - 1) s @ replicate (Suc (n - (length (take (n - 1) s) + 1))) 0"
    by (simp add: str_over_def)
  then show ?thesis
    using trim_nul_padded [OF no_nul_take [OF assms(1)]] by (simp del: replicate_Suc)
qed

text \<open>A non-zero byte at the end of the member keeps everything before it from being trimmed.\<close>

lemma trim_nul_last:
  assumes "bs \<noteq> []" and "hd bs \<noteq> 0" and "last bs \<noteq> 0"
  shows "trim_nul bs = bs"
proof -
  have "dropWhile (\<lambda>b. b = 0) bs = bs" using assms by (cases bs) auto
  moreover have "dropWhile (\<lambda>b. b = 0) (rev bs) = rev bs" using assms by (cases bs rule: rev_cases) auto
  ultimately show ?thesis by (simp add: trim_nul_def)
qed

lemma trim_str_over_stale:
  assumes "0 \<notin> set s" and "s \<noteq> []" and "length s + 1 < n" and "length old = n" and "last old \<noteq> 0"
  shows "trim_nul (str_over s n old) = s @ 0 # drop (length s + 1) old"
proof -
  have "str_over s n old = s @ 0 # drop (length s + 1) old" and "drop (length s + 1) old \<noteq> []"
    using assms by (auto simp: str_over_def)
  moreover have "hd s \<noteq> 0" using assms(1,2) by (metis hd_in_set)
  moreover have "last (drop (length s + 1) old) = last old" using assms by (simp add: last_drop)
  ultimately show ?thesis using assms by (simp add: trim_nul_last)
qed

text \<open>
  The names the agent gives to lifecycle states tell the states apart, the numbered ones too.
\<close>

theorem lifecycleState_inj: "inj lifecycleState"
  by (rule injI) (auto simp: lifecycleState_def split: if_splits dest: word_unat_eq_iff [THEN iffD2])

end
