(* ===== verification/Scenario.thy ===== *)
theory Scenario
  imports Decode
begin

text \<open>
  A kernel to run the probes on: the types of \<open>src/ebpf/vmlinux.h\<close>, and a memory image with a file,
  a vectored write, and a task that executes a program.  It shows that the hypotheses of the
  end-to-end properties hold together.
\<close>

definition vmlinux_btf :: "string \<Rightarrow> ctype option" where
  "vmlinux_btf = map_of
    [(''file'', struct_file), (''dentry'', struct_dentry), (''kiocb'', struct_kiocb), (''iovec'', struct_iovec),
     (''task_struct'', struct_task_struct), (''nsproxy'', struct_nsproxy), (''uts_namespace'', struct_uts_namespace),
     (''trace_event_raw_sched_process_exec'', struct_trace_event_raw_sched_process_exec)]"

lemma file_offsets:
  "btf_offset vmlinux_btf ''file'' [''f_path'', ''dentry''] = Some 72"
  "btf_offset vmlinux_btf ''dentry'' [''d_name'', ''name''] = Some 40"
  "btf_offset vmlinux_btf ''kiocb'' [''ki_filp''] = Some 0"
  "btf_offset vmlinux_btf ''iovec'' [''iov_len''] = Some 8"
  by (simp_all add: btf_offset_def vmlinux_btf_def offset_of_def struct_file_def struct_dentry_def struct_kiocb_def
      struct_iovec_def struct_path_def struct_qstr_def alias_defs layout_simps round_up_def)

lemma exec_offsets:
  "btf_offset vmlinux_btf ''nsproxy'' [''uts_ns''] = Some 8"
  "btf_offset vmlinux_btf ''uts_namespace'' [''name'', ''nodename''] = Some 65"
  "btf_offset vmlinux_btf ''trace_event_raw_sched_process_exec'' [''__data_loc_filename''] = Some 8"
  by (simp_all add: btf_offset_def vmlinux_btf_def offset_of_def struct_nsproxy_def struct_uts_namespace_def
      struct_new_utsname_def struct_trace_event_raw_sched_process_exec_def alias_defs layout_simps round_up_def)

lemma task_head_end: "mend 0 task_struct_head = 11392"
  by (simp add: task_struct_head_def alias_defs layout_simps round_up_def)

lemma task_head_nsproxy: "find_struct ''nsproxy'' 0 0 task_struct_head = None"
  by (simp add: task_struct_head_def alias_defs layout_simps round_up_def)

lemma task_offset: "btf_offset vmlinux_btf ''task_struct'' [''nsproxy''] = Some 1984"
proof -
  have "map_option fst (find_struct ''nsproxy'' 0 11392 task_struct_tail) = Some 15872"
    by (simp add: task_struct_tail_def alias_defs layout_simps round_up_def)
  then show ?thesis
    by (auto simp: btf_offset_def vmlinux_btf_def offset_of_def struct_task_struct_def find_struct_append
        task_head_end task_head_nsproxy)
qed

definition demo_memory :: memory where
  "demo_memory = mem_image
    [(0x1048, le_bytes 8 (0x2000 :: addr)), (0x2028, le_bytes 8 (0x3000 :: addr)), (0x3000, [0x61, 0x2E, 0x6C, 0]),
     (0x4000, le_bytes 8 (0x1000 :: addr)), (0x5008, le_bytes 8 (5 :: u64)), (0x5018, le_bytes 8 (7 :: u64)),
     (0x67C0, le_bytes 8 (0x7000 :: addr)), (0x7008, le_bytes 8 (0x8000 :: addr)), (0x8041, [0x68, 0]),
     (0x9008, le_bytes 4 (0x20010 :: u32)), (0x9010, [0x62, 0])]"

lemmas demo_simps = demo_memory_def image_bytes image_other member_holds_def holds64_def str_at_def
  file_offsets exec_offsets task_offset

definition demo_kernel :: "byte \<Rightarrow> kernel" where
  "demo_kernel stale = plain_kernel demo_memory vmlinux_btf 0x700000007 [0x63] 0x6000 (\<lambda>_. (stale, True))"

lemma demo_laws: "helper_laws (demo_kernel stale)" "relocated vmlinux_btf (demo_kernel stale)"
  by (simp_all add: demo_kernel_def plain_kernel_laws plain_kernel_relocated)

lemma demo_fields: "k_mem (demo_kernel stale) = demo_memory" "bpf_get_current_task (demo_kernel stale) = 0x6000"
  "bpf_ringbuf_reserve (demo_kernel stale) r n = Some (replicate n stale)"
  "snd (bpf_get_current_comm (demo_kernel stale) 16) = 0x63 # replicate 15 0"
  by (simp_all add: demo_kernel_def plain_kernel_def numeral_eq_Suc)

lemma demo_tgid: "current_tgid (demo_kernel stale) = 7"
  by (simp add: demo_kernel_def plain_kernel_def current_tgid_def drop_bit_eq_div)

lemma demo_file: "file_named vmlinux_btf demo_memory 0x1000 [0x61, 0x2E, 0x6C]"
  unfolding file_named_def
  by (rule exI [of _ "0x2000"], rule exI [of _ "0x3000"]) (simp add: demo_simps del: le_bytes.simps mem_bytes.simps)

lemma demo_iocb: "member_holds vmlinux_btf demo_memory 0x4000 (''kiocb'', [''ki_filp'']) 0x1000"
  by (simp add: demo_simps del: le_bytes.simps mem_bytes.simps)

lemma demo_iov: "iov_holds vmlinux_btf demo_memory 0x5000 [5, 7]"
  unfolding iov_holds_def by (auto simp: demo_simps less_Suc_eq simp del: le_bytes.simps mem_bytes.simps)

lemma demo_host: "task_host vmlinux_btf demo_memory 0x6000 [0x68]"
  unfolding task_host_def
  by (rule exI [of _ "0x7000"], rule exI [of _ "0x8000"]) (simp add: demo_simps del: le_bytes.simps mem_bytes.simps)

lemma demo_exec: "exec_filename vmlinux_btf demo_memory 0x9000 [0x62]"
  unfolding exec_filename_def
  by (rule exI [of _ 8], rule exI [of _ "0x20010"]) (simp add: demo_simps del: le_bytes.simps mem_bytes.simps)

end
