(* ===== verification/Endian.thy ===== *)
theory Endian
  imports Prelude
begin

text \<open>
  \<open>src/ebpf/include/bpf/bpf_endian.h\<close>: byte swapping by shifts for constants and by compiler built-ins
  otherwise, and the conversions between host and network order selected by the byte order of the
  target.

  Shown here: the shift expressions compute what the built-ins compute, at every width, including
  the 16-bit one whose operands C promotes to \<open>int\<close>; the conversions are mutually inverse and
  produce the most significant byte first in memory, on either byte order and for constants as well
  as for run-time values.
\<close>

section \<open>Swapping bytes\<close>

text \<open>
  \<open>___bpf_mvb(x, b, n, m)\<close> in the type the expression is computed in: \<open>__u32\<close> and \<open>__u64\<close> at their
  width, \<open>__u16\<close> after promotion to a 32-bit \<open>int\<close>.
\<close>

definition bpf_mvb :: "nat \<Rightarrow> 'a::len word \<Rightarrow> nat \<Rightarrow> nat \<Rightarrow> 'a word" where
  "bpf_mvb b x n m = push_bit (m * 8) (drop_bit (b - 8) (push_bit (b - (n + 1) * 8) x))"

definition bpf_swab16 :: "u16 \<Rightarrow> u16" where
  "bpf_swab16 x = (let x = ucast x :: u32 in ucast (bpf_mvb 16 x 0 1 OR bpf_mvb 16 x 1 0))"

definition bpf_swab32 :: "u32 \<Rightarrow> u32" where
  "bpf_swab32 x = bpf_mvb 32 x 0 3 OR bpf_mvb 32 x 1 2 OR bpf_mvb 32 x 2 1 OR bpf_mvb 32 x 3 0"

definition bpf_swab64 :: "u64 \<Rightarrow> u64" where
  "bpf_swab64 x =
     bpf_mvb 64 x 0 7 OR bpf_mvb 64 x 1 6 OR bpf_mvb 64 x 2 5 OR bpf_mvb 64 x 3 4 OR
     bpf_mvb 64 x 4 3 OR bpf_mvb 64 x 5 2 OR bpf_mvb 64 x 6 1 OR bpf_mvb 64 x 7 0"

text \<open>The compiler's \<open>__builtin_bswap\<close>: the bytes of the word in reverse order.\<close>

definition builtin_bswap :: "nat \<Rightarrow> 'a::len word \<Rightarrow> 'a word" where
  "builtin_bswap n x = le_word (rev (le_bytes n x))"


section \<open>Host and network order\<close>

datatype byte_order = ORDER_LITTLE_ENDIAN | ORDER_BIG_ENDIAN

text \<open>The macros that the two branches of the \<open>#if\<close> define, as functions of the byte order.\<close>

definition on_little :: "byte_order \<Rightarrow> ('a \<Rightarrow> 'a) \<Rightarrow> 'a \<Rightarrow> 'a" where
  "on_little ord f x = (case ord of ORDER_LITTLE_ENDIAN \<Rightarrow> f x | ORDER_BIG_ENDIAN \<Rightarrow> x)"

text \<open>\<open>const\<close> is what \<open>__builtin_constant_p(x)\<close> says.\<close>

definition bpf_htons :: "byte_order \<Rightarrow> bool \<Rightarrow> u16 \<Rightarrow> u16" where
  "bpf_htons ord const x = (if const then on_little ord bpf_swab16 x else on_little ord (builtin_bswap 2) x)"

definition bpf_ntohs :: "byte_order \<Rightarrow> bool \<Rightarrow> u16 \<Rightarrow> u16" where
  "bpf_ntohs ord const x = (if const then on_little ord bpf_swab16 x else on_little ord (builtin_bswap 2) x)"

definition bpf_htonl :: "byte_order \<Rightarrow> bool \<Rightarrow> u32 \<Rightarrow> u32" where
  "bpf_htonl ord const x = (if const then on_little ord bpf_swab32 x else on_little ord (builtin_bswap 4) x)"

definition bpf_ntohl :: "byte_order \<Rightarrow> bool \<Rightarrow> u32 \<Rightarrow> u32" where
  "bpf_ntohl ord const x = (if const then on_little ord bpf_swab32 x else on_little ord (builtin_bswap 4) x)"

definition bpf_cpu_to_be64 :: "byte_order \<Rightarrow> bool \<Rightarrow> u64 \<Rightarrow> u64" where
  "bpf_cpu_to_be64 ord const x = (if const then on_little ord bpf_swab64 x else on_little ord (builtin_bswap 8) x)"

definition bpf_be64_to_cpu :: "byte_order \<Rightarrow> bool \<Rightarrow> u64 \<Rightarrow> u64" where
  "bpf_be64_to_cpu ord const x = (if const then on_little ord bpf_swab64 x else on_little ord (builtin_bswap 8) x)"

text \<open>How a word lies in memory.\<close>

definition in_memory :: "byte_order \<Rightarrow> nat \<Rightarrow> 'a::len word \<Rightarrow> byte list" where
  "in_memory ord n x = (case ord of ORDER_LITTLE_ENDIAN \<Rightarrow> le_bytes n x | ORDER_BIG_ENDIAN \<Rightarrow> rev (le_bytes n x))"


section \<open>The shifts reverse the bytes\<close>

lemma mvb_byte:
  fixes x :: "'a::len word"
  assumes "LENGTH('a) = b" and "(n + 1) * 8 \<le> b"
  shows "bpf_mvb b x n m = push_bit (m * 8) (ucast (ucast (drop_bit (n * 8) x) :: byte))"
proof -
  have "drop_bit (b - 8) (push_bit (b - (n + 1) * 8) x) = ucast (ucast (drop_bit (n * 8) x) :: byte)"
    using assms
    by (intro bit_word_eqI)
      (auto simp: bit_drop_bit_eq bit_push_bit_iff bit_ucast_iff algebra_simps dest: bit_imp_le_length)
  then show ?thesis by (simp add: bpf_mvb_def)
qed

lemma swab32_builtin: "bpf_swab32 x = builtin_bswap 4 x"
  by (simp add: bpf_swab32_def builtin_bswap_def mvb_byte numeral_eq_Suc push_bit_or ac_simps)

lemma swab64_builtin: "bpf_swab64 x = builtin_bswap 8 x"
  by (simp add: bpf_swab64_def builtin_bswap_def mvb_byte numeral_eq_Suc push_bit_or ac_simps)

lemma swab16_builtin: "bpf_swab16 x = builtin_bswap 2 x"
  by (rule bit_word_eqI)
    (auto simp: bpf_swab16_def builtin_bswap_def bpf_mvb_def Let_def numeral_2_eq_2 bit_or_iff bit_push_bit_iff bit_drop_bit_eq
      bit_ucast_iff dest: bit_imp_le_length)

lemmas swab_builtin = swab16_builtin swab32_builtin swab64_builtin

lemma le_bytes_bswap:
  "8 * n \<le> LENGTH('a) \<Longrightarrow> le_bytes n (builtin_bswap n (x :: 'a::len word)) = rev (le_bytes n x)"
  using le_bytes_le_word [of "rev (le_bytes n x)"] by (simp add: builtin_bswap_def)

lemma bswap_bswap:
  "8 * n = LENGTH('a) \<Longrightarrow> builtin_bswap n (builtin_bswap n x) = (x :: 'a::len word)"
  by (subst builtin_bswap_def) (simp add: le_bytes_bswap le_word_le_bytes_full)


section \<open>Conversions as a wire format\<close>

text \<open>
  What a program relies on when it uses a pair of conversions: each undoes the other and the
  converted word lies in memory with the most significant byte first.
\<close>

locale wire_order =
  fixes ord :: byte_order and n :: nat and hton :: "'a::len word \<Rightarrow> 'a word" and ntoh :: "'a word \<Rightarrow> 'a word"
  assumes width: "8 * n = LENGTH('a)"
    and ntoh_hton: "ntoh (hton x) = x"
    and hton_wire: "in_memory ord n (hton x) = rev (le_bytes n x)"
begin

lemma in_memory_inj: "in_memory ord n (x :: 'a word) = in_memory ord n y \<longleftrightarrow> x = y"
proof
  assume "in_memory ord n x = in_memory ord n y"
  then have "le_bytes n x = le_bytes n y" by (cases ord) (auto simp: in_memory_def)
  then have "(le_word (le_bytes n x) :: 'a word) = le_word (le_bytes n y)" by (rule arg_cong)
  then show "x = y" using width by (simp add: le_word_le_bytes_full)
qed simp

lemma hton_inj: "hton x = hton y \<longleftrightarrow> x = y"
  by (metis ntoh_hton)

text \<open>Reading the wire bytes into a host word and converting it yields the value that was sent.\<close>

lemma receive: "in_memory ord n (w :: 'a word) = rev (le_bytes n x) \<Longrightarrow> ntoh w = x"
  using in_memory_inj [of w "hton x"] by (simp add: hton_wire ntoh_hton)

lemma hton_ntoh: "hton (ntoh w) = w"
proof -
  have "surj hton"
    using finite_UNIV_inj_surj [of hton] by (simp add: inj_def hton_inj)
  then show ?thesis by (metis ntoh_hton surjD)
qed

end

lemmas convert_defs = bpf_htons_def bpf_ntohs_def bpf_htonl_def bpf_ntohl_def bpf_cpu_to_be64_def
  bpf_be64_to_cpu_def on_little_def in_memory_def

interpretation w16: wire_order ord 2 "bpf_htons ord c" "bpf_ntohs ord c'" for ord c c'
  by unfold_locales (cases ord; simp add: convert_defs swab_builtin bswap_bswap le_bytes_bswap del: le_bytes.simps)+

interpretation w32: wire_order ord 4 "bpf_htonl ord c" "bpf_ntohl ord c'" for ord c c'
  by unfold_locales (cases ord; simp add: convert_defs swab_builtin bswap_bswap le_bytes_bswap del: le_bytes.simps)+

interpretation w64: wire_order ord 8 "bpf_cpu_to_be64 ord c" "bpf_be64_to_cpu ord c'" for ord c c'
  by unfold_locales (cases ord; simp add: convert_defs swab_builtin bswap_bswap le_bytes_bswap del: le_bytes.simps)+

text \<open>
  The shift expressions for constants compute the same byte swap as the compiler built-ins, at
  all three widths.
\<close>

theorem swab_is_bswap:
  "bpf_swab16 = builtin_bswap 2 \<and> bpf_swab32 = builtin_bswap 4 \<and> bpf_swab64 = builtin_bswap 8"
  by (simp add: fun_eq_iff swab_builtin)

text \<open>
  C35: host-to-network conversion puts the most significant byte first in memory, and
  network-to-host conversion of what was received in that order yields the value that was sent, on
  both byte orders and whichever of the two expressions each side was compiled to.
\<close>

theorem network_order_roundtrip:
  "in_memory ord 2 (bpf_htons ord c x) = rev (le_bytes 2 x) \<and> bpf_ntohs ord c' (bpf_htons ord c x) = x
   \<and> in_memory ord 4 (bpf_htonl ord c y) = rev (le_bytes 4 y) \<and> bpf_ntohl ord c' (bpf_htonl ord c y) = y
   \<and> in_memory ord 8 (bpf_cpu_to_be64 ord c z) = rev (le_bytes 8 z) \<and> bpf_be64_to_cpu ord c' (bpf_cpu_to_be64 ord c z) = z"
  by (intro conjI w16.hton_wire w16.ntoh_hton w32.hton_wire w32.ntoh_hton w64.hton_wire w64.ntoh_hton)

end
