(* ===== verification/Vmlinux_Helpers.thy ===== *)
theory Vmlinux_Helpers
  imports Vmlinux_Task Helper_Defs
begin

text \<open>
  The types of \<open>src/ebpf/vmlinux.h\<close> that the helper declarations of \<open>bpf_helper_defs.h\<close> announce at the
  top of that file and use as parameters: contexts of the program types, tuples, headers of network
  packets, iterator state.  They are transcribed like the types of \<open>Vmlinux_Fs\<close>.  Left out are the
  full sockets \<open>tcp_sock\<close>, \<open>tcp6_sock\<close>, \<open>udp6_sock\<close>, \<open>unix_sock\<close> and \<open>mptcp_sock\<close>, which helpers only
  return, and \<open>inode\<close>, \<open>socket\<close> and \<open>sockaddr\<close>.
\<close>

definition ty___be16 :: ctype where [alias_defs]:
  "ty___be16 = ty___u16"

definition ty___be32 :: ctype where [alias_defs]:
  "ty___be32 = ty___u32"

definition struct_bpf_fib_lookup :: ctype where
  "struct_bpf_fib_lookup = CStruct ''bpf_fib_lookup'' [
    CField ''family'' ty___u8,
    CField ''l4_protocol'' ty___u8,
    CField ''sport'' ty___be16,
    CField ''dport'' ty___be16,
    CField '''' (CUnion '''' [
      CField ''tot_len'' ty___u16,
      CField ''mtu_result'' ty___u16]),
    CField ''ifindex'' ty___u32,
    CField '''' (CUnion '''' [
      CField ''tos'' ty___u8,
      CField ''flowinfo'' ty___be32,
      CField ''rt_metric'' ty___u32]),
    CField '''' (CUnion '''' [
      CField ''ipv4_src'' ty___be32,
      CField ''ipv6_src'' (CArray ty___u32 4)]),
    CField '''' (CUnion '''' [
      CField ''ipv4_dst'' ty___be32,
      CField ''ipv6_dst'' (CArray ty___u32 4)]),
    CField '''' (CUnion '''' [
      CField '''' (CStruct '''' [
        CField ''h_vlan_proto'' ty___be16,
        CField ''h_vlan_TCI'' ty___be16]),
      CField ''tbid'' ty___u32]),
    CField '''' (CUnion '''' [
      CField '''' (CStruct '''' [
        CField ''mark'' ty___u32]),
      CField '''' (CStruct '''' [
        CField ''smac'' (CArray ty___u8 6),
        CField ''dmac'' (CArray ty___u8 6)])])]"

definition struct_bpf_sk_lookup :: ctype where
  "struct_bpf_sk_lookup = CStruct ''bpf_sk_lookup'' [
    CField '''' (CUnion '''' [
      CField '''' (CUnion '''' [
        CField ''sk'' (CPtr ''struct bpf_sock'')]),
      CField ''cookie'' ty___u64]),
    CField ''family'' ty___u32,
    CField ''protocol'' ty___u32,
    CField ''remote_ip4'' ty___u32,
    CField ''remote_ip6'' (CArray ty___u32 4),
    CField ''remote_port'' ty___be16,
    CField ''local_ip4'' ty___u32,
    CField ''local_ip6'' (CArray ty___u32 4),
    CField ''local_port'' ty___u32,
    CField ''ingress_ifindex'' ty___u32]"

definition ty_bpf_user_pt_regs_t :: ctype where [alias_defs]:
  "ty_bpf_user_pt_regs_t = struct_pt_regs"

definition struct_bpf_perf_event_data :: ctype where
  "struct_bpf_perf_event_data = CStruct ''bpf_perf_event_data'' [
    CField ''regs'' ty_bpf_user_pt_regs_t,
    CField ''sample_period'' ty___u64,
    CField ''addr'' ty___u64]"

definition struct_bpf_perf_event_value :: ctype where
  "struct_bpf_perf_event_value = CStruct ''bpf_perf_event_value'' [
    CField ''counter'' ty___u64,
    CField ''enabled'' ty___u64,
    CField ''running'' ty___u64]"

definition struct_bpf_pidns_info :: ctype where
  "struct_bpf_pidns_info = CStruct ''bpf_pidns_info'' [
    CField ''pid'' ty___u32,
    CField ''tgid'' ty___u32]"

definition struct_bpf_redir_neigh :: ctype where
  "struct_bpf_redir_neigh = CStruct ''bpf_redir_neigh'' [
    CField ''nh_family'' ty___u32,
    CField '''' (CUnion '''' [
      CField ''ipv4_nh'' ty___be32,
      CField ''ipv6_nh'' (CArray ty___u32 4)])]"

definition ty___s32 :: ctype where [alias_defs]:
  "ty___s32 = c_int"

definition struct_bpf_sock :: ctype where
  "struct_bpf_sock = CStruct ''bpf_sock'' [
    CField ''bound_dev_if'' ty___u32,
    CField ''family'' ty___u32,
    CField ''type'' ty___u32,
    CField ''protocol'' ty___u32,
    CField ''mark'' ty___u32,
    CField ''priority'' ty___u32,
    CField ''src_ip4'' ty___u32,
    CField ''src_ip6'' (CArray ty___u32 4),
    CField ''src_port'' ty___u32,
    CField ''dst_port'' ty___be16,
    CField ''dst_ip4'' ty___u32,
    CField ''dst_ip6'' (CArray ty___u32 4),
    CField ''state'' ty___u32,
    CField ''rx_queue_mapping'' ty___s32]"

definition struct_bpf_sock_addr :: ctype where
  "struct_bpf_sock_addr = CStruct ''bpf_sock_addr'' [
    CField ''user_family'' ty___u32,
    CField ''user_ip4'' ty___u32,
    CField ''user_ip6'' (CArray ty___u32 4),
    CField ''user_port'' ty___u32,
    CField ''family'' ty___u32,
    CField ''type'' ty___u32,
    CField ''protocol'' ty___u32,
    CField ''msg_src_ip4'' ty___u32,
    CField ''msg_src_ip6'' (CArray ty___u32 4),
    CField '''' (CUnion '''' [
      CField ''sk'' (CPtr ''struct bpf_sock'')])]"

definition struct_bpf_sock_ops :: ctype where
  "struct_bpf_sock_ops = CStruct ''bpf_sock_ops'' [
    CField ''op'' ty___u32,
    CField '''' (CUnion '''' [
      CField ''args'' (CArray ty___u32 4),
      CField ''reply'' ty___u32,
      CField ''replylong'' (CArray ty___u32 4)]),
    CField ''family'' ty___u32,
    CField ''remote_ip4'' ty___u32,
    CField ''local_ip4'' ty___u32,
    CField ''remote_ip6'' (CArray ty___u32 4),
    CField ''local_ip6'' (CArray ty___u32 4),
    CField ''remote_port'' ty___u32,
    CField ''local_port'' ty___u32,
    CField ''is_fullsock'' ty___u32,
    CField ''snd_cwnd'' ty___u32,
    CField ''srtt_us'' ty___u32,
    CField ''bpf_sock_ops_cb_flags'' ty___u32,
    CField ''state'' ty___u32,
    CField ''rtt_min'' ty___u32,
    CField ''snd_ssthresh'' ty___u32,
    CField ''rcv_nxt'' ty___u32,
    CField ''snd_nxt'' ty___u32,
    CField ''snd_una'' ty___u32,
    CField ''mss_cache'' ty___u32,
    CField ''ecn_flags'' ty___u32,
    CField ''rate_delivered'' ty___u32,
    CField ''rate_interval_us'' ty___u32,
    CField ''packets_out'' ty___u32,
    CField ''retrans_out'' ty___u32,
    CField ''total_retrans'' ty___u32,
    CField ''segs_in'' ty___u32,
    CField ''data_segs_in'' ty___u32,
    CField ''segs_out'' ty___u32,
    CField ''data_segs_out'' ty___u32,
    CField ''lost_out'' ty___u32,
    CField ''sacked_out'' ty___u32,
    CField ''sk_txhash'' ty___u32,
    CField ''bytes_received'' ty___u64,
    CField ''bytes_acked'' ty___u64,
    CField '''' (CUnion '''' [
      CField ''sk'' (CPtr ''struct bpf_sock'')]),
    CField '''' (CUnion '''' [
      CField ''skb_data'' (CPtr ''void'')]),
    CField '''' (CUnion '''' [
      CField ''skb_data_end'' (CPtr ''void'')]),
    CField ''skb_len'' ty___u32,
    CField ''skb_tcp_flags'' ty___u32,
    CField ''skb_hwtstamp'' ty___u64]"

definition struct_bpf_sock_tuple :: ctype where
  "struct_bpf_sock_tuple = CStruct ''bpf_sock_tuple'' [
    CField '''' (CUnion '''' [
      CField ''ipv4'' (CStruct '''' [
        CField ''saddr'' ty___be32,
        CField ''daddr'' ty___be32,
        CField ''sport'' ty___be16,
        CField ''dport'' ty___be16]),
      CField ''ipv6'' (CStruct '''' [
        CField ''saddr'' (CArray ty___be32 4),
        CField ''daddr'' (CArray ty___be32 4),
        CField ''sport'' ty___be16,
        CField ''dport'' ty___be16])])]"

definition struct_bpf_spin_lock :: ctype where
  "struct_bpf_spin_lock = CStruct ''bpf_spin_lock'' [
    CField ''val'' ty___u32]"

definition struct_bpf_tcp_sock :: ctype where
  "struct_bpf_tcp_sock = CStruct ''bpf_tcp_sock'' [
    CField ''snd_cwnd'' ty___u32,
    CField ''srtt_us'' ty___u32,
    CField ''rtt_min'' ty___u32,
    CField ''snd_ssthresh'' ty___u32,
    CField ''rcv_nxt'' ty___u32,
    CField ''snd_nxt'' ty___u32,
    CField ''snd_una'' ty___u32,
    CField ''mss_cache'' ty___u32,
    CField ''ecn_flags'' ty___u32,
    CField ''rate_delivered'' ty___u32,
    CField ''rate_interval_us'' ty___u32,
    CField ''packets_out'' ty___u32,
    CField ''retrans_out'' ty___u32,
    CField ''total_retrans'' ty___u32,
    CField ''segs_in'' ty___u32,
    CField ''data_segs_in'' ty___u32,
    CField ''segs_out'' ty___u32,
    CField ''data_segs_out'' ty___u32,
    CField ''lost_out'' ty___u32,
    CField ''sacked_out'' ty___u32,
    CField ''bytes_received'' ty___u64,
    CField ''bytes_acked'' ty___u64,
    CField ''dsack_dups'' ty___u32,
    CField ''delivered'' ty___u32,
    CField ''delivered_ce'' ty___u32,
    CField ''icsk_retransmits'' ty___u32]"

definition struct_bpf_tunnel_key :: ctype where
  "struct_bpf_tunnel_key = CStruct ''bpf_tunnel_key'' [
    CField ''tunnel_id'' ty___u32,
    CField '''' (CUnion '''' [
      CField ''remote_ipv4'' ty___u32,
      CField ''remote_ipv6'' (CArray ty___u32 4)]),
    CField ''tunnel_tos'' ty___u8,
    CField ''tunnel_ttl'' ty___u8,
    CField '''' (CUnion '''' [
      CField ''tunnel_ext'' ty___u16,
      CField ''tunnel_flags'' ty___be16]),
    CField ''tunnel_label'' ty___u32,
    CField '''' (CUnion '''' [
      CField ''local_ipv4'' ty___u32,
      CField ''local_ipv6'' (CArray ty___u32 4)])]"

definition struct_bpf_xfrm_state :: ctype where
  "struct_bpf_xfrm_state = CStruct ''bpf_xfrm_state'' [
    CField ''reqid'' ty___u32,
    CField ''spi'' ty___u32,
    CField ''family'' ty___u16,
    CField ''ext'' ty___u16,
    CField '''' (CUnion '''' [
      CField ''remote_ipv4'' ty___u32,
      CField ''remote_ipv6'' (CArray ty___u32 4)])]"

definition struct_rlimit :: ctype where
  "struct_rlimit = CStruct ''rlimit'' [
    CField ''rlim_cur'' ty___kernel_ulong_t,
    CField ''rlim_max'' ty___kernel_ulong_t]"

definition struct_linux_binprm :: ctype where
  "struct_linux_binprm = CStruct ''linux_binprm'' [
    CField ''vma'' (CPtr ''struct vm_area_struct''),
    CField ''vma_pages'' c_ulong,
    CField ''argmin'' c_ulong,
    CField ''mm'' (CPtr ''struct mm_struct''),
    CField ''p'' c_ulong,
    CBits ''have_execfd'' c_uint 1,
    CBits ''execfd_creds'' c_uint 1,
    CBits ''secureexec'' c_uint 1,
    CBits ''point_of_no_return'' c_uint 1,
    CBits ''comm_from_dentry'' c_uint 1,
    CBits ''is_check'' c_uint 1,
    CField ''executable'' (CPtr ''struct file''),
    CField ''interpreter'' (CPtr ''struct file''),
    CField ''file'' (CPtr ''struct file''),
    CField ''cred'' (CPtr ''struct cred''),
    CField ''unsafe'' c_int,
    CField ''per_clear'' c_uint,
    CField ''argc'' c_int,
    CField ''envc'' c_int,
    CField ''filename'' (CPtr ''const char''),
    CField ''interp'' (CPtr ''const char''),
    CField ''fdpath'' (CPtr ''const char''),
    CField ''interp_flags'' c_uint,
    CField ''execfd'' c_int,
    CField ''loader'' c_ulong,
    CField ''exec'' c_ulong,
    CField ''rlim_stack'' struct_rlimit,
    CField ''buf'' (CArray c_char 256)]"

definition struct_sk_reuseport_md :: ctype where
  "struct_sk_reuseport_md = CStruct ''sk_reuseport_md'' [
    CField '''' (CUnion '''' [
      CField ''data'' (CPtr ''void'')]),
    CField '''' (CUnion '''' [
      CField ''data_end'' (CPtr ''void'')]),
    CField ''len'' ty___u32,
    CField ''eth_protocol'' ty___u32,
    CField ''ip_protocol'' ty___u32,
    CField ''bind_inany'' ty___u32,
    CField ''hash'' ty___u32,
    CField '''' (CUnion '''' [
      CField ''sk'' (CPtr ''struct bpf_sock'')]),
    CField '''' (CUnion '''' [
      CField ''migrating_sk'' (CPtr ''struct bpf_sock'')])]"

definition ty___sum16 :: ctype where [alias_defs]:
  "ty___sum16 = ty___u16"

definition struct_tcphdr :: ctype where
  "struct_tcphdr = CStruct ''tcphdr'' [
    CField ''source'' ty___be16,
    CField ''dest'' ty___be16,
    CField ''seq'' ty___be32,
    CField ''ack_seq'' ty___be32,
    CBits ''res1'' ty___u16 4,
    CBits ''doff'' ty___u16 4,
    CBits ''fin'' ty___u16 1,
    CBits ''syn'' ty___u16 1,
    CBits ''rst'' ty___u16 1,
    CBits ''psh'' ty___u16 1,
    CBits ''ack'' ty___u16 1,
    CBits ''urg'' ty___u16 1,
    CBits ''ece'' ty___u16 1,
    CBits ''cwr'' ty___u16 1,
    CField ''window'' ty___be16,
    CField ''check'' ty___sum16,
    CField ''urg_ptr'' ty___be16]"

definition struct_seq_file :: ctype where
  "struct_seq_file = CStruct ''seq_file'' [
    CField ''buf'' (CPtr ''char''),
    CField ''size'' ty_size_t,
    CField ''from'' ty_size_t,
    CField ''count'' ty_size_t,
    CField ''pad_until'' ty_size_t,
    CField ''index'' ty_loff_t,
    CField ''read_pos'' ty_loff_t,
    CField ''lock'' struct_mutex,
    CField ''op'' (CPtr ''const struct seq_operations''),
    CField ''poll_event'' c_int,
    CField ''file'' (CPtr ''const struct file''),
    CField ''private'' (CPtr ''void'')]"

definition struct_hlist_nulls_node :: ctype where
  "struct_hlist_nulls_node = CStruct ''hlist_nulls_node'' [
    CField ''next'' (CPtr ''struct hlist_nulls_node''),
    CField ''pprev'' (CPtr ''struct hlist_nulls_node *'')]"

definition struct_in6_addr :: ctype where
  "struct_in6_addr = CStruct ''in6_addr'' [
    CField ''in6_u'' (CUnion '''' [
      CField ''u6_addr8'' (CArray ty___u8 16),
      CField ''u6_addr16'' (CArray ty___be16 8),
      CField ''u6_addr32'' (CArray ty___be32 4)])]"

definition ty___addrpair :: ctype where [alias_defs]:
  "ty___addrpair = ty___u64"

definition ty___portpair :: ctype where [alias_defs]:
  "ty___portpair = ty___u32"

definition ty_possible_net_t :: ctype where
  "ty_possible_net_t = CStruct '''' [
    CField ''net'' (CPtr ''struct net'')]"

definition struct_sock_common :: ctype where
  "struct_sock_common = CStruct ''sock_common'' [
    CField '''' (CUnion '''' [
      CField ''skc_addrpair'' ty___addrpair,
      CField '''' (CStruct '''' [
        CField ''skc_daddr'' ty___be32,
        CField ''skc_rcv_saddr'' ty___be32])]),
    CField '''' (CUnion '''' [
      CField ''skc_hash'' c_uint,
      CField ''skc_u16hashes'' (CArray ty___u16 2)]),
    CField '''' (CUnion '''' [
      CField ''skc_portpair'' ty___portpair,
      CField '''' (CStruct '''' [
        CField ''skc_dport'' ty___be16,
        CField ''skc_num'' ty___u16])]),
    CField ''skc_family'' c_ushort,
    CField ''skc_state'' c_uchar,
    CBits ''skc_reuse'' c_uchar 4,
    CBits ''skc_reuseport'' c_uchar 1,
    CBits ''skc_ipv6only'' c_uchar 1,
    CBits ''skc_net_refcnt'' c_uchar 1,
    CField ''skc_bound_dev_if'' c_int,
    CField '''' (CUnion '''' [
      CField ''skc_bind_node'' struct_hlist_node,
      CField ''skc_portaddr_node'' struct_hlist_node]),
    CField ''skc_prot'' (CPtr ''struct proto''),
    CField ''skc_net'' ty_possible_net_t,
    CField ''skc_v6_daddr'' struct_in6_addr,
    CField ''skc_v6_rcv_saddr'' struct_in6_addr,
    CField ''skc_cookie'' ty_atomic64_t,
    CField '''' (CUnion '''' [
      CField ''skc_flags'' c_ulong,
      CField ''skc_listener'' (CPtr ''struct sock''),
      CField ''skc_tw_dr'' (CPtr ''struct inet_timewait_death_row'')]),
    CField ''skc_dontcopy_begin'' (CArray c_int 0),
    CField '''' (CUnion '''' [
      CField ''skc_node'' struct_hlist_node,
      CField ''skc_nulls_node'' struct_hlist_nulls_node]),
    CField ''skc_tx_queue_mapping'' c_ushort,
    CField ''skc_rx_queue_mapping'' c_ushort,
    CField '''' (CUnion '''' [
      CField ''skc_incoming_cpu'' c_int,
      CField ''skc_rcv_wnd'' ty_u32,
      CField ''skc_tw_rcv_nxt'' ty_u32]),
    CField ''skc_refcnt'' ty_refcount_t,
    CField ''skc_dontcopy_end'' (CArray c_int 0),
    CField '''' (CUnion '''' [
      CField ''skc_rxhash'' ty_u32,
      CField ''skc_window_clamp'' ty_u32,
      CField ''skc_tw_snd_nxt'' ty_u32])]"

definition struct_inet_timewait_sock :: ctype where
  "struct_inet_timewait_sock = CStruct ''inet_timewait_sock'' [
    CField ''__tw_common'' struct_sock_common,
    CField ''tw_mark'' ty___u32,
    CField ''tw_substate'' c_uchar,
    CField ''tw_rcv_wscale'' c_uchar,
    CField ''tw_sport'' ty___be16,
    CBits ''tw_transparent'' c_uint 1,
    CBits ''tw_flowlabel'' c_uint 20,
    CBits ''tw_usec_ts'' c_uint 1,
    CBits ''tw_pad'' c_uint 2,
    CBits ''tw_tos'' c_uint 8,
    CField ''tw_txhash'' ty_u32,
    CField ''tw_priority'' ty_u32,
    CField ''tw_entry_stamp'' ty_u32,
    CField ''tw_timer'' struct_timer_list,
    CField ''tw_tb'' (CPtr ''struct inet_bind_bucket''),
    CField ''tw_tb2'' (CPtr ''struct inet_bind2_bucket'')]"

definition struct_tcp_timewait_sock :: ctype where
  "struct_tcp_timewait_sock = CStruct ''tcp_timewait_sock'' [
    CField ''tw_sk'' struct_inet_timewait_sock,
    CField ''tw_rcv_wnd'' ty_u32,
    CField ''tw_ts_offset'' ty_u32,
    CField ''tw_ts_recent'' ty_u32,
    CField ''tw_last_oow_ack_time'' ty_u32,
    CField ''tw_ts_recent_stamp'' c_int,
    CField ''tw_tx_delay'' ty_u32,
    CField ''tw_md5_key'' (CPtr ''struct tcp_md5sig_key'')]"

definition struct_request_sock :: ctype where
  "struct_request_sock = CStruct ''request_sock'' [
    CField ''__req_common'' struct_sock_common,
    CField ''dl_next'' (CPtr ''struct request_sock''),
    CField ''mss'' ty_u16,
    CField ''num_retrans'' ty_u8,
    CBits ''syncookie'' ty_u8 1,
    CBits ''num_timeout'' ty_u8 7,
    CField ''ts_recent'' ty_u32,
    CField ''rsk_timer'' struct_timer_list,
    CField ''rsk_ops'' (CPtr ''const struct request_sock_ops''),
    CField ''sk'' (CPtr ''struct sock''),
    CField ''saved_syn'' (CPtr ''struct saved_syn''),
    CField ''secid'' ty_u32,
    CField ''peer_secid'' ty_u32,
    CField ''timeout'' ty_u32]"

definition struct_inet_request_sock :: ctype where
  "struct_inet_request_sock = CStruct ''inet_request_sock'' [
    CField ''req'' struct_request_sock,
    CBits ''snd_wscale'' ty_u16 4,
    CBits ''rcv_wscale'' ty_u16 4,
    CBits ''tstamp_ok'' ty_u16 1,
    CBits ''sack_ok'' ty_u16 1,
    CBits ''wscale_ok'' ty_u16 1,
    CBits ''ecn_ok'' ty_u16 1,
    CBits ''acked'' ty_u16 1,
    CBits ''no_srccheck'' ty_u16 1,
    CBits ''smc_ok'' ty_u16 1,
    CField ''ir_mark'' ty_u32,
    CField '''' (CUnion '''' [
      CField ''ireq_opt'' (CPtr ''struct ip_options_rcu''),
      CField '''' (CStruct '''' [
        CField ''ipv6_opt'' (CPtr ''struct ipv6_txoptions''),
        CField ''pktopts'' (CPtr ''struct sk_buff'')])])]"

definition struct_tcp_request_sock :: ctype where
  "struct_tcp_request_sock = CStruct ''tcp_request_sock'' [
    CField ''req'' struct_inet_request_sock,
    CField ''af_specific'' (CPtr ''const struct tcp_request_sock_ops''),
    CField ''snt_synack'' ty_u64,
    CField ''tfo_listener'' ty_bool,
    CField ''is_mptcp'' ty_bool,
    CField ''req_usec_ts'' ty_bool,
    CField ''txhash'' ty_u32,
    CField ''rcv_isn'' ty_u32,
    CField ''snt_isn'' ty_u32,
    CField ''ts_off'' ty_u32,
    CField ''last_oow_ack_time'' ty_u32,
    CField ''rcv_nxt'' ty_u32,
    CField ''syn_tos'' ty_u8]"

definition struct_cacheline_padding :: ctype where
  "struct_cacheline_padding = CStruct ''cacheline_padding'' [
    CField ''x'' (CArray c_char 0)]"

definition struct_task_cputime :: ctype where
  "struct_task_cputime = CStruct ''task_cputime'' [
    CField ''stime'' ty_u64,
    CField ''utime'' ty_u64,
    CField ''sum_exec_runtime'' c_ullong]"

definition struct_cgroup_base_stat :: ctype where
  "struct_cgroup_base_stat = CStruct ''cgroup_base_stat'' [
    CField ''cputime'' struct_task_cputime,
    CField ''ntime'' ty_u64]"

definition struct_cgroup_bpf :: ctype where
  "struct_cgroup_bpf = CStruct ''cgroup_bpf'' []"

definition struct_cgroup_file :: ctype where
  "struct_cgroup_file = CStruct ''cgroup_file'' [
    CField ''kn'' (CPtr ''struct kernfs_node''),
    CField ''notified_at'' c_ulong,
    CField ''notify_timer'' struct_timer_list]"

definition struct_cgroup_freezer_state :: ctype where
  "struct_cgroup_freezer_state = CStruct ''cgroup_freezer_state'' [
    CField ''freeze'' ty_bool,
    CField ''e_freeze'' ty_bool,
    CField ''nr_frozen_descendants'' c_int,
    CField ''nr_frozen_tasks'' c_int]"

definition struct_percpu_ref :: ctype where
  "struct_percpu_ref = CStruct ''percpu_ref'' [
    CField ''percpu_count_ptr'' c_ulong,
    CField ''data'' (CPtr ''struct percpu_ref_data'')]"

definition ty_work_func_t :: ctype where [alias_defs]:
  "ty_work_func_t = CPtr ''function''"

definition struct_work_struct :: ctype where
  "struct_work_struct = CStruct ''work_struct'' [
    CField ''data'' ty_atomic_long_t,
    CField ''entry'' struct_list_head,
    CField ''func'' ty_work_func_t]"

definition struct_rcu_work :: ctype where
  "struct_rcu_work = CStruct ''rcu_work'' [
    CField ''work'' struct_work_struct,
    CField ''rcu'' struct_callback_head,
    CField ''wq'' (CPtr ''struct workqueue_struct'')]"

definition struct_cgroup_subsys_state :: ctype where
  "struct_cgroup_subsys_state = CStruct ''cgroup_subsys_state'' [
    CField ''cgroup'' (CPtr ''struct cgroup''),
    CField ''ss'' (CPtr ''struct cgroup_subsys''),
    CField ''refcnt'' struct_percpu_ref,
    CField ''sibling'' struct_list_head,
    CField ''children'' struct_list_head,
    CField ''rstat_css_node'' struct_list_head,
    CField ''id'' c_int,
    CField ''flags'' c_uint,
    CField ''serial_nr'' ty_u64,
    CField ''online_cnt'' ty_atomic_t,
    CField ''destroy_work'' struct_work_struct,
    CField ''destroy_rwork'' struct_rcu_work,
    CField ''parent'' (CPtr ''struct cgroup_subsys_state''),
    CField ''nr_descendants'' c_int]"

definition struct_wait_queue_head :: ctype where
  "struct_wait_queue_head = CStruct ''wait_queue_head'' [
    CField ''lock'' ty_spinlock_t,
    CField ''head'' struct_list_head]"

definition ty_wait_queue_head_t :: ctype where [alias_defs]:
  "ty_wait_queue_head_t = struct_wait_queue_head"

definition struct_cgroup :: ctype where
  "struct_cgroup = CStruct ''cgroup'' [
    CField ''self'' struct_cgroup_subsys_state,
    CField ''flags'' c_ulong,
    CField ''level'' c_int,
    CField ''max_depth'' c_int,
    CField ''nr_descendants'' c_int,
    CField ''nr_dying_descendants'' c_int,
    CField ''max_descendants'' c_int,
    CField ''nr_populated_csets'' c_int,
    CField ''nr_populated_domain_children'' c_int,
    CField ''nr_populated_threaded_children'' c_int,
    CField ''nr_threaded_children'' c_int,
    CField ''kill_seq'' c_uint,
    CField ''kn'' (CPtr ''struct kernfs_node''),
    CField ''procs_file'' struct_cgroup_file,
    CField ''events_file'' struct_cgroup_file,
    CField ''psi_files'' (CArray struct_cgroup_file 0),
    CField ''subtree_control'' ty_u16,
    CField ''subtree_ss_mask'' ty_u16,
    CField ''old_subtree_control'' ty_u16,
    CField ''old_subtree_ss_mask'' ty_u16,
    CField ''subsys'' (CArray (CPtr ''struct cgroup_subsys_state'') 14),
    CField ''nr_dying_subsys'' (CArray c_int 14),
    CField ''root'' (CPtr ''struct cgroup_root''),
    CField ''cset_links'' struct_list_head,
    CField ''e_csets'' (CArray struct_list_head 14),
    CField ''dom_cgrp'' (CPtr ''struct cgroup''),
    CField ''old_dom_cgrp'' (CPtr ''struct cgroup''),
    CField ''rstat_cpu'' (CPtr ''struct cgroup_rstat_cpu''),
    CField ''rstat_css_list'' struct_list_head,
    CBits '''' c_long 64,
    CBits '''' c_long 64,
    CBits '''' c_long 64,
    CBits '''' c_long 64,
    CBits '''' c_long 64,
    CBits '''' c_long 64,
    CBits '''' c_long 64,
    CField ''_pad_'' struct_cacheline_padding,
    CField ''rstat_flush_next'' (CPtr ''struct cgroup''),
    CField ''last_bstat'' struct_cgroup_base_stat,
    CField ''bstat'' struct_cgroup_base_stat,
    CField ''prev_cputime'' struct_prev_cputime,
    CField ''pidlists'' struct_list_head,
    CField ''pidlist_mutex'' struct_mutex,
    CField ''offline_waitq'' ty_wait_queue_head_t,
    CField ''release_agent_work'' struct_work_struct,
    CField ''psi'' (CPtr ''struct psi_group''),
    CField ''bpf'' struct_cgroup_bpf,
    CField ''freezer'' struct_cgroup_freezer_state,
    CField ''bpf_cgrp_storage'' (CPtr ''struct bpf_local_storage''),
    CField ''ancestors'' (CArray (CPtr ''struct cgroup'') 0),
    CBits '''' c_long 64,
    CBits '''' c_long 64,
    CBits '''' c_long 64]"

definition struct___sk_buff :: ctype where
  "struct___sk_buff = CStruct ''__sk_buff'' [
    CField ''len'' ty___u32,
    CField ''pkt_type'' ty___u32,
    CField ''mark'' ty___u32,
    CField ''queue_mapping'' ty___u32,
    CField ''protocol'' ty___u32,
    CField ''vlan_present'' ty___u32,
    CField ''vlan_tci'' ty___u32,
    CField ''vlan_proto'' ty___u32,
    CField ''priority'' ty___u32,
    CField ''ingress_ifindex'' ty___u32,
    CField ''ifindex'' ty___u32,
    CField ''tc_index'' ty___u32,
    CField ''cb'' (CArray ty___u32 5),
    CField ''hash'' ty___u32,
    CField ''tc_classid'' ty___u32,
    CField ''data'' ty___u32,
    CField ''data_end'' ty___u32,
    CField ''napi_id'' ty___u32,
    CField ''family'' ty___u32,
    CField ''remote_ip4'' ty___u32,
    CField ''local_ip4'' ty___u32,
    CField ''remote_ip6'' (CArray ty___u32 4),
    CField ''local_ip6'' (CArray ty___u32 4),
    CField ''remote_port'' ty___u32,
    CField ''local_port'' ty___u32,
    CField ''data_meta'' ty___u32,
    CField '''' (CUnion '''' [
      CField ''flow_keys'' (CPtr ''struct bpf_flow_keys'')]),
    CField ''tstamp'' ty___u64,
    CField ''wire_len'' ty___u32,
    CField ''gso_segs'' ty___u32,
    CField '''' (CUnion '''' [
      CField ''sk'' (CPtr ''struct bpf_sock'')]),
    CField ''gso_size'' ty___u32,
    CField ''tstamp_type'' ty___u8,
    CField ''hwtstamp'' ty___u64]"

definition struct_sk_msg_md :: ctype where
  "struct_sk_msg_md = CStruct ''sk_msg_md'' [
    CField '''' (CUnion '''' [
      CField ''data'' (CPtr ''void'')]),
    CField '''' (CUnion '''' [
      CField ''data_end'' (CPtr ''void'')]),
    CField ''family'' ty___u32,
    CField ''remote_ip4'' ty___u32,
    CField ''local_ip4'' ty___u32,
    CField ''remote_ip6'' (CArray ty___u32 4),
    CField ''local_ip6'' (CArray ty___u32 4),
    CField ''remote_port'' ty___u32,
    CField ''local_port'' ty___u32,
    CField ''size'' ty___u32,
    CField '''' (CUnion '''' [
      CField ''sk'' (CPtr ''struct bpf_sock'')])]"

definition struct_xdp_md :: ctype where
  "struct_xdp_md = CStruct ''xdp_md'' [
    CField ''data'' ty___u32,
    CField ''data_end'' ty___u32,
    CField ''data_meta'' ty___u32,
    CField ''ingress_ifindex'' ty___u32,
    CField ''rx_queue_index'' ty___u32,
    CField ''egress_ifindex'' ty___u32]"

definition struct_btf_ptr :: ctype where
  "struct_btf_ptr = CStruct ''btf_ptr'' [
    CField ''ptr'' (CPtr ''void''),
    CField ''type_id'' ty___u32,
    CField ''flags'' ty___u32]"

definition struct_bpf_timer :: ctype where
  "struct_bpf_timer = CStruct ''bpf_timer'' [
    CField ''__opaque'' (CArray ty___u64 2)]"

definition struct_bpf_dynptr :: ctype where
  "struct_bpf_dynptr = CStruct ''bpf_dynptr'' [
    CField ''__opaque'' (CArray ty___u64 2)]"

definition struct_iphdr :: ctype where
  "struct_iphdr = CStruct ''iphdr'' [
    CBits ''ihl'' ty___u8 4,
    CBits ''version'' ty___u8 4,
    CField ''tos'' ty___u8,
    CField ''tot_len'' ty___be16,
    CField ''id'' ty___be16,
    CField ''frag_off'' ty___be16,
    CField ''ttl'' ty___u8,
    CField ''protocol'' ty___u8,
    CField ''check'' ty___sum16,
    CField '''' (CUnion '''' [
      CField '''' (CStruct '''' [
        CField ''saddr'' ty___be32,
        CField ''daddr'' ty___be32]),
      CField ''addrs'' (CStruct '''' [
        CField ''saddr'' ty___be32,
        CField ''daddr'' ty___be32])])]"

definition struct_ipv6hdr :: ctype where
  "struct_ipv6hdr = CStruct ''ipv6hdr'' [
    CBits ''priority'' ty___u8 4,
    CBits ''version'' ty___u8 4,
    CField ''flow_lbl'' (CArray ty___u8 3),
    CField ''payload_len'' ty___be16,
    CField ''nexthdr'' ty___u8,
    CField ''hop_limit'' ty___u8,
    CField '''' (CUnion '''' [
      CField '''' (CStruct '''' [
        CField ''saddr'' struct_in6_addr,
        CField ''daddr'' struct_in6_addr]),
      CField ''addrs'' (CStruct '''' [
        CField ''saddr'' struct_in6_addr,
        CField ''daddr'' struct_in6_addr])])]"

text \<open>The announced types by their tag.\<close>

definition helper_structs :: "(string \<times> ctype) list" where
  "helper_structs =
    [(''bpf_fib_lookup'', struct_bpf_fib_lookup),
     (''bpf_sk_lookup'', struct_bpf_sk_lookup),
     (''bpf_perf_event_data'', struct_bpf_perf_event_data),
     (''bpf_perf_event_value'', struct_bpf_perf_event_value),
     (''bpf_pidns_info'', struct_bpf_pidns_info),
     (''bpf_redir_neigh'', struct_bpf_redir_neigh),
     (''bpf_sock'', struct_bpf_sock),
     (''bpf_sock_addr'', struct_bpf_sock_addr),
     (''bpf_sock_ops'', struct_bpf_sock_ops),
     (''bpf_sock_tuple'', struct_bpf_sock_tuple),
     (''bpf_spin_lock'', struct_bpf_spin_lock),
     (''bpf_tcp_sock'', struct_bpf_tcp_sock),
     (''bpf_tunnel_key'', struct_bpf_tunnel_key),
     (''bpf_xfrm_state'', struct_bpf_xfrm_state),
     (''linux_binprm'', struct_linux_binprm),
     (''pt_regs'', struct_pt_regs),
     (''sk_reuseport_md'', struct_sk_reuseport_md),
     (''tcphdr'', struct_tcphdr),
     (''seq_file'', struct_seq_file),
     (''tcp_timewait_sock'', struct_tcp_timewait_sock),
     (''tcp_request_sock'', struct_tcp_request_sock),
     (''task_struct'', struct_task_struct),
     (''cgroup'', struct_cgroup),
     (''__sk_buff'', struct___sk_buff),
     (''sk_msg_md'', struct_sk_msg_md),
     (''xdp_md'', struct_xdp_md),
     (''path'', struct_path),
     (''btf_ptr'', struct_btf_ptr),
     (''file'', struct_file),
     (''bpf_timer'', struct_bpf_timer),
     (''bpf_dynptr'', struct_bpf_dynptr),
     (''iphdr'', struct_iphdr),
     (''ipv6hdr'', struct_ipv6hdr)]"

section \<open>Layout\<close>

lemma struct_bpf_fib_lookup_layout [layout_simps]:
  "csize struct_bpf_fib_lookup = 64" "calign struct_bpf_fib_lookup = 4" "cwf struct_bpf_fib_lookup"
  by (simp_all add: struct_bpf_fib_lookup_def alias_defs layout_simps round_up_def)

lemma struct_bpf_sk_lookup_layout [layout_simps]:
  "csize struct_bpf_sk_lookup = 72" "calign struct_bpf_sk_lookup = 8" "cwf struct_bpf_sk_lookup"
  by (simp_all add: struct_bpf_sk_lookup_def alias_defs layout_simps round_up_def)

lemma struct_bpf_perf_event_data_layout [layout_simps]:
  "csize struct_bpf_perf_event_data = 184" "calign struct_bpf_perf_event_data = 8" "cwf struct_bpf_perf_event_data"
  by (simp_all add: struct_bpf_perf_event_data_def alias_defs layout_simps round_up_def)

lemma struct_bpf_perf_event_value_layout [layout_simps]:
  "csize struct_bpf_perf_event_value = 24" "calign struct_bpf_perf_event_value = 8" "cwf struct_bpf_perf_event_value"
  by (simp_all add: struct_bpf_perf_event_value_def alias_defs layout_simps round_up_def)

lemma struct_bpf_pidns_info_layout [layout_simps]:
  "csize struct_bpf_pidns_info = 8" "calign struct_bpf_pidns_info = 4" "cwf struct_bpf_pidns_info"
  by (simp_all add: struct_bpf_pidns_info_def alias_defs layout_simps round_up_def)

lemma struct_bpf_redir_neigh_layout [layout_simps]:
  "csize struct_bpf_redir_neigh = 20" "calign struct_bpf_redir_neigh = 4" "cwf struct_bpf_redir_neigh"
  by (simp_all add: struct_bpf_redir_neigh_def alias_defs layout_simps round_up_def)

lemma struct_bpf_sock_layout [layout_simps]:
  "csize struct_bpf_sock = 80" "calign struct_bpf_sock = 4" "cwf struct_bpf_sock"
  by (simp_all add: struct_bpf_sock_def alias_defs layout_simps round_up_def)

lemma struct_bpf_sock_addr_layout [layout_simps]:
  "csize struct_bpf_sock_addr = 72" "calign struct_bpf_sock_addr = 8" "cwf struct_bpf_sock_addr"
  by (simp_all add: struct_bpf_sock_addr_def alias_defs layout_simps round_up_def)

lemma struct_bpf_sock_ops_layout [layout_simps]:
  "csize struct_bpf_sock_ops = 224" "calign struct_bpf_sock_ops = 8" "cwf struct_bpf_sock_ops"
  by (simp_all add: struct_bpf_sock_ops_def alias_defs layout_simps round_up_def)

lemma struct_bpf_sock_tuple_layout [layout_simps]:
  "csize struct_bpf_sock_tuple = 36" "calign struct_bpf_sock_tuple = 4" "cwf struct_bpf_sock_tuple"
  by (simp_all add: struct_bpf_sock_tuple_def alias_defs layout_simps round_up_def)

lemma struct_bpf_spin_lock_layout [layout_simps]:
  "csize struct_bpf_spin_lock = 4" "calign struct_bpf_spin_lock = 4" "cwf struct_bpf_spin_lock"
  by (simp_all add: struct_bpf_spin_lock_def alias_defs layout_simps round_up_def)

lemma struct_bpf_tcp_sock_layout [layout_simps]:
  "csize struct_bpf_tcp_sock = 112" "calign struct_bpf_tcp_sock = 8" "cwf struct_bpf_tcp_sock"
  by (simp_all add: struct_bpf_tcp_sock_def alias_defs layout_simps round_up_def)

lemma struct_bpf_tunnel_key_layout [layout_simps]:
  "csize struct_bpf_tunnel_key = 44" "calign struct_bpf_tunnel_key = 4" "cwf struct_bpf_tunnel_key"
  by (simp_all add: struct_bpf_tunnel_key_def alias_defs layout_simps round_up_def)

lemma struct_bpf_xfrm_state_layout [layout_simps]:
  "csize struct_bpf_xfrm_state = 28" "calign struct_bpf_xfrm_state = 4" "cwf struct_bpf_xfrm_state"
  by (simp_all add: struct_bpf_xfrm_state_def alias_defs layout_simps round_up_def)

lemma struct_rlimit_layout [layout_simps]:
  "csize struct_rlimit = 16" "calign struct_rlimit = 8" "cwf struct_rlimit"
  by (simp_all add: struct_rlimit_def alias_defs layout_simps round_up_def)

lemma struct_linux_binprm_layout [layout_simps]:
  "csize struct_linux_binprm = 416" "calign struct_linux_binprm = 8" "cwf struct_linux_binprm"
  by (simp_all add: struct_linux_binprm_def alias_defs layout_simps round_up_def)

lemma struct_sk_reuseport_md_layout [layout_simps]:
  "csize struct_sk_reuseport_md = 56" "calign struct_sk_reuseport_md = 8" "cwf struct_sk_reuseport_md"
  by (simp_all add: struct_sk_reuseport_md_def alias_defs layout_simps round_up_def)

lemma struct_tcphdr_layout [layout_simps]:
  "csize struct_tcphdr = 20" "calign struct_tcphdr = 4" "cwf struct_tcphdr"
  by (simp_all add: struct_tcphdr_def alias_defs layout_simps round_up_def)

lemma struct_seq_file_layout [layout_simps]:
  "csize struct_seq_file = 120" "calign struct_seq_file = 8" "cwf struct_seq_file"
  by (simp_all add: struct_seq_file_def alias_defs layout_simps round_up_def)

lemma struct_hlist_nulls_node_layout [layout_simps]:
  "csize struct_hlist_nulls_node = 16" "calign struct_hlist_nulls_node = 8" "cwf struct_hlist_nulls_node"
  by (simp_all add: struct_hlist_nulls_node_def alias_defs layout_simps round_up_def)

lemma struct_in6_addr_layout [layout_simps]:
  "csize struct_in6_addr = 16" "calign struct_in6_addr = 4" "cwf struct_in6_addr"
  by (simp_all add: struct_in6_addr_def alias_defs layout_simps round_up_def)

lemma ty_possible_net_t_layout [layout_simps]:
  "csize ty_possible_net_t = 8" "calign ty_possible_net_t = 8" "cwf ty_possible_net_t"
  by (simp_all add: ty_possible_net_t_def alias_defs layout_simps round_up_def)

lemma struct_sock_common_layout [layout_simps]:
  "csize struct_sock_common = 136" "calign struct_sock_common = 8" "cwf struct_sock_common"
  by (simp_all add: struct_sock_common_def alias_defs layout_simps round_up_def)

lemma struct_inet_timewait_sock_layout [layout_simps]:
  "csize struct_inet_timewait_sock = 216" "calign struct_inet_timewait_sock = 8" "cwf struct_inet_timewait_sock"
  by (simp_all add: struct_inet_timewait_sock_def alias_defs layout_simps round_up_def)

lemma struct_tcp_timewait_sock_layout [layout_simps]:
  "csize struct_tcp_timewait_sock = 248" "calign struct_tcp_timewait_sock = 8" "cwf struct_tcp_timewait_sock"
  by (simp_all add: struct_tcp_timewait_sock_def alias_defs layout_simps round_up_def)

lemma struct_request_sock_layout [layout_simps]:
  "csize struct_request_sock = 232" "calign struct_request_sock = 8" "cwf struct_request_sock"
  by (simp_all add: struct_request_sock_def alias_defs layout_simps round_up_def)

lemma struct_inet_request_sock_layout [layout_simps]:
  "csize struct_inet_request_sock = 256" "calign struct_inet_request_sock = 8" "cwf struct_inet_request_sock"
  by (simp_all add: struct_inet_request_sock_def alias_defs layout_simps round_up_def)

lemma struct_tcp_request_sock_layout [layout_simps]:
  "csize struct_tcp_request_sock = 304" "calign struct_tcp_request_sock = 8" "cwf struct_tcp_request_sock"
  by (simp_all add: struct_tcp_request_sock_def alias_defs layout_simps round_up_def)

lemma struct_cacheline_padding_layout [layout_simps]:
  "csize struct_cacheline_padding = 0" "calign struct_cacheline_padding = 1" "cwf struct_cacheline_padding"
  by (simp_all add: struct_cacheline_padding_def alias_defs layout_simps round_up_def)

lemma struct_task_cputime_layout [layout_simps]:
  "csize struct_task_cputime = 24" "calign struct_task_cputime = 8" "cwf struct_task_cputime"
  by (simp_all add: struct_task_cputime_def alias_defs layout_simps round_up_def)

lemma struct_cgroup_base_stat_layout [layout_simps]:
  "csize struct_cgroup_base_stat = 32" "calign struct_cgroup_base_stat = 8" "cwf struct_cgroup_base_stat"
  by (simp_all add: struct_cgroup_base_stat_def alias_defs layout_simps round_up_def)

lemma struct_cgroup_bpf_layout [layout_simps]:
  "csize struct_cgroup_bpf = 0" "calign struct_cgroup_bpf = 1" "cwf struct_cgroup_bpf"
  by (simp_all add: struct_cgroup_bpf_def alias_defs layout_simps round_up_def)

lemma struct_cgroup_file_layout [layout_simps]:
  "csize struct_cgroup_file = 56" "calign struct_cgroup_file = 8" "cwf struct_cgroup_file"
  by (simp_all add: struct_cgroup_file_def alias_defs layout_simps round_up_def)

lemma struct_cgroup_freezer_state_layout [layout_simps]:
  "csize struct_cgroup_freezer_state = 12" "calign struct_cgroup_freezer_state = 4" "cwf struct_cgroup_freezer_state"
  by (simp_all add: struct_cgroup_freezer_state_def alias_defs layout_simps round_up_def)

lemma struct_percpu_ref_layout [layout_simps]:
  "csize struct_percpu_ref = 16" "calign struct_percpu_ref = 8" "cwf struct_percpu_ref"
  by (simp_all add: struct_percpu_ref_def alias_defs layout_simps round_up_def)

lemma struct_work_struct_layout [layout_simps]:
  "csize struct_work_struct = 32" "calign struct_work_struct = 8" "cwf struct_work_struct"
  by (simp_all add: struct_work_struct_def alias_defs layout_simps round_up_def)

lemma struct_rcu_work_layout [layout_simps]:
  "csize struct_rcu_work = 56" "calign struct_rcu_work = 8" "cwf struct_rcu_work"
  by (simp_all add: struct_rcu_work_def alias_defs layout_simps round_up_def)

lemma struct_cgroup_subsys_state_layout [layout_simps]:
  "csize struct_cgroup_subsys_state = 208" "calign struct_cgroup_subsys_state = 8" "cwf struct_cgroup_subsys_state"
  by (simp_all add: struct_cgroup_subsys_state_def alias_defs layout_simps round_up_def)

lemma struct_wait_queue_head_layout [layout_simps]:
  "csize struct_wait_queue_head = 24" "calign struct_wait_queue_head = 8" "cwf struct_wait_queue_head"
  by (simp_all add: struct_wait_queue_head_def alias_defs layout_simps round_up_def)

lemma struct_cgroup_layout [layout_simps]:
  "csize struct_cgroup = 1152" "calign struct_cgroup = 8" "cwf struct_cgroup"
  by (simp_all add: struct_cgroup_def alias_defs layout_simps round_up_def)

lemma struct___sk_buff_layout [layout_simps]:
  "csize struct___sk_buff = 192" "calign struct___sk_buff = 8" "cwf struct___sk_buff"
  by (simp_all add: struct___sk_buff_def alias_defs layout_simps round_up_def)

lemma struct_sk_msg_md_layout [layout_simps]:
  "csize struct_sk_msg_md = 80" "calign struct_sk_msg_md = 8" "cwf struct_sk_msg_md"
  by (simp_all add: struct_sk_msg_md_def alias_defs layout_simps round_up_def)

lemma struct_xdp_md_layout [layout_simps]:
  "csize struct_xdp_md = 24" "calign struct_xdp_md = 4" "cwf struct_xdp_md"
  by (simp_all add: struct_xdp_md_def alias_defs layout_simps round_up_def)

lemma struct_btf_ptr_layout [layout_simps]:
  "csize struct_btf_ptr = 16" "calign struct_btf_ptr = 8" "cwf struct_btf_ptr"
  by (simp_all add: struct_btf_ptr_def alias_defs layout_simps round_up_def)

lemma struct_bpf_timer_layout [layout_simps]:
  "csize struct_bpf_timer = 16" "calign struct_bpf_timer = 8" "cwf struct_bpf_timer"
  by (simp_all add: struct_bpf_timer_def alias_defs layout_simps round_up_def)

lemma struct_bpf_dynptr_layout [layout_simps]:
  "csize struct_bpf_dynptr = 16" "calign struct_bpf_dynptr = 8" "cwf struct_bpf_dynptr"
  by (simp_all add: struct_bpf_dynptr_def alias_defs layout_simps round_up_def)

lemma struct_iphdr_layout [layout_simps]:
  "csize struct_iphdr = 20" "calign struct_iphdr = 4" "cwf struct_iphdr"
  by (simp_all add: struct_iphdr_def alias_defs layout_simps round_up_def)

lemma struct_ipv6hdr_layout [layout_simps]:
  "csize struct_ipv6hdr = 40" "calign struct_ipv6hdr = 4" "cwf struct_ipv6hdr"
  by (simp_all add: struct_ipv6hdr_def alias_defs layout_simps round_up_def)

section \<open>Helper parameters\<close>

primrec tag_of :: "ctype \<Rightarrow> string" where
  "tag_of (CInt n s) = ''''"
| "tag_of (CPtr t) = ''''"
| "tag_of (CEnum t) = t"
| "tag_of (CArray t n) = ''''"
| "tag_of (CStruct t ms) = t"
| "tag_of (CUnion t ms) = t"

definition strip_prefix :: "string \<Rightarrow> string \<Rightarrow> string option" where
  "strip_prefix p s = (if take (length p) s = p then Some (drop (length p) s) else None)"

text \<open>The struct a pointer parameter points to, const or not.\<close>

definition pointed_struct :: "helper_type \<Rightarrow> string option" where
  "pointed_struct t =
     (case t of
        HPtr s \<Rightarrow> strip_prefix ''struct '' (case strip_prefix ''const '' s of Some r \<Rightarrow> r | None \<Rightarrow> s)
      | _ \<Rightarrow> None)"

definition helper_param_structs :: "bpf_helper list \<Rightarrow> string list" where
  "helper_param_structs hs = concat (map (\<lambda>h. List.map_filter pointed_struct (map fst (h_params h))) hs)"

lemma helper_structs_layout: "list_all (\<lambda>(tag, t). cwf t \<and> 0 < csize t) helper_structs"
  by (simp add: helper_structs_def layout_simps)

lemma helper_structs_tags: "list_all (\<lambda>(tag, t). tag_of t = tag) helper_structs"
  by code_simp

lemma helper_params_announced:
  "list_all (\<lambda>s. s \<in> set (''sockaddr'' # ''bpf_sysctl'' # ''inode'' # map fst helper_structs)) (helper_param_structs bpf_helper_defs)"
  by code_simp

text \<open>
  Every struct that a helper takes a pointer to has a definition in \<open>vmlinux.h\<close> under its tag, a
  well-formed type of positive size, apart from the three that are not transcribed.
\<close>

theorem helper_struct_types:
  assumes "h \<in> set bpf_helper_defs" and "(t, nm) \<in> set (h_params h)" and "pointed_struct t = Some s"
  shows "s \<in> {''sockaddr'', ''bpf_sysctl'', ''inode''} \<or>
    (\<exists>c. (s, c) \<in> set helper_structs \<and> tag_of c = s \<and> cwf c \<and> 0 < csize c)"
proof -
  have "s \<in> set (List.map_filter pointed_struct (map fst (h_params h)))"
    using assms(2,3) by (force simp: List.map_filter_def)
  then have "s \<in> set (helper_param_structs bpf_helper_defs)"
    using assms(1) by (auto simp: helper_param_structs_def)
  then have "s \<in> {''sockaddr'', ''bpf_sysctl'', ''inode''} \<or> s \<in> fst ` set helper_structs"
    using helper_params_announced by (auto simp: list_all_iff)
  then show ?thesis
    using helper_structs_layout helper_structs_tags by (fastforce simp: list_all_iff)
qed

theorem helper_struct_types_witness:
  "\<exists>c. (''bpf_tunnel_key'', c) \<in> set helper_structs \<and> tag_of c = ''bpf_tunnel_key'' \<and> cwf c \<and> 0 < csize c"
proof -
  have "(HInt ''long'', ''bpf_skb_get_tunnel_key'',
      [(HPtr ''struct __sk_buff'', ''skb''), (HPtr ''struct bpf_tunnel_key'', ''key''), (HInt ''__u32'', ''size''),
       (HInt ''__u64'', ''flags'')], False, 20) \<in> set bpf_helper_defs"
    by (simp add: helper_tables)
  from helper_struct_types [OF this, of "HPtr ''struct bpf_tunnel_key''" "''key''" "''bpf_tunnel_key''"]
  show ?thesis by (simp add: h_params_def pointed_struct_def strip_prefix_def)
qed

end
