(* ===== verification/Pebble.thy ===== *)
theory Pebble
  imports Go_Base
begin

text \<open>
  What the Go side runs on and the repository only calls: the Pebble key-value store, SHA-256 and
  multihash, zstd and JSON.  They are the fields of the record \<open>world\<close>, an argument of every
  operation.  \<open>world_laws\<close> states what these packages document: a read returns what the last write
  stored, an iterator visits the keys between its bounds in ascending order, decompression undoes
  compression, decoding undoes encoding of values with valid text.

  The key helpers of \<open>src/pkg/cas/store.go\<close> are here too, with the fact that a prefix iterator
  visits the keys that continue the prefix with a byte below 255, or not at all.
\<close>

section \<open>Keys\<close>

fun key_less :: "byte list \<Rightarrow> byte list \<Rightarrow> bool" where
  "key_less [] [] = False"
| "key_less [] (y # ys) = True"
| "key_less (x # xs) [] = False"
| "key_less (x # xs) (y # ys) = (x < y \<or> x = y \<and> key_less xs ys)"

text \<open>The half-open range of an iterator.\<close>

definition in_bounds :: "byte list \<Rightarrow> byte list \<Rightarrow> byte list \<Rightarrow> bool" where
  "in_bounds lo hi k \<longleftrightarrow> \<not> key_less k lo \<and> key_less k hi"

text \<open>The upper bound \<open>newPrefixIter\<close> computes.\<close>

definition prefix_upper :: "byte list \<Rightarrow> byte list" where
  "prefix_upper p = p @ [0xFF]"

lemma key_less_append: "key_less (p @ xs) (p @ ys) = key_less xs ys"
  by (induction p) auto

lemma in_bounds_prefix:
  "in_bounds p (prefix_upper p) k \<longleftrightarrow> (\<exists>rest. k = p @ rest \<and> (rest = [] \<or> hd rest < 0xFF))"
proof
  assume "in_bounds p (prefix_upper p) k"
  then show "\<exists>rest. k = p @ rest \<and> (rest = [] \<or> hd rest < 0xFF)"
  proof (induction p arbitrary: k)
    case Nil
    then show ?case by (cases k) (auto simp: in_bounds_def prefix_upper_def split: if_splits elim: key_less.elims)
  next
    case (Cons x p)
    then obtain y ys where k: "k = y # ys" by (cases k) (auto simp: in_bounds_def)
    with Cons.prems have "x = y" and "in_bounds p (prefix_upper p) ys"
      by (auto simp: in_bounds_def prefix_upper_def)
    with Cons.IH k show ?case by auto
  qed
next
  assume "\<exists>rest. k = p @ rest \<and> (rest = [] \<or> hd rest < 0xFF)"
  then obtain rest where k: "k = p @ rest" and r: "rest = [] \<or> hd rest < 0xFF" by blast
  have "\<not> key_less (p @ rest) (p @ [])" unfolding key_less_append by (cases rest) auto
  moreover have "key_less (p @ rest) (p @ [0xFF])" unfolding key_less_append using r by (cases rest) auto
  ultimately show "in_bounds p (prefix_upper p) k" by (simp add: in_bounds_def prefix_upper_def k)
qed


section \<open>Stored values\<close>

text \<open>The records that are stored as JSON.  Go strings are byte sequences.\<close>

record JournalEntry =
  je_Timestamp :: int
  je_Path :: "byte list"
  je_Op :: "byte list"
  je_Data :: "byte list"

record MetadataRecord =
  md_Path :: "byte list"
  md_Timestamp :: int
  md_CID :: "byte list"
  md_Size :: nat
  md_Op :: "byte list"

record CASRefCount =
  rc_CID :: "byte list"
  rc_Refs :: int
  rc_Files :: "byte list list"


section \<open>The world\<close>

datatype pebble_error = ErrNotFound | PebbleIO string

record 'db world =
  db_get :: "'db \<Rightarrow> byte list \<Rightarrow> pebble_error + byte list"
  db_set :: "'db \<Rightarrow> byte list \<Rightarrow> byte list \<Rightarrow> pebble_error + 'db"
  db_delete :: "'db \<Rightarrow> byte list \<Rightarrow> pebble_error + 'db"
  db_iter :: "'db \<Rightarrow> byte list \<Rightarrow> byte list \<Rightarrow> pebble_error + (byte list \<times> byte list) list \<times> pebble_error option"
  sha256 :: "byte list \<Rightarrow> byte list"
  multihash_b58 :: "string \<Rightarrow> byte list \<Rightarrow> string + byte list"
  zstd_enc :: "byte list \<Rightarrow> string + byte list"
  zstd_dec :: "byte list \<Rightarrow> string + byte list"
  valid_text :: "byte list \<Rightarrow> bool"
  entry_json :: "JournalEntry \<Rightarrow> string + byte list"
  entry_parse :: "byte list \<Rightarrow> string + JournalEntry"
  meta_json :: "MetadataRecord \<Rightarrow> string + byte list"
  meta_parse :: "byte list \<Rightarrow> string + MetadataRecord"
  ref_json :: "CASRefCount \<Rightarrow> string + byte list"
  ref_parse :: "byte list \<Rightarrow> string + CASRefCount"

text \<open>An iterator over the keys with a prefix, as \<open>newPrefixIter\<close> opens it.\<close>

definition newPrefixIter ::
  "'db world \<Rightarrow> 'db \<Rightarrow> byte list \<Rightarrow> pebble_error + (byte list \<times> byte list) list \<times> pebble_error option" where
  "newPrefixIter W db prefix = db_iter W db prefix (prefix_upper prefix)"

text \<open>
  \<open>cont\<close> is the content of a database: what its keys map to.  A failed write leaves it as it was.
  An iterator that ends in an error has visited some of the keys.
\<close>

definition pebble_laws :: "'db world \<Rightarrow> ('db \<Rightarrow> byte list \<rightharpoonup> byte list) \<Rightarrow> bool" where
  "pebble_laws W cont \<longleftrightarrow>
     (\<forall>db k v. db_get W db k = Inr v \<longrightarrow> cont db k = Some v) \<and>
     (\<forall>db k. db_get W db k = Inl ErrNotFound \<longrightarrow> cont db k = None) \<and>
     (\<forall>db k v db'. db_set W db k v = Inr db' \<longrightarrow> cont db' = (cont db)(k \<mapsto> v)) \<and>
     (\<forall>db k db'. db_delete W db k = Inr db' \<longrightarrow> cont db' = (cont db)(k := None)) \<and>
     (\<forall>db lo hi kvs err. db_iter W db lo hi = Inr (kvs, err) \<longrightarrow>
        sorted_wrt key_less (map fst kvs) \<and>
        set kvs \<subseteq> {(k, v). in_bounds lo hi k \<and> cont db k = Some v}) \<and>
     (\<forall>db lo hi kvs. db_iter W db lo hi = Inr (kvs, None) \<longrightarrow>
        set kvs = {(k, v). in_bounds lo hi k \<and> cont db k = Some v})"

text \<open>
  \<open>valid_text\<close> stands for UTF-8, which ASCII is and which never has the byte 255.  Timestamps and
  counts are unbounded here, \<open>int64\<close> and \<open>int\<close> in the code.
\<close>

definition codec_laws :: "'db world \<Rightarrow> bool" where
  "codec_laws W \<longleftrightarrow>
     (\<forall>t. list_all (\<lambda>b. b < 0x80) t \<longrightarrow> valid_text W t) \<and> (\<forall>t. valid_text W t \<longrightarrow> 0xFF \<notin> set t) \<and>
     (\<forall>d c. zstd_enc W d = Inr c \<longrightarrow> zstd_dec W c = Inr d) \<and>
     (\<forall>e b. entry_json W e = Inr b \<longrightarrow> valid_text W (je_Path e) \<longrightarrow> valid_text W (je_Op e) \<longrightarrow> entry_parse W b = Inr e) \<and>
     (\<forall>m b. meta_json W m = Inr b \<longrightarrow> valid_text W (md_Path m) \<longrightarrow> valid_text W (md_Op m) \<longrightarrow>
        valid_text W (md_CID m) \<longrightarrow> meta_parse W b = Inr m) \<and>
     (\<forall>r b. ref_json W r = Inr b \<longrightarrow> valid_text W (rc_CID r) \<longrightarrow> (\<forall>f \<in> set (rc_Files r). valid_text W f) \<longrightarrow>
        ref_parse W b = Inr r)"

definition world_laws :: "'db world \<Rightarrow> ('db \<Rightarrow> byte list \<rightharpoonup> byte list) \<Rightarrow> bool" where
  "world_laws W cont \<longleftrightarrow> pebble_laws W cont \<and> codec_laws W"

text \<open>A world in which nothing fails but lookups of missing keys.\<close>

definition healthy :: "'db world \<Rightarrow> bool" where
  "healthy W \<longleftrightarrow>
     (\<forall>db k s. db_get W db k \<noteq> Inl (PebbleIO s)) \<and>
     (\<forall>db k v. \<exists>db'. db_set W db k v = Inr db') \<and>
     (\<forall>db k. \<exists>db'. db_delete W db k = Inr db') \<and>
     (\<forall>db lo hi. \<exists>kvs. db_iter W db lo hi = Inr (kvs, None)) \<and>
     (\<forall>d. \<exists>c. zstd_enc W d = Inr c) \<and>
     (\<forall>e. \<exists>b. entry_json W e = Inr b) \<and> (\<forall>m. \<exists>b. meta_json W m = Inr b) \<and> (\<forall>r. \<exists>b. ref_json W r = Inr b)"

lemma healthy_ops:
  assumes "healthy W"
  shows "\<exists>db'. db_set W db k v = Inr db'" and "\<exists>db'. db_delete W db k = Inr db'"
    and "\<exists>kvs. db_iter W db lo hi = Inr (kvs, None)" and "\<exists>c. zstd_enc W d = Inr c"
    and "\<exists>b. entry_json W e = Inr b" and "\<exists>b. meta_json W m = Inr b" and "\<exists>b. ref_json W r = Inr b"
  using assms unfolding healthy_def by blast+

lemma text_laws:
  "codec_laws W \<Longrightarrow> list_all (\<lambda>b. b < 0x80) t \<Longrightarrow> valid_text W t"
  "codec_laws W \<Longrightarrow> valid_text W t \<Longrightarrow> 0xFF \<notin> set t"
  by (auto simp: codec_laws_def)

lemma entry_roundtrip:
  "codec_laws W \<Longrightarrow> entry_json W e = Inr b \<Longrightarrow> valid_text W (je_Path e) \<Longrightarrow> valid_text W (je_Op e) \<Longrightarrow> entry_parse W b = Inr e"
  by (auto simp: codec_laws_def)

lemma meta_roundtrip:
  "codec_laws W \<Longrightarrow> meta_json W m = Inr b \<Longrightarrow> valid_text W (md_Path m) \<Longrightarrow> valid_text W (md_Op m) \<Longrightarrow>
   valid_text W (md_CID m) \<Longrightarrow> meta_parse W b = Inr m"
  by (auto simp: codec_laws_def)

lemma get_content:
  "pebble_laws W cont \<Longrightarrow> db_get W db k = Inr v \<Longrightarrow> cont db k = Some v"
  "pebble_laws W cont \<Longrightarrow> db_get W db k = Inl ErrNotFound \<Longrightarrow> cont db k = None"
  by (auto simp: pebble_laws_def)

lemma set_content: "pebble_laws W cont \<Longrightarrow> db_set W db k v = Inr db' \<Longrightarrow> cont db' = (cont db)(k \<mapsto> v)"
  by (auto simp: pebble_laws_def)

lemma delete_content: "pebble_laws W cont \<Longrightarrow> db_delete W db k = Inr db' \<Longrightarrow> cont db' = (cont db)(k := None)"
  by (auto simp: pebble_laws_def)

lemma iter_content:
  "pebble_laws W cont \<Longrightarrow> db_iter W db lo hi = Inr (kvs, None) \<Longrightarrow>
   sorted_wrt key_less (map fst kvs) \<and> set kvs = {(k, v). in_bounds lo hi k \<and> cont db k = Some v}"
  unfolding pebble_laws_def by blast

lemma iter_partial:
  "pebble_laws W cont \<Longrightarrow> db_iter W db lo hi = Inr (kvs, err) \<Longrightarrow>
   sorted_wrt key_less (map fst kvs) \<and> set kvs \<subseteq> {(k, v). in_bounds lo hi k \<and> cont db k = Some v}"
  unfolding pebble_laws_def by blast

lemma healthy_get:
  assumes "pebble_laws W cont" and "healthy W"
  shows "db_get W db k = (case cont db k of Some v \<Rightarrow> Inr v | None \<Rightarrow> Inl ErrNotFound)"
proof (cases "db_get W db k")
  case (Inl e)
  with assms show ?thesis by (cases e) (auto simp: healthy_def dest: get_content)
next
  case (Inr v)
  with assms show ?thesis by (auto dest: get_content)
qed

lemma key_less_irrefl [simp]: "\<not> key_less k k"
  by (induction k) auto

lemma sorted_keys_distinct: "sorted_wrt key_less ks \<Longrightarrow> distinct ks"
  by (induction ks) auto

end
