(* ===== verification/Mem_World.thy ===== *)
theory Mem_World
  imports Pebble "HOL-Library.List_Lexorder"
begin

text \<open>
  A world that keeps the laws of \<open>Pebble\<close>: an association list as the database, framed bytes as
  the encodings, no compression and the data itself as its hash.  The hypotheses on the external
  packages can therefore hold together, and the results about the store and the recorder apply to
  runs that can be computed.
\<close>

section \<open>Framing\<close>

fun enc_nat :: "nat \<Rightarrow> byte list" where
  "enc_nat 0 = [0]"
| "enc_nat (Suc n) = 1 # enc_nat n"

fun dec_nat :: "byte list \<Rightarrow> (nat \<times> byte list) option" where
  "dec_nat [] = None"
| "dec_nat (b # bs) = (if b = 0 then Some (0, bs) else map_option (apfst Suc) (dec_nat bs))"

definition enc_int :: "int \<Rightarrow> byte list" where
  "enc_int i = (if 0 \<le> i then 0 else 1) # enc_nat (nat (abs i))"

fun dec_int :: "byte list \<Rightarrow> (int \<times> byte list) option" where
  "dec_int [] = None"
| "dec_int (b # bs) = map_option (apfst (\<lambda>n. if b = 0 then int n else - int n)) (dec_nat bs)"

definition enc_bytes :: "byte list \<Rightarrow> byte list" where
  "enc_bytes bs = enc_nat (length bs) @ bs"

definition dec_bytes :: "byte list \<Rightarrow> (byte list \<times> byte list) option" where
  "dec_bytes bs = (case dec_nat bs of None \<Rightarrow> None | Some (n, r) \<Rightarrow> Some (take n r, drop n r))"

fun dec_many :: "nat \<Rightarrow> byte list \<Rightarrow> (byte list list \<times> byte list) option" where
  "dec_many 0 bs = Some ([], bs)"
| "dec_many (Suc n) bs =
     (case dec_bytes bs of None \<Rightarrow> None | Some (x, r) \<Rightarrow> map_option (apfst ((#) x)) (dec_many n r))"

lemma dec_nat_enc [simp]: "dec_nat (enc_nat n @ r) = Some (n, r)"
  by (induction n) auto

lemma dec_int_enc [simp]: "dec_int (enc_int i @ r) = Some (i, r)"
  by (simp add: enc_int_def)

lemma dec_bytes_enc [simp]: "dec_bytes (enc_bytes bs @ r) = Some (bs, r)"
  by (simp add: enc_bytes_def dec_bytes_def)

lemma dec_many_enc [simp]: "dec_many (length xs) (concat (map enc_bytes xs) @ r) = Some (xs, r)"
  by (induction xs) auto

lemmas dec_enc_end [simp] = dec_bytes_enc [where r = "[]", simplified] dec_many_enc [where r = "[]", simplified]

definition mem_entry_json :: "JournalEntry \<Rightarrow> byte list" where
  "mem_entry_json e = enc_int (je_Timestamp e) @ enc_bytes (je_Path e) @ enc_bytes (je_Op e) @ enc_bytes (je_Data e)"

definition mem_entry_parse :: "byte list \<Rightarrow> JournalEntry option" where
  "mem_entry_parse b0 =
     (case dec_int b0 of None \<Rightarrow> None | Some (ts, b1) \<Rightarrow>
     (case dec_bytes b1 of None \<Rightarrow> None | Some (p, b2) \<Rightarrow>
     (case dec_bytes b2 of None \<Rightarrow> None | Some (oper, b3) \<Rightarrow>
     (case dec_bytes b3 of None \<Rightarrow> None | Some (d, b4) \<Rightarrow>
       Some \<lparr>je_Timestamp = ts, je_Path = p, je_Op = oper, je_Data = d\<rparr>))))"

definition mem_meta_json :: "MetadataRecord \<Rightarrow> byte list" where
  "mem_meta_json m =
     enc_bytes (md_Path m) @ enc_int (md_Timestamp m) @ enc_bytes (md_CID m) @ enc_nat (md_Size m) @ enc_bytes (md_Op m)"

definition mem_meta_parse :: "byte list \<Rightarrow> MetadataRecord option" where
  "mem_meta_parse b0 =
     (case dec_bytes b0 of None \<Rightarrow> None | Some (p, b1) \<Rightarrow>
     (case dec_int b1 of None \<Rightarrow> None | Some (ts, b2) \<Rightarrow>
     (case dec_bytes b2 of None \<Rightarrow> None | Some (c, b3) \<Rightarrow>
     (case dec_nat b3 of None \<Rightarrow> None | Some (n, b4) \<Rightarrow>
     (case dec_bytes b4 of None \<Rightarrow> None | Some (oper, b5) \<Rightarrow>
       Some \<lparr>md_Path = p, md_Timestamp = ts, md_CID = c, md_Size = n, md_Op = oper\<rparr>)))))"

definition mem_ref_json :: "CASRefCount \<Rightarrow> byte list" where
  "mem_ref_json r =
     enc_bytes (rc_CID r) @ enc_int (rc_Refs r) @ enc_nat (length (rc_Files r)) @ concat (map enc_bytes (rc_Files r))"

definition mem_ref_parse :: "byte list \<Rightarrow> CASRefCount option" where
  "mem_ref_parse b0 =
     (case dec_bytes b0 of None \<Rightarrow> None | Some (c, b1) \<Rightarrow>
     (case dec_int b1 of None \<Rightarrow> None | Some (n, b2) \<Rightarrow>
     (case dec_nat b2 of None \<Rightarrow> None | Some (k, b3) \<Rightarrow>
     (case dec_many k b3 of None \<Rightarrow> None | Some (fs, b4) \<Rightarrow>
       Some \<lparr>rc_CID = c, rc_Refs = n, rc_Files = fs\<rparr>))))"

lemma mem_codecs:
  "mem_entry_parse (mem_entry_json e) = Some e"
  "mem_meta_parse (mem_meta_json m) = Some m"
  "mem_ref_parse (mem_ref_json r) = Some r"
  by (simp_all add: mem_entry_parse_def mem_entry_json_def mem_meta_parse_def mem_meta_json_def
      mem_ref_parse_def mem_ref_json_def)


section \<open>The database\<close>

type_synonym mem_db = "(byte list \<times> byte list) list"

definition mem_iter :: "mem_db \<Rightarrow> byte list \<Rightarrow> byte list \<Rightarrow> (byte list \<times> byte list) list" where
  "mem_iter db lo hi =
     map (\<lambda>k. (k, the (map_of db k))) (sort (remdups (filter (in_bounds lo hi) (map fst db))))"

definition or_error :: "'a option \<Rightarrow> string + 'a" where
  "or_error x = (case x of None \<Rightarrow> Inl ''malformed'' | Some v \<Rightarrow> Inr v)"

definition mem_world :: "mem_db world" where
  "mem_world = \<lparr>
     db_get = (\<lambda>db k. case map_of db k of None \<Rightarrow> Inl ErrNotFound | Some v \<Rightarrow> Inr v),
     db_set = (\<lambda>db k v. Inr ((k, v) # db)),
     db_delete = (\<lambda>db k. Inr (filter (\<lambda>(k', v). k' \<noteq> k) db)),
     db_iter = (\<lambda>db lo hi. Inr (mem_iter db lo hi, None)),
     sha256 = (\<lambda>d. d),
     multihash_b58 = (\<lambda>algo d. Inr d),
     zstd_enc = Inr,
     zstd_dec = Inr,
     valid_text = (\<lambda>t. 0xFF \<notin> set t),
     entry_json = (\<lambda>e. Inr (mem_entry_json e)),
     entry_parse = (\<lambda>b. or_error (mem_entry_parse b)),
     meta_json = (\<lambda>m. Inr (mem_meta_json m)),
     meta_parse = (\<lambda>b. or_error (mem_meta_parse b)),
     ref_json = (\<lambda>r. Inr (mem_ref_json r)),
     ref_parse = (\<lambda>b. or_error (mem_ref_parse b))\<rparr>"

lemma key_less_is_less: "key_less xs ys \<longleftrightarrow> xs < ys"
  by (induction xs ys rule: key_less.induct) auto

lemma map_of_filter_neq: "map_of (filter (\<lambda>(k', v). k' \<noteq> k) db) = (map_of db)(k := None)"
  by (induction db) (auto simp: fun_eq_iff)

lemma mem_iter_sorted: "sorted_wrt key_less (map fst (mem_iter db lo hi))"
proof -
  have "key_less = (<)" by (simp add: fun_eq_iff key_less_is_less)
  then show ?thesis by (simp add: mem_iter_def comp_def strict_sorted_iff)
qed

lemma mem_iter_set: "set (mem_iter db lo hi) = {(k, v). in_bounds lo hi k \<and> map_of db k = Some v}"
proof -
  have "k \<in> fst ` set db \<longleftrightarrow> (\<exists>v. map_of db k = Some v)" for k
    using map_of_eq_None_iff [of db k] by (cases "map_of db k") auto
  then show ?thesis by (auto simp: mem_iter_def)
qed

lemma mem_pebble_laws: "pebble_laws mem_world map_of"
  by (simp add: pebble_laws_def mem_world_def mem_iter_sorted mem_iter_set map_of_filter_neq split: option.splits)

lemma mem_codec_laws: "codec_laws mem_world"
  by (auto simp: codec_laws_def mem_world_def mem_codecs or_error_def list_all_iff)

lemma mem_world_laws: "world_laws mem_world map_of"
  by (simp add: world_laws_def mem_pebble_laws mem_codec_laws)

lemma mem_healthy: "healthy mem_world"
  by (simp add: healthy_def mem_world_def split: option.splits)

end
