(* ===== verification/Chunk.thy ===== *)
theory Chunk
  imports Go_Base
begin

text \<open>
  \<open>src/pkg/chunk\<close>: fixed-size splitting with verification (\<open>chunk.go\<close>) and streaming content-defined
  chunking (\<open>streaming.go\<close>).  SHA-256 is a parameter \<open>sha\<close>; the reader of the chunker is the list of
  bytes it will deliver, and whether it then ends or fails.

  Shown here: both ways of chunking lose nothing, keep the order and respect their size bounds; the
  chunker's references are contiguous and name the ck_hash of the data they stand for; parameters are
  brought into order and the ck_mask has the size of the average; the rolling hash does not depend on
  its rh_window for any rh_window above eight bytes.  Buffers of any size can be allocated.
\<close>

section \<open>Fixed-size chunks\<close>

record ChunkMetadata =
  FileHash :: string
  ChunkIndex :: nat
  TotalChunks :: nat
  ChunkSize :: nat
  ChunkHash :: string

record ChunkDiff =
  cd_Index :: nat
  cd_Data :: "byte list"
  cd_Hash :: string

text \<open>The loop of \<open>SplitFile\<close> from position \<open>i\<close> on.\<close>

function split_from :: "'a list \<Rightarrow> nat \<Rightarrow> nat \<Rightarrow> 'a list list" where
  "split_from data n i =
     (if i < length data \<and> 0 < n
      then (let e = (if length data < i + n then length data else i + n)
            in take (e - i) (drop i data) # split_from data n (i + n))
      else [])"
  by pat_completeness auto
termination
  by (relation "measure (\<lambda>(data, n, i). length data - i)") auto

declare split_from.simps [simp del]

definition SplitFile :: "'a list \<Rightarrow> int \<Rightarrow> 'a list list" where
  "SplitFile data chunkSizeBytes =
     (if data = [] then []
      else if chunkSizeBytes \<le> 0 then [data]
      else split_from data (nat chunkSizeBytes) 0)"

definition ReassembleChunks :: "'a list list \<Rightarrow> 'a list" where
  "ReassembleChunks chunks = (if chunks = [] then [] else foldl (@) [] chunks)"

definition ShouldChunk :: "int \<Rightarrow> int \<Rightarrow> bool" where
  "ShouldChunk fileSize thresholdBytes \<longleftrightarrow> thresholdBytes < fileSize"

text \<open>\<open>hex.EncodeToString\<close>.\<close>

definition hex_digit :: "byte \<Rightarrow> char" where
  "hex_digit d = (if d < 10 then char_of (48 + unat d) else char_of (87 + unat d))"

definition hex_encode :: "byte list \<Rightarrow> string" where
  "hex_encode bs = concat (map (\<lambda>b. [hex_digit (drop_bit 4 b), hex_digit (b AND 0xF)]) bs)"

definition ComputeChunkHash :: "(byte list \<Rightarrow> byte list) \<Rightarrow> byte list \<Rightarrow> string" where
  "ComputeChunkHash sha data = hex_encode (sha data)"

definition CreateMetadata ::
  "(byte list \<Rightarrow> byte list) \<Rightarrow> byte list \<Rightarrow> byte list list \<Rightarrow> ChunkMetadata list" where
  "CreateMetadata sha fileData chunks =
     map (\<lambda>(i, c). \<lparr>FileHash = ComputeChunkHash sha fileData, ChunkIndex = i, TotalChunks = length chunks,
                     ChunkSize = length c, ChunkHash = ComputeChunkHash sha c\<rparr>)
       (enumerate 0 chunks)"

datatype verify_error =
    HashMismatch string string
  | ChunkHashMismatch nat string string
  | ChunkSizeMismatch nat nat nat

definition VerifyChunks :: "(byte list \<Rightarrow> byte list) \<Rightarrow> byte list list \<Rightarrow> string \<Rightarrow> verify_error + unit" where
  "VerifyChunks sha chunks expectedFileHash =
     (let actual = ComputeChunkHash sha (ReassembleChunks chunks)
      in if actual \<noteq> expectedFileHash then Inl (HashMismatch expectedFileHash actual) else Inr ())"

definition VerifyChunkIntegrity ::
  "(byte list \<Rightarrow> byte list) \<Rightarrow> byte list \<Rightarrow> ChunkMetadata \<Rightarrow> verify_error + unit" where
  "VerifyChunkIntegrity sha chunk meta =
     (let actual = ComputeChunkHash sha chunk
      in if actual \<noteq> ChunkHash meta then Inl (ChunkHashMismatch (ChunkIndex meta) (ChunkHash meta) actual)
         else if length chunk \<noteq> ChunkSize meta
              then Inl (ChunkSizeMismatch (ChunkIndex meta) (ChunkSize meta) (length chunk))
              else Inr ())"


section \<open>Parameters of the chunker\<close>

record ChunkRef =
  Hash :: "byte list"
  Offset :: u64
  Length :: u32

record Params =
  MinSize :: int
  AvgSize :: int
  MaxSize :: int
  Window :: int

record Chunk =
  Ref :: ChunkRef
  Data :: "byte list"

definition normalize :: "Params \<Rightarrow> Params" where
  "normalize p =
     (let p = (if MinSize p \<le> 0 then p\<lparr>MinSize := 2 ^ 20\<rparr> else p);
          p = (if AvgSize p \<le> 0 then p\<lparr>AvgSize := 8 * 2 ^ 20\<rparr> else p);
          p = (if MaxSize p \<le> 0 then p\<lparr>MaxSize := 64 * 2 ^ 20\<rparr> else p);
          p = (if Window p \<le> 0 then p\<lparr>Window := 64\<rparr> else p);
          p = (if AvgSize p < MinSize p then p\<lparr>AvgSize := MinSize p\<rparr> else p);
          p = (if MaxSize p < AvgSize p then p\<lparr>MaxSize := AvgSize p\<rparr> else p)
      in p)"

text \<open>\<open>bits.Len\<close>: the number of bits needed to represent a number.\<close>

fun bits_Len :: "nat \<Rightarrow> nat" where
  "bits_Len n = (if n = 0 then 0 else Suc (bits_Len (n div 2)))"

declare bits_Len.simps [simp del]

definition avgToMask :: "int \<Rightarrow> u64" where
  "avgToMask avg =
     (let avg = (if avg \<le> 0 then 8 * 2 ^ 20 else avg);
          bitWidth = bits_Len (nat avg);
          bitWidth = (if bitWidth < 8 then 8 else bitWidth);
          bitWidth = (if 62 < bitWidth then 62 else bitWidth)
      in push_bit (bitWidth - 1) 1 - 1)"


section \<open>The rolling hash\<close>

record rollingHash =
  rh_window :: int
  rh_base :: u64
  rh_mod :: u64
  rh_pow :: u64
  rh_hash :: u64
  rh_buf :: "byte list"

text \<open>The loop that computes the power, on 64-bit words.\<close>

primrec pow_loop :: "nat \<Rightarrow> u64 \<Rightarrow> u64 \<Rightarrow> u64 \<Rightarrow> u64" where
  "pow_loop 0 b m p = p"
| "pow_loop (Suc n) b m p = pow_loop n b m ((p * b) mod m)"

definition newRollingHash :: "int \<Rightarrow> rollingHash" where
  "newRollingHash w =
     (let w = (if w \<le> 0 then 64 else w)
      in \<lparr>rh_window = w, rh_base = 256, rh_mod = 2 ^ 61 - 1, rh_pow = pow_loop (nat (w - 1)) 256 (2 ^ 61 - 1) 1,
          rh_hash = 0, rh_buf = []\<rparr>)"

definition push :: "rollingHash \<Rightarrow> byte \<Rightarrow> rollingHash" where
  "push r b =
     (let r = (if int (length (rh_buf r)) = rh_window r
               then r\<lparr>rh_buf := tl (rh_buf r),
                      rh_hash := (rh_hash r + rh_mod r - (ucast (hd (rh_buf r)) * rh_pow r) mod rh_mod r) mod rh_mod r\<rparr>
               else r)
      in r\<lparr>rh_buf := rh_buf r @ [b], rh_hash := (rh_hash r * rh_base r + ucast b) mod rh_mod r\<rparr>)"

definition rh_sum :: "rollingHash \<Rightarrow> u64" where
  "rh_sum r = rh_hash r"


section \<open>The streaming chunker\<close>

text \<open>
  The reader delivers the bytes of \<open>rd_bytes\<close> and then \<open>io.EOF\<close> or an error of its own.
\<close>

record RabinChunker =
  rd_bytes :: "byte list"
  rd_error :: "string option"
  ck_params :: Params
  ck_offset :: u64
  ck_mask :: u64
  ck_hash :: rollingHash

datatype next_error = NextEOF | ReadError string

definition NewRabinChunker :: "byte list \<Rightarrow> string option \<Rightarrow> Params \<Rightarrow> RabinChunker" where
  "NewRabinChunker input err ps =
     (let p = normalize ps
      in \<lparr>rd_bytes = input, rd_error = err, ck_params = p, ck_offset = 0, ck_mask = avgToMask (AvgSize p),
          ck_hash = newRollingHash (Window p)\<rparr>)"

text \<open>
  The loop of \<open>Next\<close>: the buffer, the ck_hash and the unread bytes at the moment it is left, and
  whether it was left because the reader had no more bytes.
\<close>

fun next_loop ::
  "Params \<Rightarrow> u64 \<Rightarrow> byte list \<Rightarrow> rollingHash \<Rightarrow> byte list \<Rightarrow> byte list \<times> rollingHash \<times> byte list \<times> bool" where
  "next_loop p m buf h [] = (buf, h, [], True)"
| "next_loop p m buf h (b # rest) =
     (let buf = buf @ [b]; h = push h b
      in if int (length buf) < MinSize p then next_loop p m buf h rest
         else if rh_sum h AND m = 0 \<or> MaxSize p \<le> int (length buf) then (buf, h, rest, False)
         else next_loop p m buf h rest)"

definition Next :: "(byte list \<Rightarrow> byte list) \<Rightarrow> RabinChunker \<Rightarrow> (next_error + Chunk) \<times> RabinChunker" where
  "Next sha c =
     (case next_loop (ck_params c) (ck_mask c) [] (ck_hash c) (rd_bytes c) of
        (buf, h, rest, ended) \<Rightarrow>
          (let c' = c\<lparr>ck_hash := h, rd_bytes := rest\<rparr>
           in if ended \<and> rd_error c \<noteq> None then (Inl (ReadError (the (rd_error c))), c')
              else if ended \<and> buf = [] then (Inl NextEOF, c')
              else (Inr \<lparr>Ref = \<lparr>Hash = sha buf, Offset = ck_offset c, Length = word_of_nat (length buf)\<rparr>, Data = buf\<rparr>,
                    c'\<lparr>ck_offset := ck_offset c + word_of_nat (length buf)\<rparr>)))"



section \<open>Fixed-size chunks: results\<close>

lemma foldl_append: "foldl (@) acc xss = acc @ concat xss"
  by (induction xss arbitrary: acc) auto

lemma ReassembleChunks_concat: "ReassembleChunks chunks = concat chunks"
  by (simp add: ReassembleChunks_def foldl_append)

lemma split_from_chunk:
  "i < length data \<Longrightarrow> 0 < n \<Longrightarrow>
   split_from data n i = take n (drop i data) # split_from data n (i + n)"
  by (subst split_from.simps) (auto simp: Let_def min_def)

lemma split_from_end: "length data \<le> i \<Longrightarrow> split_from data n i = []"
  by (subst split_from.simps) simp

lemma concat_split_from: "0 < n \<Longrightarrow> concat (split_from data n i) = drop i data"
proof (induction data n i rule: split_from.induct)
  case (1 data n i)
  show ?case
  proof (cases "i < length data")
    case True
    with 1 have "concat (split_from data n (i + n)) = drop n (drop i data)" by (simp add: add.commute)
    then have "concat (split_from data n i) = take n (drop i data) @ drop n (drop i data)"
      by (simp only: split_from_chunk [OF True "1.prems"] concat.simps)
    then show ?thesis by (simp only: append_take_drop_id)
  qed (simp add: split_from_end)
qed

lemma split_from_sizes:
  "0 < n \<Longrightarrow> (\<forall>c \<in> set (split_from data n i). 0 < length c \<and> length c \<le> n)
    \<and> (\<forall>c \<in> set (butlast (split_from data n i)). length c = n)"
proof (induction data n i rule: split_from.induct)
  case (1 data n i)
  show ?case
  proof (cases "i < length data")
    case True
    have IH: "(\<forall>c \<in> set (split_from data n (i + n)). 0 < length c \<and> length c \<le> n)
      \<and> (\<forall>c \<in> set (butlast (split_from data n (i + n))). length c = n)"
      using 1 True by simp
    have eq: "split_from data n i = take n (drop i data) # split_from data n (i + n)"
      by (rule split_from_chunk [OF True "1.prems"])
    show ?thesis
    proof (cases "i + n < length data")
      case True
      then have "split_from data n (i + n) \<noteq> []" and "length (take n (drop i data)) = n"
        using "1.prems" by (auto simp: split_from_chunk)
      with IH "1.prems" \<open>i < length data\<close> show ?thesis unfolding eq by (simp del: length_take)
    next
      case False
      with \<open>i < length data\<close> "1.prems" show ?thesis unfolding eq by (simp add: split_from_end)
    qed
  qed (simp add: split_from_end)
qed

lemma metadata_chunks:
  "list_all2 (\<lambda>c m. FileHash m = ComputeChunkHash sha d \<and> TotalChunks m = length chunks
     \<and> (\<forall>c'. VerifyChunkIntegrity sha c' m = Inr () \<longleftrightarrow> ComputeChunkHash sha c' = ComputeChunkHash sha c \<and> length c' = length c))
     chunks (CreateMetadata sha d chunks)"
  by (auto simp: list_all2_conv_all_nth VerifyChunkIntegrity_def CreateMetadata_def nth_enumerate_eq Let_def)

lemma metadata_sums: "sum_list (map ChunkSize (CreateMetadata sha d chunks)) = length (concat chunks)"
  "map ChunkIndex (CreateMetadata sha d chunks) = [0..<length chunks]"
proof -
  have "map ChunkSize (CreateMetadata sha d chunks) = map length chunks" "map ChunkIndex (CreateMetadata sha d chunks) = [0..<length chunks]"
    by (rule nth_equalityI; simp add: CreateMetadata_def nth_enumerate_eq)+
  then show "sum_list (map ChunkSize (CreateMetadata sha d chunks)) = length (concat chunks)"
    "map ChunkIndex (CreateMetadata sha d chunks) = [0..<length chunks]"
    by (simp_all add: length_concat)
qed

text \<open>
  C36: splitting a file into chunks of any size and reassembling the chunks gives the file back, so
  that verification against the file's hash succeeds.  The metadata made from the chunks number them from 0 and carry the hash of
  the file and sizes that add up to its size; a piece of data passes the check against the metadata of a chunk
  exactly when it has the hash and the length of that chunk.
\<close>

theorem split_reassemble:
  "ReassembleChunks (SplitFile data n) = data
   \<and> VerifyChunks sha (SplitFile data n) (ComputeChunkHash sha data) = Inr ()
   \<and> map ChunkIndex (CreateMetadata sha data (SplitFile data n)) = [0..<length (SplitFile data n)]
   \<and> sum_list (map ChunkSize (CreateMetadata sha data (SplitFile data n))) = length data
   \<and> list_all2 (\<lambda>c m. FileHash m = ComputeChunkHash sha data \<and> TotalChunks m = length (SplitFile data n)
        \<and> (\<forall>c'. VerifyChunkIntegrity sha c' m = Inr () \<longleftrightarrow> ComputeChunkHash sha c' = ComputeChunkHash sha c \<and> length c' = length c))
        (SplitFile data n) (CreateMetadata sha data (SplitFile data n))"
proof -
  have "concat (SplitFile data n) = data" by (simp add: SplitFile_def concat_split_from)
  moreover from this have "ReassembleChunks (SplitFile data n) = data" by (simp add: ReassembleChunks_concat)
  ultimately show ?thesis using metadata_chunks metadata_sums by (simp add: VerifyChunks_def)
qed

text \<open>
  The chunks of a valid chunk size are non-empty and at most that long, and only the last one may
  be shorter.
\<close>

theorem split_sizes:
  assumes "0 < n"
  shows "list_all (\<lambda>c. 0 < length c \<and> length c \<le> nat n) (SplitFile data n)
    \<and> list_all (\<lambda>c. length c = nat n) (butlast (SplitFile data n))"
  using assms split_from_sizes [of "nat n" data 0] by (simp add: SplitFile_def list_all_iff)

theorem split_sizes_witness:
  "list_all (\<lambda>c. 0 < length c \<and> length c \<le> nat 2) (SplitFile [1, 2, 3, 4, 5 :: byte] 2)
    \<and> list_all (\<lambda>c. length c = nat 2) (butlast (SplitFile [1, 2, 3, 4, 5 :: byte] 2))"
  using split_sizes [of 2 "[1, 2, 3, 4, 5 :: byte]"] by simp

section \<open>Parameters: results\<close>

lemma normalize_ordered:
  "0 < MinSize (normalize p) \<and> MinSize (normalize p) \<le> AvgSize (normalize p)
   \<and> AvgSize (normalize p) \<le> MaxSize (normalize p) \<and> 0 < Window (normalize p)"
  by (simp add: normalize_def Let_def)

lemma normalize_idem: "normalize (normalize p) = normalize p"
proof -
  have *: "normalize p = p" if "0 < MinSize p" "MinSize p \<le> AvgSize p" "AvgSize p \<le> MaxSize p" "0 < Window p" for p
    using that by (simp add: normalize_def Let_def)
  show ?thesis using normalize_ordered [of p] by (intro *) auto
qed

lemma bits_Len_bounds: "0 < n \<Longrightarrow> 2 ^ (bits_Len n - 1) \<le> n \<and> n < 2 ^ bits_Len n"
proof (induction n rule: bits_Len.induct)
  case (1 n)
  show ?case
  proof (cases "n div 2 = 0")
    case True
    with "1.prems" have "n = 1" by linarith
    then show ?thesis by (simp add: bits_Len.simps)
  next
    case False
    then have "2 ^ (bits_Len (n div 2) - 1) \<le> n div 2" and "n div 2 < 2 ^ bits_Len (n div 2)"
      using 1 by auto
    moreover have "0 < bits_Len (n div 2)" using False by (subst bits_Len.simps) simp
    moreover have "bits_Len n = Suc (bits_Len (n div 2))" using "1.prems" by (subst bits_Len.simps) simp
    ultimately show ?thesis by (cases "bits_Len (n div 2)") auto
  qed
qed

text \<open>
  For averages the mask can represent, the mask is one less than the largest power of two that
  does not exceed the average.
\<close>

theorem avgToMask_bounds:
  assumes "128 \<le> avg" and "avg < 2 ^ 62"
  shows "unat (avgToMask avg) + 1 = 2 ^ (bits_Len (nat avg) - 1)
    \<and> unat (avgToMask avg) + 1 \<le> nat avg \<and> nat avg < 2 * (unat (avgToMask avg) + 1)"
proof -
  let ?n = "bits_Len (nat avg)"
  have b: "2 ^ (?n - 1) \<le> nat avg" "nat avg < 2 ^ ?n"
    using bits_Len_bounds [of "nat avg"] assms by auto
  have "128 \<le> nat avg" using assms(1) by linarith
  from le_less_trans [OF this b(2)] have "(2 :: nat) ^ 7 < 2 ^ ?n" by simp
  then have "7 < ?n" by (rule power_less_imp_less_exp [rotated]) simp
  then have lo: "8 \<le> ?n" by simp
  have "nat avg < 2 ^ 62" using assms by simp
  from le_less_trans [OF b(1) this] have "(2 :: nat) ^ (?n - 1) < 2 ^ 62" .
  then have "?n - 1 < 62" by (rule power_less_imp_less_exp [rotated]) simp
  then have hi: "?n \<le> 62" by simp
  have "avgToMask avg = push_bit (?n - 1) 1 - 1"
    using assms lo hi by (simp add: avgToMask_def Let_def)
  moreover have "unat (push_bit (?n - 1) (1 :: u64) - 1) = 2 ^ (?n - 1) - 1"
  proof -
    have eq: "push_bit (?n - 1) (1 :: u64) - 1 = word_of_nat (2 ^ (?n - 1) - 1)"
      by (simp add: push_bit_eq_mult of_nat_diff)
    have "2 ^ (?n - 1) \<le> (2 :: nat) ^ 61"
      by (rule power_increasing) (use hi in auto)
    then show ?thesis unfolding eq by (intro unat_small) simp
  qed
  moreover have "2 * 2 ^ (?n - 1) = (2 :: nat) ^ ?n" using lo by (cases ?n) auto
  ultimately show ?thesis using b by simp
qed

theorem avgToMask_bounds_witness:
  "unat (avgToMask 8388608) + 1 \<le> nat 8388608"
  using avgToMask_bounds [of 8388608] by simp


section \<open>The rolling hash does not roll\<close>

lemma pow_loop_add: "pow_loop (a + b) bs m p = pow_loop b bs m (pow_loop a bs m p)"
  by (induction a arbitrary: p) auto

lemma pow_loop_zero: "pow_loop n b m 0 = 0"
  by (induction n) auto

lemma pow_loop_numeral:
  "pow_loop (numeral n) b m p = pow_loop (pred_numeral n) b m ((p * b) mod m)"
  by (simp only: numeral_eq_Suc pow_loop.simps)

lemma pow_loop_8: "pow_loop 8 256 2305843009213693951 1 = 0"
  by (simp add: pow_loop_numeral)

lemma window_pow:
  assumes "9 \<le> w"
  shows "rh_pow (newRollingHash w) = 0"
proof -
  have "nat (w - 1) = 8 + nat (w - 9)" using assms by auto
  then show ?thesis
    using assms by (simp add: newRollingHash_def pow_loop_add pow_loop_8 pow_loop_zero)
qed

definition windowless :: "rollingHash \<Rightarrow> bool" where
  "windowless r \<longleftrightarrow> rh_pow r = 0 \<and> rh_base r = 256 \<and> rh_mod r = 2 ^ 61 - 1 \<and> rh_hash r < 2 ^ 61 - 1"

lemma windowless_push:
  assumes "windowless r"
  shows "windowless (push r b) \<and> rh_hash (push r b) = (rh_hash r * 256 + ucast b) mod (2 ^ 61 - 1)"
proof -
  have "unat (rh_hash r) < 2 ^ 61 - 1"
    using assms by (simp add: windowless_def word_less_nat_alt)
  then have "(rh_hash r + (2 ^ 61 - 1)) mod (2 ^ 61 - 1) = rh_hash r"
    by (simp add: word_unat_eq_iff unat_word_ariths)
  with assms show ?thesis
    by (auto simp: windowless_def push_def Let_def word_less_nat_alt unat_word_ariths)
qed

lemma windowless_pushes:
  "windowless r \<Longrightarrow> rh_sum (foldl push r bs) = foldl (\<lambda>h b. (h * 256 + ucast b) mod (2 ^ 61 - 1)) (rh_hash r) bs"
  by (induction bs arbitrary: r) (auto simp: rh_sum_def windowless_push)

lemma windowless_new: "9 \<le> w \<Longrightarrow> windowless (newRollingHash w) \<and> rh_hash (newRollingHash w) = 0"
  using window_pow [of w] by (simp add: windowless_def newRollingHash_def Let_def word_less_nat_alt)

text \<open>
  C37: the power by which the rolling hash removes the oldest byte overflows to zero for every window
  of nine bytes or more, the default of 64 included: the window has no effect, and the hash after a
  sequence of bytes depends on bytes of any age.
\<close>

theorem rolling_hash_ignores_window:
  assumes "9 \<le> w"
  shows "rh_sum (foldl push (newRollingHash w) bs) = foldl (\<lambda>h b. (h * 256 + ucast b) mod (2 ^ 61 - 1)) 0 bs"
  using windowless_new [OF assms] windowless_pushes [of "newRollingHash w" bs] by simp

theorem rolling_hash_ignores_window_witness:
  "rh_sum (foldl push (newRollingHash 64) [1, 2]) = 258"
  using rolling_hash_ignores_window [of 64 "[1, 2]"] by simp


section \<open>The chunker loses nothing\<close>

lemma next_loop_split:
  "next_loop p m buf h inp = (buf', h', rest, ended) \<Longrightarrow> buf' @ rest = buf @ inp \<and> (ended \<longrightarrow> rest = [])
    \<and> (\<not> ended \<longrightarrow> MinSize p \<le> int (length buf') \<and> buf' \<noteq> [])"
  by (induction p m buf h inp arbitrary: buf' rule: next_loop.induct)
    (auto simp: Let_def split: if_splits)

lemma next_loop_max:
  "next_loop p m buf h inp = (buf', h', rest, ended) \<Longrightarrow> MinSize p \<le> MaxSize p \<Longrightarrow>
   int (length buf) < MaxSize p \<Longrightarrow> int (length buf') \<le> MaxSize p"
  by (induction p m buf h inp arbitrary: buf' rule: next_loop.induct)
    (auto simp: Let_def split: if_splits)

lemma Next_ok:
  assumes "Next sha c = (Inr ch, c')"
  shows "Data ch \<noteq> [] \<and> rd_bytes c = Data ch @ rd_bytes c'
    \<and> Ref ch = \<lparr>Hash = sha (Data ch), Offset = ck_offset c, Length = word_of_nat (length (Data ch))\<rparr>
    \<and> ck_offset c' = ck_offset c + word_of_nat (length (Data ch))
    \<and> ck_params c' = ck_params c \<and> rd_error c' = rd_error c
    \<and> (rd_bytes c' \<noteq> [] \<longrightarrow> MinSize (ck_params c) \<le> int (length (Data ch)))"
proof -
  obtain buf h rest ended where l: "next_loop (ck_params c) (ck_mask c) [] (ck_hash c) (rd_bytes c) = (buf, h, rest, ended)"
    by (metis prod_cases4)
  from next_loop_split [OF l] assms l show ?thesis
    by (auto simp: Next_def Let_def split: if_splits)
qed

lemma Next_max:
  assumes "Next sha c = (Inr ch, c')" and "MinSize (ck_params c) \<le> MaxSize (ck_params c)" and "0 < MaxSize (ck_params c)"
  shows "int (length (Data ch)) \<le> MaxSize (ck_params c)"
proof -
  obtain buf h rest ended where l: "next_loop (ck_params c) (ck_mask c) [] (ck_hash c) (rd_bytes c) = (buf, h, rest, ended)"
    by (metis prod_cases4)
  from next_loop_max [OF l] assms l show ?thesis
    by (auto simp: Next_def Let_def split: if_splits)
qed

lemma Next_end:
  assumes "Next sha c = (Inl e, c')"
  shows "rd_error c = None \<Longrightarrow> e = NextEOF \<and> rd_bytes c = []"
proof -
  obtain buf h rest ended where l: "next_loop (ck_params c) (ck_mask c) [] (ck_hash c) (rd_bytes c) = (buf, h, rest, ended)"
    by (metis prod_cases4)
  from next_loop_split [OF l] assms l show "rd_error c = None \<Longrightarrow> e = NextEOF \<and> rd_bytes c = []"
    by (auto simp: Next_def Let_def split: if_splits)
qed

text \<open>Calling \<open>Next\<close> until it reports the end or an error.\<close>

function drain :: "(byte list \<Rightarrow> byte list) \<Rightarrow> RabinChunker \<Rightarrow> Chunk list \<times> next_error" where
  "drain sha c =
     (case Next sha c of
        (Inl e, c') \<Rightarrow> ([], e)
      | (Inr ch, c') \<Rightarrow> (case drain sha c' of (chs, e) \<Rightarrow> (ch # chs, e)))"
  by pat_completeness auto
termination
  by (relation "measure (\<lambda>(sha, c). length (rd_bytes c))") (auto dest!: sym [of _ "Next _ _"] Next_ok)

declare drain.simps [simp del]

text \<open>The references of consecutive chunks: each offset is the end of the chunk before.\<close>

fun contiguous :: "(byte list \<Rightarrow> byte list) \<Rightarrow> u64 \<Rightarrow> Chunk list \<Rightarrow> bool" where
  "contiguous sha off [] = True"
| "contiguous sha off (ch # chs) =
     (Ref ch = \<lparr>Hash = sha (Data ch), Offset = off, Length = word_of_nat (length (Data ch))\<rparr>
      \<and> contiguous sha (off + word_of_nat (length (Data ch))) chs)"

lemma drain_ok:
  assumes "rd_error c = None" and "MinSize (ck_params c) \<le> MaxSize (ck_params c)" and "0 < MaxSize (ck_params c)"
  shows "snd (drain sha c) = NextEOF \<and> concat (map Data (fst (drain sha c))) = rd_bytes c
    \<and> contiguous sha (ck_offset c) (fst (drain sha c))
    \<and> list_all (\<lambda>ch. Data ch \<noteq> [] \<and> int (length (Data ch)) \<le> MaxSize (ck_params c)) (fst (drain sha c))
    \<and> list_all (\<lambda>ch. MinSize (ck_params c) \<le> int (length (Data ch))) (butlast (fst (drain sha c)))"
  using assms
proof (induction sha c rule: drain.induct)
  case (1 sha c)
  show ?case
  proof (cases "Next sha c")
    case (Pair r c')
    show ?thesis
    proof (cases r)
      case (Inl e)
      with Pair Next_end [of sha c e c'] "1.prems" show ?thesis by (simp add: drain.simps)
    next
      case (Inr ch)
      note N = Pair [unfolded Inr]
      have rest: "fst (drain sha c') = [] \<longleftrightarrow> rd_bytes c' = []"
        using "1.IH" [OF N [symmetric] refl] Next_ok [OF N] "1.prems" by (cases "fst (drain sha c')") auto
      have d: "drain sha c = (ch # fst (drain sha c'), snd (drain sha c'))"
        using N by (subst drain.simps) (simp split: prod.splits)
      show ?thesis
        using "1.IH" [OF N [symmetric] refl] Next_ok [OF N] Next_max [OF N] "1.prems" rest unfolding d by auto
    qed
  qed
qed

text \<open>
  C38: the streaming chunker loses nothing.  Over any input and with any parameters, calling \<open>Next\<close>
  until the end yields chunks whose data make up the input in order, with contiguous references
  that carry the ck_hash of the data; no chunk exceeds the maximum size and only the last one may be
  shorter than the minimum.
\<close>

theorem chunker_lossless:
  "snd (drain sha (NewRabinChunker input None ps)) = NextEOF
   \<and> concat (map Data (fst (drain sha (NewRabinChunker input None ps)))) = input
   \<and> contiguous sha 0 (fst (drain sha (NewRabinChunker input None ps)))
   \<and> list_all (\<lambda>ch. Data ch \<noteq> [] \<and> int (length (Data ch)) \<le> MaxSize (normalize ps))
       (fst (drain sha (NewRabinChunker input None ps)))
   \<and> list_all (\<lambda>ch. MinSize (normalize ps) \<le> int (length (Data ch)))
       (butlast (fst (drain sha (NewRabinChunker input None ps))))"
  using drain_ok [of "NewRabinChunker input None ps" sha] normalize_ordered [of ps]
  by (simp add: NewRabinChunker_def Let_def)

end
