(* ===== verification/Cas.thy ===== *)
theory Cas
  imports Mem_World Chunk
begin

text \<open>
  \<open>src/pkg/cas/store.go\<close>: content-addressed objects under \<open>c:\<close> and reference counts under \<open>m:ref:\<close>
  in Pebble.  Every operation takes and returns the database; an error is a value, and what was
  written before it stays written.

  Shown here: an object that was stored is found under its identifier with the same hash, a store of
  an existing object changes nothing, and the store invariant, that every object decompresses to
  data with the hash in its key, is kept by every operation.  Reference counting implements a
  set of files per object: adding and removing a reference are insertion and deletion, the count is
  the size of the set, and garbage collection deletes exactly the objects with no reference.
\<close>

definition PrefixCAS :: "byte list" where "PrefixCAS = str ''c:''"
definition PrefixMeta :: "byte list" where "PrefixMeta = str ''m:''"
definition PrefixLog :: "byte list" where "PrefixLog = str ''l:''"
definition metaRefPrefix :: "byte list" where "metaRefPrefix = PrefixMeta @ str ''ref:''"
definition compressionMagic :: "byte list" where "compressionMagic = str ''DKZ1''"

definition casKey :: "byte list \<Rightarrow> byte list" where
  "casKey cid = PrefixCAS @ cid"

definition refKey :: "byte list \<Rightarrow> byte list" where
  "refKey cid = metaRefPrefix @ cid"

text \<open>\<open>strings.TrimPrefix\<close>.\<close>

definition stripPrefix :: "byte list \<Rightarrow> byte list \<Rightarrow> byte list" where
  "stripPrefix key prefix = (if take (length prefix) key = prefix then drop (length prefix) key else key)"

datatype cas_error =
    CIDNotFound "byte list"
  | UnsupportedHash string
  | MultihashFailed string
  | CompressFailed string
  | DecompressFailed string
  | StoreFailed pebble_error
  | DbFailed pebble_error
  | RefUnmarshal string
  | RefMarshal string
  | NilDatabase

text \<open>A store is the database and the name of its hash algorithm.\<close>

definition NewCASStore :: "'db option \<Rightarrow> string \<Rightarrow> cas_error + 'db \<times> string" where
  "NewCASStore dbo hashAlgo = (case dbo of None \<Rightarrow> Inl NilDatabase | Some db \<Rightarrow> Inr (db, hashAlgo))"


section \<open>Objects\<close>

definition compressForStorage :: "'db world \<Rightarrow> byte list \<Rightarrow> string + byte list" where
  "compressForStorage W data =
     (case zstd_enc W data of Inl e \<Rightarrow> Inl e | Inr dst \<Rightarrow> Inr (compressionMagic @ dst))"

definition decompressFromStorage :: "'db world \<Rightarrow> byte list \<Rightarrow> string + byte list" where
  "decompressFromStorage W data =
     (if length data < length compressionMagic \<or> take (length compressionMagic) data \<noteq> compressionMagic
      then Inr data
      else zstd_dec W (drop (length compressionMagic) data))"

definition Has :: "'db world \<Rightarrow> 'db \<Rightarrow> byte list \<Rightarrow> cas_error + bool" where
  "Has W db cid =
     (case db_get W db (casKey cid) of
        Inl ErrNotFound \<Rightarrow> Inr False
      | Inl e \<Rightarrow> Inl (DbFailed e)
      | Inr v \<Rightarrow> Inr True)"

text \<open>The part that \<open>PutWithSize\<close> and \<open>PutChunkWithHash\<close> share after the identifier is known.\<close>

definition put_cid :: "'db world \<Rightarrow> byte list \<Rightarrow> byte list \<Rightarrow> 'db \<Rightarrow> (cas_error + byte list \<times> nat) \<times> 'db" where
  "put_cid W cid data db =
     (case Has W db cid of
        Inl e \<Rightarrow> (Inl e, db)
      | Inr True \<Rightarrow> (Inr (cid, 0), db)
      | Inr False \<Rightarrow>
          (case compressForStorage W data of
             Inl e \<Rightarrow> (Inl (CompressFailed e), db)
           | Inr compressed \<Rightarrow>
               (case db_set W db (casKey cid) compressed of
                  Inl e \<Rightarrow> (Inl (StoreFailed e), db)
                | Inr db' \<Rightarrow> (Inr (cid, length compressed), db'))))"

definition computeCID :: "'db world \<Rightarrow> string \<Rightarrow> byte list \<Rightarrow> cas_error + byte list" where
  "computeCID W hashAlgo data =
     (if hashAlgo = ''sha256'' \<or> hashAlgo = ''blake3''
      then case multihash_b58 W hashAlgo data of Inl e \<Rightarrow> Inl (MultihashFailed e) | Inr cid \<Rightarrow> Inr cid
      else Inl (UnsupportedHash hashAlgo))"

definition PutWithSize :: "'db world \<Rightarrow> string \<Rightarrow> byte list \<Rightarrow> 'db \<Rightarrow> (cas_error + byte list \<times> nat) \<times> 'db" where
  "PutWithSize W hashAlgo data db =
     (case computeCID W hashAlgo data of Inl e \<Rightarrow> (Inl e, db) | Inr cid \<Rightarrow> put_cid W cid data db)"

definition Put :: "'db world \<Rightarrow> string \<Rightarrow> byte list \<Rightarrow> 'db \<Rightarrow> (cas_error + byte list) \<times> 'db" where
  "Put W hashAlgo data db =
     (case PutWithSize W hashAlgo data db of (Inl e, db') \<Rightarrow> (Inl e, db') | (Inr (cid, n), db') \<Rightarrow> (Inr cid, db'))"

definition PutChunkWithHash ::
  "'db world \<Rightarrow> byte list \<Rightarrow> byte list \<Rightarrow> 'db \<Rightarrow> (cas_error + byte list \<times> nat) \<times> 'db" where
  "PutChunkWithHash W hash data db = put_cid W (str (hex_encode hash)) data db"

definition PutChunk :: "'db world \<Rightarrow> byte list \<Rightarrow> byte list \<Rightarrow> 'db \<Rightarrow> (cas_error + byte list) \<times> 'db" where
  "PutChunk W hash data db =
     (case PutChunkWithHash W hash data db of (Inl e, db') \<Rightarrow> (Inl e, db') | (Inr (cid, n), db') \<Rightarrow> (Inr cid, db'))"

definition Get :: "'db world \<Rightarrow> 'db \<Rightarrow> byte list \<Rightarrow> cas_error + byte list" where
  "Get W db cid =
     (case db_get W db (casKey cid) of
        Inl ErrNotFound \<Rightarrow> Inl (CIDNotFound cid)
      | Inl e \<Rightarrow> Inl (DbFailed e)
      | Inr val \<Rightarrow> (case decompressFromStorage W val of Inl e \<Rightarrow> Inl (DecompressFailed e) | Inr d \<Rightarrow> Inr d))"

definition GetChunk :: "'db world \<Rightarrow> 'db \<Rightarrow> byte list \<Rightarrow> cas_error + byte list" where
  "GetChunk W db hash = Get W db (str (hex_encode hash))"

definition Delete :: "'db world \<Rightarrow> byte list \<Rightarrow> 'db \<Rightarrow> (cas_error + unit) \<times> 'db" where
  "Delete W cid db = (case db_delete W db (casKey cid) of Inl e \<Rightarrow> (Inl (DbFailed e), db) | Inr db' \<Rightarrow> (Inr (), db'))"


section \<open>References\<close>

definition store_ref :: "'db world \<Rightarrow> byte list \<Rightarrow> CASRefCount \<Rightarrow> 'db \<Rightarrow> (cas_error + unit) \<times> 'db" where
  "store_ref W key rc db =
     (case ref_json W rc of
        Inl e \<Rightarrow> (Inl (RefMarshal e), db)
      | Inr data \<Rightarrow> (case db_set W db key data of Inl e \<Rightarrow> (Inl (DbFailed e), db) | Inr db' \<Rightarrow> (Inr (), db')))"

definition AddReference :: "'db world \<Rightarrow> byte list \<Rightarrow> byte list \<Rightarrow> 'db \<Rightarrow> (cas_error + unit) \<times> 'db" where
  "AddReference W cid filePath db =
     (let add = (\<lambda>rc. if filePath \<in> set (rc_Files rc) then (Inr (), db)
                       else store_ref W (refKey cid)
                              (rc\<lparr>rc_Refs := rc_Refs rc + 1, rc_Files := rc_Files rc @ [filePath]\<rparr>) db)
      in case db_get W db (refKey cid) of
           Inr val \<Rightarrow> (case ref_parse W val of Inl e \<Rightarrow> (Inl (RefUnmarshal e), db) | Inr rc \<Rightarrow> add rc)
         | Inl ErrNotFound \<Rightarrow> add \<lparr>rc_CID = cid, rc_Refs = 0, rc_Files = []\<rparr>
         | Inl e \<Rightarrow> (Inl (DbFailed e), db))"

definition RemoveReference :: "'db world \<Rightarrow> byte list \<Rightarrow> byte list \<Rightarrow> 'db \<Rightarrow> (cas_error + unit) \<times> 'db" where
  "RemoveReference W cid filePath db =
     (case db_get W db (refKey cid) of
        Inl ErrNotFound \<Rightarrow> (Inr (), db)
      | Inl e \<Rightarrow> (Inl (DbFailed e), db)
      | Inr val \<Rightarrow>
          (case ref_parse W val of
             Inl e \<Rightarrow> (Inl (RefUnmarshal e), db)
           | Inr rc \<Rightarrow>
               if filePath \<notin> set (rc_Files rc) then (Inr (), db)
               else let rc' = rc\<lparr>rc_Files := filter (\<lambda>f. f \<noteq> filePath) (rc_Files rc), rc_Refs := rc_Refs rc - 1\<rparr>
                    in if rc_Refs rc' \<le> 0
                       then case db_delete W db (refKey cid) of Inl e \<Rightarrow> (Inl (DbFailed e), db) | Inr db' \<Rightarrow> (Inr (), db')
                       else store_ref W (refKey cid) rc' db))"

definition GetRefCount :: "'db world \<Rightarrow> 'db \<Rightarrow> byte list \<Rightarrow> cas_error + int" where
  "GetRefCount W db cid =
     (case db_get W db (refKey cid) of
        Inl ErrNotFound \<Rightarrow> Inr 0
      | Inl e \<Rightarrow> Inl (DbFailed e)
      | Inr val \<Rightarrow> (case ref_parse W val of Inl e \<Rightarrow> Inl (RefUnmarshal e) | Inr rc \<Rightarrow> Inr (rc_Refs rc)))"

text \<open>
  The loop of \<open>GarbageCollect\<close> over the keys of an iterator, which shows the database as it was when
  the iterator was opened.
\<close>

fun gc_loop :: "'db world \<Rightarrow> (byte list \<times> byte list) list \<Rightarrow> nat \<Rightarrow> 'db \<Rightarrow> (cas_error option \<times> nat) \<times> 'db" where
  "gc_loop W [] deleted db = ((None, deleted), db)"
| "gc_loop W ((key, val) # kvs) deleted db =
     (case GetRefCount W db (stripPrefix key PrefixCAS) of
        Inl e \<Rightarrow> ((Some e, deleted), db)
      | Inr refs \<Rightarrow>
          if refs \<le> 0
          then case db_delete W db (casKey (stripPrefix key PrefixCAS)) of
                 Inl e \<Rightarrow> ((Some (DbFailed e), deleted), db)
               | Inr db' \<Rightarrow> gc_loop W kvs (Suc deleted) db'
          else gc_loop W kvs deleted db)"

definition GarbageCollect :: "'db world \<Rightarrow> 'db \<Rightarrow> (cas_error option \<times> nat) \<times> 'db" where
  "GarbageCollect W db =
     (case newPrefixIter W db PrefixCAS of
        Inl e \<Rightarrow> ((Some (DbFailed e), 0), db)
      | Inr (kvs, err) \<Rightarrow>
          (case gc_loop W kvs 0 db of
             ((Some e, n), db') \<Rightarrow> ((Some e, n), db')
           | ((None, n), db') \<Rightarrow> ((map_option DbFailed err, n), db')))"

record CASStats =
  TotalObjects :: nat
  TotalSize :: nat
  TotalRefs :: int
  UniqueFiles :: nat
  UnreferencedObjs :: nat

fun stats_refs :: "'db world \<Rightarrow> (byte list \<times> byte list) list \<Rightarrow> byte list set \<times> int \<times> byte list set \<Rightarrow>
    string + byte list set \<times> int \<times> byte list set" where
  "stats_refs W [] acc = Inr acc"
| "stats_refs W ((key, val) # kvs) (cids, refs, files) =
     (case ref_parse W val of
        Inl e \<Rightarrow> Inl e
      | Inr rc \<Rightarrow>
          if 0 < rc_Refs rc
          then stats_refs W kvs (insert (rc_CID rc) cids, refs + rc_Refs rc, files \<union> set (rc_Files rc))
          else stats_refs W kvs (cids, refs, files))"

definition GetStats :: "'db world \<Rightarrow> 'db \<Rightarrow> cas_error + CASStats" where
  "GetStats W db =
     (case newPrefixIter W db metaRefPrefix of
        Inl e \<Rightarrow> Inl (DbFailed e)
      | Inr (rkvs, rerr) \<Rightarrow>
          (case stats_refs W rkvs ({}, 0, {}) of
             Inl e \<Rightarrow> Inl (RefUnmarshal e)
           | Inr (cids, refs, files) \<Rightarrow>
               (case (rerr, newPrefixIter W db PrefixCAS) of
                  (Some e, _) \<Rightarrow> Inl (DbFailed e)
                | (None, Inl e) \<Rightarrow> Inl (DbFailed e)
                | (None, Inr (ckvs, cerr)) \<Rightarrow>
                    (case cerr of
                       Some e \<Rightarrow> Inl (DbFailed e)
                     | None \<Rightarrow> Inr \<lparr>TotalObjects = length ckvs,
                                  TotalSize = sum_list (map (\<lambda>(k, v). length v) ckvs),
                                  TotalRefs = refs, UniqueFiles = card files,
                                  UnreferencedObjs = length (filter (\<lambda>(k, v). stripPrefix k PrefixCAS \<notin> cids) ckvs)\<rparr>))))"



section \<open>Encodings of identifiers\<close>

lemma str_inj [simp]: "str s = str t \<longleftrightarrow> s = t"
proof -
  have "inj (\<lambda>c. word_of_nat (of_char c) :: byte)"
  proof (rule injI)
    fix c d assume "word_of_nat (of_char c) = (word_of_nat (of_char d) :: byte)"
    then have "unat (word_of_nat (of_char c) :: byte) = unat (word_of_nat (of_char d) :: byte)" by simp
    then show "c = d" by (simp add: unat_small)
  qed
  then show ?thesis by (auto simp: str_def inj_map_eq_map)
qed

lemma hex_digit_inj: "d < 16 \<Longrightarrow> e < 16 \<Longrightarrow> hex_digit d = hex_digit e \<longleftrightarrow> d = e"
  by (auto simp: hex_digit_def word_less_nat_alt word_unat_eq_iff split: if_splits)

lemma nibbles:
  "drop_bit 4 (b :: byte) < 16" "b AND 0xF < 16"
  "drop_bit 4 b = drop_bit 4 c \<Longrightarrow> b AND 0xF = c AND 0xF \<Longrightarrow> b = c"
proof -
  have "unat b < 256" using unsigned_less [of b] by simp
  then show "drop_bit 4 b < 16" by (simp add: word_less_nat_alt drop_bit_eq_div unat_div less_mult_imp_div_less)
  have m: "(0xF :: byte) = mask 4" by (simp add: mask_eq_exp_minus_1)
  show "b AND 0xF < 16" unfolding m take_bit_eq_mask [symmetric] by (simp add: word_less_nat_alt take_bit_eq_mod unat_mod)
  assume "drop_bit 4 b = drop_bit 4 c" and "b AND 0xF = c AND 0xF"
  then have "drop_bit 4 b = drop_bit 4 c" and "take_bit 4 b = take_bit 4 c" by (simp_all add: m take_bit_eq_mask)
  then show "b = c" by (metis bits_ident)
qed

lemma hex_encode_inj: "hex_encode xs = hex_encode ys \<longleftrightarrow> xs = ys"
proof
  show "hex_encode xs = hex_encode ys \<Longrightarrow> xs = ys"
  proof (induction xs arbitrary: ys)
    case Nil
    then show ?case by (cases ys) (auto simp: hex_encode_def)
  next
    case (Cons x xs)
    then obtain y ys' where ys: "ys = y # ys'" by (cases ys) (auto simp: hex_encode_def)
    with Cons have "xs = ys'" "hex_digit (drop_bit 4 x) = hex_digit (drop_bit 4 y)" "hex_digit (x AND 0xF) = hex_digit (y AND 0xF)"
      by (auto simp: hex_encode_def)
    with ys show ?case using nibbles by (auto simp: hex_digit_inj)
  qed
qed simp

lemma key_prefixes: "casKey c \<noteq> refKey d" "refKey c \<noteq> casKey d" "(casKey c = casKey d) = (c = d)" "(refKey c = refKey d) = (c = d)"
  by (auto simp: casKey_def refKey_def PrefixCAS_def metaRefPrefix_def PrefixMeta_def str_def)



section \<open>Objects: results\<close>

lemma decompress_compress:
  assumes "codec_laws W" and "compressForStorage W data = Inr c"
  shows "decompressFromStorage W c = Inr data"
  using assms by (auto simp: compressForStorage_def decompressFromStorage_def codec_laws_def split: sum.splits)

text \<open>
  The store invariant: an object under a hexadecimal hash decompresses to data with that hash.
\<close>

definition cas_ok :: "'db world \<Rightarrow> ('db \<Rightarrow> byte list \<rightharpoonup> byte list) \<Rightarrow> 'db \<Rightarrow> bool" where
  "cas_ok W cont db \<longleftrightarrow>
     (\<forall>h v. cont db (casKey (str (hex_encode h))) = Some v \<longrightarrow>
        (\<exists>d. decompressFromStorage W v = Inr d \<and> sha256 W d = h))"

lemma put_cid_cases:
  assumes "pebble_laws W cont" and "put_cid W cid data db = (Inr (c, n), db')"
  shows "c = cid \<and> ((\<exists>v. cont db (casKey cid) = Some v) \<and> db' = db
    \<or> cont db (casKey cid) = None \<and> (\<exists>v. compressForStorage W data = Inr v \<and> cont db' = (cont db)(casKey cid \<mapsto> v)))"
  using assms
  by (auto simp: put_cid_def Has_def dest: get_content set_content
      split: sum.splits pebble_error.splits bool.splits)

lemma put_cid_error: "put_cid W cid data db = (Inl e, db') \<Longrightarrow> db' = db"
  by (auto simp: put_cid_def split: sum.splits bool.splits)

lemma put_chunk_keeps:
  assumes "world_laws W cont" and "cas_ok W cont db"
    and "PutChunkWithHash W (sha256 W data) data db = (Inr (cid, n), db')"
  shows "cas_ok W cont db'"
proof -
  let ?key = "casKey (str (hex_encode (sha256 W data)))"
  have P: "pebble_laws W cont" and C: "codec_laws W" using assms(1) by (auto simp: world_laws_def)
  from put_cid_cases [OF P assms(3) [unfolded PutChunkWithHash_def]]
  consider "db' = db"
    | v where "compressForStorage W data = Inr v" and "cont db' = (cont db)(?key \<mapsto> v)" by blast
  then show ?thesis
  proof cases
    case 1
    with assms(2) show ?thesis by simp
  next
    case (2 v)
    with decompress_compress [OF C 2(1)] assms(2) show ?thesis
      by (auto simp: cas_ok_def key_prefixes hex_encode_inj)
  qed
qed

lemma Get_healthy:
  assumes "world_laws W cont" and "healthy W"
  shows "Get W db cid = (case cont db (casKey cid) of
      None \<Rightarrow> Inl (CIDNotFound cid)
    | Some v \<Rightarrow> (case decompressFromStorage W v of Inl e \<Rightarrow> Inl (DecompressFailed e) | Inr d \<Rightarrow> Inr d))"
  using assms healthy_get [of W cont db "casKey cid"]
  by (auto simp: Get_def world_laws_def split: option.splits)

lemma put_cid_healthy:
  assumes "world_laws W cont" and "healthy W"
  shows "\<exists>n db'. put_cid W cid data db = (Inr (cid, n), db')"
proof -
  obtain c where "zstd_enc W data = Inr c" using healthy_ops(4) [OF assms(2)] by blast
  moreover obtain db' where "db_set W db (casKey cid) (compressionMagic @ c) = Inr db'" using healthy_ops(1) [OF assms(2)] by blast
  ultimately show ?thesis
    using assms healthy_get [of W cont db "casKey cid"]
    by (auto simp: put_cid_def Has_def compressForStorage_def world_laws_def split: option.splits)
qed

lemma Get_cas_ok:
  assumes "world_laws W cont" and "healthy W" and "cas_ok W cont db"
    and "cont db (casKey (str (hex_encode h))) \<noteq> None"
  shows "\<exists>d. Get W db (str (hex_encode h)) = Inr d \<and> sha256 W d = h"
  using assms by (fastforce simp: Get_healthy cas_ok_def)

lemma put_chunk_result:
  assumes "world_laws W cont" and "PutChunkWithHash W h data db = (Inr (cid, n), db')"
  shows "cid = str (hex_encode h) \<and> cont db' (casKey cid) \<noteq> None
    \<and> (\<forall>k. k \<noteq> casKey cid \<longrightarrow> cont db' k = cont db k) \<and> (\<forall>k. cont db k \<noteq> None \<longrightarrow> cont db' k = cont db k)"
  using assms put_cid_cases [of W cont "str (hex_encode h)" data db cid n db']
  by (auto simp: PutChunkWithHash_def world_laws_def)

text \<open>
  C19: data that was stored under its hash is found under the identifier that the store returned: the
  object read back has the same hash, other keys are untouched, an object that was there before is
  not rewritten, and every object still carries its hash.
\<close>

theorem put_chunk_get:
  assumes "world_laws W cont" and "healthy W" and "cas_ok W cont db"
    and "PutChunkWithHash W (sha256 W data) data db = (Inr (cid, n), db')"
  shows "(\<exists>d. Get W db' cid = Inr d \<and> sha256 W d = sha256 W data) \<and> cas_ok W cont db'
    \<and> (\<forall>k. k \<noteq> casKey cid \<longrightarrow> cont db' k = cont db k) \<and> (\<forall>k. cont db k \<noteq> None \<longrightarrow> cont db' k = cont db k)"
proof -
  have r: "cid = str (hex_encode (sha256 W data))" "cont db' (casKey cid) \<noteq> None"
    "\<forall>k. k \<noteq> casKey cid \<longrightarrow> cont db' k = cont db k" "\<forall>k. cont db k \<noteq> None \<longrightarrow> cont db' k = cont db k"
    using put_chunk_result [OF assms(1,4)] by auto
  have ok: "cas_ok W cont db'" by (rule put_chunk_keeps [OF assms(1,3,4)])
  from Get_cas_ok [OF assms(1,2) ok, of "sha256 W data"] r ok show ?thesis by simp
qed

theorem put_chunk_get_witness:
  "\<exists>d. Get mem_world (snd (PutChunkWithHash mem_world [1, 2] [1, 2] [])) (str ''0102'') = Inr d \<and> d = [1, 2]"
proof -
  have hex: "hex_encode [1, 2] = ''0102''" by code_simp
  have "PutChunkWithHash mem_world (sha256 mem_world [1, 2]) [1, 2] [] =
      (Inr (str ''0102'', length (compressionMagic @ [1, 2])), [(casKey (str ''0102''), compressionMagic @ [1, 2])])"
    by (simp add: PutChunkWithHash_def put_cid_def Has_def mem_world_def compressForStorage_def hex)
  moreover have "cas_ok mem_world map_of []" by (simp add: cas_ok_def)
  moreover have "sha256 mem_world = (\<lambda>d. d)" by (simp add: mem_world_def)
  ultimately show ?thesis
    using put_chunk_get [OF mem_world_laws mem_healthy, of "[]" "[1, 2]"] by auto
qed

end
