(* ===== verification/Refs.thy ===== *)
theory Refs
  imports Cas
begin

text \<open>
  Reference counting of \<open>src/pkg/cas/store.go\<close> as a set of files per object.  The locale \<open>ref_sets\<close> is
  what a user of the store relies on; it is interpreted on the store's own operations in every
  world that keeps its laws and does not fail.
\<close>

section \<open>The contract\<close>

datatype ('c, 'f) ref_op = AddRef 'c 'f | RemoveRef 'c 'f

fun op_valid :: "('c \<Rightarrow> 'f \<Rightarrow> bool) \<Rightarrow> ('c, 'f) ref_op \<Rightarrow> bool" where
  "op_valid valid (AddRef c f) = valid c f"
| "op_valid valid (RemoveRef c f) = valid c f"

text \<open>What an operation means for the sets.\<close>

fun op_sets :: "('c, 'f) ref_op \<Rightarrow> ('c \<Rightarrow> 'f set) \<Rightarrow> 'c \<Rightarrow> 'f set" where
  "op_sets (AddRef c f) R = R(c := insert f (R c))"
| "op_sets (RemoveRef c f) R = R(c := R c - {f})"

locale ref_sets =
  fixes inv :: "'db \<Rightarrow> bool" and valid :: "'c \<Rightarrow> 'f \<Rightarrow> bool" and refs :: "'db \<Rightarrow> 'c \<Rightarrow> 'f set"
    and add :: "'c \<Rightarrow> 'f \<Rightarrow> 'db \<Rightarrow> 'db" and remove :: "'c \<Rightarrow> 'f \<Rightarrow> 'db \<Rightarrow> 'db" and count :: "'db \<Rightarrow> 'c \<Rightarrow> int option"
  assumes add_inv: "inv db \<Longrightarrow> valid c f \<Longrightarrow> inv (add c f db)"
    and add_refs: "inv db \<Longrightarrow> valid c f \<Longrightarrow> refs (add c f db) = (refs db)(c := insert f (refs db c))"
    and remove_inv: "inv db \<Longrightarrow> valid c f \<Longrightarrow> inv (remove c f db)"
    and remove_refs: "inv db \<Longrightarrow> valid c f \<Longrightarrow> refs (remove c f db) = (refs db)(c := refs db c - {f})"
    and count_refs: "inv db \<Longrightarrow> count db c = Some (int (card (refs db c)))"
    and finite_refs: "inv db \<Longrightarrow> finite (refs db c)"
begin

primrec apply_op :: "('c, 'f) ref_op \<Rightarrow> 'db \<Rightarrow> 'db" where
  "apply_op (AddRef c f) db = add c f db"
| "apply_op (RemoveRef c f) db = remove c f db"

lemma apply_op_ok:
  "inv db \<Longrightarrow> op_valid valid op \<Longrightarrow> inv (apply_op op db) \<and> refs (apply_op op db) = op_sets op (refs db)"
  by (cases op) (auto simp: add_inv add_refs remove_inv remove_refs)

lemma history:
  "inv db \<Longrightarrow> list_all (op_valid valid) ops \<Longrightarrow>
   inv (fold apply_op ops db) \<and> refs (fold apply_op ops db) = fold op_sets ops (refs db)"
  by (induction ops arbitrary: db) (auto simp: apply_op_ok)

lemma history_count:
  "inv db \<Longrightarrow> list_all (op_valid valid) ops \<Longrightarrow>
   count (fold apply_op ops db) c = Some (int (card (fold op_sets ops (refs db) c)))"
  using history count_refs by metis

lemma add_remove_count:
  assumes "inv db" and "valid c f" and "f \<notin> refs db c"
  shows "count (remove c f (add c f db)) c = count db c"
  using assms by (simp add: count_refs add_inv remove_inv remove_refs add_refs)

end


section \<open>The store keeps it\<close>

definition ref_ok :: "'db world \<Rightarrow> byte list \<Rightarrow> CASRefCount \<Rightarrow> bool" where
  "ref_ok W cid rc \<longleftrightarrow>
     rc_CID rc = cid \<and> rc_Refs rc = int (length (rc_Files rc)) \<and> distinct (rc_Files rc) \<and> rc_Files rc \<noteq> []
     \<and> valid_text W cid \<and> (\<forall>f \<in> set (rc_Files rc). valid_text W f)"

definition refs_ok :: "'db world \<Rightarrow> ('db \<Rightarrow> byte list \<rightharpoonup> byte list) \<Rightarrow> 'db \<Rightarrow> bool" where
  "refs_ok W cont db \<longleftrightarrow>
     (\<forall>cid v. cont db (refKey cid) = Some v \<longrightarrow> (\<exists>rc. ref_parse W v = Inr rc \<and> ref_ok W cid rc))"

definition ref_files :: "'db world \<Rightarrow> ('db \<Rightarrow> byte list \<rightharpoonup> byte list) \<Rightarrow> 'db \<Rightarrow> byte list \<Rightarrow> byte list set" where
  "ref_files W cont db cid =
     (case cont db (refKey cid) of
        None \<Rightarrow> {}
      | Some v \<Rightarrow> (case ref_parse W v of Inl e \<Rightarrow> {} | Inr rc \<Rightarrow> set (rc_Files rc)))"

definition ref_inv :: "'db world \<Rightarrow> ('db \<Rightarrow> byte list \<rightharpoonup> byte list) \<Rightarrow> 'db \<Rightarrow> bool" where
  "ref_inv W cont db \<longleftrightarrow> world_laws W cont \<and> healthy W \<and> refs_ok W cont db"

lemma store_ref_content:
  assumes "world_laws W cont" and "healthy W" and "ref_ok W cid rc"
  shows "\<exists>v db'. store_ref W (refKey cid) rc db = (Inr (), db') \<and> cont db' = (cont db)(refKey cid \<mapsto> v)
    \<and> ref_parse W v = Inr rc"
proof -
  obtain v where v: "ref_json W rc = Inr v" using healthy_ops(7) [OF assms(2)] by blast
  obtain db' where db': "db_set W db (refKey cid) v = Inr db'" using healthy_ops(1) [OF assms(2)] by blast
  have "ref_parse W v = Inr rc"
    using assms(1,3) v by (auto simp: world_laws_def codec_laws_def ref_ok_def)
  moreover have "cont db' = (cont db)(refKey cid \<mapsto> v)"
    using assms(1) db' by (auto simp: world_laws_def dest: set_content)
  ultimately show ?thesis using v db' by (auto simp: store_ref_def)
qed

text \<open>The references after one entry was stored or removed.\<close>

lemma refs_after_store:
  assumes "refs_ok W cont db" and "cont db' = (cont db)(refKey cid \<mapsto> v)" and "ref_parse W v = Inr rc" and "ref_ok W cid rc"
  shows "refs_ok W cont db' \<and> ref_files W cont db' = (ref_files W cont db)(cid := set (rc_Files rc))"
  using assms by (auto simp: refs_ok_def ref_files_def fun_eq_iff key_prefixes)

lemma refs_after_delete:
  assumes "refs_ok W cont db" and "cont db' = (cont db)(refKey cid := None)"
  shows "refs_ok W cont db' \<and> ref_files W cont db' = (ref_files W cont db)(cid := {})"
  using assms by (auto simp: refs_ok_def ref_files_def fun_eq_iff key_prefixes)

lemma ref_lookup [consumes 1, case_names absent present]:
  assumes "ref_inv W cont db"
  obtains (absent) "db_get W db (refKey cid) = Inl ErrNotFound" and "ref_files W cont db cid = {}"
  | (present) v rc where "db_get W db (refKey cid) = Inr v" and "ref_parse W v = Inr rc" and "ref_ok W cid rc"
      and "ref_files W cont db cid = set (rc_Files rc)"
proof (cases "cont db (refKey cid)")
  case None
  with assms show ?thesis
    using absent healthy_get [of W cont db "refKey cid"] by (auto simp: ref_inv_def world_laws_def ref_files_def)
next
  case (Some v)
  with assms obtain rc where "ref_parse W v = Inr rc" "ref_ok W cid rc" by (auto simp: ref_inv_def refs_ok_def)
  with Some assms show ?thesis
    using present healthy_get [of W cont db "refKey cid"] by (auto simp: ref_inv_def world_laws_def ref_files_def)
qed

lemma AddReference_sets:
  assumes "ref_inv W cont db" and "valid_text W cid" and "valid_text W f"
  shows "ref_inv W cont (snd (AddReference W cid f db))
    \<and> ref_files W cont (snd (AddReference W cid f db)) = (ref_files W cont db)(cid := insert f (ref_files W cont db cid))"
proof -
  have W: "world_laws W cont" "healthy W" "refs_ok W cont db" using assms(1) by (auto simp: ref_inv_def)
  from assms(1) show ?thesis
  proof (cases rule: ref_lookup [where cid = cid])
    case absent
    let ?rc = "\<lparr>rc_CID = cid, rc_Refs = 1, rc_Files = [f]\<rparr>"
    have ok: "ref_ok W cid ?rc" using assms(2,3) by (simp add: ref_ok_def)
    from store_ref_content [OF W(1,2) ok, of db] obtain v db' where
      "store_ref W (refKey cid) ?rc db = (Inr (), db')" "cont db' = (cont db)(refKey cid \<mapsto> v)" "ref_parse W v = Inr ?rc"
      by blast
    with refs_after_store [OF W(3) _ _ ok] absent W(1,2) show ?thesis by (simp add: AddReference_def ref_inv_def)
  next
    case (present v rc)
    show ?thesis
    proof (cases "f \<in> set (rc_Files rc)")
      case True
      with present assms(1) show ?thesis by (auto simp: AddReference_def fun_eq_iff)
    next
      case False
      let ?rc = "rc\<lparr>rc_Refs := rc_Refs rc + 1, rc_Files := rc_Files rc @ [f]\<rparr>"
      have ok: "ref_ok W cid ?rc" using present(3) assms(3) False by (auto simp: ref_ok_def)
      from store_ref_content [OF W(1,2) ok, of db] obtain v' db' where
        "store_ref W (refKey cid) ?rc db = (Inr (), db')" "cont db' = (cont db)(refKey cid \<mapsto> v')" "ref_parse W v' = Inr ?rc"
        by blast
      with refs_after_store [OF W(3) _ _ ok] present False W(1,2) show ?thesis by (simp add: AddReference_def ref_inv_def)
    qed
  qed
qed

lemma RemoveReference_sets:
  assumes "ref_inv W cont db" and "valid_text W cid"
  shows "ref_inv W cont (snd (RemoveReference W cid f db))
    \<and> ref_files W cont (snd (RemoveReference W cid f db)) = (ref_files W cont db)(cid := ref_files W cont db cid - {f})"
proof -
  have W: "world_laws W cont" "healthy W" "refs_ok W cont db" using assms(1) by (auto simp: ref_inv_def)
  from assms(1) show ?thesis
  proof (cases rule: ref_lookup [where cid = cid])
    case absent
    with assms(1) show ?thesis by (auto simp: RemoveReference_def fun_eq_iff)
  next
    case (present v rc)
    let ?rc = "rc\<lparr>rc_Files := filter (\<lambda>g. g \<noteq> f) (rc_Files rc), rc_Refs := rc_Refs rc - 1\<rparr>"
    show ?thesis
    proof (cases "f \<in> set (rc_Files rc)")
      case False
      with present assms(1) show ?thesis by (auto simp: RemoveReference_def fun_eq_iff)
    next
      case True
      have len: "Suc (length (filter (\<lambda>g. g \<noteq> f) (rc_Files rc))) = length (rc_Files rc)"
        using present(3) True by (intro length_filter_neq) (auto simp: ref_ok_def)
      show ?thesis
      proof (cases "rc_Refs rc - 1 \<le> 0")
        case zero: True
        then have "set (rc_Files rc) = {f}"
          using present(3) True by (cases "rc_Files rc") (auto simp: ref_ok_def)
        moreover obtain db' where "db_delete W db (refKey cid) = Inr db'" using healthy_ops(2) [OF W(2)] by blast
        moreover from this have "cont db' = (cont db)(refKey cid := None)"
          using W(1) by (auto simp: world_laws_def dest: delete_content)
        ultimately show ?thesis
          using refs_after_delete [OF W(3)] present True zero W(1,2) by (simp add: RemoveReference_def ref_inv_def)
      next
        case more: False
        have ok: "ref_ok W cid ?rc"
          using present(3) len more True by (auto simp: ref_ok_def simp flip: length_0_conv)
        from store_ref_content [OF W(1,2) ok, of db] obtain v' db' where
          "store_ref W (refKey cid) ?rc db = (Inr (), db')" "cont db' = (cont db)(refKey cid \<mapsto> v')" "ref_parse W v' = Inr ?rc"
          by blast
        moreover have "set (rc_Files ?rc) = set (rc_Files rc) - {f}" by auto
        ultimately show ?thesis
          using refs_after_store [OF W(3) _ _ ok] present True more W(1,2) by (simp add: RemoveReference_def ref_inv_def Let_def)
      qed
    qed
  qed
qed

lemma GetRefCount_card:
  assumes "ref_inv W cont db"
  shows "GetRefCount W db cid = Inr (int (card (ref_files W cont db cid)))"
  using assms
proof (cases rule: ref_lookup [where cid = cid])
  case absent
  then show ?thesis by (simp add: GetRefCount_def)
next
  case (present v rc)
  then show ?thesis by (auto simp: GetRefCount_def ref_ok_def distinct_card)
qed

definition ref_count :: "'db world \<Rightarrow> 'db \<Rightarrow> byte list \<Rightarrow> int option" where
  "ref_count W db cid = (case GetRefCount W db cid of Inr n \<Rightarrow> Some n | Inl e \<Rightarrow> None)"

interpretation rs: ref_sets "ref_inv W cont" "\<lambda>c f. valid_text W c \<and> valid_text W f" "ref_files W cont"
  "\<lambda>c f db. snd (AddReference W c f db)" "\<lambda>c f db. snd (RemoveReference W c f db)" "ref_count W" for W cont
  by unfold_locales
    (auto simp: AddReference_sets RemoveReference_sets GetRefCount_card ref_count_def ref_files_def split: option.splits sum.splits)


section \<open>Garbage collection\<close>

lemma stripPrefix_casKey [simp]: "stripPrefix (casKey cid) PrefixCAS = cid"
  by (simp add: stripPrefix_def casKey_def)

text \<open>The objects a collection removes: those its iterator visits that no file refers to.\<close>

definition garbage :: "'db world \<Rightarrow> ('db \<Rightarrow> byte list \<rightharpoonup> byte list) \<Rightarrow> 'db \<Rightarrow> byte list set" where
  "garbage W cont db =
     {cid. cont db (casKey cid) \<noteq> None \<and> (cid = [] \<or> hd cid < 0xFF) \<and> ref_files W cont db cid = {}}"

lemma delete_object:
  assumes "ref_inv W cont db" and "db_delete W db (casKey cid) = Inr db'"
  shows "ref_inv W cont db' \<and> ref_files W cont db' = ref_files W cont db \<and> cont db' = (cont db)(casKey cid := None)"
proof -
  have "cont db' = (cont db)(casKey cid := None)"
    using assms by (auto simp: ref_inv_def world_laws_def dest: delete_content)
  with assms(1) show ?thesis by (auto simp: ref_inv_def refs_ok_def ref_files_def key_prefixes fun_eq_iff)
qed

definition dead_keys :: "(byte list \<Rightarrow> byte list set) \<Rightarrow> (byte list \<times> byte list) list \<Rightarrow> byte list list" where
  "dead_keys R kvs = filter (\<lambda>k. R (stripPrefix k PrefixCAS) = {}) (map fst kvs)"

lemma gc_loop_ok:
  assumes "ref_inv W cont db" and "\<forall>k \<in> set (map fst kvs). \<exists>cid. k = casKey cid"
  shows "\<exists>db'. gc_loop W kvs n db = ((None, n + length (dead_keys (ref_files W cont db) kvs)), db')
    \<and> ref_inv W cont db' \<and> ref_files W cont db' = ref_files W cont db
    \<and> cont db' = cont db |` (- set (dead_keys (ref_files W cont db) kvs))"
  using assms
proof (induction kvs arbitrary: n db)
  case Nil
  then show ?case by (simp add: dead_keys_def)
next
  case (Cons kv kvs)
  then obtain cid v where kv: "kv = (casKey cid, v)" by (cases kv) auto
  let ?R = "ref_files W cont db"
  have fin: "finite (?R cid)" by (auto simp: ref_files_def split: option.splits sum.splits)
  show ?case
  proof (cases "?R cid = {}")
    case False
    with fin have "\<not> int (card (?R cid)) \<le> 0" by (simp add: card_gt_0_iff)
    with False have "gc_loop W (kv # kvs) n db = gc_loop W kvs n db" and "dead_keys ?R (kv # kvs) = dead_keys ?R kvs"
      by (simp_all add: kv GetRefCount_card [OF Cons.prems(1)] dead_keys_def)
    with Cons.IH [OF Cons.prems(1), of n] Cons.prems(2) show ?thesis by simp
  next
    case True
    obtain db1 where db1: "db_delete W db (casKey cid) = Inr db1"
      using Cons.prems(1) healthy_ops(2) [of W db] by (auto simp: ref_inv_def)
    note d = delete_object [OF Cons.prems(1) db1]
    have step: "gc_loop W (kv # kvs) n db = gc_loop W kvs (Suc n) db1" "dead_keys ?R (kv # kvs) = casKey cid # dead_keys ?R kvs"
      using True db1 by (simp_all add: kv GetRefCount_card [OF Cons.prems(1)] dead_keys_def)
    have R: "ref_files W cont db1 = ?R" and inv: "ref_inv W cont db1" using d by auto
    from Cons.IH [OF inv, of "Suc n"] Cons.prems(2) obtain db' where
      g: "gc_loop W kvs (Suc n) db1 = ((None, Suc n + length (dead_keys ?R kvs)), db')"
        "ref_inv W cont db'" "ref_files W cont db' = ?R" "cont db' = cont db1 |` (- set (dead_keys ?R kvs))"
      unfolding R by auto
    have "cont db' = cont db |` (- set (dead_keys ?R (kv # kvs)))"
      unfolding g(4) step(2) using d by (auto simp: restrict_map_def)
    with g step show ?thesis by simp
  qed
qed

lemma object_keys:
  assumes "pebble_laws W cont" and "newPrefixIter W db PrefixCAS = Inr (kvs, None)"
  shows "set (map fst kvs) = casKey ` {cid. cont db (casKey cid) \<noteq> None \<and> (cid = [] \<or> hd cid < 0xFF)}"
    and "distinct (map fst kvs)"
proof -
  note ks = iter_content [OF assms(1) assms(2) [unfolded newPrefixIter_def]]
  from ks show "distinct (map fst kvs)" by (blast intro: sorted_keys_distinct)
  have "set (map fst kvs) = {k. in_bounds PrefixCAS (prefix_upper PrefixCAS) k \<and> cont db k \<noteq> None}"
    unfolding set_map ks [THEN conjunct2] by force
  then show "set (map fst kvs) = casKey ` {cid. cont db (casKey cid) \<noteq> None \<and> (cid = [] \<or> hd cid < 0xFF)}"
    unfolding in_bounds_prefix casKey_def image_def by auto
qed

lemma dead_keys_garbage:
  assumes "pebble_laws W cont" and "newPrefixIter W db PrefixCAS = Inr (kvs, None)"
  shows "set (dead_keys (ref_files W cont db) kvs) = casKey ` garbage W cont db"
    and "length (dead_keys (ref_files W cont db) kvs) = card (garbage W cont db)"
proof -
  let ?ks = "dead_keys (ref_files W cont db) kvs"
  show dead: "set ?ks = casKey ` garbage W cont db"
    unfolding dead_keys_def set_filter object_keys(1) [OF assms] garbage_def by auto
  have "distinct ?ks" unfolding dead_keys_def by (rule distinct_filter) (rule object_keys(2) [OF assms])
  then have "length ?ks = card (casKey ` garbage W cont db)" unfolding dead [symmetric] by (simp add: distinct_card)
  also have "\<dots> = card (garbage W cont db)" by (rule card_image) (simp add: inj_on_def key_prefixes)
  finally show "length ?ks = card (garbage W cont db)" .
qed

lemma GarbageCollect_ok:
  assumes "ref_inv W cont db"
  shows "\<exists>db'. GarbageCollect W db = ((None, card (garbage W cont db)), db')
    \<and> ref_inv W cont db' \<and> ref_files W cont db' = ref_files W cont db
    \<and> cont db' = cont db |` (- casKey ` garbage W cont db)"
proof -
  have P: "pebble_laws W cont" using assms by (simp add: ref_inv_def world_laws_def)
  obtain kvs where it: "newPrefixIter W db PrefixCAS = Inr (kvs, None)"
    using assms healthy_ops(3) [of W db] unfolding ref_inv_def newPrefixIter_def by blast
  have "\<forall>k \<in> set (map fst kvs). \<exists>cid. k = casKey cid" unfolding object_keys(1) [OF P it] by blast
  from gc_loop_ok [OF assms this, of 0] show ?thesis
    unfolding dead_keys_garbage [OF P it] by (auto simp: GarbageCollect_def it)
qed


section \<open>Histories\<close>

primrec ref_step :: "'db world \<Rightarrow> (byte list, byte list) ref_op \<Rightarrow> 'db \<Rightarrow> 'db" where
  "ref_step W (AddRef c f) db = snd (AddReference W c f db)"
| "ref_step W (RemoveRef c f) db = snd (RemoveReference W c f db)"

lemma ref_step_apply_op: "ref_step W = rs.apply_op W"
proof (intro ext)
  fix op db show "ref_step W op db = rs.apply_op W op db" by (cases op) (auto simp: rs.apply_op.simps)
qed

text \<open>
  C20: after any sequence of additions and removals of references the count of an object is the
  number of different files that were added and not removed since.
\<close>

theorem reference_history:
  assumes "ref_inv W cont db" and "list_all (op_valid (\<lambda>c f. valid_text W c \<and> valid_text W f)) ops"
  shows "GetRefCount W (fold (ref_step W) ops db) cid = Inr (int (card (fold op_sets ops (ref_files W cont db) cid)))"
  using rs.history [OF assms] GetRefCount_card [of W cont] by (simp add: ref_step_apply_op)

theorem reference_history_witness:
  "GetRefCount mem_world (fold (ref_step mem_world)
     [AddRef [1] [7], AddRef [1] [8], AddRef [1] [7], AddRef [2] [7], RemoveRef [1] [7]] []) [1] = Inr 1"
proof -
  have "ref_inv mem_world map_of []" by (simp add: ref_inv_def mem_world_laws mem_healthy refs_ok_def)
  moreover have "\<And>t. valid_text mem_world t = (0xFF \<notin> set t)" by (simp add: mem_world_def)
  ultimately show ?thesis
    using reference_history [of mem_world map_of "[]"
      "[AddRef [1] [7], AddRef [1] [8], AddRef [1] [7], AddRef [2] [7], RemoveRef [1] [7]]" "[1]"]
    by (simp add: ref_files_def insert_Diff_if)
qed

text \<open>
  C21: a collection after any sequence of reference changes succeeds, reports how many objects it
  deleted, and deletes an object exactly when no file refers to it any more (and its identifier
  does not start with the byte 255, which the iterator's upper bound leaves out); everything else
  in the database stays.
\<close>

theorem collect_after_history:
  assumes "ref_inv W cont db" and "list_all (op_valid (\<lambda>c f. valid_text W c \<and> valid_text W f)) ops"
    and "fold (ref_step W) ops db = db1"
  shows "\<exists>db2. GarbageCollect W db1 = ((None, card (garbage W cont db1)), db2)
    \<and> garbage W cont db1 =
        {cid. cont db1 (casKey cid) \<noteq> None \<and> (cid = [] \<or> hd cid < 0xFF) \<and> fold op_sets ops (ref_files W cont db) cid = {}}
    \<and> cont db2 = cont db1 |` (- casKey ` garbage W cont db1)"
proof -
  have h: "ref_inv W cont db1" "ref_files W cont db1 = fold op_sets ops (ref_files W cont db)"
    using rs.history [OF assms(1,2)] assms(3) by (auto simp: ref_step_apply_op)
  from GarbageCollect_ok [OF h(1)] show ?thesis unfolding garbage_def h(2) by blast
qed

theorem collect_after_history_witness:
  "\<exists>db2. GarbageCollect mem_world (fold (ref_step mem_world) [AddRef [2] [7]] [(casKey [1], []), (casKey [2], [])]) = ((None, 1), db2)
     \<and> map_of db2 (casKey [1]) = None \<and> map_of db2 (casKey [2]) = Some []"
proof -
  let ?db = "[(casKey [1], []), (casKey [2], [])]"
  let ?db1 = "fold (ref_step mem_world) [AddRef [2] [7]] ?db"
  have inv: "ref_inv mem_world map_of ?db"
    by (simp add: ref_inv_def mem_world_laws mem_healthy refs_ok_def key_prefixes)
  have "\<And>t. valid_text mem_world t = (0xFF \<notin> set t)" by (simp add: mem_world_def)
  then have v: "list_all (op_valid (\<lambda>c f. valid_text mem_world c \<and> valid_text mem_world f)) [AddRef [2] [7]]" by simp
  have db1: "?db1 = (refKey [2], mem_ref_json \<lparr>rc_CID = [2], rc_Refs = 1, rc_Files = [[7]]\<rparr>) # ?db"
    by (simp add: AddReference_def mem_world_def store_ref_def key_prefixes)
  have "ref_files mem_world map_of ?db = (\<lambda>c. {})" by (simp add: ref_files_def fun_eq_iff key_prefixes)
  then have g: "{cid. map_of ?db1 (casKey cid) \<noteq> None \<and> (cid = [] \<or> hd cid < 0xFF)
      \<and> fold op_sets [AddRef [2] [7]] (ref_files mem_world map_of ?db) cid = {}} = {[1]}"
    unfolding db1 by (auto simp: key_prefixes split: if_splits)
  from collect_after_history [OF inv v refl] obtain db2 where
    gc: "GarbageCollect mem_world ?db1 = ((None, card {[1 :: byte]}), db2)" and
    c: "map_of db2 = map_of ?db1 |` (- casKey ` {[1]})"
    unfolding g by metis
  have "map_of db2 (casKey [1]) = None" "map_of db2 (casKey [2]) = Some []"
    unfolding c db1 by (simp_all add: key_prefixes)
  with gc show ?thesis by simp
qed


section \<open>Statistics\<close>

lemma stats_refs_ok:
  assumes "\<forall>kv \<in> set kvs. \<exists>cid rc. fst kv = refKey cid \<and> ref_parse W (snd kv) = Inr rc \<and> ref_ok W cid rc"
  shows "\<exists>n. stats_refs W kvs (cids, m, fs) =
    Inr (cids \<union> {cid. refKey cid \<in> fst ` set kvs}, n, fs \<union> (\<Union>(k, v) \<in> set kvs. case ref_parse W v of Inl e \<Rightarrow> {} | Inr rc \<Rightarrow> set (rc_Files rc)))"
  using assms
proof (induction kvs arbitrary: cids m fs)
  case (Cons kv kvs)
  then obtain k v cid rc where kv: "kv = (k, v)" "k = refKey cid" "ref_parse W v = Inr rc" "ref_ok W cid rc" by (cases kv) auto
  then have "rc_CID rc = cid" "0 < rc_Refs rc" by (auto simp: ref_ok_def)
  moreover have "insert cid cids \<union> {c. refKey c \<in> fst ` set kvs} = cids \<union> {c. refKey c \<in> fst ` set (kv # kvs)}"
    using kv by (auto simp: key_prefixes)
  ultimately show ?case
    using Cons.IH [of "insert cid cids" "m + rc_Refs rc" "fs \<union> set (rc_Files rc)"] Cons.prems kv by (auto simp: Un_assoc)
qed auto

text \<open>The reference keys an iterator visits are those of the objects with files.\<close>

lemma reference_keys:
  assumes "ref_inv W cont db" and "newPrefixIter W db metaRefPrefix = Inr (kvs, None)"
  shows "\<forall>kv \<in> set kvs. \<exists>cid rc. fst kv = refKey cid \<and> ref_parse W (snd kv) = Inr rc \<and> ref_ok W cid rc"
    and "{cid. refKey cid \<in> fst ` set kvs} = {cid. ref_files W cont db cid \<noteq> {}}"
    and "(\<Union>(k, v) \<in> set kvs. case ref_parse W v of Inl e \<Rightarrow> {} | Inr rc \<Rightarrow> set (rc_Files rc)) = (\<Union>cid. ref_files W cont db cid)"
proof -
  have P: "pebble_laws W cont" and C: "codec_laws W" and ok: "refs_ok W cont db"
    using assms(1) by (auto simp: ref_inv_def world_laws_def)
  have kvs: "(k, v) \<in> set kvs \<longleftrightarrow> (\<exists>cid. k = refKey cid \<and> cont db k = Some v)" for k v
  proof -
    have "hd cid < 0xFF" if "cont db (refKey cid) = Some v" "cid \<noteq> []" for cid
    proof -
      from that ok have "valid_text W cid" unfolding refs_ok_def ref_ok_def by blast
      with text_laws(2) [OF C] that(2) have "hd cid \<noteq> 0xFF" by (metis hd_in_set)
      then show ?thesis by (simp add: byte_less_max)
    qed
    then show ?thesis
      using iter_content [OF P assms(2) [unfolded newPrefixIter_def]] unfolding in_bounds_prefix refKey_def by auto
  qed
  show "\<forall>kv \<in> set kvs. \<exists>cid rc. fst kv = refKey cid \<and> ref_parse W (snd kv) = Inr rc \<and> ref_ok W cid rc"
    using kvs ok unfolding refs_ok_def by force
  have files: "ref_files W cont db cid \<noteq> {} \<longleftrightarrow> cont db (refKey cid) \<noteq> None" for cid
    using ok by (fastforce simp: ref_files_def refs_ok_def ref_ok_def split: option.splits sum.splits)
  show "{cid. refKey cid \<in> fst ` set kvs} = {cid. ref_files W cont db cid \<noteq> {}}"
    unfolding files using kvs by (force simp: image_iff key_prefixes)
  show "(\<Union>(k, v) \<in> set kvs. case ref_parse W v of Inl e \<Rightarrow> {} | Inr rc \<Rightarrow> set (rc_Files rc)) = (\<Union>cid. ref_files W cont db cid)"
    using kvs by (force simp: ref_files_def split: option.splits)
qed

text \<open>
  The statistics agree with the other operations: the objects reported as unreferenced are as many
  as a collection deletes, and the files counted are those that refer to some object.
\<close>

theorem stats_agree:
  assumes "ref_inv W cont db"
  shows "\<exists>st. GetStats W db = Inr st \<and> fst (GarbageCollect W db) = (None, UnreferencedObjs st)
    \<and> UniqueFiles st = card (\<Union>cid. ref_files W cont db cid)"
proof -
  have P: "pebble_laws W cont" using assms by (simp add: ref_inv_def world_laws_def)
  have H: "healthy W" using assms by (simp add: ref_inv_def)
  obtain rkvs where r: "newPrefixIter W db metaRefPrefix = Inr (rkvs, None)" using healthy_ops(3) [OF H] unfolding newPrefixIter_def by blast
  obtain ckvs where c: "newPrefixIter W db PrefixCAS = Inr (ckvs, None)" using healthy_ops(3) [OF H] unfolding newPrefixIter_def by blast
  note rk = reference_keys [OF assms r]
  from stats_refs_ok [OF rk(1), of "{}" 0 "{}"] obtain n where
    s: "stats_refs W rkvs ({}, 0, {}) = Inr ({cid. ref_files W cont db cid \<noteq> {}}, n, \<Union>cid. ref_files W cont db cid)"
    unfolding rk(2,3) by auto
  have "length (filter (\<lambda>(k, v). stripPrefix k PrefixCAS \<notin> {cid. ref_files W cont db cid \<noteq> {}}) ckvs) = length (dead_keys (ref_files W cont db) ckvs)"
    by (simp add: dead_keys_def filter_map comp_def case_prod_unfold)
  with dead_keys_garbage(2) [OF P c] GarbageCollect_ok [OF assms] r c s show ?thesis
    by (auto simp: GetStats_def)
qed

theorem stats_agree_witness:
  "\<exists>st. GetStats mem_world [(casKey [1], [])] = Inr st \<and> fst (GarbageCollect mem_world [(casKey [1], [])]) = (None, UnreferencedObjs st)
     \<and> UniqueFiles st = 0"
proof -
  let ?db = "[(casKey [1], [])]"
  have "ref_inv mem_world map_of ?db" by (simp add: ref_inv_def mem_world_laws mem_healthy refs_ok_def key_prefixes)
  moreover have "(\<Union>cid. ref_files mem_world map_of ?db cid) = {}" by (simp add: ref_files_def key_prefixes)
  ultimately show ?thesis using stats_agree by fastforce
qed

end
