(* ===== verification/Recorder.thy ===== *)
theory Recorder
  imports Cas
begin

text \<open>
  \<open>src/pkg/recorder\<close>: the journal of raw events under \<open>l:\<close> and the processor that turns each of them
  into a stored object and a metadata record under \<open>m:\<close>.  The clock and the random key suffix are
  arguments.  \<open>recorded\<close> is the interleaving of the event logger, the processor (which works on the
  keys of the iterator it opened), restarts and ends within an entry, with any of their database operations failing.  \<open>db_set\<close> gives
  what a write makes visible at once; which writes a crash can undo is in \<open>Durability\<close>.

  Shown here: the invariant of the recorder, and that a pass of the processor over a database that does not fail empties
  the journal.
\<close>

section \<open>Keys with time\<close>

text \<open>\<open>fmt\<close>'s \<open>%020d\<close>.\<close>

definition pad :: "nat \<Rightarrow> string \<Rightarrow> string" where
  "pad n s = replicate (n - length s) CHR ''0'' @ s"

definition fmt_020d :: "int \<Rightarrow> string" where
  "fmt_020d i = (if 0 \<le> i then pad 20 (show_nat (nat i)) else CHR ''-'' # pad 19 (show_nat (nat (- i))))"

definition logKey :: "int \<Rightarrow> string \<Rightarrow> byte list" where
  "logKey ts suffix = PrefixLog @ str (fmt_020d ts @ '':'' @ suffix)"

definition metaKey :: "byte list \<Rightarrow> int \<Rightarrow> byte list" where
  "metaKey path ts = PrefixMeta @ path @ str ('':'' @ fmt_020d ts)"


section \<open>The journal\<close>

datatype rec_error =
    NoDatabase
  | MarshalEntry string
  | GenerateKey string
  | CommitEntry pebble_error
  | ProcessorUnset
  | DecodeEntry string
  | StoreChunk cas_error
  | MarshalMeta string
  | WriteMeta pebble_error
  | DeleteJournal pebble_error

text \<open>\<open>buf\<close> is what \<open>rand.Read\<close> gave for the eight bytes of the suffix.\<close>

definition randomSuffix :: "string + byte list \<Rightarrow> string + string" where
  "randomSuffix buf = (case buf of Inl e \<Rightarrow> Inl e | Inr bs \<Rightarrow> Inr (hex_encode bs))"

definition log_entry ::
  "'db world \<Rightarrow> string + byte list \<Rightarrow> JournalEntry \<Rightarrow> 'db \<Rightarrow> (rec_error + unit) \<times> 'db" where
  "log_entry W buf entry db =
     (case entry_json W entry of
        Inl e \<Rightarrow> (Inl (MarshalEntry e), db)
      | Inr payload \<Rightarrow>
          (case randomSuffix buf of
             Inl e \<Rightarrow> (Inl (GenerateKey e), db)
           | Inr keySuffix \<Rightarrow>
               (case db_set W db (logKey (je_Timestamp entry) keySuffix) payload of
                  Inl e \<Rightarrow> (Inl (CommitEntry e), db)
                | Inr db' \<Rightarrow> (Inr (), db'))))"

definition logEventWithOp ::
  "'db world \<Rightarrow> int \<Rightarrow> string + byte list \<Rightarrow> byte list \<Rightarrow> byte list \<Rightarrow> byte list \<Rightarrow> 'db option
   \<Rightarrow> (rec_error + unit) \<times> 'db option" where
  "logEventWithOp W now buf op path data dbo =
     (case dbo of
        None \<Rightarrow> (Inl NoDatabase, None)
      | Some db \<Rightarrow>
          apsnd Some (log_entry W buf \<lparr>je_Timestamp = now, je_Path = path, je_Op = op, je_Data = data\<rparr> db))"

definition LogEvent ::
  "'db world \<Rightarrow> int \<Rightarrow> string + byte list \<Rightarrow> byte list \<Rightarrow> byte list \<Rightarrow> 'db option \<Rightarrow> (rec_error + unit) \<times> 'db option" where
  "LogEvent W now buf path data dbo = logEventWithOp W now buf (str ''write'') path data dbo"


section \<open>The processor\<close>

text \<open>The record made of an entry.\<close>

definition metadata_of :: "JournalEntry \<Rightarrow> byte list \<Rightarrow> MetadataRecord" where
  "metadata_of entry cid =
     \<lparr>md_Path = je_Path entry, md_Timestamp = je_Timestamp entry, md_CID = cid, md_Size = length (je_Data entry),
      md_Op = (if je_Op entry = [] then str ''write'' else je_Op entry)\<rparr>"

definition process_entry :: "'db world \<Rightarrow> byte list \<Rightarrow> byte list \<Rightarrow> 'db \<Rightarrow> (rec_error + unit) \<times> 'db" where
  "process_entry W key payload db =
     (case entry_parse W payload of
        Inl e \<Rightarrow> (Inl (DecodeEntry e), db)
      | Inr entry \<Rightarrow>
          (case PutChunkWithHash W (sha256 W (je_Data entry)) (je_Data entry) db of
             (Inl e, db1) \<Rightarrow> (Inl (StoreChunk e), db1)
           | (Inr (cid, n), db1) \<Rightarrow>
               (case meta_json W (metadata_of entry cid) of
                  Inl e \<Rightarrow> (Inl (MarshalMeta e), db1)
                | Inr metaBytes \<Rightarrow>
                    (case db_set W db1 (metaKey (je_Path entry) (je_Timestamp entry)) metaBytes of
                       Inl e \<Rightarrow> (Inl (WriteMeta e), db1)
                     | Inr db2 \<Rightarrow>
                         (case db_delete W db2 key of
                            Inl e \<Rightarrow> (Inl (DeleteJournal e), db2)
                          | Inr db3 \<Rightarrow> (Inr (), db3))))))"

text \<open>The databases after each of its writes, for a process that ends in between.\<close>

definition process_writes :: "'db world \<Rightarrow> byte list \<Rightarrow> byte list \<Rightarrow> 'db \<Rightarrow> 'db list" where
  "process_writes W key payload db =
     (case entry_parse W payload of
        Inl e \<Rightarrow> []
      | Inr entry \<Rightarrow>
          (case PutChunkWithHash W (sha256 W (je_Data entry)) (je_Data entry) db of
             (Inl e, db1) \<Rightarrow> [db1]
           | (Inr (cid, n), db1) \<Rightarrow> db1 #
               (case meta_json W (metadata_of entry cid) of
                  Inl e \<Rightarrow> []
                | Inr metaBytes \<Rightarrow>
                    (case db_set W db1 (metaKey (je_Path entry) (je_Timestamp entry)) metaBytes of
                       Inl e \<Rightarrow> []
                     | Inr db2 \<Rightarrow> db2 # (case db_delete W db2 key of Inl e \<Rightarrow> [] | Inr db3 \<Rightarrow> [db3])))))"

text \<open>\<open>has_store\<close> says whether there is a store; it writes to the same database.\<close>

definition processJournalEntry ::
  "'db world \<Rightarrow> bool \<Rightarrow> byte list \<Rightarrow> byte list \<Rightarrow> 'db option \<Rightarrow> (rec_error + unit) \<times> 'db option" where
  "processJournalEntry W has_store key payload dbo =
     (case dbo of
        None \<Rightarrow> (Inl ProcessorUnset, None)
      | Some db \<Rightarrow> if has_store then apsnd Some (process_entry W key payload db) else (Inl ProcessorUnset, Some db))"

text \<open>
  One round of \<open>processorLoop\<close>: the entries of an iterator in its order, whatever becomes of each.
  The flag is \<open>processed\<close>.
\<close>

definition process_all :: "'db world \<Rightarrow> (byte list \<times> byte list) list \<Rightarrow> 'db \<Rightarrow> 'db" where
  "process_all W kvs db = fold (\<lambda>(k, v) db. snd (process_entry W k v db)) kvs db"

definition processor_pass :: "'db world \<Rightarrow> 'db \<Rightarrow> bool \<times> 'db" where
  "processor_pass W db =
     (case newPrefixIter W db PrefixLog of
        Inl e \<Rightarrow> (False, db)
      | Inr (kvs, err) \<Rightarrow> (kvs \<noteq> [], process_all W kvs db))"


section \<open>The session start\<close>

definition sessionMetaKey :: "byte list" where
  "sessionMetaKey = PrefixMeta @ str ''session:start''"

definition recordSessionStart :: "'db world \<Rightarrow> int \<Rightarrow> 'db option \<Rightarrow> 'db option" where
  "recordSessionStart W start dbo =
     (case dbo of
        None \<Rightarrow> None
      | Some db \<Rightarrow>
          (case db_get W db sessionMetaKey of
             Inr v \<Rightarrow> Some db
           | Inl e \<Rightarrow>
               (case db_set W db sessionMetaKey (str (fmt_020d start)) of
                  Inl e \<Rightarrow> Some db
                | Inr db' \<Rightarrow> Some db')))"


section \<open>Interleavings\<close>

text \<open>
  \<open>recorded W cont db0 hist db it\<close>: from \<open>db0\<close> the recorder reached the database \<open>db\<close>, the events
  \<open>hist\<close> were logged without an error, and the processor has the keys \<open>it\<close> of its iterator before
  it.  \<open>restart\<close> and \<open>stop\<close> end the process between and within entries.  A journal key is new when it is written: its suffix is 64 random bits.
\<close>

inductive recorded ::
  "'db world \<Rightarrow> ('db \<Rightarrow> byte list \<rightharpoonup> byte list) \<Rightarrow> 'db \<Rightarrow> JournalEntry list \<Rightarrow> 'db \<Rightarrow> (byte list \<times> byte list) list \<Rightarrow> bool"
  for W :: "'db world" and cont :: "'db \<Rightarrow> byte list \<rightharpoonup> byte list" and db0 :: 'db where
  start: "recorded W cont db0 [] db0 []"
| log: "recorded W cont db0 hist db it \<Longrightarrow> logEventWithOp W now buf op path data (Some db) = (Inr (), Some db') \<Longrightarrow>
    (\<And>bs. buf = Inr bs \<Longrightarrow> cont db (logKey now (hex_encode bs)) = None) \<Longrightarrow>
    recorded W cont db0 (\<lparr>je_Timestamp = now, je_Path = path, je_Op = op, je_Data = data\<rparr> # hist) db' it"
| log_failed: "recorded W cont db0 hist db it \<Longrightarrow> logEventWithOp W now buf op path data (Some db) = (Inl e, Some db') \<Longrightarrow>
    recorded W cont db0 hist db' it"
| session: "recorded W cont db0 hist db it \<Longrightarrow> recordSessionStart W now (Some db) = Some db' \<Longrightarrow>
    recorded W cont db0 hist db' it"
| open_iter: "recorded W cont db0 hist db [] \<Longrightarrow> newPrefixIter W db PrefixLog = Inr (kvs, err) \<Longrightarrow>
    recorded W cont db0 hist db kvs"
| work: "recorded W cont db0 hist db ((k, v) # it) \<Longrightarrow> processJournalEntry W True k v (Some db) = (r, Some db') \<Longrightarrow>
    recorded W cont db0 hist db' it"
| restart: "recorded W cont db0 hist db it \<Longrightarrow> recorded W cont db0 hist db []"
| stop: "recorded W cont db0 hist db ((k, v) # it) \<Longrightarrow> db' \<in> set (process_writes W k v db) \<Longrightarrow> recorded W cont db0 hist db' []"


section \<open>Keys: results\<close>

lemma length_show_nat: "n < 10 ^ k \<Longrightarrow> 0 < k \<Longrightarrow> length (show_nat n) \<le> k"
proof (induction n arbitrary: k rule: show_nat.induct)
  case (1 n)
  show ?case
  proof (cases "n < 10")
    case True
    with "1.prems" show ?thesis by (simp add: show_nat.simps)
  next
    case False
    then obtain j where j: "k = Suc j" "0 < j" using "1.prems" by (cases k; cases "k - 1") auto
    with "1.prems" have "n div 10 < 10 ^ j" by (simp add: less_mult_imp_div_less mult.commute)
    with "1.IH" [OF False this j(2)] False j show ?thesis by (simp add: show_nat.simps [of n])
  qed
qed

definition clock_ok :: "int \<Rightarrow> bool" where
  "clock_ok ts \<longleftrightarrow> 0 \<le> ts \<and> ts < 2 ^ 63"

lemma length_fmt_020d: "clock_ok ts \<Longrightarrow> length (fmt_020d ts) = 20"
proof -
  assume "clock_ok ts"
  then have "nat ts < 10 ^ 20" and "0 \<le> ts" by (auto simp: clock_ok_def)
  with length_show_nat [of "nat ts" 20] show ?thesis by (simp add: fmt_020d_def pad_def)
qed

lemma foldl_zeros: "foldl read_digit 0 (replicate k CHR ''0'') = 0"
  by (induction k) (auto simp: read_digit_def)

lemma fmt_020d_inject: "clock_ok s \<Longrightarrow> clock_ok t \<Longrightarrow> fmt_020d s = fmt_020d t \<longleftrightarrow> s = t"
proof -
  assume "clock_ok s" "clock_ok t"
  then have "0 \<le> s" "0 \<le> t" by (auto simp: clock_ok_def)
  then have "foldl read_digit 0 (fmt_020d s) = nat s" "foldl read_digit 0 (fmt_020d t) = nat t"
    by (simp_all add: fmt_020d_def pad_def foldl_zeros foldl_show_nat)
  with \<open>0 \<le> s\<close> \<open>0 \<le> t\<close> show ?thesis by (metis nat_eq_iff2)
qed

lemma length_str [simp]: "length (str s) = length s"
  by (simp add: str_def)

lemma str_append: "str (s @ t) = str s @ str t"
  by (simp add: str_def)

lemma ascii_str: "list_all (\<lambda>c. of_char c < (128 :: nat)) s \<Longrightarrow> list_all (\<lambda>b. b < 0x80) (str s)"
  by (auto simp: str_def list_all_iff word_less_nat_alt unat_small)

lemma ascii_show_nat: "list_all (\<lambda>c. of_char c < (128 :: nat)) (show_nat n)"
proof (induction n rule: show_nat.induct)
  case (1 n)
  then show ?case by (subst show_nat.simps) (auto simp: digit_def)
qed

lemma ascii_fmt: "list_all (\<lambda>b. b < 0x80) (str (fmt_020d ts))"
  by (rule ascii_str) (use ascii_show_nat in \<open>auto simp: fmt_020d_def pad_def list_all_iff\<close>)

lemma ascii_hex: "list_all (\<lambda>b. b < 0x80) (str (hex_encode h))"
proof (rule ascii_str)
  have "of_char (hex_digit d) < (128 :: nat)" if "d < 16" for d
    using that by (auto simp: hex_digit_def word_less_nat_alt)
  with nibbles show "list_all (\<lambda>c. of_char c < (128 :: nat)) (hex_encode h)" by (auto simp: hex_encode_def list_all_iff)
qed

lemma fmt_020d_start: "clock_ok ts \<Longrightarrow> str (fmt_020d ts @ x) \<noteq> [] \<and> hd (str (fmt_020d ts @ x)) < 0xFF"
proof -
  assume "clock_ok ts"
  then obtain b bs where b: "str (fmt_020d ts) = b # bs"
    using length_fmt_020d [of ts] by (cases "str (fmt_020d ts)") (auto simp flip: length_str)
  with ascii_fmt [of ts] have "b < 0x80" by simp
  then have "b < 0xFF" by (rule order_less_trans) simp
  with b show ?thesis by (simp add: str_append)
qed

lemma metaKey_inject:
  "clock_ok s \<Longrightarrow> clock_ok t \<Longrightarrow> metaKey p s = metaKey q t \<longleftrightarrow> p = q \<and> s = t"
  by (auto simp: metaKey_def length_fmt_020d fmt_020d_inject)

lemma metaKey_not_session: "clock_ok ts \<Longrightarrow> metaKey p ts \<noteq> sessionMetaKey"
proof
  assume "clock_ok ts" and "metaKey p ts = sessionMetaKey"
  then have "length (metaKey p ts) = length sessionMetaKey" by simp
  with \<open>clock_ok ts\<close> show False by (simp add: metaKey_def sessionMetaKey_def length_fmt_020d)
qed

lemma key_spaces:
  "PrefixLog @ s \<noteq> PrefixMeta @ t" "PrefixMeta @ t \<noteq> PrefixLog @ s"
  "PrefixLog @ s \<noteq> casKey c" "casKey c \<noteq> PrefixLog @ s" "PrefixMeta @ t \<noteq> casKey c" "casKey c \<noteq> PrefixMeta @ t"
  by (auto simp: PrefixLog_def PrefixMeta_def casKey_def PrefixCAS_def str_def)

lemma key_shapes:
  "\<exists>s. logKey ts x = PrefixLog @ s" "\<exists>s. metaKey p ts = PrefixMeta @ s" "\<exists>s. sessionMetaKey = PrefixMeta @ s"
  by (auto simp: logKey_def metaKey_def sessionMetaKey_def)

lemma key_disjoint [simp]:
  "logKey ts x \<noteq> metaKey p t" "metaKey p t \<noteq> logKey ts x" "logKey ts x \<noteq> sessionMetaKey" "sessionMetaKey \<noteq> logKey ts x"
  "logKey ts x \<noteq> casKey c" "casKey c \<noteq> logKey ts x" "metaKey p t \<noteq> casKey c" "casKey c \<noteq> metaKey p t"
  "sessionMetaKey \<noteq> casKey c" "casKey c \<noteq> sessionMetaKey"
  "PrefixLog @ s \<noteq> metaKey p t" "metaKey p t \<noteq> PrefixLog @ s" "PrefixLog @ s \<noteq> sessionMetaKey" "sessionMetaKey \<noteq> PrefixLog @ s"
  "PrefixMeta @ s \<noteq> logKey ts x" "logKey ts x \<noteq> PrefixMeta @ s"
  by (auto simp: logKey_def metaKey_def sessionMetaKey_def key_spaces)


section \<open>The invariant\<close>

definition cid_of :: "'db world \<Rightarrow> JournalEntry \<Rightarrow> byte list" where
  "cid_of W e = str (hex_encode (sha256 W (je_Data e)))"

definition entry_ok :: "'db world \<Rightarrow> JournalEntry \<Rightarrow> bool" where
  "entry_ok W e \<longleftrightarrow> valid_text W (je_Path e) \<and> valid_text W (je_Op e) \<and> clock_ok (je_Timestamp e)"

definition entryKey :: "JournalEntry \<Rightarrow> byte list" where
  "entryKey e = metaKey (je_Path e) (je_Timestamp e)"

lemma entryKey_disjoint [simp]:
  "entryKey e \<noteq> casKey c" "casKey c \<noteq> entryKey e" "entryKey e \<noteq> PrefixLog @ s" "PrefixLog @ s \<noteq> entryKey e"
  "entryKey e \<noteq> logKey t x" "logKey t x \<noteq> entryKey e"
  by (simp_all add: entryKey_def)

definition in_journal :: "'db world \<Rightarrow> ('db \<Rightarrow> byte list \<rightharpoonup> byte list) \<Rightarrow> 'db \<Rightarrow> JournalEntry \<Rightarrow> bool" where
  "in_journal W cont db e \<longleftrightarrow> (\<exists>s v. cont db (PrefixLog @ s) = Some v \<and> entry_parse W v = Inr e)"

text \<open>The metadata value \<open>v\<close> is the record of \<open>e\<close>, and its object is in the store.\<close>

definition records :: "'db world \<Rightarrow> ('db \<Rightarrow> byte list \<rightharpoonup> byte list) \<Rightarrow> 'db \<Rightarrow> byte list \<Rightarrow> JournalEntry \<Rightarrow> bool" where
  "records W cont db v e \<longleftrightarrow>
     meta_parse W v = Inr (metadata_of e (cid_of W e)) \<and> cont db (casKey (cid_of W e)) \<noteq> None"

definition journal_ok :: "'db world \<Rightarrow> ('db \<Rightarrow> byte list \<rightharpoonup> byte list) \<Rightarrow> JournalEntry list \<Rightarrow> 'db \<Rightarrow> bool" where
  "journal_ok W cont hist db \<longleftrightarrow>
     (\<forall>s v. cont db (PrefixLog @ s) = Some v \<longrightarrow> s \<noteq> [] \<and> hd s < 0xFF \<and> (\<exists>e \<in> set hist. entry_parse W v = Inr e))"

definition meta_ok :: "'db world \<Rightarrow> ('db \<Rightarrow> byte list \<rightharpoonup> byte list) \<Rightarrow> JournalEntry list \<Rightarrow> 'db \<Rightarrow> bool" where
  "meta_ok W cont hist db \<longleftrightarrow>
     (\<forall>s v. cont db (PrefixMeta @ s) = Some v \<longrightarrow>
        PrefixMeta @ s = sessionMetaKey \<or> (\<exists>e \<in> set hist. PrefixMeta @ s = entryKey e \<and> records W cont db v e))"

definition iter_ok :: "('db \<Rightarrow> byte list \<rightharpoonup> byte list) \<Rightarrow> 'db \<Rightarrow> (byte list \<times> byte list) list \<Rightarrow> bool" where
  "iter_ok cont db it \<longleftrightarrow>
     distinct (map fst it) \<and> (\<forall>k v. (k, v) \<in> set it \<longrightarrow> (\<exists>s. k = PrefixLog @ s) \<and> cont db k = Some v)"

lemma iter_ok_Cons:
  "iter_ok cont db ((k, v) # it) \<longleftrightarrow>
   (\<exists>s. k = PrefixLog @ s) \<and> cont db k = Some v \<and> (\<forall>w. (k, w) \<notin> set it) \<and> iter_ok cont db it"
  unfolding iter_ok_def by (auto simp: image_iff)

lemma iter_ok_frame:
  "iter_ok cont db it \<Longrightarrow> (\<And>k v. (k, v) \<in> set it \<Longrightarrow> cont db k = Some v \<Longrightarrow> cont db' k = Some v) \<Longrightarrow> iter_ok cont db' it"
  unfolding iter_ok_def by blast

lemma in_journal_frame:
  "in_journal W cont db e \<Longrightarrow> (\<And>s v. cont db (PrefixLog @ s) = Some v \<Longrightarrow> cont db' (PrefixLog @ s) = Some v) \<Longrightarrow>
   in_journal W cont db' e"
  unfolding in_journal_def by blast

definition rec_inv ::
  "'db world \<Rightarrow> ('db \<Rightarrow> byte list \<rightharpoonup> byte list) \<Rightarrow> JournalEntry list \<Rightarrow> 'db \<Rightarrow> (byte list \<times> byte list) list \<Rightarrow> bool" where
  "rec_inv W cont hist db it \<longleftrightarrow>
     cas_ok W cont db \<and> journal_ok W cont hist db \<and> meta_ok W cont hist db \<and> iter_ok cont db it \<and>
     (\<forall>e \<in> set hist. in_journal W cont db e \<or> cont db (entryKey e) \<noteq> None)"

text \<open>What each kind of write does to it.\<close>

lemma inv_put_chunk:
  assumes "world_laws W cont" and "rec_inv W cont hist db it"
    and "PutChunkWithHash W (sha256 W data) data db = (Inr (cid, n), db')"
  shows "rec_inv W cont hist db' it"
proof -
  note r = put_chunk_result [OF assms(1,3)]
  have same: "cont db' (PrefixLog @ s) = cont db (PrefixLog @ s)" "cont db' (PrefixMeta @ s) = cont db (PrefixMeta @ s)"
    "cont db' (entryKey e) = cont db (entryKey e)" for s e
    using r by (auto simp: key_spaces entryKey_def)
  have "records W cont db v e \<Longrightarrow> records W cont db' v e" for v e using r by (auto simp: records_def)
  then have "meta_ok W cont hist db'" using assms(2) same unfolding rec_inv_def meta_ok_def by metis
  moreover have "iter_ok cont db' it" using assms(2) same unfolding rec_inv_def iter_ok_def by fastforce
  moreover have "cas_ok W cont db'" using put_chunk_keeps [OF assms(1) _ assms(3)] assms(2) by (simp add: rec_inv_def)
  ultimately show ?thesis using assms(2) by (simp add: rec_inv_def journal_ok_def in_journal_def same)
qed

lemma inv_set_meta:
  assumes "rec_inv W cont hist db it" and "e \<in> set hist" and "list_all (entry_ok W) hist"
    and "cont db' = (cont db)(entryKey e \<mapsto> v)" and "records W cont db v e"
  shows "rec_inv W cont hist db' it"
proof -
  have same: "cont db' (PrefixLog @ s) = cont db (PrefixLog @ s)" "cont db' (casKey c) = cont db (casKey c)" for s c
    using assms(4) by (auto simp: entryKey_def)
  have "records W cont db' = records W cont db" by (simp add: fun_eq_iff records_def same)
  then have "meta_ok W cont hist db'" using assms(1,2,4,5) by (auto simp: rec_inv_def meta_ok_def)
  moreover have "iter_ok cont db' it" using assms(1) same unfolding rec_inv_def iter_ok_def by fastforce
  moreover have "cont db k \<noteq> None \<Longrightarrow> cont db' k \<noteq> None" for k using assms(4) by simp
  ultimately show ?thesis using assms(1) by (simp add: rec_inv_def journal_ok_def in_journal_def cas_ok_def same) blast
qed

lemma inv_delete_journal:
  assumes "rec_inv W cont hist db ((k, v) # it)" and "entry_parse W v = Inr e" and "cont db (entryKey e) \<noteq> None"
    and "cont db' = (cont db)(k := None)"
  shows "rec_inv W cont hist db' it"
proof -
  obtain t where k: "k = PrefixLog @ t" and v: "cont db k = Some v" and d: "\<And>w. (k, w) \<notin> set it"
    and it: "iter_ok cont db it"
    using assms(1) by (auto simp: rec_inv_def iter_ok_Cons)
  have same: "cont db' (PrefixMeta @ s) = cont db (PrefixMeta @ s)" "cont db' (casKey c) = cont db (casKey c)"
    "cont db' (entryKey f) = cont db (entryKey f)" for s c f
    using assms(4) k by (auto simp: key_spaces)
  have "in_journal W cont db f \<or> cont db (entryKey f) \<noteq> None \<Longrightarrow> in_journal W cont db' f \<or> cont db' (entryKey f) \<noteq> None" for f
  proof (cases "f = e")
    case True
    with assms(3) same(3) show ?thesis by simp
  next
    case False
    assume "in_journal W cont db f \<or> cont db (entryKey f) \<noteq> None"
    moreover have "in_journal W cont db' f" if j: "in_journal W cont db f"
    proof -
      obtain s w where sw: "cont db (PrefixLog @ s) = Some w" "entry_parse W w = Inr f"
        using j by (auto simp: in_journal_def)
      with False assms(2) v have "PrefixLog @ s \<noteq> k" by auto
      with sw assms(4) show ?thesis by (auto simp: in_journal_def)
    qed
    ultimately show ?thesis using same(3) by auto
  qed
  moreover have "iter_ok cont db' it" using it assms(4) d by (auto elim!: iter_ok_frame)
  moreover have "journal_ok W cont hist db'" using assms(1,4) by (auto simp: rec_inv_def journal_ok_def)
  ultimately show ?thesis using assms(1) by (simp add: rec_inv_def meta_ok_def records_def cas_ok_def same)
qed

lemma inv_session:
  assumes "rec_inv W cont hist db it" and "list_all (entry_ok W) hist" and "cont db' = (cont db)(sessionMetaKey \<mapsto> v)"
  shows "rec_inv W cont hist db' it"
proof -
  have same: "cont db' (PrefixLog @ s) = cont db (PrefixLog @ s)" "cont db' (casKey c) = cont db (casKey c)" for s c
    using assms(3) by auto
  have "records W cont db' = records W cont db" by (simp add: fun_eq_iff records_def same)
  then have "meta_ok W cont hist db'" using assms(1,3) by (auto simp: rec_inv_def meta_ok_def)
  moreover have "iter_ok cont db' it" using assms(1) same unfolding rec_inv_def iter_ok_def by fastforce
  moreover have "cont db k \<noteq> None \<Longrightarrow> cont db' k \<noteq> None" for k using assms(3) by simp
  ultimately show ?thesis using assms(1) by (simp add: rec_inv_def journal_ok_def in_journal_def cas_ok_def same) blast
qed

lemma inv_log:
  assumes "world_laws W cont" and "rec_inv W cont hist db it" and "entry_ok W e" and "entry_json W e = Inr v"
    and "cont db (logKey (je_Timestamp e) x) = None" and "cont db' = (cont db)(logKey (je_Timestamp e) x \<mapsto> v)"
  shows "rec_inv W cont (e # hist) db' it"
proof -
  have parse: "entry_parse W v = Inr e" using assms(1,3,4) by (auto simp: world_laws_def entry_ok_def intro: entry_roundtrip)
  have same: "cont db' (PrefixMeta @ s) = cont db (PrefixMeta @ s)" "cont db' (casKey c) = cont db (casKey c)"
    "cont db' (entryKey f) = cont db (entryKey f)" for s c f
    using assms(6) by auto
  have "records W cont db' = records W cont db" by (simp add: fun_eq_iff records_def same)
  then have "meta_ok W cont (e # hist) db'" using assms(2) by (auto simp: rec_inv_def meta_ok_def same)
  moreover have "iter_ok cont db' it"
    using assms(2) unfolding rec_inv_def by (auto elim!: iter_ok_frame simp: assms(5,6))
  moreover have "journal_ok W cont (e # hist) db'"
    using assms(2,3,6) parse fmt_020d_start by (auto simp: rec_inv_def journal_ok_def logKey_def entry_ok_def)
  moreover have "in_journal W cont db' e" using assms(6) parse by (auto simp: in_journal_def logKey_def)
  moreover have "in_journal W cont db f \<Longrightarrow> in_journal W cont db' f" for f
    by (erule in_journal_frame) (use assms(5,6) in auto)
  ultimately show ?thesis using assms(2) by (auto simp: rec_inv_def cas_ok_def same)
qed


section \<open>Steps of the recorder\<close>

lemma inv_skip: "rec_inv W cont hist db (kv # it) \<Longrightarrow> rec_inv W cont hist db it"
  by (cases kv) (simp add: rec_inv_def iter_ok_Cons)

text \<open>The metadata a processed entry gets reads back as its record.\<close>

lemma metadata_reads:
  assumes "codec_laws W" and "entry_ok W e" and "meta_json W (metadata_of e (cid_of W e)) = Inr b"
  shows "meta_parse W b = Inr (metadata_of e (cid_of W e))"
proof -
  have "valid_text W (cid_of W e)" unfolding cid_of_def by (rule text_laws(1) [OF assms(1) ascii_hex])
  moreover have "valid_text W (str ''write'')" by (rule text_laws(1) [OF assms(1)]) (simp add: str_def)
  ultimately show ?thesis
    using assms by (intro meta_roundtrip) (auto simp: metadata_of_def entry_ok_def)
qed

text \<open>How far the work on an entry got.\<close>

definition stored_upto :: "'db world \<Rightarrow> JournalEntry \<Rightarrow> 'db \<Rightarrow> 'db \<Rightarrow> bool" where
  "stored_upto W e db db1 \<longleftrightarrow> (\<exists>cid n. PutChunkWithHash W (sha256 W (je_Data e)) (je_Data e) db = (Inr (cid, n), db1))"

definition described_upto :: "'db world \<Rightarrow> JournalEntry \<Rightarrow> 'db \<Rightarrow> 'db \<Rightarrow> bool" where
  "described_upto W e db1 db2 \<longleftrightarrow> (\<exists>b. meta_json W (metadata_of e (cid_of W e)) = Inr b \<and> db_set W db1 (entryKey e) b = Inr db2)"

lemma process_entry_last: "snd (process_entry W k v db) = last (db # process_writes W k v db)"
  by (auto simp: process_entry_def process_writes_def split: sum.splits prod.splits)

lemma process_entry_within: "process_entry W k v db = (r, db') \<Longrightarrow> db' \<in> set (db # process_writes W k v db)"
  using process_entry_last [of W k v db] last_in_set by (metis list.distinct(1) snd_conv)

lemma process_writes_cases:
  assumes "world_laws W cont" and "entry_parse W v = Inr e" and "db' \<in> set (db # process_writes W k v db)"
  obtains "db' = db"
  | "stored_upto W e db db'"
  | db1 where "stored_upto W e db db1" and "described_upto W e db1 db'"
  | db1 db2 where "stored_upto W e db db1" and "described_upto W e db1 db2" and "db_delete W db2 k = Inr db'"
proof (cases "PutChunkWithHash W (sha256 W (je_Data e)) (je_Data e) db")
  case (Pair q db1)
  show ?thesis
  proof (cases q)
    case (Inl err)
    then have "db' = db" using assms(2,3) Pair put_cid_error [of W _ _ db err db1]
      by (auto simp: process_writes_def PutChunkWithHash_def)
    then show ?thesis by (rule that(1))
  next
    case (Inr cn)
    then obtain cid n where q: "PutChunkWithHash W (sha256 W (je_Data e)) (je_Data e) db = (Inr (cid, n), db1)"
      using Pair by (cases cn) auto
    then have "cid = cid_of W e" using put_chunk_result [OF assms(1) q] by (simp add: cid_of_def)
    with assms(2,3) q have "db' = db \<or> db' = db1 \<or> (\<exists>b db2. meta_json W (metadata_of e (cid_of W e)) = Inr b
        \<and> db_set W db1 (entryKey e) b = Inr db2 \<and> (db' = db2 \<or> db_delete W db2 k = Inr db'))"
      by (auto simp: process_writes_def entryKey_def split: sum.splits) metis+
    with that q show ?thesis unfolding stored_upto_def described_upto_def by blast
  qed
qed

lemma inv_stored_upto:
  "world_laws W cont \<Longrightarrow> rec_inv W cont hist db it \<Longrightarrow> stored_upto W e db db1 \<Longrightarrow>
   rec_inv W cont hist db1 it \<and> cont db1 (casKey (cid_of W e)) \<noteq> None"
  unfolding stored_upto_def cid_of_def using put_chunk_result inv_put_chunk by metis

lemma inv_described_upto:
  assumes "world_laws W cont" and "rec_inv W cont hist db1 it" and "e \<in> set hist" and "list_all (entry_ok W) hist"
    and "cont db1 (casKey (cid_of W e)) \<noteq> None" and "described_upto W e db1 db2"
  shows "rec_inv W cont hist db2 it \<and> cont db2 (entryKey e) \<noteq> None"
proof -
  have P: "pebble_laws W cont" and C: "codec_laws W" using assms(1) by (auto simp: world_laws_def)
  obtain b where b: "meta_json W (metadata_of e (cid_of W e)) = Inr b" and db2: "cont db2 = (cont db1)(entryKey e \<mapsto> b)"
    using assms(6) set_content [OF P] by (auto simp: described_upto_def)
  have "entry_ok W e" using assms(3,4) by (simp add: list_all_iff)
  then have "records W cont db1 b e" using metadata_reads [OF C _ b] assms(5) by (simp add: records_def)
  with inv_set_meta [OF assms(2,3,4) db2] db2 show ?thesis by simp
qed

lemma inv_process_writes:
  assumes L: "world_laws W cont" and ok: "list_all (entry_ok W) hist" and inv: "rec_inv W cont hist db ((k, v) # it)"
    and run: "db' \<in> set (db # process_writes W k v db)"
  shows "rec_inv W cont hist db' it"
proof -
  have P: "pebble_laws W cont" using L by (auto simp: world_laws_def)
  obtain s where "k = PrefixLog @ s" "cont db k = Some v" using inv by (auto simp: rec_inv_def iter_ok_Cons)
  with inv obtain e where e: "e \<in> set hist" "entry_parse W v = Inr e" unfolding rec_inv_def journal_ok_def by blast
  from process_writes_cases [OF L e(2) run] show ?thesis
  proof cases
    case 1
    with inv_skip [OF inv] show ?thesis by simp
  next
    case 2
    with inv_stored_upto [OF L inv] show ?thesis by (blast intro: inv_skip)
  next
    case (3 db1)
    with inv_stored_upto [OF L inv] inv_described_upto [OF L _ e(1) ok] show ?thesis by (blast intro: inv_skip)
  next
    case (4 db1 db2)
    with inv_stored_upto [OF L inv] inv_described_upto [OF L _ e(1) ok]
    have "rec_inv W cont hist db2 ((k, v) # it) \<and> cont db2 (entryKey e) \<noteq> None" by blast
    with inv_delete_journal [OF _ e(2)] delete_content [OF P 4(3)] show ?thesis by blast
  qed
qed

lemma inv_process:
  assumes "world_laws W cont" and "list_all (entry_ok W) hist" and "rec_inv W cont hist db ((k, v) # it)"
    and "process_entry W k v db = (r, db')"
  shows "rec_inv W cont hist db' it"
  by (rule inv_process_writes [OF assms(1-3) process_entry_within [OF assms(4)]])

lemma inv_log_entry:
  assumes "world_laws W cont" and "rec_inv W cont hist db it" and "entry_ok W e"
    and "log_entry W buf e db = (Inr (), db')" and "\<And>bs. buf = Inr bs \<Longrightarrow> cont db (logKey (je_Timestamp e) (hex_encode bs)) = None"
  shows "rec_inv W cont (e # hist) db' it"
proof -
  have P: "pebble_laws W cont" using assms(1) by (simp add: world_laws_def)
  obtain v bs where "entry_json W e = Inr v" "buf = Inr bs" "db_set W db (logKey (je_Timestamp e) (hex_encode bs)) v = Inr db'"
    using assms(4) by (auto simp: log_entry_def randomSuffix_def split: sum.splits)
  with inv_log [OF assms(1-3)] set_content [OF P] assms(5) show ?thesis by blast
qed

lemma log_entry_error: "log_entry W buf e db = (Inl err, db') \<Longrightarrow> db' = db"
  by (auto simp: log_entry_def split: sum.splits)

lemma inv_record_session:
  assumes "world_laws W cont" and "rec_inv W cont hist db it" and "list_all (entry_ok W) hist"
    and "recordSessionStart W now (Some db) = Some db'"
  shows "rec_inv W cont hist db' it"
proof -
  have P: "pebble_laws W cont" using assms(1) by (simp add: world_laws_def)
  have "db' = db \<or> (\<exists>v. cont db' = (cont db)(sessionMetaKey \<mapsto> v))"
    using assms(4) by (auto simp: recordSessionStart_def split: sum.splits dest: set_content [OF P])
  with assms(2) inv_session [OF assms(2,3)] show ?thesis by blast
qed

lemma inv_open:
  assumes "world_laws W cont" and "rec_inv W cont hist db it" and "newPrefixIter W db PrefixLog = Inr (kvs, err)"
  shows "rec_inv W cont hist db kvs"
proof -
  have P: "pebble_laws W cont" using assms(1) by (simp add: world_laws_def)
  note ks = iter_partial [OF P assms(3) [unfolded newPrefixIter_def]]
  then have "iter_ok cont db kvs"
    unfolding iter_ok_def by (auto simp: in_bounds_prefix sorted_keys_distinct)
  with assms(2) show ?thesis by (simp add: rec_inv_def)
qed

lemma apsnd_Some [simp]: "apsnd Some p = (a, Some b) \<longleftrightarrow> p = (a, b)"
  by (cases p) auto

lemma recorded_inv:
  assumes "recorded W cont db0 hist db it" and "world_laws W cont" and "cont db0 = Map.empty" and "list_all (entry_ok W) hist"
  shows "rec_inv W cont hist db it"
  using assms
proof (induction rule: recorded.induct)
  case start
  then show ?case by (simp add: rec_inv_def cas_ok_def journal_ok_def meta_ok_def iter_ok_def)
next
  case (log hist db it now buf op path data db')
  then show ?case using inv_log_entry [OF log.prems(1), of hist db it _ buf db'] by (auto simp: logEventWithOp_def)
next
  case (log_failed hist db it now buf op path data e db')
  then show ?case using log_entry_error by (fastforce simp: logEventWithOp_def)
next
  case (session hist db it now db')
  show ?case by (rule inv_record_session [OF session.prems(1) session.IH [OF session.prems] session.prems(3) session.hyps(2)])
next
  case (open_iter hist db kvs err)
  show ?case by (rule inv_open [OF open_iter.prems(1) open_iter.IH [OF open_iter.prems] open_iter.hyps(2)])
next
  case (work hist db k v it r db')
  then show ?case using inv_process by (fastforce simp: processJournalEntry_def)
next
  case (restart hist db it)
  then show ?case by (simp add: rec_inv_def iter_ok_def)
next
  case (stop hist db k v it db')
  then have "rec_inv W cont hist db' it" using inv_process_writes [of W cont hist db k v it db'] by simp
  then show ?case by (simp add: rec_inv_def iter_ok_def)
qed


section \<open>A pass without failures\<close>

lemma process_entry_healthy:
  assumes L: "world_laws W cont" "healthy W" and e: "entry_parse W v = Inr e"
  shows "\<exists>db'. process_entry W k v db = (Inr (), db') \<and> cont db' k = None
    \<and> (\<forall>s. PrefixLog @ s \<noteq> k \<longrightarrow> cont db' (PrefixLog @ s) = cont db (PrefixLog @ s))"
proof -
  have P: "pebble_laws W cont" using L by (simp add: world_laws_def)
  obtain n db1 where put: "PutChunkWithHash W (sha256 W (je_Data e)) (je_Data e) db = (Inr (cid_of W e, n), db1)"
    unfolding PutChunkWithHash_def cid_of_def using put_cid_healthy [OF L] by blast
  obtain b where b: "meta_json W (metadata_of e (cid_of W e)) = Inr b" using healthy_ops(6) [OF L(2)] by blast
  obtain db2 where db2: "db_set W db1 (metaKey (je_Path e) (je_Timestamp e)) b = Inr db2" using healthy_ops(1) [OF L(2)] by blast
  obtain db3 where db3: "db_delete W db2 k = Inr db3" using healthy_ops(2) [OF L(2)] by blast
  have "cont db1 (PrefixLog @ s) = cont db (PrefixLog @ s)" for s
    using put_chunk_result [OF L(1) put] by (simp add: key_spaces)
  with put b db2 db3 show ?thesis
    by (auto simp: process_entry_def e set_content [OF P db2] delete_content [OF P db3])
qed

lemma process_all_drains:
  assumes "world_laws W cont" and "healthy W" and "list_all (entry_ok W) hist" and "rec_inv W cont hist db it"
    and "\<And>s. cont db (PrefixLog @ s) \<noteq> None \<Longrightarrow> PrefixLog @ s \<in> fst ` set it"
  shows "cont (process_all W it db) (PrefixLog @ s) = None"
  using assms(4,5)
proof (induction it arbitrary: db)
  case Nil
  then have "cont db (PrefixLog @ s) = None" by fastforce
  then show ?case by (simp add: process_all_def)
next
  case (Cons kv it)
  obtain k v where kv: "kv = (k, v)" by fastforce
  have "\<exists>e. entry_parse W v = Inr e"
    using Cons.prems(1) unfolding kv rec_inv_def journal_ok_def iter_ok_Cons by blast
  then obtain db' where run: "process_entry W k v db = (Inr (), db')" and k: "cont db' k = None"
    and other: "\<And>s. PrefixLog @ s \<noteq> k \<Longrightarrow> cont db' (PrefixLog @ s) = cont db (PrefixLog @ s)"
    using process_entry_healthy [OF assms(1,2)] by blast
  have "rec_inv W cont hist db' it" by (rule inv_process [OF assms(1,3) Cons.prems(1) [unfolded kv] run])
  moreover have "PrefixLog @ t \<in> fst ` set it" if t: "cont db' (PrefixLog @ t) \<noteq> None" for t
  proof -
    have "PrefixLog @ t \<noteq> k" using t k by auto
    with t other Cons.prems(2) [of t] show ?thesis by (auto simp: kv)
  qed
  ultimately have "cont (process_all W it db') (PrefixLog @ s) = None" by (rule Cons.IH)
  then show ?case by (simp add: process_all_def kv run)
qed

lemma recorded_process_all:
  "recorded W cont db0 hist db it \<Longrightarrow> recorded W cont db0 hist (process_all W it db) []"
proof (induction it arbitrary: db)
  case Nil
  then show ?case by (simp add: process_all_def)
next
  case (Cons kv it)
  obtain k v where kv: "kv = (k, v)" by fastforce
  have "processJournalEntry W True k v (Some db) = (fst (process_entry W k v db), Some (snd (process_entry W k v db)))"
    by (simp add: processJournalEntry_def)
  from recorded.work [OF Cons.prems [unfolded kv] this] Cons.IH show ?case by (simp add: process_all_def kv)
qed


lemma pass_drained:
  assumes "world_laws W cont" and "healthy W" and "list_all (entry_ok W) hist" and "rec_inv W cont hist db []"
  shows "cont (snd (processor_pass W db)) (PrefixLog @ s) = None"
proof -
  have P: "pebble_laws W cont" using assms(1) by (simp add: world_laws_def)
  obtain kvs where it: "newPrefixIter W db PrefixLog = Inr (kvs, None)"
    using healthy_ops(3) [OF assms(2)] unfolding newPrefixIter_def by blast
  note ks = iter_content [OF P it [unfolded newPrefixIter_def]]
  have all: "PrefixLog @ s \<in> fst ` set kvs" if s: "cont db (PrefixLog @ s) \<noteq> None" for s
  proof -
    have "hd s < 0xFF" using assms(4) s by (auto simp: rec_inv_def journal_ok_def)
    then show ?thesis unfolding ks [THEN conjunct2] in_bounds_prefix using s by force
  qed
  from process_all_drains [OF assms(1-3) inv_open [OF assms(1,4) it] all] it show ?thesis by (simp add: processor_pass_def)
qed

lemma recorded_pass:
  assumes "recorded W cont db0 hist db []"
  shows "recorded W cont db0 hist (snd (processor_pass W db)) []"
proof (cases "newPrefixIter W db PrefixLog")
  case (Inl e)
  with assms show ?thesis by (simp add: processor_pass_def)
next
  case (Inr r)
  then obtain kvs err where "newPrefixIter W db PrefixLog = Inr (kvs, err)" by (cases r) auto
  with recorded_process_all [OF recorded.open_iter [OF assms]] show ?thesis by (simp add: processor_pass_def)
qed


section \<open>A recorded session\<close>

definition demo_entry :: "int \<Rightarrow> byte list \<Rightarrow> JournalEntry" where
  "demo_entry ts data = \<lparr>je_Timestamp = ts, je_Path = str ''a.txt'', je_Op = str ''write'', je_Data = data\<rparr>"

definition demo_db :: mem_db where
  "demo_db =
     [(logKey 2 (hex_encode [1]), mem_entry_json (demo_entry 2 [6])), (logKey 1 (hex_encode [0]), mem_entry_json (demo_entry 1 [5]))]"

lemma logKey_time: "clock_ok s \<Longrightarrow> clock_ok t \<Longrightarrow> logKey s x = logKey t y \<Longrightarrow> s = t"
proof -
  assume c: "clock_ok s" "clock_ok t" and "logKey s x = logKey t y"
  then have "take 20 (fmt_020d s @ '':'' @ x) = take 20 (fmt_020d t @ '':'' @ y)" by (simp add: logKey_def)
  with c show ?thesis by (simp add: length_fmt_020d fmt_020d_inject)
qed

lemma demo_recorded: "recorded mem_world map_of [] [demo_entry 2 [6], demo_entry 1 [5]] demo_db []"
proof -
  have "recorded mem_world map_of [] [demo_entry 1 [5]] [(logKey 1 (hex_encode [0]), mem_entry_json (demo_entry 1 [5]))] []"
    unfolding demo_entry_def by (rule recorded.log [OF recorded.start, where buf = "Inr [0]"])
      (simp_all add: logEventWithOp_def log_entry_def randomSuffix_def mem_world_def)
  then show ?thesis
    unfolding demo_db_def demo_entry_def
    by (rule recorded.log [where buf = "Inr [1]"])
      (auto simp: logEventWithOp_def log_entry_def randomSuffix_def mem_world_def clock_ok_def dest: logKey_time [rotated 2])
qed

lemma demo_ok: "list_all (entry_ok mem_world) [demo_entry 2 [6], demo_entry 1 [5]]"
proof -
  have "valid_text mem_world (str ''a.txt'')" "valid_text mem_world (str ''write'')"
    by (rule text_laws(1) [OF mem_codec_laws], simp add: str_def)+
  then show ?thesis by (simp add: entry_ok_def demo_entry_def clock_ok_def)
qed


section \<open>Properties\<close>

text \<open>
  C9: a pass of the processor over a database that does not fail empties the journal, from every state
  the recorder can be in between passes.
\<close>

theorem pass_drains_journal:
  assumes "recorded W cont db0 hist db []" and "world_laws W cont" and "healthy W" and "cont db0 = Map.empty"
    and "list_all (entry_ok W) hist" and "processor_pass W db = (p, db')"
  shows "recorded W cont db0 hist db' [] \<and> (\<forall>s. cont db' (PrefixLog @ s) = None)"
  using recorded_pass [OF assms(1)] pass_drained [OF assms(2,3,5) recorded_inv [OF assms(1,2,4,5)]] assms(6) by simp

theorem pass_drains_journal_witness:
  "map_of (snd (processor_pass mem_world demo_db)) (logKey 1 (hex_encode [0])) = None"
proof -
  obtain p db' where r: "processor_pass mem_world demo_db = (p, db')" by fastforce
  obtain s where "logKey 1 (hex_encode [0]) = PrefixLog @ s" using key_shapes(1) by blast
  with pass_drains_journal [OF demo_recorded mem_world_laws mem_healthy _ demo_ok r] r show ?thesis by simp
qed

end
