(* ===== verification/Durability.thy ===== *)
theory Durability
  imports Recorder Step_Systems "HOL-Library.Sublist"
begin

text \<open>
  What a crash takes from a recording.  \<open>src/pkg/recorder/journal.go\<close> commits its events with \<open>pebble.NoSync\<close>: they are visible at
  once, and Pebble documents that a crash can lose them.  The processor, the store and the session start write with \<open>pebble.Sync\<close>, which
  returns when the write and all writes before it are on the disk.  \<open>disk_step\<close> runs the recorder with the databases that a crash can go back to.

  Shown here: every state of such a run is a state of \<open>recorded\<close> for the events that the database still has; each of these
  is in the journal or described and stored; what was logged before the last entry that the processor completed,
  or before the database was closed, is among them; and an event whose logging succeeded can be lost.
\<close>

section \<open>Runs with crashes\<close>

text \<open>
  The events that were logged without an error, those of them that the database has, the database, the iterator of the
  processor, the histories and databases that a crash can go back to (newest first), the history at the last
  point that is certainly on the disk, and whether there was a crash.
\<close>

record 'db disk_state =
  d_logged :: "JournalEntry list"
  d_hist :: "JournalEntry list"
  d_db :: 'db
  d_iter :: "(byte list \<times> byte list) list"
  d_undo :: "(JournalEntry list \<times> 'db) list"
  d_synced :: "JournalEntry list"
  d_crashed :: bool

definition disk_start :: "'db \<Rightarrow> 'db disk_state" where
  "disk_start db = \<lparr>d_logged = [], d_hist = [], d_db = db, d_iter = [], d_undo = [], d_synced = [], d_crashed = False\<rparr>"

definition undoable :: "'db disk_state \<Rightarrow> (JournalEntry list \<times> 'db) list" where
  "undoable s = (d_hist s, d_db s) # d_undo s"

definition on_disk :: "'db disk_state \<Rightarrow> 'db disk_state" where
  "on_disk s = s\<lparr>d_undo := [], d_synced := d_hist s\<rparr>"

text \<open>
  The last write of an entry that is completed is synchronous, so all before it is on the disk; so it is when the database
  is closed.  Where an operation may have failed before its synchronous write, a crash is allowed to go
  back further than it would.
\<close>

inductive disk_step ::
  "'db world \<Rightarrow> ('db \<Rightarrow> byte list \<rightharpoonup> byte list) \<Rightarrow> 'db disk_state \<Rightarrow> 'db disk_state \<Rightarrow> bool"
  for W :: "'db world" and cont :: "'db \<Rightarrow> byte list \<rightharpoonup> byte list" where
  log: "logEventWithOp W now buf op path data (Some (d_db s)) = (Inr (), Some db') \<Longrightarrow>
    (\<And>bs. buf = Inr bs \<Longrightarrow> cont (d_db s) (logKey now (hex_encode bs)) = None) \<Longrightarrow>
    e = \<lparr>je_Timestamp = now, je_Path = path, je_Op = op, je_Data = data\<rparr> \<Longrightarrow>
    disk_step W cont s (s\<lparr>d_logged := e # d_logged s, d_hist := e # d_hist s, d_db := db', d_undo := undoable s\<rparr>)"
| log_failed: "logEventWithOp W now buf op path data (Some (d_db s)) = (Inl err, Some db') \<Longrightarrow>
    disk_step W cont s (s\<lparr>d_db := db', d_undo := undoable s\<rparr>)"
| session: "recordSessionStart W now (Some (d_db s)) = Some db' \<Longrightarrow>
    disk_step W cont s (s\<lparr>d_db := db', d_undo := undoable s\<rparr>)"
| open_iter: "d_iter s = [] \<Longrightarrow> newPrefixIter W (d_db s) PrefixLog = Inr (kvs, err) \<Longrightarrow>
    disk_step W cont s (s\<lparr>d_iter := kvs\<rparr>)"
| work_done: "d_iter s = (k, v) # it \<Longrightarrow> processJournalEntry W True k v (Some (d_db s)) = (Inr (), Some db') \<Longrightarrow>
    disk_step W cont s (on_disk (s\<lparr>d_db := db', d_iter := it\<rparr>))"
| work_failed: "d_iter s = (k, v) # it \<Longrightarrow> processJournalEntry W True k v (Some (d_db s)) = (Inl err, Some db') \<Longrightarrow>
    disk_step W cont s (s\<lparr>d_db := db', d_iter := it, d_undo := undoable s\<rparr>)"
| close: "disk_step W cont s (on_disk (s\<lparr>d_iter := []\<rparr>))"
| stop: "d_iter s = (k, v) # it \<Longrightarrow> db' \<in> set (process_writes W k v (d_db s)) \<Longrightarrow>
    disk_step W cont s (s\<lparr>d_db := db', d_iter := [], d_undo := undoable s, d_crashed := True\<rparr>)"
| crash: "undoable s = newer @ (h, db') # older \<Longrightarrow>
    disk_step W cont s (s\<lparr>d_hist := h, d_db := db', d_iter := [], d_undo := older, d_crashed := True\<rparr>)"


section \<open>Every state is one of the recorder\<close>

definition disk_inv :: "'db world \<Rightarrow> ('db \<Rightarrow> byte list \<rightharpoonup> byte list) \<Rightarrow> 'db \<Rightarrow> 'db disk_state \<Rightarrow> bool" where
  "disk_inv W cont db0 s \<longleftrightarrow>
     recorded W cont db0 (d_hist s) (d_db s) (d_iter s)
     \<and> list_all (\<lambda>(h, db). recorded W cont db0 h db [] \<and> suffix (d_synced s) h \<and> set h \<subseteq> set (d_logged s)) (undoable s)
     \<and> (d_crashed s \<or> d_hist s = d_logged s)"

lemma disk_invD:
  assumes "disk_inv W cont db0 s"
  shows "recorded W cont db0 (d_hist s) (d_db s) (d_iter s)" "recorded W cont db0 (d_hist s) (d_db s) []"
    "list_all (\<lambda>(h, db). recorded W cont db0 h db [] \<and> suffix (d_synced s) h \<and> set h \<subseteq> set (d_logged s)) (d_undo s)"
    "suffix (d_synced s) (d_hist s)" "set (d_hist s) \<subseteq> set (d_logged s)" "d_crashed s \<or> d_hist s = d_logged s"
  using assms by (auto simp: disk_inv_def undoable_def)

text \<open>A step that keeps the history, and one after which all is on the disk.\<close>

lemma disk_inv_same:
  assumes "disk_inv W cont db0 s" and "recorded W cont db0 (d_hist s) db' it"
  shows "disk_inv W cont db0 (s\<lparr>d_db := db', d_iter := it, d_undo := undoable s\<rparr>)"
    and "disk_inv W cont db0 (on_disk (s\<lparr>d_db := db', d_iter := it\<rparr>))"
  using disk_invD [OF assms(1)] assms(2) recorded.restart [OF assms(2)] by (auto simp: disk_inv_def undoable_def on_disk_def)

lemma disk_inv_step:
  assumes "disk_step W cont s t" and "disk_inv W cont db0 s"
  shows "disk_inv W cont db0 t"
  using assms(1)
proof cases
  case (log now buf op path data db' e)
  note inv = disk_invD [OF assms(2)]
  have rec: "recorded W cont db0 (e # d_hist s) db' (d_iter s)"
    unfolding log(4) by (rule recorded.log [OF inv(1) log(2,3)])
  have "list_all (\<lambda>(h, db). recorded W cont db0 h db [] \<and> suffix (d_synced s) h \<and> set h \<subseteq> set (e # d_logged s)) (undoable s)"
    using inv by (auto simp: undoable_def list_all_iff)
  with rec recorded.restart [OF rec] inv(4-6) show ?thesis
    unfolding log(1) by (auto simp: disk_inv_def undoable_def suffix_ConsI)
next
  case (log_failed now buf op path data err db')
  from disk_inv_same(1) [OF assms(2) recorded.log_failed [OF disk_invD(1) [OF assms(2)] log_failed(2)]] show ?thesis unfolding log_failed(1) by simp
next
  case (session now db')
  from disk_inv_same(1) [OF assms(2) recorded.session [OF disk_invD(1) [OF assms(2)] session(2)]] show ?thesis unfolding session(1) by simp
next
  case (open_iter kvs err)
  with disk_invD(1) [OF assms(2)] have "recorded W cont db0 (d_hist s) (d_db s) kvs" by (auto intro: recorded.open_iter)
  with assms(2) show ?thesis unfolding open_iter(1) by (simp add: disk_inv_def undoable_def)
next
  case (work_done k v it db')
  with disk_invD(1) [OF assms(2)] have "recorded W cont db0 (d_hist s) db' it" by (auto intro: recorded.work)
  from disk_inv_same(2) [OF assms(2) this] show ?thesis unfolding work_done(1) .
next
  case (work_failed k v it err db')
  with disk_invD(1) [OF assms(2)] have "recorded W cont db0 (d_hist s) db' it" by (auto intro: recorded.work)
  from disk_inv_same(1) [OF assms(2) this] show ?thesis unfolding work_failed(1) .
next
  case close
  from disk_inv_same(2) [OF assms(2) disk_invD(2) [OF assms(2)]] show ?thesis unfolding close by simp
next
  case (stop k v it db')
  with disk_invD(1) [OF assms(2)] have "recorded W cont db0 (d_hist s) db' []" by (auto intro: recorded.stop)
  from disk_inv_same(1) [OF assms(2) this] show ?thesis unfolding stop(1) by (simp add: disk_inv_def undoable_def)
next
  case (crash newer h db' older)
  have "list_all (\<lambda>(h, db). recorded W cont db0 h db [] \<and> suffix (d_synced s) h \<and> set h \<subseteq> set (d_logged s)) (newer @ (h, db') # older)"
    using assms(2) unfolding crash(2) [symmetric] by (simp add: disk_inv_def)
  then show ?thesis unfolding crash(1) by (simp add: disk_inv_def undoable_def)
qed

interpretation disk: invariant_of "disk_step W cont" "disk_inv W cont db0" "disk_start db0" for W cont db0
proof
  show "disk_inv W cont db0 (disk_start db0)" by (simp add: disk_inv_def disk_start_def undoable_def recorded.start)
qed (rule disk_inv_step)


section \<open>Properties\<close>

text \<open>
  An event is in the journal, or the metadata under its path and time describe an event of the history
  with that path and time, and the object they name is in the store with the hash of its data.
\<close>

definition kept_event :: "'db world \<Rightarrow> ('db \<Rightarrow> byte list \<rightharpoonup> byte list) \<Rightarrow> JournalEntry list \<Rightarrow> 'db \<Rightarrow> JournalEntry \<Rightarrow> bool" where
  "kept_event W cont hist db e \<longleftrightarrow>
     in_journal W cont db e \<or>
     (\<exists>e' v c d. e' \<in> set hist \<and> je_Path e' = je_Path e \<and> je_Timestamp e' = je_Timestamp e
       \<and> cont db (metaKey (je_Path e) (je_Timestamp e)) = Some v \<and> meta_parse W v = Inr (metadata_of e' (cid_of W e'))
       \<and> cont db (casKey (cid_of W e')) = Some c \<and> decompressFromStorage W c = Inr d \<and> sha256 W d = sha256 W (je_Data e'))"

lemma recorded_keeps:
  assumes "recorded W cont db0 hist db it" and "world_laws W cont" and "cont db0 = Map.empty"
    and "list_all (entry_ok W) hist" and "e \<in> set hist"
  shows "kept_event W cont hist db e"
proof (cases "in_journal W cont db e")
  case False
  have inv: "rec_inv W cont hist db it" by (rule recorded_inv [OF assms(1-4)])
  with False assms(5) obtain v where v: "cont db (entryKey e) = Some v" by (auto simp: rec_inv_def)
  obtain s where s: "entryKey e = PrefixMeta @ s" using key_shapes(2) by (auto simp: entryKey_def)
  have ck: "clock_ok (je_Timestamp f)" if "f \<in> set hist" for f using assms(4) that by (auto simp: list_all_iff entry_ok_def)
  have "entryKey e \<noteq> sessionMetaKey" using ck [OF assms(5)] metaKey_not_session by (simp add: entryKey_def)
  then obtain e' where e': "e' \<in> set hist" "entryKey e = entryKey e'" "records W cont db v e'"
    using inv v unfolding s rec_inv_def meta_ok_def by blast
  then obtain c where c: "cont db (casKey (cid_of W e')) = Some c" by (auto simp: records_def)
  with inv have "\<exists>d. decompressFromStorage W c = Inr d \<and> sha256 W d = sha256 W (je_Data e')"
    unfolding rec_inv_def cas_ok_def cid_of_def by blast
  with c e' v ck assms(5) show ?thesis by (auto simp: entryKey_def metaKey_inject records_def kept_event_def)
qed (simp add: kept_event_def)

text \<open>
  C7: however logging, processing, failures, closes and crashes interleave, every event that the recording still has is in
  the journal, or its metadata and its object are in the store; the events logged before the last entry that the processor completed or
  before the database was closed are never lost, and without a crash none is.
\<close>

theorem no_event_lost:
  assumes "(disk_step W cont)\<^sup>*\<^sup>* (disk_start db0) s" and "world_laws W cont" and "cont db0 = Map.empty"
    and "list_all (entry_ok W) (d_hist s)"
  shows "list_all (kept_event W cont (d_hist s) (d_db s)) (d_hist s) \<and> suffix (d_synced s) (d_hist s)
    \<and> (d_crashed s \<or> d_hist s = d_logged s)"
proof -
  note inv = disk_invD [OF disk.reachable [OF assms(1)]]
  from recorded_keeps [OF inv(1) assms(2-4)] inv(4,6) show ?thesis by (simp add: list_all_iff)
qed


text \<open>One event is logged, processed and on the disk, a second is logged and lost.\<close>

definition first_event :: JournalEntry where
  "first_event = demo_entry 1 [5]"

lemma demo_disk_run:
  obtains s where "(disk_step mem_world map_of)\<^sup>*\<^sup>* (disk_start []) s" and "d_hist s = [first_event]" and "d_synced s = [first_event]"
    and "d_logged s = [first_event]" and "\<not> d_crashed s"
proof -
  let ?step = "disk_step mem_world map_of"
  let ?db = "[(logKey 1 (hex_encode [0]), mem_entry_json first_event)]"
  let ?s0 = "disk_start [] :: mem_db disk_state"
  define s1 where "s1 = ?s0\<lparr>d_logged := first_event # d_logged ?s0, d_hist := first_event # d_hist ?s0, d_db := ?db, d_undo := undoable ?s0\<rparr>"
  have db: "d_db ?s0 = []" "d_hist ?s0 = []" "d_logged ?s0 = []" "\<not> d_crashed ?s0" by (simp_all add: disk_start_def)
  have ok: "logEventWithOp mem_world 1 (Inr [0]) (str ''write'') (str ''a.txt'') [5] (Some (d_db ?s0)) = (Inr (), Some ?db)"
    unfolding db by (simp add: logEventWithOp_def log_entry_def randomSuffix_def mem_world_def first_event_def demo_entry_def)
  have "?step ?s0 s1"
    unfolding s1_def by (rule disk_step.log [OF ok]) (simp_all only: db map_of.simps first_event_def demo_entry_def)
  moreover have "?step s1 (on_disk (s1\<lparr>d_iter := []\<rparr>))" by (rule disk_step.close)
  ultimately have "?step\<^sup>*\<^sup>* (disk_start []) (on_disk (s1\<lparr>d_iter := []\<rparr>))" by (meson converse_rtranclp_into_rtranclp rtranclp.rtrancl_refl)
  then show thesis by (rule that) (simp_all add: s1_def on_disk_def db)
qed

theorem no_event_lost_witness:
  "\<exists>s. (disk_step mem_world map_of)\<^sup>*\<^sup>* (disk_start []) s \<and> d_synced s = [first_event]
     \<and> kept_event mem_world map_of (d_hist s) (d_db s) first_event"
proof -
  obtain s where s: "(disk_step mem_world map_of)\<^sup>*\<^sup>* (disk_start []) s" "d_hist s = [first_event]" "d_synced s = [first_event]" by (rule demo_disk_run)
  have "list_all (entry_ok mem_world) (d_hist s)" using demo_ok s(2) by (simp add: first_event_def)
  from no_event_lost [OF s(1) mem_world_laws _ this] s show ?thesis by auto
qed


end
