(* ===== verification/Paths.thy ===== *)
theory Paths
  imports Pebble
begin

text \<open>
  \<open>cleanPath\<close> of \<open>src/main.go\<close> and the \<open>path/filepath\<close> functions under it: a recorded path becomes the
  place of the file below the directory that \<open>export\<close> writes to.

  \<open>Clean\<close> is modelled on the list of a path's components: \<open>resolve\<close> is the stack that its one pass
  over the path builds.  Shown here: the cleaned path has no \<open>..\<close> component and is not absolute, so
  that the destination \<open>Join\<close> computes lies in the output directory whatever was recorded.
\<close>

section \<open>Components\<close>

definition sep :: byte where "sep = 0x2F"
definition dot :: "byte list" where "dot = [0x2E]"
definition dotdot :: "byte list" where "dotdot = [0x2E, 0x2E]"

fun components :: "byte list \<Rightarrow> byte list list" where
  "components [] = [[]]"
| "components (b # bs) =
     (if b = sep then [] # components bs
      else (case components bs of [] \<Rightarrow> [[b]] | c # cs \<Rightarrow> (b # c) # cs))"

fun join :: "byte list list \<Rightarrow> byte list" where
  "join [] = []"
| "join [c] = c"
| "join (c # d # cs) = c @ sep # join (d # cs)"

definition trim_prefix :: "byte list \<Rightarrow> byte list \<Rightarrow> byte list" where
  "trim_prefix pre p = (if take (length pre) p = pre then drop (length pre) p else p)"


section \<open>Package filepath\<close>

definition rooted :: "byte list \<Rightarrow> bool" where
  "rooted p \<longleftrightarrow> (case p of [] \<Rightarrow> False | b # bs \<Rightarrow> b = sep)"

text \<open>One component of \<open>Clean\<close>'s pass, on the stack of those it keeps, last one first.\<close>

definition clean_step :: "bool \<Rightarrow> byte list \<Rightarrow> byte list list \<Rightarrow> byte list list" where
  "clean_step root c stack =
     (if c = [] \<or> c = dot then stack
      else if c = dotdot
      then (case stack of
              [] \<Rightarrow> if root then [] else [dotdot]
            | t # rest \<Rightarrow> if t = dotdot then dotdot # stack else rest)
      else c # stack)"

definition resolve :: "byte list \<Rightarrow> byte list list" where
  "resolve p = rev (fold (clean_step (rooted p)) (components p) [])"

definition render :: "bool \<Rightarrow> byte list list \<Rightarrow> byte list" where
  "render root cs = (if root then sep # join cs else if cs = [] then dot else join cs)"

definition Clean :: "byte list \<Rightarrow> byte list" where
  "Clean p = (if p = [] then dot else render (rooted p) (resolve p))"

text \<open>\<open>Join\<close> of two elements.\<close>

definition Join :: "byte list \<Rightarrow> byte list \<Rightarrow> byte list" where
  "Join a b = (if a \<noteq> [] then Clean (a @ sep # b) else if b \<noteq> [] then Clean b else [])"


section \<open>The destination of a recorded path\<close>

function strip_dots :: "byte list \<Rightarrow> byte list" where
  "strip_dots p = (if take 2 p = dotdot then strip_dots (trim_prefix [sep] (drop 2 p)) else p)"
  by pat_completeness auto
termination
proof (relation "measure length")
  fix p assume "take 2 p = dotdot"
  then have "p \<noteq> []" by (auto simp: dotdot_def)
  then show "(trim_prefix [sep] (drop 2 p), p) \<in> measure length" by (cases p) (auto simp: trim_prefix_def)
qed simp

declare strip_dots.simps [simp del]

definition cleanPath :: "byte list \<Rightarrow> byte list" where
  "cleanPath path =
     (let clean = strip_dots (trim_prefix [sep] (Clean path))
      in if clean = dot then str ''root'' else clean)"


section \<open>Results\<close>

lemma components_nonempty [simp]: "components p \<noteq> []"
  by (induction p) (auto split: list.splits)

lemma components_append: "components (a @ sep # b) = components a @ components b"
  by (induction a) (auto split: list.splits)

lemma components_plain: "sep \<notin> set c \<Longrightarrow> components c = [c]"
  by (induction c) auto

lemma components_no_sep: "c \<in> set (components p) \<Longrightarrow> sep \<notin> set c"
  by (induction p arbitrary: c) (auto split: list.splits if_splits)

lemma components_join: "\<forall>c \<in> set cs. sep \<notin> set c \<Longrightarrow> cs \<noteq> [] \<Longrightarrow> components (join cs) = cs"
  by (induction cs rule: join.induct) (auto simp: components_plain components_append)

text \<open>Components that name something below the directory they are in.\<close>

definition proper :: "byte list \<Rightarrow> bool" where
  "proper c \<longleftrightarrow> c \<noteq> [] \<and> c \<noteq> dot \<and> c \<noteq> dotdot \<and> sep \<notin> set c"

lemma clean_step_shape:
  assumes "stack = rev cs @ replicate k dotdot" and "list_all proper cs" and "root \<Longrightarrow> k = 0" and "sep \<notin> set c"
  shows "\<exists>k' cs'. clean_step root c stack = rev cs' @ replicate k' dotdot \<and> list_all proper cs' \<and> (root \<longrightarrow> k' = 0)"
proof (cases "c = [] \<or> c = dot")
  case True
  with assms show ?thesis by (auto simp: clean_step_def)
next
  case False
  show ?thesis
  proof (cases "c = dotdot")
    case True
    with False assms(1-3) show ?thesis
    proof (cases cs rule: rev_cases)
      case Nil
      with True False assms(1,3) have "clean_step root c stack = rev [] @ replicate (if root then 0 else Suc k) dotdot"
        by (cases k) (auto simp: clean_step_def dotdot_def dot_def)
      then show ?thesis by (intro exI [of _ "if root then 0 else Suc k"] exI [of _ "[]"]) simp
    next
      case (snoc ds d)
      then have "clean_step root c stack = rev ds @ replicate k dotdot"
        using True False assms(1,2) by (auto simp: clean_step_def proper_def)
      with snoc assms(2,3) show ?thesis by auto
    qed
  next
    case neq: False
    with False assms have "clean_step root c stack = rev (cs @ [c]) @ replicate k dotdot" and "list_all proper (cs @ [c])"
      by (auto simp: clean_step_def proper_def)
    with assms(3) show ?thesis by blast
  qed
qed

lemma fold_clean_shape:
  assumes "stack = rev cs @ replicate k dotdot" and "list_all proper cs" and "root \<Longrightarrow> k = 0" and "\<forall>c \<in> set xs. sep \<notin> set c"
  shows "\<exists>k' cs'. fold (clean_step root) xs stack = rev cs' @ replicate k' dotdot \<and> list_all proper cs' \<and> (root \<longrightarrow> k' = 0)"
  using assms
proof (induction xs arbitrary: stack cs k)
  case (Cons x xs)
  then obtain k' cs' where "clean_step root x stack = rev cs' @ replicate k' dotdot" "list_all proper cs'" "root \<longrightarrow> k' = 0"
    using clean_step_shape [of stack cs k root x] by auto
  with Cons.IH [of "clean_step root x stack" cs' k'] Cons.prems(4) show ?case by simp
qed auto

lemma resolve_shape: "\<exists>k cs. resolve p = replicate k dotdot @ cs \<and> list_all proper cs \<and> (rooted p \<longrightarrow> k = 0)"
  using fold_clean_shape [of "[]" "[]" 0 "rooted p" "components p"] components_no_sep
  by (fastforce simp: resolve_def)

text \<open>A joined path starts with \<open>..\<close> just when its first component does.\<close>

lemma take_join:
  assumes "sep \<notin> set c"
  shows "take 2 (join (c # ds)) = dotdot \<longleftrightarrow> take 2 c = dotdot"
proof (cases ds)
  case (Cons d ds')
  have "take 2 (c @ sep # r) = dotdot \<longleftrightarrow> take 2 c = dotdot" for r
    by (cases c; cases "tl c") (auto simp: dotdot_def sep_def)
  with Cons show ?thesis by simp
qed simp

lemma strip_dots_run: "strip_dots (join (replicate k dotdot @ ds)) = strip_dots (join ds)"
proof (induction k)
  case (Suc k)
  have "strip_dots (join (dotdot # xs)) = strip_dots (join xs)" for xs
  proof (cases xs)
    case Nil
    then show ?thesis by (subst strip_dots.simps) (simp add: dotdot_def trim_prefix_def)
  next
    case (Cons y ys)
    then show ?thesis by (subst strip_dots.simps) (simp add: dotdot_def trim_prefix_def)
  qed
  with Suc show ?case by simp
qed simp

lemma strip_dots_join:
  assumes "c \<noteq> []" and "sep \<notin> set c" and "list_all proper ds"
  shows "\<exists>cs. strip_dots (join (c # ds)) = join cs \<and> list_all (\<lambda>c. c \<noteq> [] \<and> c \<noteq> dotdot \<and> sep \<notin> set c) cs"
  using assms
proof (induction "length (concat (c # ds))" arbitrary: c ds rule: less_induct)
  case less
  show ?case
  proof (cases "take 2 c = dotdot")
    case False
    then have "strip_dots (join (c # ds)) = join (c # ds)" using less.prems(2) take_join by (subst strip_dots.simps) simp
    moreover have "c \<noteq> dotdot" using False by (auto simp: dotdot_def)
    ultimately show ?thesis using less.prems
      by (intro exI [of _ "c # ds"]) (auto simp: list_all_iff proper_def)
  next
    case True
    define c2 where "c2 = drop 2 c"
    have c: "c = dotdot @ c2" using True by (metis append_take_drop_id c2_def)
    have sc: "strip_dots (join (c # ds)) = strip_dots (trim_prefix [sep] (drop 2 (join (c # ds))))"
      using True less.prems(2) take_join by (subst strip_dots.simps) simp
    show ?thesis
    proof (cases "c2 = []")
      case True
      with c have "strip_dots (join (c # ds)) = strip_dots (join ds)"
        using strip_dots_run [of 1 ds] by simp
      moreover have "\<exists>cs. strip_dots (join ds) = join cs \<and> list_all (\<lambda>c. c \<noteq> [] \<and> c \<noteq> dotdot \<and> sep \<notin> set c) cs"
      proof (cases ds)
        case Nil
        then show ?thesis by (intro exI [of _ "[]"]) (simp add: strip_dots.simps dotdot_def)
      next
        case (Cons d ds')
        with less.hyps [of d ds'] less.prems c show ?thesis by (simp add: proper_def dotdot_def)
      qed
      ultimately show ?thesis by simp
    next
      case False
      have "trim_prefix [sep] (drop 2 (join (c # ds))) = join (c2 # ds)"
        using False less.prems(2) c by (cases ds; cases c2) (auto simp: trim_prefix_def dotdot_def)
      with less.hyps [of c2 ds] less.prems c False sc show ?thesis by (simp add: dotdot_def)
    qed
  qed
qed

abbreviation inside :: "byte list \<Rightarrow> bool" where
  "inside c \<equiv> c \<noteq> [] \<and> c \<noteq> dotdot \<and> sep \<notin> set c"

lemma strip_dots_proper:
  assumes "list_all proper cs"
  shows "\<exists>ds. strip_dots (join (replicate k dotdot @ cs)) = join ds \<and> list_all inside ds"
proof (cases cs)
  case Nil
  then show ?thesis unfolding strip_dots_run by (intro exI [of _ "[]"]) (simp add: strip_dots.simps dotdot_def)
next
  case (Cons c cs')
  with assms strip_dots_join [of c cs'] show ?thesis unfolding strip_dots_run by (simp add: proper_def)
qed

lemma trim_join: "list_all (\<lambda>c. c \<noteq> [] \<and> sep \<notin> set c) cs \<Longrightarrow> trim_prefix [sep] (join cs) = join cs"
  by (cases cs rule: join.cases) (auto simp: trim_prefix_def neq_Nil_conv)

lemma dots_plain: "list_all proper cs \<Longrightarrow> list_all (\<lambda>c. c \<noteq> [] \<and> sep \<notin> set c) (replicate k dotdot @ cs)"
proof -
  have "dotdot \<noteq> [] \<and> sep \<notin> set dotdot" by (simp add: dotdot_def sep_def)
  then have "list_all (\<lambda>c. c \<noteq> [] \<and> sep \<notin> set c) (replicate k dotdot)" by (simp add: list_all_iff)
  moreover have "list_all (\<lambda>c. c \<noteq> [] \<and> sep \<notin> set c) cs" if "list_all proper cs"
    using that by (rule list.pred_mono_strong) (simp add: proper_def)
  ultimately show "list_all proper cs \<Longrightarrow> ?thesis" by simp
qed

lemma trim_dot [simp]: "trim_prefix [sep] dot = dot"
  by (simp add: trim_prefix_def dot_def sep_def)

lemma trim_sep [simp]: "trim_prefix [sep] (sep # q) = q"
  by (simp add: trim_prefix_def)

lemma trim_Clean:
  "\<exists>k cs. (trim_prefix [sep] (Clean p) = join (replicate k dotdot @ cs) \<or> trim_prefix [sep] (Clean p) = dot) \<and> list_all proper cs"
proof -
  obtain k cs where r: "resolve p = replicate k dotdot @ cs" and cs: "list_all proper cs" using resolve_shape by blast
  have t: "trim_prefix [sep] (join (resolve p)) = join (resolve p)" unfolding r by (rule trim_join [OF dots_plain [OF cs]])
  have "trim_prefix [sep] (Clean p) = join (resolve p) \<or> trim_prefix [sep] (Clean p) = dot"
    unfolding Clean_def render_def using t by simp
  with cs show ?thesis unfolding r by blast
qed

lemma join_not_rooted: "list_all inside cs \<Longrightarrow> \<not> rooted (join cs)"
proof (cases cs rule: join.cases)
  case (2 c)
  then show "list_all inside cs \<Longrightarrow> \<not> rooted (join cs)" by (cases c) (auto simp: rooted_def)
next
  case (3 c d ds)
  then show "list_all inside cs \<Longrightarrow> \<not> rooted (join cs)" by (cases c) (auto simp: rooted_def)
qed (simp add: rooted_def)

lemma cleanPath_join: "\<exists>cs. cleanPath p = join cs \<and> list_all inside cs"
proof -
  have root: "str ''root'' = join [str ''root'']" "list_all inside [str ''root'']"
    by (simp_all add: str_def sep_def dotdot_def)
  obtain k cs where cs: "trim_prefix [sep] (Clean p) = join (replicate k dotdot @ cs) \<or> trim_prefix [sep] (Clean p) = dot"
    "list_all proper cs" using trim_Clean by blast
  show ?thesis
  proof (cases "trim_prefix [sep] (Clean p) = dot")
    case True
    moreover have "strip_dots dot = dot" by (simp add: strip_dots.simps dot_def dotdot_def)
    ultimately have "cleanPath p = str ''root''" by (simp add: cleanPath_def)
    with root show ?thesis by (intro exI [of _ "[str ''root'']"]) simp
  next
    case False
    with cs(1) obtain ds where ds: "strip_dots (trim_prefix [sep] (Clean p)) = join ds" "list_all inside ds"
      using strip_dots_proper [OF cs(2), of k] by auto
    with root show ?thesis by (cases "join ds = dot") (auto simp: cleanPath_def Let_def intro: exI [of _ "[str ''root'']"])
  qed
qed

lemma fold_clean_inside:
  "list_all (\<lambda>c. c \<noteq> dotdot) cs \<Longrightarrow> fold (clean_step root) cs stack = rev (filter (\<lambda>c. c \<noteq> [] \<and> c \<noteq> dot) cs) @ stack"
  by (induction cs arbitrary: stack) (auto simp: clean_step_def)

text \<open>
  C13: whatever path was recorded, its place below the output directory has no \<open>..\<close> component and is
  not absolute, and the destination resolves to the output directory followed by components below
  it: an export writes inside the directory it was given.
\<close>

theorem export_confined:
  assumes "out \<noteq> []"
  shows "dotdot \<notin> set (components (cleanPath p)) \<and> \<not> rooted (cleanPath p)
    \<and> Join out (cleanPath p) =
        render (rooted out) (resolve out @ filter (\<lambda>c. c \<noteq> [] \<and> c \<noteq> dot) (components (cleanPath p)))"
proof -
  obtain cs where cs: "cleanPath p = join cs" "list_all inside cs" using cleanPath_join by blast
  have no: "list_all (\<lambda>c. c \<noteq> dotdot) (components (cleanPath p))"
  proof (cases "cs = []")
    case False
    then have "components (cleanPath p) = cs" using cs by (simp add: components_join list_all_iff)
    with cs(2) show ?thesis by (simp add: list_all_iff)
  qed (simp add: cs(1) dotdot_def)
  have rel: "\<not> rooted (cleanPath p)" using cs join_not_rooted by simp
  have "rooted (out @ sep # cleanPath p) = rooted out" using assms by (cases out) (auto simp: rooted_def)
  then have "resolve (out @ sep # cleanPath p) = resolve out @ filter (\<lambda>c. c \<noteq> [] \<and> c \<noteq> dot) (components (cleanPath p))"
    using no by (simp add: resolve_def components_append fold_clean_inside)
  with no rel assms \<open>rooted (out @ sep # cleanPath p) = rooted out\<close> show ?thesis
    by (auto simp: Join_def Clean_def list_all_iff)
qed

theorem export_confined_witness:
  "dotdot \<notin> set (components (cleanPath (str ''../../etc/passwd'')))
   \<and> Join (str ''out'') (cleanPath (str ''../../etc/passwd'')) = str ''out/etc/passwd''"
proof -
  have "render (rooted (str ''out'')) (resolve (str ''out'') @ filter (\<lambda>c. c \<noteq> [] \<and> c \<noteq> dot) (components (cleanPath (str ''../../etc/passwd''))))
      = str ''out/etc/passwd''" by code_simp
  with export_confined [of "str ''out''" "str ''../../etc/passwd''"] show ?thesis by (simp add: str_def)
qed

text \<open>
  A leading \<open>..\<close> is removed from file names too: a recorded \<open>..data\<close> is restored over the
  recorded \<open>data\<close>.
\<close>

theorem dotdot_name_collides: "cleanPath (str ''..data'') = cleanPath (str ''data'')"
  by code_simp

end
