(* ===== verification/Export.thy ===== *)
theory Export
  imports Recorder Paths
begin

text \<open>
  The \<open>export\<close> and \<open>timeline\<close> commands of \<open>src/main.go\<close>: the start of the session, the target time, the
  metadata that hold at it, and the files written from the objects they name.

  The clock, \<open>time.ParseDuration\<close> and \<open>time.Parse\<close> (calendar and floating point) and the file system are
  arguments.  The abstract specification is the history of logged events: the version of a path at a
  time is the latest event with that path that is not later.  Shown here: once the journal is
  drained, the metadata that \<open>loadMetadataAt\<close> selects are those of the versions, and the export
  leaves in every destination the data of a version.
\<close>

section \<open>The session start\<close>

text \<open>\<open>None\<close> is the zero time.\<close>

definition loadSessionStart :: "'db world \<Rightarrow> 'db \<Rightarrow> int option" where
  "loadSessionStart W db =
     (case db_get W db sessionMetaKey of Inl e \<Rightarrow> None | Inr val \<Rightarrow> ParseInt (TrimSpace val))"


section \<open>The target time\<close>

record clock =
  ck_now :: int
  ck_duration :: "byte list \<Rightarrow> int option"
  ck_rfc3339 :: "byte list \<Rightarrow> int option"

datatype export_error =
    SessionStartUnknown "byte list"
  | InvalidTime "byte list"
  | CreateOut string
  | OpenPebble pebble_error
  | InitCAS cas_error
  | IterFailed pebble_error
  | LoadObject "byte list" cas_error
  | CreateParent "byte list" string
  | WriteDest "byte list" string

text \<open>A \<open>time.Time\<close> is the nanoseconds since 1970, which it can hold far beyond 64 bits; \<open>UnixNano\<close> cuts them to 64 bits.\<close>

definition UnixNano :: "int \<Rightarrow> int" where
  "UnixNano t = (t + 2 ^ 63) mod 2 ^ 64 - 2 ^ 63"

definition parseTargetTime :: "clock \<Rightarrow> byte list \<Rightarrow> int option \<Rightarrow> export_error + int" where
  "parseTargetTime C raw sessionStart =
     (if raw = [] \<or> raw = str ''latest'' then Inr (ck_now C)
      else case ck_duration C raw of
             Some dur \<Rightarrow>
               (case sessionStart of
                  None \<Rightarrow> Inl (SessionStartUnknown raw)
                | Some start \<Rightarrow> Inr (start + dur))
           | None \<Rightarrow>
               (case ck_rfc3339 C raw of Some ts \<Rightarrow> Inr ts | None \<Rightarrow> Inl (InvalidTime raw)))"


section \<open>The metadata at a time\<close>

definition load_step ::
  "'db world \<Rightarrow> int \<Rightarrow> byte list \<times> byte list \<Rightarrow> (byte list \<rightharpoonup> MetadataRecord) \<Rightarrow> (byte list \<rightharpoonup> MetadataRecord)" where
  "load_step W cutoff kv recs =
     (if fst kv = sessionMetaKey then recs
      else case meta_parse W (snd kv) of
             Inl e \<Rightarrow> recs
           | Inr meta \<Rightarrow>
               if cutoff < md_Timestamp meta then recs
               else case recs (md_Path meta) of
                      None \<Rightarrow> recs(md_Path meta \<mapsto> meta)
                    | Some prev \<Rightarrow>
                        if md_Timestamp prev < md_Timestamp meta then recs(md_Path meta \<mapsto> meta) else recs)"

definition loadMetadataAt :: "'db world \<Rightarrow> 'db \<Rightarrow> int \<Rightarrow> export_error + (byte list \<rightharpoonup> MetadataRecord)" where
  "loadMetadataAt W db target =
     (case newPrefixIter W db PrefixMeta of
        Inl e \<Rightarrow> Inl (IterFailed e)
      | Inr (kvs, err) \<Rightarrow>
          (case err of
             Some e \<Rightarrow> Inl (IterFailed e)
           | None \<Rightarrow> Inr (fold (load_step W (UnixNano target)) kvs Map.empty)))"


section \<open>Writing the files\<close>

record 'fs osys =
  os_mkdir_all :: "'fs \<Rightarrow> byte list \<Rightarrow> string + 'fs"
  os_write_file :: "'fs \<Rightarrow> byte list \<Rightarrow> byte list \<Rightarrow> string + 'fs"

text \<open>\<open>filepath.Dir\<close>: the path up to its last separator, cleaned.\<close>

definition Dir :: "byte list \<Rightarrow> byte list" where
  "Dir p = Clean (rev (dropWhile (\<lambda>b. b \<noteq> sep) (rev p)))"

text \<open>The body of the loop over the selected records.\<close>

definition export_one ::
  "'db world \<Rightarrow> 'fs osys \<Rightarrow> byte list \<Rightarrow> 'db \<Rightarrow> byte list \<times> MetadataRecord \<Rightarrow> 'fs \<Rightarrow> (export_error + unit) \<times> 'fs" where
  "export_one W OS outDir db pm fs =
     (case Get W db (md_CID (snd pm)) of
        Inl e \<Rightarrow> (Inl (LoadObject (md_CID (snd pm)) e), fs)
      | Inr data \<Rightarrow>
          (let dest = Join outDir (cleanPath (fst pm))
           in case os_mkdir_all OS fs (Dir dest) of
                Inl e \<Rightarrow> (Inl (CreateParent dest e), fs)
              | Inr fs1 \<Rightarrow>
                  (case os_write_file OS fs1 dest data of
                     Inl e \<Rightarrow> (Inl (WriteDest dest e), fs1)
                   | Inr fs2 \<Rightarrow> (Inr (), fs2))))"

fun export_loop ::
  "'db world \<Rightarrow> 'fs osys \<Rightarrow> byte list \<Rightarrow> 'db \<Rightarrow> (byte list \<times> MetadataRecord) list \<Rightarrow> 'fs \<Rightarrow> (export_error + unit) \<times> 'fs" where
  "export_loop W OS outDir db [] fs = (Inr (), fs)"
| "export_loop W OS outDir db (pm # pms) fs =
     (case export_one W OS outDir db pm fs of
        (Inl e, fs') \<Rightarrow> (Inl e, fs')
      | (Inr u, fs') \<Rightarrow> export_loop W OS outDir db pms fs')"

text \<open>
  \<open>opened\<close> is what \<open>pebble.Open\<close> returned, and \<open>range_order\<close> the order in which the runtime goes
  through a map.  The algorithm is that of the default configuration.
\<close>

definition runExport ::
  "'db world \<Rightarrow> 'fs osys \<Rightarrow> clock \<Rightarrow> ((byte list \<rightharpoonup> MetadataRecord) \<Rightarrow> byte list list) \<Rightarrow> pebble_error + 'db
   \<Rightarrow> byte list \<Rightarrow> byte list \<Rightarrow> 'fs \<Rightarrow> (export_error + unit) \<times> 'fs" where
  "runExport W OS C range_order opened outDir atTime fs =
     (case os_mkdir_all OS fs outDir of
        Inl e \<Rightarrow> (Inl (CreateOut e), fs)
      | Inr fs1 \<Rightarrow>
          (case opened of
             Inl e \<Rightarrow> (Inl (OpenPebble e), fs1)
           | Inr db \<Rightarrow>
               (case NewCASStore (Some db) ''sha256'' of
                  Inl e \<Rightarrow> (Inl (InitCAS e), fs1)
                | Inr casStore \<Rightarrow>
                    (case parseTargetTime C atTime (loadSessionStart W db) of
                       Inl e \<Rightarrow> (Inl e, fs1)
                     | Inr target \<Rightarrow>
                         (case loadMetadataAt W db target of
                            Inl e \<Rightarrow> (Inl e, fs1)
                          | Inr recs \<Rightarrow>
                              export_loop W OS outDir (fst casStore) (map (\<lambda>p. (p, the (recs p))) (range_order recs)) fs1)))))"


section \<open>Results: the session start\<close>

definition digit_char :: "char \<Rightarrow> bool" where
  "digit_char c \<longleftrightarrow> (48 :: nat) \<le> of_char c \<and> of_char c \<le> (57 :: nat)"

lemma digit_char_digit: "d < 10 \<Longrightarrow> digit_char (digit d)"
  by (simp add: digit_char_def digit_def)

lemma show_nat_digits: "list_all digit_char (show_nat n)"
proof (induction n rule: show_nat.induct)
  case (1 n)
  then show ?case by (subst show_nat.simps) (auto simp: digit_char_digit)
qed

lemma fmt_020d_digits: "clock_ok ts \<Longrightarrow> list_all digit_char (fmt_020d ts)"
  using show_nat_digits by (auto simp: fmt_020d_def pad_def clock_ok_def list_all_iff digit_char_def)

lemma digit_value_char: "digit_char c \<Longrightarrow> digit_value (word_of_nat (of_char c)) = Some (of_char c - 48)"
  by (auto simp: digit_char_def digit_value_def word_le_nat_alt unat_small)

lemma digits_value_str: "list_all digit_char s \<Longrightarrow> digits_value a (str s) = Some (foldl read_digit a s)"
  by (induction s arbitrary: a) (auto simp: str_def digit_value_char read_digit_def)

lemma str_digit_ends:
  assumes "list_all digit_char s" and "s \<noteq> []"
  shows "48 \<le> hd (str s) \<and> hd (str s) \<le> 57" and "48 \<le> hd (rev (str s)) \<and> hd (rev (str s)) \<le> 57"
proof -
  have "48 \<le> b \<and> b \<le> 57" if "b \<in> set (str s)" for b
    using that assms(1) by (auto simp: str_def list_all_iff digit_char_def word_le_nat_alt unat_small)
  moreover have "str s \<noteq> []" using assms(2) by (simp add: str_def)
  ultimately show "48 \<le> hd (str s) \<and> hd (str s) \<le> 57" and "48 \<le> hd (rev (str s)) \<and> hd (rev (str s)) \<le> 57"
    by (simp_all add: hd_rev)
qed

lemma TrimSpace_digits:
  assumes "list_all digit_char s" and "s \<noteq> []"
  shows "TrimSpace (str s) = str s"
proof -
  have "str s \<noteq> []" using assms(2) by (simp add: str_def)
  then show ?thesis
    using drop_any_keeps [OF white_ends(1), of "str s"] drop_any_keeps [OF white_ends(2), of "rev (str s)"] str_digit_ends [OF assms]
    by (simp add: TrimSpace_def)
qed

lemma ParseInt_fmt:
  assumes "clock_ok ts"
  shows "ParseInt (TrimSpace (str (fmt_020d ts))) = Some ts"
proof -
  let ?s = "fmt_020d ts"
  have d: "list_all digit_char ?s" by (rule fmt_020d_digits [OF assms])
  have ne: "?s \<noteq> []" using length_fmt_020d [OF assms] by auto
  then obtain b bs where b: "str ?s = b # bs" by (cases "str ?s") (auto simp: str_def)
  have "b \<noteq> 45" "b \<noteq> 43" using str_digit_ends(1) [OF d ne] b by (auto simp: word_le_nat_alt)
  then have "ParseInt (str ?s) = (case digits_value 0 (str ?s) of None \<Rightarrow> None | Some n \<Rightarrow> if n < 2 ^ 63 then Some (int n) else None)"
    unfolding ParseInt_def b by (simp cong: option.case_cong)
  moreover have "foldl read_digit 0 ?s = nat ts"
    using assms by (simp add: clock_ok_def fmt_020d_def pad_def foldl_zeros foldl_show_nat)
  moreover have "nat ts < 2 ^ 63" and "int (nat ts) = ts" using assms by (auto simp: clock_ok_def)
  ultimately show ?thesis by (simp add: TrimSpace_digits [OF d ne] digits_value_str [OF d])
qed


section \<open>Results: selection\<close>

text \<open>The records an iterator shows that are not later than the cutoff.\<close>

definition candidate :: "'db world \<Rightarrow> int \<Rightarrow> byte list \<times> byte list \<Rightarrow> MetadataRecord option" where
  "candidate W cutoff kv =
     (if fst kv = sessionMetaKey then None
      else case meta_parse W (snd kv) of
             Inl e \<Rightarrow> None
           | Inr m \<Rightarrow> if cutoff < md_Timestamp m then None else Some m)"

definition latest :: "MetadataRecord set \<Rightarrow> byte list \<Rightarrow> MetadataRecord option \<Rightarrow> bool" where
  "latest M p r \<longleftrightarrow>
     (case r of
        None \<Rightarrow> \<forall>m \<in> M. md_Path m \<noteq> p
      | Some m \<Rightarrow> m \<in> M \<and> md_Path m = p \<and> (\<forall>m' \<in> M. md_Path m' = p \<longrightarrow> md_Timestamp m' \<le> md_Timestamp m))"

lemma load_step_latest:
  assumes "\<And>p. latest M p (recs p)"
  shows "latest (case candidate W cutoff kv of None \<Rightarrow> M | Some m \<Rightarrow> insert m M) p (load_step W cutoff kv recs p)"
proof (cases "candidate W cutoff kv")
  case None
  then have "load_step W cutoff kv recs = recs"
    by (auto simp: candidate_def load_step_def split: if_splits sum.splits)
  with None assms show ?thesis by simp
next
  case (Some m)
  then have step: "load_step W cutoff kv recs =
      (case recs (md_Path m) of
         None \<Rightarrow> recs(md_Path m \<mapsto> m)
       | Some prev \<Rightarrow> if md_Timestamp prev < md_Timestamp m then recs(md_Path m \<mapsto> m) else recs)"
    by (auto simp: candidate_def load_step_def split: if_splits sum.splits)
  show ?thesis
  proof (cases "p = md_Path m")
    case False
    with assms [of p] Some show ?thesis by (auto simp: step latest_def split: option.splits)
  next
    case True
    with assms [of p] Some show ?thesis by (fastforce simp: step latest_def split: option.splits)
  qed
qed

lemma load_latest:
  "latest {m. \<exists>kv \<in> set kvs. candidate W cutoff kv = Some m} p (fold (load_step W cutoff) kvs Map.empty p)"
proof (induction kvs arbitrary: p rule: rev_induct)
  case Nil
  then show ?case by (simp add: latest_def)
next
  case (snoc kv kvs)
  have "{m. \<exists>x \<in> set (kvs @ [kv]). candidate W cutoff x = Some m} =
      (case candidate W cutoff kv of
         None \<Rightarrow> {m. \<exists>x \<in> set kvs. candidate W cutoff x = Some m}
       | Some m \<Rightarrow> insert m {m. \<exists>x \<in> set kvs. candidate W cutoff x = Some m})"
    by (auto split: option.splits)
  with load_step_latest [OF snoc.IH] show ?case by simp
qed

text \<open>The specification: a path's version at a time is its latest event that is not later.\<close>

definition version_at :: "JournalEntry list \<Rightarrow> int \<Rightarrow> byte list \<Rightarrow> JournalEntry \<Rightarrow> bool" where
  "version_at hist cutoff p e \<longleftrightarrow>
     e \<in> set hist \<and> je_Path e = p \<and> je_Timestamp e \<le> cutoff \<and>
     (\<forall>f \<in> set hist. je_Path f = p \<longrightarrow> je_Timestamp f \<le> cutoff \<longrightarrow> je_Timestamp f \<le> je_Timestamp e)"

lemma metadata_of_simps [simp]:
  "md_Path (metadata_of e c) = je_Path e" "md_Timestamp (metadata_of e c) = je_Timestamp e" "md_CID (metadata_of e c) = c"
  by (simp_all add: metadata_of_def)

text \<open>A database in which the journal is empty.\<close>

definition drained :: "('db \<Rightarrow> byte list \<rightharpoonup> byte list) \<Rightarrow> 'db \<Rightarrow> bool" where
  "drained cont db \<longleftrightarrow> (\<forall>s. cont db (PrefixLog @ s) = None)"

lemma candidate_is_event:
  assumes "world_laws W cont" and "rec_inv W cont hist db it"
    and "newPrefixIter W db PrefixMeta = Inr (kvs, None)" and "kv \<in> set kvs" and "candidate W cutoff kv = Some m"
  shows "\<exists>e. e \<in> set hist \<and> m = metadata_of e (cid_of W e) \<and> je_Timestamp e \<le> cutoff \<and> cont db (casKey (cid_of W e)) \<noteq> None"
proof -
  have P: "pebble_laws W cont" using assms(1) by (simp add: world_laws_def)
  obtain k v where kv: "kv = (k, v)" by fastforce
  with assms(4) iter_content [OF P assms(3) [unfolded newPrefixIter_def]]
  obtain s where k: "k = PrefixMeta @ s" "cont db k = Some v" by (auto simp: in_bounds_prefix)
  have "k \<noteq> sessionMetaKey" and m: "meta_parse W v = Inr m" "md_Timestamp m \<le> cutoff"
    using assms(5) kv by (auto simp: candidate_def split: if_splits sum.splits)
  with k assms(2) obtain e where "e \<in> set hist" "records W cont db v e" unfolding rec_inv_def meta_ok_def by blast
  with m show ?thesis by (auto simp: records_def)
qed

lemma event_has_candidate:
  assumes L: "world_laws W cont" and inv: "rec_inv W cont hist db it" and ok: "list_all (entry_ok W) hist"
    and it: "newPrefixIter W db PrefixMeta = Inr (kvs, None)" and "drained cont db" and "e \<in> set hist" and "je_Timestamp e \<le> cutoff"
  shows "\<exists>kv f. kv \<in> set kvs \<and> f \<in> set hist \<and> candidate W cutoff kv = Some (metadata_of f (cid_of W f))
    \<and> je_Path f = je_Path e \<and> je_Timestamp f = je_Timestamp e"
proof -
  have P: "pebble_laws W cont" and C: "codec_laws W" using L by (auto simp: world_laws_def)
  have ck: "clock_ok (je_Timestamp f)" "0xFF \<notin> set (je_Path f)" if "f \<in> set hist" for f
    using ok that text_laws(2) [OF C] by (auto simp: list_all_iff entry_ok_def)
  have "\<not> in_journal W cont db e" using assms(5) by (simp add: in_journal_def drained_def)
  with inv assms(6) obtain v where v: "cont db (entryKey e) = Some v" by (auto simp: rec_inv_def)
  obtain s where s: "entryKey e = PrefixMeta @ s" "s = je_Path e @ str ('':'' @ fmt_020d (je_Timestamp e))"
    by (simp add: entryKey_def metaKey_def)
  have ns: "entryKey e \<noteq> sessionMetaKey" using ck(1) [OF assms(6)] metaKey_not_session by (simp add: entryKey_def)
  then obtain f where f: "f \<in> set hist" "entryKey e = entryKey f" "records W cont db v f"
    using inv v unfolding s(1) rec_inv_def meta_ok_def by blast
  then have same: "je_Path f = je_Path e" "je_Timestamp f = je_Timestamp e"
    using ck(1) assms(6) by (auto simp: entryKey_def metaKey_inject)
  have "hd s < 0xFF"
  proof (cases "je_Path e")
    case Nil
    then show ?thesis by (simp add: s(2) str_def)
  next
    case (Cons b bs)
    with ck(2) [OF assms(6)] have "b \<noteq> 0xFF" by auto
    then show ?thesis using Cons by (simp add: s(2) byte_less_max)
  qed
  then have "(entryKey e, v) \<in> set kvs"
    using v iter_content [OF P it [unfolded newPrefixIter_def]] by (auto simp: s(1) in_bounds_prefix)
  moreover have "candidate W cutoff (entryKey e, v) = Some (metadata_of f (cid_of W f))"
    using f(3) ns same assms(7) by (simp add: candidate_def records_def)
  ultimately show ?thesis using f(1) same by blast
qed

lemma load_versions:
  assumes L: "world_laws W cont" "healthy W" and inv: "rec_inv W cont hist db it" and ok: "list_all (entry_ok W) hist"
    and dr: "drained cont db"
  shows "\<exists>recs. loadMetadataAt W db target = Inr recs \<and>
    (\<forall>p. case recs p of
            None \<Rightarrow> \<not> (\<exists>e. version_at hist (UnixNano target) p e)
          | Some m \<Rightarrow> \<exists>e. version_at hist (UnixNano target) p e \<and> m = metadata_of e (cid_of W e) \<and> cont db (casKey (cid_of W e)) \<noteq> None)"
proof -
  obtain kvs where it: "newPrefixIter W db PrefixMeta = Inr (kvs, None)"
    using healthy_ops(3) [OF L(2)] unfolding newPrefixIter_def by blast
  let ?recs = "fold (load_step W (UnixNano target)) kvs Map.empty"
  note ev = candidate_is_event [OF L(1) inv it] and ca = event_has_candidate [OF L(1) inv ok it dr]
  have "case ?recs p of
          None \<Rightarrow> \<not> (\<exists>e. version_at hist (UnixNano target) p e)
        | Some m \<Rightarrow> \<exists>e. version_at hist (UnixNano target) p e \<and> m = metadata_of e (cid_of W e) \<and> cont db (casKey (cid_of W e)) \<noteq> None" for p
  proof (cases "?recs p")
    case None
    with load_latest [of kvs W "UnixNano target" p] have "candidate W (UnixNano target) kv = Some m \<Longrightarrow> kv \<in> set kvs \<Longrightarrow> md_Path m \<noteq> p" for kv m
      by (auto simp: latest_def)
    then have "\<not> version_at hist (UnixNano target) p e" for e using ca by (fastforce simp: version_at_def)
    with None show ?thesis by simp
  next
    case (Some m)
    with load_latest [of kvs W "UnixNano target" p] obtain kv where kv: "kv \<in> set kvs" "candidate W (UnixNano target) kv = Some m" "md_Path m = p"
      and top: "\<And>kv' m'. kv' \<in> set kvs \<Longrightarrow> candidate W (UnixNano target) kv' = Some m' \<Longrightarrow> md_Path m' = p \<Longrightarrow> md_Timestamp m' \<le> md_Timestamp m"
      by (auto simp: latest_def)
    from ev [OF kv(1,2)] obtain e where e: "e \<in> set hist" "m = metadata_of e (cid_of W e)" "je_Timestamp e \<le> (UnixNano target)"
      "cont db (casKey (cid_of W e)) \<noteq> None" by blast
    have "je_Timestamp f \<le> je_Timestamp e" if f: "f \<in> set hist" "je_Path f = p" "je_Timestamp f \<le> (UnixNano target)" for f
      using ca [OF f(1,3)] top e(2) f(2) by fastforce
    with e kv(3) have "version_at hist (UnixNano target) p e" by (auto simp: version_at_def)
    with Some e show ?thesis by auto
  qed
  with it show ?thesis by (auto simp: loadMetadataAt_def)
qed


section \<open>Results: the files\<close>

text \<open>
  \<open>files\<close> is what the regular files of a file system hold.  Making directories leaves it, writing a
  file sets it at one path.
\<close>

definition os_laws :: "'fs osys \<Rightarrow> ('fs \<Rightarrow> byte list \<rightharpoonup> byte list) \<Rightarrow> bool" where
  "os_laws OS files \<longleftrightarrow>
     (\<forall>fs p fs'. os_mkdir_all OS fs p = Inr fs' \<longrightarrow> files fs' = files fs) \<and>
     (\<forall>fs p d fs'. os_write_file OS fs p d = Inr fs' \<longrightarrow> files fs' = (files fs)(p \<mapsto> d))"

definition order_laws :: "((byte list \<rightharpoonup> MetadataRecord) \<Rightarrow> byte list list) \<Rightarrow> bool" where
  "order_laws range_order \<longleftrightarrow> (\<forall>m. finite (dom m) \<longrightarrow> set (range_order m) = dom m \<and> distinct (range_order m))"

fun os_error :: "export_error \<Rightarrow> bool" where
  "os_error (CreateOut e) = True"
| "os_error (CreateParent d e) = True"
| "os_error (WriteDest d e) = True"
| "os_error e = False"

definition dest_of :: "byte list \<Rightarrow> byte list \<times> MetadataRecord \<Rightarrow> byte list" where
  "dest_of outDir pm = Join outDir (cleanPath (fst pm))"

lemma export_one_ok:
  assumes "os_laws OS files" and "Get W db (md_CID (snd pm)) = Inr d"
  shows "case export_one W OS outDir db pm fs of
      (Inr u, fs') \<Rightarrow> files fs' = (files fs)(dest_of outDir pm \<mapsto> d)
    | (Inl e, fs') \<Rightarrow> os_error e"
  using assms by (auto simp: export_one_def dest_of_def os_laws_def Let_def split: sum.splits)

lemma export_loop_error:
  assumes "os_laws OS files" and "\<forall>pm \<in> set pms. \<exists>d. Get W db (md_CID (snd pm)) = Inr d"
    and "export_loop W OS outDir db pms fs = (Inl e, fs')"
  shows "os_error e"
  using assms(2,3)
proof (induction pms arbitrary: fs)
  case (Cons pm pms)
  then obtain d where "Get W db (md_CID (snd pm)) = Inr d" by auto
  from export_one_ok [OF assms(1) this, where outDir = outDir and fs = fs] Cons show ?case
    by (auto split: prod.splits sum.splits)
qed simp

lemma export_loop_other:
  assumes "os_laws OS files" and "\<forall>pm \<in> set pms. \<exists>d. Get W db (md_CID (snd pm)) = Inr d"
    and "export_loop W OS outDir db pms fs = (Inr u, fs')" and "f \<notin> dest_of outDir ` set pms"
  shows "files fs' f = files fs f"
  using assms(2-4)
proof (induction pms arbitrary: fs)
  case (Cons pm pms)
  then obtain d where "Get W db (md_CID (snd pm)) = Inr d" by auto
  from export_one_ok [OF assms(1) this, where outDir = outDir and fs = fs] Cons show ?case
    by (auto split: prod.splits sum.splits)
qed simp

lemma export_loop_files:
  assumes "os_laws OS files" and "\<forall>pm \<in> set pms. \<exists>d. Get W db (md_CID (snd pm)) = Inr d"
    and "export_loop W OS outDir db pms fs = (Inr u, fs')"
    and "pm \<in> set pms" and "\<forall>pm' \<in> set pms. dest_of outDir pm' = dest_of outDir pm \<longrightarrow> pm' = pm"
    and "Get W db (md_CID (snd pm)) = Inr d"
  shows "files fs' (dest_of outDir pm) = Some d"
  using assms(2-5)
proof (induction pms arbitrary: fs)
  case (Cons x pms)
  from Cons.prems(1) obtain dx where dx: "Get W db (md_CID (snd x)) = Inr dx" by auto
  from export_one_ok [OF assms(1) dx, where outDir = outDir and fs = fs] Cons.prems(2) obtain u1 fs1 where
    fs1: "files fs1 = (files fs)(dest_of outDir x \<mapsto> dx)" "export_loop W OS outDir db pms fs1 = (Inr u, fs')"
    by (auto split: prod.splits sum.splits)
  show ?case
  proof (cases "pm \<in> set pms")
    case True
    with Cons.IH [OF _ fs1(2)] Cons.prems show ?thesis by simp
  next
    case False
    with Cons.prems(3,4) have "pm = x" "dest_of outDir pm \<notin> dest_of outDir ` set pms" by auto
    with export_loop_other [OF assms(1) _ fs1(2)] Cons.prems(1) fs1(1) dx assms(6) show ?thesis by simp
  qed
qed simp

lemma Get_recorded:
  assumes "world_laws W cont" and "healthy W" and "rec_inv W cont hist db it" and "cont db (casKey (cid_of W e)) \<noteq> None"
  shows "\<exists>d. Get W db (cid_of W e) = Inr d \<and> sha256 W d = sha256 W (je_Data e)"
  using Get_cas_ok [OF assms(1,2), of db "sha256 W (je_Data e)"] assms(3,4) by (simp add: rec_inv_def cid_of_def)

lemma finite_load: "finite (dom (fold (load_step W cutoff) kvs recs))" if "finite (dom recs)"
  using that
proof (induction kvs arbitrary: recs)
  case (Cons kv kvs)
  have "finite (dom (load_step W cutoff kv recs))"
    using Cons.prems by (auto simp: load_step_def split: sum.splits option.splits)
  with Cons.IH show ?case by simp
qed simp

lemma finite_loaded: "loadMetadataAt W db target = Inr recs \<Longrightarrow> finite (dom recs)"
  by (auto simp: loadMetadataAt_def finite_load split: sum.splits option.splits)


lemma UnixNano_small: "- (2 ^ 63) \<le> t \<Longrightarrow> t < 2 ^ 63 \<Longrightarrow> UnixNano t = t"
  by (simp add: UnixNano_def)

lemma UnixNano_far: "2 ^ 63 \<le> t \<Longrightarrow> t < 2 ^ 64 \<Longrightarrow> UnixNano t < 0"
proof -
  assume t: "2 ^ 63 \<le> t" "t < 2 ^ 64"
  have "t + 2 ^ 63 = t - 2 ^ 63 + 2 ^ 64" by simp
  then have "(t + 2 ^ 63) mod 2 ^ 64 = (t - 2 ^ 63) mod 2 ^ 64" by (simp only: mod_add_self2)
  also have "\<dots> = t - 2 ^ 63" using t by (intro mod_pos_pos_trivial) auto
  finally show ?thesis using t by (simp add: UnixNano_def)
qed


section \<open>Properties\<close>

text \<open>
  The first session start that is recorded is the one that is read back, and a later recording
  into the same state directory does not replace it.
\<close>

theorem session_start_roundtrip:
  assumes "world_laws W cont" and "healthy W" and "cont db sessionMetaKey = None" and "clock_ok start"
  shows "\<exists>db'. recordSessionStart W start (Some db) = Some db' \<and> loadSessionStart W db' = Some start
    \<and> (\<forall>later. recordSessionStart W later (Some db') = Some db')"
proof -
  have P: "pebble_laws W cont" using assms(1) by (simp add: world_laws_def)
  note get = healthy_get [OF P assms(2)]
  obtain db' where db': "db_set W db sessionMetaKey (str (fmt_020d start)) = Inr db'" using healthy_ops(1) [OF assms(2)] by blast
  have "cont db' sessionMetaKey = Some (str (fmt_020d start))" by (simp add: set_content [OF P db'])
  with db' assms(3) ParseInt_fmt [OF assms(4)] show ?thesis
    by (simp add: recordSessionStart_def loadSessionStart_def get)
qed

theorem session_start_roundtrip_witness:
  "\<exists>db'. recordSessionStart mem_world 1700000000000000000 (Some []) = Some db'
     \<and> loadSessionStart mem_world db' = Some 1700000000000000000"
  using session_start_roundtrip [OF mem_world_laws mem_healthy, of "[]" 1700000000000000000] by (auto simp: clock_ok_def)

text \<open>
  C10: the database refines the history of logged events: once the journal is drained, the
  metadata selected for a time have a record for a path exactly when the path has a version at that
  time, the record is that version's, and its object is in the store with the hash of the version's
  data.
\<close>

theorem load_refines_history:
  assumes "recorded W cont db0 hist db it" and "cont db0 = Map.empty" and "list_all (entry_ok W) hist"
    and "world_laws W cont" and "healthy W" and "drained cont db"
  shows "\<exists>recs. loadMetadataAt W db target = Inr recs \<and>
    (\<forall>p. case recs p of
            None \<Rightarrow> \<not> (\<exists>e. version_at hist (UnixNano target) p e)
          | Some m \<Rightarrow> \<exists>e d. version_at hist (UnixNano target) p e \<and> m = metadata_of e (cid_of W e)
              \<and> Get W db (md_CID m) = Inr d \<and> sha256 W d = sha256 W (je_Data e))"
proof -
  have inv: "rec_inv W cont hist db it" by (rule recorded_inv [OF assms(1,4,2,3)])
  from load_versions [OF assms(4,5) inv assms(3,6), of target] obtain recs where
    recs: "loadMetadataAt W db target = Inr recs" and
    v: "\<And>p. case recs p of
            None \<Rightarrow> \<not> (\<exists>e. version_at hist (UnixNano target) p e)
          | Some m \<Rightarrow> \<exists>e. version_at hist (UnixNano target) p e \<and> m = metadata_of e (cid_of W e) \<and> cont db (casKey (cid_of W e)) \<noteq> None"
    by blast
  have "case recs p of
            None \<Rightarrow> \<not> (\<exists>e. version_at hist (UnixNano target) p e)
          | Some m \<Rightarrow> \<exists>e d. version_at hist (UnixNano target) p e \<and> m = metadata_of e (cid_of W e)
              \<and> Get W db (md_CID m) = Inr d \<and> sha256 W d = sha256 W (je_Data e)" for p
    using v [of p] Get_recorded [OF assms(4,5) inv] by (cases "recs p") (simp, fastforce)
  with recs show ?thesis by blast
qed

definition demo_done :: mem_db where
  "demo_done = snd (processor_pass mem_world demo_db)"

lemma demo_done_recorded: "recorded mem_world map_of [] [demo_entry 2 [6], demo_entry 1 [5]] demo_done []"
  unfolding demo_done_def by (rule recorded_pass [OF demo_recorded])

lemma demo_done_drained: "drained map_of demo_done"
  unfolding drained_def demo_done_def
  using pass_drained [OF mem_world_laws mem_healthy demo_ok recorded_inv [OF demo_recorded mem_world_laws _ demo_ok]] by simp

lemma demo_version: "version_at [demo_entry 2 [6], demo_entry 1 [5]] 1 (str ''a.txt'') e \<longleftrightarrow> e = demo_entry 1 [5]"
  by (auto simp: version_at_def demo_entry_def)

theorem load_refines_history_witness:
  "\<exists>recs m. loadMetadataAt mem_world demo_done 1 = Inr recs \<and> recs (str ''a.txt'') = Some m
     \<and> Get mem_world demo_done (md_CID m) = Inr [5]"
proof -
  have sha: "sha256 mem_world = (\<lambda>d. d)" by (simp add: mem_world_def)
  from load_refines_history [OF demo_done_recorded _ demo_ok mem_world_laws mem_healthy demo_done_drained, of 1, unfolded UnixNano_small [of 1, simplified]]
  obtain recs where recs: "loadMetadataAt mem_world demo_done 1 = Inr recs" and
    c: "case recs (str ''a.txt'') of
          None \<Rightarrow> \<not> (\<exists>e. version_at [demo_entry 2 [6], demo_entry 1 [5]] 1 (str ''a.txt'') e)
        | Some m \<Rightarrow> \<exists>e d. version_at [demo_entry 2 [6], demo_entry 1 [5]] 1 (str ''a.txt'') e \<and> m = metadata_of e (cid_of mem_world e)
            \<and> Get mem_world demo_done (md_CID m) = Inr d \<and> sha256 mem_world d = sha256 mem_world (je_Data e)"
    by auto
  from c have "\<exists>m. recs (str ''a.txt'') = Some m \<and> Get mem_world demo_done (md_CID m) = Inr [5]"
    unfolding demo_version sha by (auto simp: demo_entry_def split: option.splits)
  with recs show ?thesis by blast
qed

text \<open>The pairs the loop goes through, and the objects of their records.\<close>

lemma selected_pairs:
  assumes "order_laws range_order" and "finite (dom recs)"
  shows "pm \<in> set (map (\<lambda>p. (p, the (recs p))) (range_order recs)) \<longleftrightarrow> recs (fst pm) = Some (snd pm)"
  using assms by (cases pm) (force simp: order_laws_def image_iff)

lemma export_loop_result:
  assumes "os_laws OS files" and "\<And>pm. pm \<in> set pms \<longleftrightarrow> recs (fst pm) = Some (snd pm)"
    and "\<forall>p m. recs p = Some m \<longrightarrow> (\<exists>d. Get W db (md_CID m) = Inr d)"
    and "export_loop W OS outDir db pms fs = (Inr u, fs')"
  shows "recs p = Some m \<Longrightarrow> Get W db (md_CID m) = Inr d \<Longrightarrow>
      (\<And>q. recs q \<noteq> None \<Longrightarrow> Join outDir (cleanPath q) = Join outDir (cleanPath p) \<Longrightarrow> q = p) \<Longrightarrow>
      files fs' (Join outDir (cleanPath p)) = Some d"
    and "(\<And>q. recs q \<noteq> None \<Longrightarrow> Join outDir (cleanPath q) \<noteq> f) \<Longrightarrow> files fs' f = files fs f"
proof -
  have g: "\<forall>pm \<in> set pms. \<exists>d. Get W db (md_CID (snd pm)) = Inr d" using assms(2,3) by blast
  show "files fs' (Join outDir (cleanPath p)) = Some d" if r: "recs p = Some m" "Get W db (md_CID m) = Inr d"
    and u: "\<And>q. recs q \<noteq> None \<Longrightarrow> Join outDir (cleanPath q) = Join outDir (cleanPath p) \<Longrightarrow> q = p"
  proof -
    have "\<forall>pm' \<in> set pms. dest_of outDir pm' = dest_of outDir (p, m) \<longrightarrow> pm' = (p, m)"
      using u r(1) assms(2) unfolding dest_of_def by (metis fst_conv option.distinct(1) option.inject prod.collapse)
    from export_loop_files [OF assms(1) g assms(4) _ this] assms(2) r show ?thesis by (simp add: dest_of_def)
  qed
  show "files fs' f = files fs f" if "\<And>q. recs q \<noteq> None \<Longrightarrow> Join outDir (cleanPath q) \<noteq> f"
    by (rule export_loop_other [OF assms(1) g assms(4)]) (use that assms(2) in \<open>auto simp: dest_of_def\<close>)
qed

lemma export_loop_versions:
  assumes "os_laws OS files" and "\<And>pm. pm \<in> set pms \<longleftrightarrow> recs (fst pm) = Some (snd pm)"
    and ver: "\<And>p. recs p \<noteq> None \<longleftrightarrow> (\<exists>e. V p e)"
    and obj: "\<And>p m. recs p = Some m \<Longrightarrow> \<exists>e d. V p e \<and> Get W db (md_CID m) = Inr d \<and> sha256 W d = sha256 W (je_Data e)"
    and "export_loop W OS outDir db pms fs = (Inr u, fs')"
  shows "V p e \<Longrightarrow> (\<forall>q f. V q f \<and> Join outDir (cleanPath q) = Join outDir (cleanPath p) \<longrightarrow> q = p) \<Longrightarrow>
      \<exists>e d. V p e \<and> files fs' (Join outDir (cleanPath p)) = Some d \<and> sha256 W d = sha256 W (je_Data e)"
    and "(\<forall>q e. V q e \<longrightarrow> Join outDir (cleanPath q) \<noteq> f) \<Longrightarrow> files fs' f = files fs f"
proof -
  have g: "\<forall>p m. recs p = Some m \<longrightarrow> (\<exists>d. Get W db (md_CID m) = Inr d)" using obj by blast
  note res = export_loop_result [OF assms(1,2) g assms(5)]
  {
    assume p: "V p e" and u: "\<forall>q f. V q f \<and> Join outDir (cleanPath q) = Join outDir (cleanPath p) \<longrightarrow> q = p"
    from p ver [of p] obtain m where m: "recs p = Some m" by auto
    from obj [OF m] obtain e d where ed: "V p e" "Get W db (md_CID m) = Inr d" "sha256 W d = sha256 W (je_Data e)" by blast
    have "files fs' (Join outDir (cleanPath p)) = Some d" by (rule res(1) [OF m ed(2)]) (use u ver in blast)
    with ed show "\<exists>e d. V p e \<and> files fs' (Join outDir (cleanPath p)) = Some d \<and> sha256 W d = sha256 W (je_Data e)" by blast
  }
  show "files fs' f = files fs f" if "\<forall>q e. V q e \<longrightarrow> Join outDir (cleanPath q) \<noteq> f"
    by (rule res(2)) (use that ver in blast)
qed

lemma export_versions:
  assumes "recorded W cont db0 hist db it" and "cont db0 = Map.empty" and "list_all (entry_ok W) hist"
    and "world_laws W cont" and "healthy W" and "drained cont db"
    and "os_laws OS files" and "order_laws range_order"
    and "parseTargetTime C atTime (loadSessionStart W db) = Inr target"
  shows "case runExport W OS C range_order (Inr db) outDir atTime fs of
      (Inl e, fs') \<Rightarrow> os_error e
    | (Inr u, fs') \<Rightarrow>
        (\<forall>p. (\<exists>e. version_at hist (UnixNano target) p e) \<and>
              (\<forall>q f. version_at hist (UnixNano target) q f \<and> Join outDir (cleanPath q) = Join outDir (cleanPath p) \<longrightarrow> q = p) \<longrightarrow>
              (\<exists>e d. version_at hist (UnixNano target) p e \<and> files fs' (Join outDir (cleanPath p)) = Some d
                \<and> sha256 W d = sha256 W (je_Data e))) \<and>
        (\<forall>f. (\<forall>q e. version_at hist (UnixNano target) q e \<longrightarrow> Join outDir (cleanPath q) \<noteq> f) \<longrightarrow> files fs' f = files fs f)"
proof -
  have inv: "rec_inv W cont hist db it" by (rule recorded_inv [OF assms(1,4,2,3)])
  from load_versions [OF assms(4,5) inv assms(3,6), of target] obtain recs where
    recs: "loadMetadataAt W db target = Inr recs" and
    v: "\<And>p. case recs p of
            None \<Rightarrow> \<not> (\<exists>e. version_at hist (UnixNano target) p e)
          | Some m \<Rightarrow> \<exists>e. version_at hist (UnixNano target) p e \<and> m = metadata_of e (cid_of W e) \<and> cont db (casKey (cid_of W e)) \<noteq> None"
    by blast
  have ver: "recs p \<noteq> None \<longleftrightarrow> (\<exists>e. version_at hist (UnixNano target) p e)" for p using v [of p] by (auto split: option.splits)
  have obj: "\<exists>e d. version_at hist (UnixNano target) p e \<and> Get W db (md_CID m) = Inr d \<and> sha256 W d = sha256 W (je_Data e)"
    if "recs p = Some m" for p m using v [of p] that Get_recorded [OF assms(4,5) inv] by fastforce
  let ?pms = "map (\<lambda>p. (p, the (recs p))) (range_order recs)"
  note pms = selected_pairs [OF assms(8) finite_loaded [OF recs]]
  show ?thesis
  proof (cases "os_mkdir_all OS fs outDir")
    case (Inl e)
    then show ?thesis by (simp add: runExport_def)
  next
    case (Inr fs1)
    then have run: "runExport W OS C range_order (Inr db) outDir atTime fs = export_loop W OS outDir db ?pms fs1"
      by (simp add: runExport_def NewCASStore_def assms(9) recs)
    have fs1: "files fs1 = files fs" using assms(7) Inr by (simp add: os_laws_def)
    obtain r fs' where loop: "export_loop W OS outDir db ?pms fs1 = (r, fs')" by fastforce
    show ?thesis
    proof (cases r)
      case (Inl e)
      have "\<forall>pm \<in> set ?pms. \<exists>d. Get W db (md_CID (snd pm)) = Inr d" using pms obj by blast
      from export_loop_error [OF assms(7) this] loop Inl show ?thesis by (simp add: run)
    next
      case (Inr u)
      note res = export_loop_versions [OF assms(7) pms ver obj loop [unfolded Inr], unfolded fs1]
      show ?thesis unfolding run loop Inr using res by simp blast
    qed
  qed
qed

text \<open>
  C11: an export of a drained recording fails only where the file system does; otherwise it leaves in the
  destination of every path that no other exported path shares the data of that path's version at
  the target time, and leaves files that are no destination alone.
\<close>

theorem export_restores:
  assumes "recorded W cont db0 hist db it" and "cont db0 = Map.empty" and "list_all (entry_ok W) hist"
    and "world_laws W cont" and "healthy W" and "drained cont db"
    and "os_laws OS files" and "order_laws range_order"
    and "parseTargetTime C atTime (loadSessionStart W db) = Inr target"
  shows "case runExport W OS C range_order (Inr db) outDir atTime fs of
      (Inl e, fs') \<Rightarrow> os_error e
    | (Inr u, fs') \<Rightarrow>
        (\<forall>p. (\<exists>e. version_at hist (UnixNano target) p e) \<and>
              (\<forall>q f. version_at hist (UnixNano target) q f \<and> Join outDir (cleanPath q) = Join outDir (cleanPath p) \<longrightarrow> q = p) \<longrightarrow>
              (\<exists>e d. version_at hist (UnixNano target) p e \<and> files fs' (Join outDir (cleanPath p)) = Some d
                \<and> sha256 W d = sha256 W (je_Data e))) \<and>
        (\<forall>f. (\<forall>q e. version_at hist (UnixNano target) q e \<longrightarrow> Join outDir (cleanPath q) \<noteq> f) \<longrightarrow> files fs' f = files fs f)"
  by (rule export_versions [OF assms])

definition mem_os :: "(byte list \<rightharpoonup> byte list) osys" where
  "mem_os = \<lparr>os_mkdir_all = (\<lambda>fs p. Inr fs), os_write_file = (\<lambda>fs p d. Inr (fs(p \<mapsto> d)))\<rparr>"

definition demo_clock :: clock where
  "demo_clock = \<lparr>ck_now = 1, ck_duration = (\<lambda>s. None), ck_rfc3339 = (\<lambda>s. None)\<rparr>"

definition key_order :: "(byte list \<rightharpoonup> MetadataRecord) \<Rightarrow> byte list list" where
  "key_order m = sorted_list_of_set (dom m)"

lemma mem_os_laws: "os_laws mem_os (\<lambda>fs. fs)"
  by (simp add: os_laws_def mem_os_def)

lemma key_order_laws: "order_laws key_order"
  by (simp add: order_laws_def key_order_def)

lemma mem_os_export_one: "export_one W mem_os outDir db pm fs = (Inl e, fs') \<Longrightarrow> \<not> os_error e"
  by (auto simp: export_one_def mem_os_def Let_def split: sum.splits)

lemma mem_os_export_loop: "export_loop W mem_os outDir db pms fs = (Inl e, fs') \<Longrightarrow> \<not> os_error e"
  by (induction pms arbitrary: fs) (auto split: prod.splits sum.splits dest: mem_os_export_one)

lemma mem_os_export: "runExport W mem_os demo_clock ro (Inr db) outDir [] fs = (Inl e, fs') \<Longrightarrow> \<not> os_error e"
  by (auto simp: runExport_def NewCASStore_def parseTargetTime_def mem_os_def loadMetadataAt_def split: sum.splits option.splits
      dest: mem_os_export_loop [unfolded mem_os_def])

lemma demo_dest: "Join (str ''out'') (cleanPath (str ''a.txt'')) = str ''out/a.txt''"
  by code_simp

theorem export_restores_witness:
  "\<exists>u fs'. runExport mem_world mem_os demo_clock key_order (Inr demo_done) (str ''out'') [] Map.empty = (Inr u, fs')
     \<and> fs' (str ''out/a.txt'') = Some [5]"
proof -
  let ?hist = "[demo_entry 2 [6], demo_entry 1 [5]]" and ?dest = "\<lambda>p. Join (str ''out'') (cleanPath p)"
  obtain r fs' where run: "runExport mem_world mem_os demo_clock key_order (Inr demo_done) (str ''out'') [] Map.empty = (r, fs')"
    by fastforce
  have t: "parseTargetTime demo_clock [] (loadSessionStart mem_world demo_done) = Inr 1"
    by (simp add: parseTargetTime_def demo_clock_def)
  note th = export_restores [OF demo_done_recorded map_of.simps(1) demo_ok mem_world_laws mem_healthy demo_done_drained mem_os_laws key_order_laws t,
      where outDir = "str ''out''" and fs = Map.empty, unfolded run UnixNano_small [of 1, simplified]]
  obtain u where u: "r = Inr u"
  proof (cases r)
    case (Inl e)
    with th have "os_error e" by simp
    moreover have "\<not> os_error e" by (rule mem_os_export [OF run [unfolded Inl]])
    ultimately show ?thesis by simp
  next
    case (Inr u)
    then show ?thesis by (rule that)
  qed
  have dest: "?dest (str ''a.txt'') = str ''out/a.txt''" by (rule demo_dest)
  have one: "version_at ?hist 1 q f \<Longrightarrow> q = str ''a.txt''" for q f by (auto simp: version_at_def demo_entry_def)
  have "(\<exists>e. version_at ?hist 1 (str ''a.txt'') e) \<and>
      (\<forall>q f. version_at ?hist 1 q f \<and> ?dest q = ?dest (str ''a.txt'') \<longrightarrow> q = str ''a.txt'')"
    unfolding demo_version using one by auto
  from th [unfolded u prod.case sum.case, THEN conjunct1, THEN spec, THEN mp, OF this]
  obtain e d where e: "e = demo_entry 1 [5]" and d: "fs' (str ''out/a.txt'') = Some d" "sha256 mem_world d = sha256 mem_world (je_Data e)"
    unfolding dest demo_version by auto
  have "d = [5]" using d(2) unfolding e by (simp add: mem_world_def demo_entry_def)
  with d(1) have "fs' (str ''out/a.txt'') = Some [5]" by simp
  with run u show ?thesis by blast
qed

end
