(* ===== verification/Watcher.thy ===== *)
theory Watcher
  imports Export
begin

text \<open>
  The file system recorder of \<open>src/main.go\<close>: \<open>startFSRecorder\<close> watches a directory tree and logs the
  contents of every file that is created or written there under its path relative to the root.  What the
  operating system and the \<open>fsnotify\<close> package answer is an argument.  \<open>recorder_step\<close> is the goroutine that handles notifications,
  and the processor beside it; \<open>outside_step\<close> is their environment: programs that change files, directories and permissions, and the
  watches that \<open>fsnotify\<close> drops; \<open>watch_step\<close> is the interleaving of both.

  Shown here: what the handler does with a notification (it logs a file that it can read, under its path below the root,
  and nothing else), and how paths below the root, the paths that are logged and the places in an
  output directory correspond.  What runs guarantee is in \<open>Watch_Runs\<close>.
\<close>

section \<open>Relative paths\<close>

text \<open>\<open>filepath.Abs\<close> on a working directory, and \<open>filepath.Rel\<close> on the components of the cleaned paths.\<close>

definition Abs :: "string + byte list \<Rightarrow> byte list \<Rightarrow> string + byte list" where
  "Abs wd p = (if rooted p then Inr (Clean p) else case wd of Inl e \<Rightarrow> Inl e | Inr d \<Rightarrow> Inr (Join d p))"

definition path_parts :: "byte list \<Rightarrow> byte list list" where
  "path_parts p = (if p = [] then [] else if p = [sep] then [[]] else components p)"

fun rel_strip :: "byte list list \<Rightarrow> byte list list \<Rightarrow> byte list list \<times> byte list list" where
  "rel_strip (b # bs) (t # ts) = (if b = t then rel_strip bs ts else (b # bs, t # ts))"
| "rel_strip bs ts = (bs, ts)"

definition Rel :: "byte list \<Rightarrow> byte list \<Rightarrow> string + byte list" where
  "Rel basepath targpath =
     (let base = Clean basepath; targ = Clean targpath; base' = (if base = dot then [] else base)
      in if targ = base then Inr dot
         else if rooted base' \<noteq> rooted targ then Inl ''can't make relative''
         else case rel_strip (path_parts base') (path_parts targ) of
                (bs, ts) \<Rightarrow>
                  if bs \<noteq> [] \<and> ts \<noteq> [] \<and> hd bs = dotdot then Inl ''can't make relative''
                  else Inr (join (replicate (length bs) dotdot @ ts)))"


section \<open>The watcher\<close>

record watch_host =
  Getwd :: "string + byte list"
  root_error :: "byte list \<Rightarrow> string option"
  NewWatcher :: "string option"
  WalkDir :: "byte list \<Rightarrow> (byte list \<times> bool \<times> string option) list"
  watcher_Add :: "byte list \<Rightarrow> string option"
  rand_fails :: bool
  name_ok :: "byte list \<Rightarrow> bool"

text \<open>The entries a walk visits: path, whether it is a directory, error.\<close>

fun addWatchRecursive :: "watch_host \<Rightarrow> (byte list \<times> bool \<times> string option) list \<Rightarrow> byte list set \<Rightarrow> string + byte list set" where
  "addWatchRecursive H [] watched = Inr watched"
| "addWatchRecursive H ((p, is_dir, err) # es) watched =
     (case err of
        Some e \<Rightarrow> Inl e
      | None \<Rightarrow>
          if \<not> is_dir then addWatchRecursive H es watched
          else case watcher_Add H p of
                 Some e \<Rightarrow> Inl e
               | None \<Rightarrow> addWatchRecursive H es (insert p watched))"

text \<open>The root and the directories that are watched from the start.\<close>

definition startFSRecorder :: "watch_host \<Rightarrow> bool \<Rightarrow> byte list \<Rightarrow> string + byte list \<times> byte list set" where
  "startFSRecorder H has_journal root =
     (if \<not> has_journal then Inl ''journal is not initialized''
      else case Abs (Getwd H) root of
             Inl e \<Rightarrow> Inl e
           | Inr absRoot \<Rightarrow>
               (case root_error H absRoot of
                  Some e \<Rightarrow> Inl e
                | None \<Rightarrow>
                    (case NewWatcher H of
                       Some e \<Rightarrow> Inl e
                     | None \<Rightarrow>
                         (case addWatchRecursive H (WalkDir H absRoot) {} of
                            Inl e \<Rightarrow> Inl e
                          | Inr watched \<Rightarrow> Inr (absRoot, watched)))))"

record fs_event =
  evt_Name :: "byte list"
  evt_Create :: bool
  evt_Write :: bool

text \<open>The files and directories, and which of them cannot be examined or read at a moment.\<close>

datatype node = Folder | Regular "byte list"

record file_tree =
  nodes :: "byte list \<rightharpoonup> node"
  stat_denied :: "byte list \<Rightarrow> string option"
  read_denied :: "byte list \<Rightarrow> string option"

definition os_Stat :: "file_tree \<Rightarrow> byte list \<Rightarrow> string + bool" where
  "os_Stat F p =
     (case stat_denied F p of
        Some e \<Rightarrow> Inl e
      | None \<Rightarrow> (case nodes F p of None \<Rightarrow> Inl ''no such file'' | Some Folder \<Rightarrow> Inr True | Some (Regular d) \<Rightarrow> Inr False))"

definition os_ReadFile :: "file_tree \<Rightarrow> byte list \<Rightarrow> string + byte list" where
  "os_ReadFile F p =
     (case read_denied F p of
        Some e \<Rightarrow> Inl e
      | None \<Rightarrow>
          (case nodes F p of None \<Rightarrow> Inl ''no such file'' | Some Folder \<Rightarrow> Inl ''is a directory'' | Some (Regular d) \<Rightarrow> Inr d))"

text \<open>The handler of one notification, on the watched directories and the database.\<close>

definition handle_event ::
  "'db world \<Rightarrow> watch_host \<Rightarrow> byte list \<Rightarrow> file_tree \<Rightarrow> int \<Rightarrow> string + byte list \<Rightarrow> fs_event \<Rightarrow> byte list set \<times> 'db
   \<Rightarrow> byte list set \<times> 'db" where
  "handle_event W H absRoot F now buf evt st =
     (if \<not> (evt_Create evt \<or> evt_Write evt) then st
      else if os_Stat F (evt_Name evt) = Inr True \<and> evt_Create evt
      then (if watcher_Add H (evt_Name evt) = None then insert (evt_Name evt) (fst st) else fst st, snd st)
      else case os_ReadFile F (evt_Name evt) of
             Inl e \<Rightarrow> st
           | Inr data \<Rightarrow>
               (let path = (case Rel absRoot (evt_Name evt) of Inl e \<Rightarrow> evt_Name evt | Inr rel \<Rightarrow> rel)
                in case LogEvent W now buf path data (Some (snd st)) of
                     (r, None) \<Rightarrow> st
                   | (r, Some db) \<Rightarrow> (fst st, db)))"


section \<open>Interleavings\<close>

text \<open>
  The watched directories are those whose changes are reported under their path.  When a directory is removed or renamed, the watches of it and of what was
  below it are no longer that: \<open>fsnotify\<close> documents that it drops the watch of a path that is removed or renamed, and what is reported for moved
  directories carries names they no longer have.  \<open>w_stale\<close> are such names, \<open>w_gone\<close> all paths at or below a
  directory that was removed, renamed or replaced since the start, and \<open>w_barred\<close> the paths that could not be read at some moment since then.
\<close>

record 'db watch_state =
  w_files :: file_tree
  w_watched :: "byte list set"
  w_stale :: "byte list set"
  w_queue :: "fs_event list"
  w_db :: 'db
  w_iter :: "(byte list \<times> byte list) list"
  w_now :: int
  w_gone :: "byte list set"
  w_barred :: "byte list set"

abbreviation abs_path :: "byte list list \<Rightarrow> byte list" where
  "abs_path ps \<equiv> sep # join ps"

definition notify :: "byte list \<Rightarrow> fs_event \<Rightarrow> 'db watch_state \<Rightarrow> 'db watch_state" where
  "notify p evt s = (if Dir p \<in> w_watched s then s\<lparr>w_queue := w_queue s @ [evt]\<rparr> else s)"

definition created :: "byte list \<Rightarrow> fs_event" where
  "created p = \<lparr>evt_Name = p, evt_Create = True, evt_Write = False\<rparr>"

definition written :: "byte list \<Rightarrow> fs_event" where
  "written p = \<lparr>evt_Name = p, evt_Create = False, evt_Write = True\<rparr>"

text \<open>A removal, the old name of a renaming or a change of attributes.\<close>

definition other_event :: "byte list \<Rightarrow> fs_event" where
  "other_event p = \<lparr>evt_Name = p, evt_Create = False, evt_Write = False\<rparr>"

definition used_name :: "watch_host \<Rightarrow> byte list \<Rightarrow> bool" where
  "used_name H c \<longleftrightarrow> proper c \<and> name_ok H c"

text \<open>The paths at or below a path, and a tree with one node changed or with a subtree moved.\<close>

definition under :: "byte list \<Rightarrow> byte list \<Rightarrow> bool" where
  "under p x \<longleftrightarrow> x = p \<or> take (Suc (length p)) x = p @ [sep]"

definition put_node :: "byte list \<Rightarrow> node option \<Rightarrow> 'db watch_state \<Rightarrow> 'db watch_state" where
  "put_node p n s = s\<lparr>w_files := (w_files s)\<lparr>nodes := (nodes (w_files s))(p := n)\<rparr>\<rparr>"

definition move_nodes :: "byte list \<Rightarrow> byte list \<Rightarrow> 'db watch_state \<Rightarrow> 'db watch_state" where
  "move_nodes p q s = s\<lparr>w_files := (w_files s)\<lparr>nodes :=
     (\<lambda>x. if under q x then nodes (w_files s) (p @ drop (length q) x) else if under p x then None else nodes (w_files s) x)\<rparr>\<rparr>"

definition lose :: "byte list \<Rightarrow> 'db watch_state \<Rightarrow> 'db watch_state" where
  "lose p s = s\<lparr>w_watched := {x \<in> w_watched s. \<not> under p x}, w_stale := w_stale s \<union> {x \<in> w_watched s. under p x}, w_gone := w_gone s \<union> {x. under p x}\<rparr>"

definition empty_dir :: "file_tree \<Rightarrow> byte list \<Rightarrow> bool" where
  "empty_dir F p \<longleftrightarrow> nodes F p = Some Folder \<and> (\<forall>x. under p x \<and> x \<noteq> p \<longrightarrow> nodes F x = None)"

text \<open>
  Programs create, write, remove and rename files and directories and change permissions; a change of a name in a watched directory puts a
  notification into the queue, which does not overflow.  A renaming replaces a file by a file or an empty directory by a directory.
  A change of permissions can change for any path whether it can be read.  Names stand for one file each: there are no links.
  Paths are \<open>abs_path\<close> of their components, which are the names \<open>name_ok\<close> that the programs use.
\<close>

inductive outside_step :: "watch_host \<Rightarrow> 'db watch_state \<Rightarrow> 'db watch_state \<Rightarrow> bool" for H :: watch_host where
  make_node: "list_all (used_name H) (qs @ [c]) \<Longrightarrow> p = abs_path (qs @ [c]) \<Longrightarrow> nodes (w_files s) p = None \<Longrightarrow> nodes (w_files s) (abs_path qs) = Some Folder \<Longrightarrow>
    outside_step H s (notify p (created p) (put_node p (Some n) s))"
| write_file: "list_all (used_name H) (qs @ [c]) \<Longrightarrow> p = abs_path (qs @ [c]) \<Longrightarrow> nodes (w_files s) p = Some (Regular d0) \<Longrightarrow>
    outside_step H s (notify p (written p) (put_node p (Some (Regular d)) s))"
| remove_file: "list_all (used_name H) (qs @ [c]) \<Longrightarrow> p = abs_path (qs @ [c]) \<Longrightarrow> nodes (w_files s) p = Some (Regular d0) \<Longrightarrow>
    outside_step H s (notify p (other_event p) (put_node p None s))"
| remove_dir: "list_all (used_name H) (qs @ [c]) \<Longrightarrow> p = abs_path (qs @ [c]) \<Longrightarrow> empty_dir (w_files s) p \<Longrightarrow>
    outside_step H s (lose p (notify p (other_event p) (put_node p None s)))"
| rename: "list_all (used_name H) (qs @ [c]) \<Longrightarrow> p = abs_path (qs @ [c]) \<Longrightarrow> list_all (used_name H) (qs' @ [c']) \<Longrightarrow> q = abs_path (qs' @ [c']) \<Longrightarrow>
    nodes (w_files s) p = Some n \<Longrightarrow> nodes (w_files s) (abs_path qs') = Some Folder \<Longrightarrow> \<not> under p q \<Longrightarrow>
    nodes (w_files s) q = None \<or> (n \<noteq> Folder \<and> nodes (w_files s) q \<noteq> Some Folder) \<or> (n = Folder \<and> empty_dir (w_files s) q) \<Longrightarrow>
    outside_step H s (lose q (lose p (notify q (created q) (notify p (other_event p) (move_nodes p q s)))))"
| permit: "list_all (used_name H) (qs @ [c]) \<Longrightarrow> p = abs_path (qs @ [c]) \<Longrightarrow>
    outside_step H s (notify p (other_event p) (s\<lparr>w_files := (w_files s)\<lparr>stat_denied := sd, read_denied := rd\<rparr>, w_barred := w_barred s \<union> {x. rd x \<noteq> None}\<rparr>))"
| stray: "list_all (used_name H) (qs @ [c]) \<Longrightarrow> abs_path qs \<in> w_stale s \<Longrightarrow> evt_Name e = abs_path (qs @ [c]) \<Longrightarrow>
    outside_step H s (s\<lparr>w_queue := w_queue s @ [e]\<rparr>)"
| drop_watch: "p \<in> w_gone s \<Longrightarrow> outside_step H s (s\<lparr>w_watched := w_watched s - {p}\<rparr>)"

text \<open>
  The handler takes the notifications in their order and works on the
  files as they are then; the processor works beside it, one journal entry at a time.  Adding a watch can fail or succeed each time.  A journal key is new when it
  is written, and only where \<open>rand_fails\<close> the random suffix can be an error.  The clock advances between two notifications.
\<close>

inductive recorder_step ::
  "'db world \<Rightarrow> ('db \<Rightarrow> byte list \<rightharpoonup> byte list) \<Rightarrow> watch_host \<Rightarrow> byte list \<Rightarrow> 'db watch_state \<Rightarrow> 'db watch_state \<Rightarrow> bool"
  for W :: "'db world" and cont :: "'db \<Rightarrow> byte list \<rightharpoonup> byte list" and H :: watch_host and absRoot :: "byte list" where
  handle: "w_queue s = e # q \<Longrightarrow> w_now s < now \<Longrightarrow> (isl buf \<Longrightarrow> rand_fails H) \<Longrightarrow> (\<And>bs. buf = Inr bs \<Longrightarrow> cont (w_db s) (logKey now (hex_encode bs)) = None) \<Longrightarrow>
    handle_event W (H\<lparr>watcher_Add := add\<rparr>) absRoot (w_files s) now buf e (w_watched s, w_db s) = (watched, db) \<Longrightarrow>
    recorder_step W cont H absRoot s (s\<lparr>w_queue := q, w_watched := watched, w_db := db, w_now := now\<rparr>)"
| open_iter: "w_iter s = [] \<Longrightarrow> newPrefixIter W (w_db s) PrefixLog = Inr (kvs, err) \<Longrightarrow>
    recorder_step W cont H absRoot s (s\<lparr>w_iter := kvs\<rparr>)"
| work: "w_iter s = (k, v) # it \<Longrightarrow> processJournalEntry W True k v (Some (w_db s)) = (r, Some db) \<Longrightarrow>
    recorder_step W cont H absRoot s (s\<lparr>w_db := db, w_iter := it\<rparr>)"

definition watch_step ::
  "'db world \<Rightarrow> ('db \<Rightarrow> byte list \<rightharpoonup> byte list) \<Rightarrow> watch_host \<Rightarrow> byte list \<Rightarrow> 'db watch_state \<Rightarrow> 'db watch_state \<Rightarrow> bool" where
  "watch_step W cont H absRoot s t \<longleftrightarrow> outside_step H s t \<or> recorder_step W cont H absRoot s t"

text \<open>The state in which the watcher begins.\<close>

definition watch_start :: "file_tree \<Rightarrow> byte list set \<Rightarrow> 'db \<Rightarrow> int \<Rightarrow> 'db watch_state" where
  "watch_start F watched db now =
     \<lparr>w_files = F, w_watched = watched, w_stale = {}, w_queue = [], w_db = db, w_iter = [], w_now = now,
      w_gone = {}, w_barred = {p. read_denied F p \<noteq> None}\<rparr>"


section \<open>Results: relative paths\<close>

lemma components_proper: "list_all proper xs \<Longrightarrow> xs \<noteq> [] \<Longrightarrow> components (join xs) = xs"
  by (simp add: components_join list_all_iff proper_def)

lemma components_abs: "list_all proper xs \<Longrightarrow> xs \<noteq> [] \<Longrightarrow> components (sep # join xs) = [] # xs"
  by (simp add: components_proper)

lemma Clean_abs:
  assumes "list_all proper xs"
  shows "Clean (sep # join xs) = sep # join xs"
proof (cases "xs = []")
  case True
  then show ?thesis by (simp add: Clean_def render_def rooted_def resolve_def clean_step_def)
next
  case False
  have "resolve (sep # join xs) = filter (\<lambda>c. c \<noteq> [] \<and> c \<noteq> dot) xs"
    using fold_clean_inside [of "[] # xs" True "[]"] assms components_abs [OF assms False]
    by (simp add: resolve_def rooted_def list_all_iff proper_def dotdot_def)
  also have "\<dots> = xs" using assms by (simp add: list_all_iff proper_def)
  finally show ?thesis by (simp add: Clean_def render_def rooted_def)
qed

lemma rel_strip_prefix: "rel_strip xs (xs @ ys) = ([], ys)"
  by (induction xs) (auto split: list.splits)

lemma parts_abs: "list_all proper xs \<Longrightarrow> path_parts (sep # join xs) = [] # xs"
proof (cases "xs = []")
  case False
  assume p: "list_all proper xs"
  with False have "join xs \<noteq> []" by (cases xs rule: join.cases) (auto simp: proper_def)
  with p False show ?thesis by (simp add: path_parts_def components_proper)
qed (simp add: path_parts_def)

text \<open>The path of something below the root.\<close>

lemma Rel_below:
  assumes "list_all proper rs" and "list_all proper cs" and "cs \<noteq> []"
  shows "Rel (sep # join rs) (sep # join (rs @ cs)) = Inr (join cs)"
proof -
  have p: "list_all proper (rs @ cs)" using assms by simp
  have "path_parts (sep # join rs) \<noteq> path_parts (sep # join (rs @ cs))"
    unfolding parts_abs [OF assms(1)] parts_abs [OF p] using assms(3) by simp
  then have "sep # join (rs @ cs) \<noteq> sep # join rs" by auto
  moreover have "rel_strip ([] # rs) ([] # rs @ cs) = ([], cs)" using rel_strip_prefix [of "[] # rs" cs] by simp
  moreover have "sep # x \<noteq> dot" for x by (simp add: sep_def dot_def)
  ultimately show ?thesis
    by (simp add: Rel_def Clean_abs [OF assms(1)] Clean_abs [OF p] parts_abs [OF assms(1)] parts_abs [OF p] rooted_def)
qed

lemma Dir_below:
  assumes "list_all proper (rs @ [c])"
  shows "Dir (sep # join (rs @ [c])) = sep # join rs"
proof -
  have c: "sep \<notin> set c" and rs: "list_all proper rs" using assms by (auto simp: proper_def)
  have drop: "dropWhile (\<lambda>b. b \<noteq> sep) (rev c @ x) = dropWhile (\<lambda>b. b \<noteq> sep) x" for x
    by (rule dropWhile_append2) (use c in auto)
  show ?thesis
  proof (cases "rs = []")
    case True
    then show ?thesis using drop [of "[sep]"] Clean_abs [of "[]"] by (simp add: Dir_def)
  next
    case False
    have j: "join (rs @ [c]) = join rs @ sep # c" using False by (induction rs rule: join.induct) auto
    have "Dir (sep # join (rs @ [c])) = Clean ((sep # join rs) @ [sep])"
      using drop [of "sep # rev (join rs) @ [sep]"] by (simp add: Dir_def j)
    also have "\<dots> = Clean (sep # join rs)"
    proof -
      have "components ((sep # join rs) @ [sep]) = components (sep # join rs) @ [[]]"
        using components_append [of "sep # join rs" "[]"] by simp
      then have "resolve ((sep # join rs) @ [sep]) = resolve (sep # join rs)" by (simp add: resolve_def rooted_def clean_step_def)
      then show ?thesis by (simp add: Clean_def rooted_def)
    qed
    finally show ?thesis using Clean_abs [OF rs] by simp
  qed
qed

lemma cleanPath_below:
  assumes "list_all proper cs" and "cs \<noteq> []" and "take 2 (hd cs) \<noteq> dotdot"
  shows "cleanPath (join cs) = join cs"
proof -
  obtain c ds where cs: "cs = c # ds" using assms(2) by (cases cs) auto
  have plain: "sep \<notin> set c" "list_all inside cs" using assms(1) cs by (auto simp: proper_def list_all_iff)
  have nr: "\<not> rooted (join cs)" by (rule join_not_rooted [OF plain(2)])
  have ne: "join cs \<noteq> []" using assms(1) cs by (cases ds) (auto simp: proper_def)
  have comps: "components (join cs) = cs" by (rule components_proper [OF assms(1,2)])
  have "resolve (join cs) = filter (\<lambda>c. c \<noteq> [] \<and> c \<noteq> dot) cs"
    using fold_clean_inside [of cs False "[]"] assms(1) nr by (simp add: resolve_def comps list_all_iff proper_def)
  also have "\<dots> = cs" using assms(1) by (simp add: list_all_iff proper_def)
  finally have "Clean (join cs) = join cs" using ne nr assms(2) by (simp add: Clean_def render_def)
  moreover have "trim_prefix [sep] (join cs) = join cs"
    by (rule trim_join) (use plain(2) in \<open>auto simp: list_all_iff\<close>)
  moreover have "strip_dots (join cs) = join cs"
    using assms(3) take_join [OF plain(1), of ds] unfolding cs by (subst strip_dots.simps) simp
  moreover have "join cs \<noteq> dot"
  proof
    assume "join cs = dot"
    then have "components (join cs) = [dot]" by (simp add: components_plain dot_def sep_def)
    with comps have "cs = [dot]" by simp
    with assms(1) show False by (simp add: proper_def)
  qed
  ultimately show ?thesis by (simp add: cleanPath_def Let_def)
qed

text \<open>Paths that name something below a directory and do not begin with two dots.\<close>

definition below :: "byte list list \<Rightarrow> bool" where
  "below cs \<longleftrightarrow> list_all proper cs \<and> cs \<noteq> [] \<and> take 2 (hd cs) \<noteq> dotdot"

lemma Join_below:
  assumes "out \<noteq> []" and "below cs"
  shows "Join out (cleanPath (join cs)) = render (rooted out) (resolve out @ cs)"
proof -
  have cs: "list_all proper cs" "cs \<noteq> []" and cl: "cleanPath (join cs) = join cs"
    using assms(2) cleanPath_below by (auto simp: below_def)
  have "rooted (out @ sep # join cs) = rooted out" using assms(1) by (cases out) (auto simp: rooted_def)
  moreover have "filter (\<lambda>c. c \<noteq> [] \<and> c \<noteq> dot) cs = cs" "list_all (\<lambda>c. c \<noteq> dotdot) cs"
    using cs(1) by (auto simp: list_all_iff proper_def)
  ultimately have "resolve (out @ sep # join cs) = resolve out @ cs"
    by (simp add: resolve_def components_append components_proper [OF cs] fold_clean_inside)
  with \<open>rooted (out @ sep # join cs) = rooted out\<close> assms(1) show ?thesis by (simp add: cl Join_def Clean_def)
qed

lemma Join_below_inject:
  assumes "out \<noteq> []" and "below cs" and "below ds" and "Join out (cleanPath (join cs)) = Join out (cleanPath (join ds))"
  shows "cs = ds"
proof -
  obtain k xs where "resolve out = replicate k dotdot @ xs" "list_all proper xs" using resolve_shape by blast
  then have plain: "\<forall>c \<in> set (resolve out @ es). sep \<notin> set c" if "below es" for es
    using that dots_plain [of xs k] by (auto simp: below_def list_all_iff proper_def)
  have ne: "resolve out @ es \<noteq> []" if "below es" for es using that by (simp add: below_def)
  have "join (resolve out @ cs) = join (resolve out @ ds)"
    using assms(4) ne assms(2,3) unfolding Join_below [OF assms(1,2)] Join_below [OF assms(1,3)] by (auto simp: render_def split: if_splits)
  then have "components (join (resolve out @ cs)) = components (join (resolve out @ ds))" by simp
  then show ?thesis using components_join [OF plain ne] assms(2,3) by simp
qed


section \<open>Results: what is recorded\<close>

lemma handle_logs:
  assumes "list_all proper rs" and "list_all proper cs" and "cs \<noteq> []"
    and "evt_Name evt = sep # join (rs @ cs)" and "evt_Create evt \<or> evt_Write evt" and "nodes F (evt_Name evt) = Some (Regular d)"
    and "read_denied F (evt_Name evt) = None"
  shows "handle_event W H (sep # join rs) F now buf evt (watched, db) =
    (watched, snd (log_entry W buf \<lparr>je_Timestamp = now, je_Path = join cs, je_Op = str ''write'', je_Data = d\<rparr> db))"
  using assms(5-7) Rel_below [OF assms(1-3)]
  by (simp add: handle_event_def os_Stat_def os_ReadFile_def assms(4) option.case_eq_if LogEvent_def logEventWithOp_def Let_def apsnd_def map_prod_def split: prod.splits)

lemma log_entry_recorded:
  assumes "recorded W cont db0 hist db it" and "healthy W" and "cont db (logKey (je_Timestamp e) (hex_encode bs)) = None"
  shows "recorded W cont db0 (e # hist) (snd (log_entry W (Inr bs) e db)) it"
proof -
  obtain v where v: "entry_json W e = Inr v" using healthy_ops(5) [OF assms(2)] by blast
  obtain db1 where db1: "db_set W db (logKey (je_Timestamp e) (hex_encode bs)) v = Inr db1" using healthy_ops(1) [OF assms(2)] by blast
  have "logEventWithOp W (je_Timestamp e) (Inr bs) (je_Op e) (je_Path e) (je_Data e) (Some db) = (Inr (), Some db1)"
    using v db1 by (cases e) (simp add: logEventWithOp_def log_entry_def randomSuffix_def)
  from recorded.log [OF assms(1) this] assms(3) v db1 show ?thesis
    by (cases e) (simp add: log_entry_def randomSuffix_def)
qed

section \<open>Results: what is logged\<close>

lemma abs_path_inject:
  assumes "list_all proper xs" and "list_all proper ys"
  shows "abs_path xs = abs_path ys \<longleftrightarrow> xs = ys"
proof
  assume "abs_path xs = abs_path ys"
  then have "path_parts (abs_path xs) = path_parts (abs_path ys)" by (simp only:)
  then show "xs = ys" unfolding parts_abs [OF assms(1)] parts_abs [OF assms(2)] by simp
qed simp

lemma join_inject:
  assumes "list_all proper xs" and "list_all proper ys" and "xs \<noteq> []" and "ys \<noteq> []"
  shows "join xs = join ys \<longleftrightarrow> xs = ys"
proof
  assume "join xs = join ys"
  then have "components (join xs) = components (join ys)" by (simp only:)
  then show "xs = ys" unfolding components_proper [OF assms(1,3)] components_proper [OF assms(2,4)] .
qed simp

text \<open>What the handler does with a notification: it logs a file that it can read, and nothing else.\<close>

lemma handle_event_cases:
  assumes "list_all proper rs" and "list_all proper ds" and "ds \<noteq> []" and "evt_Name evt = abs_path (rs @ ds)"
  obtains (logged) d where "evt_Create evt \<or> evt_Write evt" and "nodes F (evt_Name evt) = Some (Regular d)" and "read_denied F (evt_Name evt) = None"
      and "handle_event W H (abs_path rs) F now buf evt (watched, db) =
        (watched, snd (log_entry W buf \<lparr>je_Timestamp = now, je_Path = join ds, je_Op = str ''write'', je_Data = d\<rparr> db))"
    | (kept) watched' where "handle_event W H (abs_path rs) F now buf evt (watched, db) = (watched', db)"
      and "watched \<subseteq> watched'" and "watched' \<subseteq> insert (evt_Name evt) watched"
      and "\<And>d. evt_Create evt \<or> evt_Write evt \<Longrightarrow> nodes F (evt_Name evt) = Some (Regular d) \<Longrightarrow> read_denied F (evt_Name evt) \<noteq> None"
proof (cases "\<exists>d. (evt_Create evt \<or> evt_Write evt) \<and> nodes F (evt_Name evt) = Some (Regular d) \<and> read_denied F (evt_Name evt) = None")
  case True
  then obtain d where d: "evt_Create evt \<or> evt_Write evt" "nodes F (evt_Name evt) = Some (Regular d)" "read_denied F (evt_Name evt) = None" by blast
  show ?thesis by (rule logged [OF d handle_logs [where F = F and H = H and W = W, OF assms d]])
next
  case False
  then have "os_ReadFile F (evt_Name evt) \<noteq> Inr d" if "evt_Create evt \<or> evt_Write evt" for d
    using that by (auto simp: os_ReadFile_def split: option.splits node.splits)
  then have "fst (handle_event W H (abs_path rs) F now buf evt (watched, db)) \<in> {watched, insert (evt_Name evt) watched}"
    and "snd (handle_event W H (abs_path rs) F now buf evt (watched, db)) = db"
    by (auto simp: handle_event_def split: sum.splits)
  with False show ?thesis by (intro kept [of "fst (handle_event W H (abs_path rs) F now buf evt (watched, db))"]) (auto simp: prod_eq_iff)
qed

end
