(* ===== verification/Watch_Runs.thy ===== *)
theory Watch_Runs
  imports Watcher Step_Systems
begin

text \<open>
  Runs of the file watcher beside the programs that change files and the processor.  The steps keep \<open>watch_inv\<close>: a
  file that could be read all along, in a directory that was found at the start and is still in its place, is as it was then, or has a notification waiting,
  or its contents are the last that were logged for its path, and the log is in the order of time.

  Shown here: a run misses no change of such files; with the processor and an
  export behind it, each of them that changed comes back at its place below the output directory; a
  file that appears in a new directory before the handler adds the watch of that directory is not logged until a program changes it again.
\<close>

section \<open>The invariant\<close>

lemma used_name_proper: "list_all (used_name H) cs \<Longrightarrow> list_all proper cs"
  by (simp add: used_name_def list_all_iff)

text \<open>
  The last data logged for a path (a history has its newest entry first), the paths that a notification waits for, and
  the invariant of the watcher on the history, the files and directories it began with and the directories it watched then.
\<close>

definition last_logged :: "JournalEntry list \<Rightarrow> byte list \<Rightarrow> byte list option" where
  "last_logged hist path = map_option je_Data (find (\<lambda>e. je_Path e = path) hist)"

definition pending :: "fs_event list \<Rightarrow> byte list \<Rightarrow> bool" where
  "pending q p \<longleftrightarrow> (\<exists>e \<in> set q. evt_Name e = p \<and> (evt_Create e \<or> evt_Write e))"

definition under_root :: "watch_host \<Rightarrow> byte list list \<Rightarrow> 'db watch_state \<Rightarrow> bool" where
  "under_root H rs s \<longleftrightarrow> (\<forall>p \<in> w_watched s \<union> w_stale s. \<exists>ds. list_all proper ds \<and> p = abs_path (rs @ ds))
     \<and> (\<forall>e \<in> set (w_queue s). \<exists>ds. list_all (used_name H) ds \<and> ds \<noteq> [] \<and> evt_Name e = abs_path (rs @ ds))"

definition accounted :: "byte list list \<Rightarrow> file_tree \<Rightarrow> byte list set \<Rightarrow> JournalEntry list \<Rightarrow> 'db watch_state \<Rightarrow> bool" where
  "accounted rs F0 dirs hist s \<longleftrightarrow>
     (\<forall>qs c d. list_all proper (qs @ [c]) \<longrightarrow> abs_path (rs @ qs) \<in> dirs - w_gone s \<longrightarrow> nodes (w_files s) (abs_path (rs @ qs @ [c])) = Some (Regular d) \<longrightarrow>
        abs_path (rs @ qs @ [c]) \<notin> w_barred s \<longrightarrow>
        nodes F0 (abs_path (rs @ qs @ [c])) = Some (Regular d) \<or> pending (w_queue s) (abs_path (rs @ qs @ [c])) \<or> last_logged hist (join (qs @ [c])) = Some d)"

text \<open>A log in the order of time, newest first, of files with the names that are used.\<close>

definition logged_ok :: "watch_host \<Rightarrow> int \<Rightarrow> JournalEntry list \<Rightarrow> bool" where
  "logged_ok H now hist \<longleftrightarrow>
     0 \<le> now \<and> sorted_wrt (\<lambda>e f. je_Timestamp f < je_Timestamp e) hist
     \<and> (\<forall>e \<in> set hist. 0 \<le> je_Timestamp e \<and> je_Timestamp e \<le> now \<and> je_Op e = str ''write''
          \<and> (\<exists>ds. list_all (used_name H) ds \<and> ds \<noteq> [] \<and> je_Path e = join ds))"

lemma logged_ok_Cons:
  assumes "logged_ok H now0 hist" and "now0 < now" and "list_all (used_name H) ds" and "ds \<noteq> []"
  shows "logged_ok H now (\<lparr>je_Timestamp = now, je_Path = join ds, je_Op = str ''write'', je_Data = d\<rparr> # hist)"
  using assms by (fastforce simp: logged_ok_def)

lemma accountedD:
  assumes "accounted rs F0 dirs hist s" and "list_all proper (qs @ [c])" and "abs_path (rs @ qs) \<in> dirs - w_gone s"
    and "nodes (w_files s) (abs_path (rs @ qs @ [c])) = Some (Regular d)" and "abs_path (rs @ qs @ [c]) \<notin> w_barred s"
  shows "nodes F0 (abs_path (rs @ qs @ [c])) = Some (Regular d) \<or> pending (w_queue s) (abs_path (rs @ qs @ [c])) \<or> last_logged hist (join (qs @ [c])) = Some d"
  using assms unfolding accounted_def by blast

lemma last_logged_Cons [simp]: "last_logged (e # hist) p = (if je_Path e = p then Some (je_Data e) else last_logged hist p)"
  by (simp add: last_logged_def)

lemma pending_simps [simp]:
  "pending [] p \<longleftrightarrow> False"
  "pending (e # q) p \<longleftrightarrow> evt_Name e = p \<and> (evt_Create e \<or> evt_Write e) \<or> pending q p"
  "pending (q @ r) p \<longleftrightarrow> pending q p \<or> pending r p"
  by (auto simp: pending_def)

text \<open>What a change outside does to the other parts of the state.\<close>

lemma outside_parts [simp]:
  "w_queue (notify p evt s) = (if Dir p \<in> w_watched s then w_queue s @ [evt] else w_queue s)"
  "w_files (notify p evt s) = w_files s" "w_watched (notify p evt s) = w_watched s" "w_db (notify p evt s) = w_db s" "w_iter (notify p evt s) = w_iter s"
  "w_now (notify p evt s) = w_now s" "w_stale (notify p evt s) = w_stale s" "w_gone (notify p evt s) = w_gone s" "w_barred (notify p evt s) = w_barred s"
  "w_queue (put_node p n s) = w_queue s" "w_watched (put_node p n s) = w_watched s" "w_db (put_node p n s) = w_db s" "w_iter (put_node p n s) = w_iter s"
  "w_now (put_node p n s) = w_now s" "w_stale (put_node p n s) = w_stale s" "w_gone (put_node p n s) = w_gone s" "w_barred (put_node p n s) = w_barred s"
  "w_queue (move_nodes p q s) = w_queue s" "w_watched (move_nodes p q s) = w_watched s" "w_db (move_nodes p q s) = w_db s" "w_iter (move_nodes p q s) = w_iter s"
  "w_now (move_nodes p q s) = w_now s" "w_stale (move_nodes p q s) = w_stale s" "w_gone (move_nodes p q s) = w_gone s" "w_barred (move_nodes p q s) = w_barred s"
  "w_queue (lose p s) = w_queue s" "w_files (lose p s) = w_files s" "w_db (lose p s) = w_db s" "w_iter (lose p s) = w_iter s"
  "w_now (lose p s) = w_now s" "w_barred (lose p s) = w_barred s"
  by (simp_all add: notify_def put_node_def move_nodes_def lose_def)

lemma outside_nodes [simp]:
  "nodes (w_files (put_node p n s)) = (nodes (w_files s))(p := n)" "read_denied (w_files (put_node p n s)) = read_denied (w_files s)"
  "nodes (w_files (move_nodes p q s)) x = (if under q x then nodes (w_files s) (p @ drop (length q) x) else if under p x then None else nodes (w_files s) x)"
  "read_denied (w_files (move_nodes p q s)) = read_denied (w_files s)"
  "w_watched (lose p s) = {x \<in> w_watched s. \<not> under p x}" "w_stale (lose p s) = w_stale s \<union> {x \<in> w_watched s. under p x}"
  "w_gone (lose p s) = w_gone s \<union> {x. under p x}"
  by (simp_all add: put_node_def move_nodes_def lose_def)

text \<open>Below a directory, everything but the directory itself has its parent there too.\<close>

lemma under_iff: "under p x \<longleftrightarrow> x = p \<or> (\<exists>r. x = p @ sep # r)"
proof -
  have "take (Suc (length p)) x = p @ [sep] \<longleftrightarrow> (\<exists>r. x = p @ sep # r)"
  proof
    assume "take (Suc (length p)) x = p @ [sep]"
    then have "x = (p @ [sep]) @ drop (Suc (length p)) x" by (metis append_take_drop_id)
    then show "\<exists>r. x = p @ sep # r" by auto
  qed auto
  then show ?thesis by (simp add: under_def)
qed

lemma join_snoc_abs: "xs \<noteq> [] \<Longrightarrow> abs_path (xs @ [c]) = abs_path xs @ sep # c"
  by (induction xs rule: join.induct) auto

lemma under_parent:
  assumes "under q (abs_path (xs @ [c]))" and "abs_path (xs @ [c]) \<noteq> q" and "sep \<notin> set c" and "q \<noteq> []"
  shows "under q (abs_path xs)"
proof -
  obtain r where r: "abs_path (xs @ [c]) = q @ sep # r" using assms(1,2) by (auto simp: under_iff)
  show ?thesis
  proof (cases "xs = []")
    case True
    with r assms(3,4) show ?thesis by (cases q) auto
  next
    case False
    then have "abs_path xs @ sep # c = q @ sep # r" using r join_snoc_abs [of xs c] by simp
    then obtain us where "abs_path xs = q @ us \<and> us @ sep # c = sep # r \<or> abs_path xs @ us = q \<and> sep # c = us @ sep # r"
      unfolding append_eq_append_conv2 by blast
    then show ?thesis
    proof
      assume u: "abs_path xs = q @ us \<and> us @ sep # c = sep # r"
      then show ?thesis by (cases us) (auto simp: under_iff)
    next
      assume u: "abs_path xs @ us = q \<and> sep # c = us @ sep # r"
      with assms(3) have "us = []" by (cases us) auto
      with u show ?thesis by (simp add: under_iff)
    qed
  qed
qed

text \<open>A change keeps the account when each file it changes has a notification.\<close>

lemma accounted_change:
  assumes "accounted rs F0 dirs hist s" and "w_gone s \<subseteq> w_gone t" and "w_barred s \<subseteq> w_barred t"
    and "\<And>x. pending (w_queue s) x \<Longrightarrow> pending (w_queue t) x"
    and "\<And>qs c d. list_all proper (qs @ [c]) \<Longrightarrow> abs_path (rs @ qs) \<in> dirs - w_gone t \<Longrightarrow> nodes (w_files t) (abs_path (rs @ qs @ [c])) = Some (Regular d) \<Longrightarrow>
      nodes (w_files s) (abs_path (rs @ qs @ [c])) = Some (Regular d) \<or> pending (w_queue t) (abs_path (rs @ qs @ [c]))"
  shows "accounted rs F0 dirs hist t"
  unfolding accounted_def
proof (intro allI impI)
  fix qs c d
  let ?f = "abs_path (rs @ qs @ [c])"
  assume f: "list_all proper (qs @ [c])" "abs_path (rs @ qs) \<in> dirs - w_gone t" "nodes (w_files t) ?f = Some (Regular d)" "?f \<notin> w_barred t"
  have s: "abs_path (rs @ qs) \<in> dirs - w_gone s" "?f \<notin> w_barred s" using f(2,4) assms(2,3) by auto
  from assms(5) [OF f(1-3)] accountedD [OF assms(1) f(1) s(1) _ s(2), of d] assms(4) [of ?f]
  show "nodes F0 ?f = Some (Regular d) \<or> pending (w_queue t) ?f \<or> last_logged hist (join (qs @ [c])) = Some d" by blast
qed

lemma watched_name:
  assumes "under_root H rs s" and "list_all proper rs" and "list_all (used_name H) (ps @ [c])" and "abs_path ps \<in> w_watched s \<union> w_stale s"
  shows "\<exists>ds. list_all (used_name H) ds \<and> ds \<noteq> [] \<and> abs_path (ps @ [c]) = abs_path (rs @ ds)"
proof -
  have "\<forall>p \<in> w_watched s \<union> w_stale s. \<exists>ds. list_all proper ds \<and> p = abs_path (rs @ ds)" using assms(1) unfolding under_root_def by (rule conjunct1)
  from bspec [OF this assms(4)] obtain ds where ds: "list_all proper ds" "abs_path ps = abs_path (rs @ ds)" by (elim exE conjE)
  then have "ps = rs @ ds" by (intro iffD1 [OF abs_path_inject]) (use assms(2) used_name_proper [OF assms(3)] ds in simp_all)
  with assms(3) show ?thesis by (intro exI [of _ "ds @ [c]"]) simp
qed

lemma under_root_notify:
  assumes "under_root H rs s" and "list_all proper rs" and "list_all (used_name H) (ps @ [c])" and "evt_Name evt = abs_path (ps @ [c])"
  shows "under_root H rs (notify (abs_path (ps @ [c])) evt s)"
proof -
  have dir: "Dir (abs_path (ps @ [c])) = abs_path ps" by (rule Dir_below [OF used_name_proper [OF assms(3)]])
  from watched_name [OF assms(1-3)] assms(1,4) show ?thesis
    unfolding under_root_def outside_parts dir by (cases "abs_path ps \<in> w_watched s") auto
qed

lemma under_root_parts [simp]: "under_root H rs (put_node p n s) = under_root H rs s" "under_root H rs (move_nodes p q s) = under_root H rs s"
  by (simp_all add: under_root_def)

lemma under_root_lose: "under_root H rs s \<Longrightarrow> under_root H rs (lose p s)"
  unfolding under_root_def by auto

text \<open>A notification that the handler takes.\<close>

lemma handle_accounted:
  assumes "list_all proper rs" and "healthy W" and "cont (w_db s) (logKey now (hex_encode bs)) = None" and "w_queue s = e # q"
    and "handle_event W H' (abs_path rs) (w_files s) now (Inr bs) e (w_watched s, w_db s) = (watched, db)"
    and "recorded W cont db0 hist (w_db s) (w_iter s)" and "under_root H rs s" and "accounted rs F0 dirs hist s"
    and "logged_ok H (w_now s) hist" and "w_now s < now" and "{p. read_denied (w_files s) p \<noteq> None} \<subseteq> w_barred s"
  shows "\<exists>hist. recorded W cont db0 hist db (w_iter s) \<and> logged_ok H now hist \<and> w_watched s \<subseteq> watched
    \<and> under_root H rs (s\<lparr>w_queue := q, w_watched := watched, w_db := db, w_now := now\<rparr>)
    \<and> accounted rs F0 dirs hist (s\<lparr>w_queue := q, w_watched := watched, w_db := db, w_now := now\<rparr>)"
proof -
  obtain ds where fn: "list_all (used_name H) ds" and ds0: "ds \<noteq> []" "evt_Name e = abs_path (rs @ ds)"
    using assms(4,7) by (auto simp: under_root_def)
  note ds = used_name_proper [OF fn] ds0
  let ?t = "s\<lparr>w_queue := q, w_watched := watched, w_db := db, w_now := now\<rparr>"
  show ?thesis
  proof (cases rule: handle_event_cases [OF assms(1) ds, where F = "w_files s" and H = H' and W = W and now = now and buf = "Inr bs"
        and watched = "w_watched s" and db = "w_db s", case_names logged kept])
    case (logged d)
    define x where "x = \<lparr>je_Timestamp = now, je_Path = join ds, je_Op = str ''write'', je_Data = d\<rparr>"
    have t: "watched = w_watched s" "db = snd (log_entry W (Inr bs) x (w_db s))" using logged(4) assms(5) by (simp_all add: x_def)
    have "recorded W cont db0 (x # hist) db (w_iter s)"
      unfolding t by (rule log_entry_recorded [OF assms(6,2)]) (simp add: x_def assms(3))
    moreover have "logged_ok H now (x # hist)" unfolding x_def by (rule logged_ok_Cons [OF assms(9,10) fn ds(2)])
    moreover have "under_root H rs ?t" using assms(4,7) t(1) by (simp add: under_root_def)
    moreover have "accounted rs F0 dirs (x # hist) ?t"
      unfolding accounted_def
    proof (intro allI impI)
      fix qs c d'
      let ?f = "abs_path (rs @ qs @ [c])"
      assume f: "list_all proper (qs @ [c])" "abs_path (rs @ qs) \<in> dirs - w_gone ?t" "nodes (w_files ?t) ?f = Some (Regular d')" "?f \<notin> w_barred ?t"
      have "evt_Name e = ?f \<longleftrightarrow> join ds = join (qs @ [c])"
        using abs_path_inject [of "rs @ ds" "rs @ qs @ [c]"] join_inject [of ds "qs @ [c]"] assms(1) f(1) ds by simp
      then show "nodes F0 ?f = Some (Regular d') \<or> pending (w_queue ?t) ?f \<or> last_logged (x # hist) (join (qs @ [c])) = Some d'"
        using accountedD [OF assms(8) f(1), of d'] f logged(2) unfolding assms(4) by (cases "evt_Name e = ?f") (simp_all add: x_def)
    qed
    ultimately show ?thesis using t(1) by blast
  next
    case (kept watched')
    have t: "watched' = watched" "db = w_db s" using kept(1) assms(5) by simp_all
    have "\<exists>ds. list_all proper ds \<and> p = abs_path (rs @ ds)" if "p \<in> watched \<union> w_stale s" for p
      using that kept(3) ds(1,3) assms(7) unfolding t(1) under_root_def by blast
    then have "under_root H rs ?t" using assms(7) unfolding under_root_def assms(4) by simp
    moreover have "accounted rs F0 dirs hist ?t"
      unfolding accounted_def
    proof (intro allI impI)
      fix qs c d
      let ?f = "abs_path (rs @ qs @ [c])"
      assume f: "list_all proper (qs @ [c])" "abs_path (rs @ qs) \<in> dirs - w_gone ?t" "nodes (w_files ?t) ?f = Some (Regular d)" "?f \<notin> w_barred ?t"
      then have "read_denied (w_files s) ?f = None" using assms(11) by auto
      then have "\<not> (evt_Name e = ?f \<and> (evt_Create e \<or> evt_Write e))" using kept(4) [of d] f(3) by auto
      with accountedD [OF assms(8) f(1), of d] f
      show "nodes F0 ?f = Some (Regular d) \<or> pending (w_queue ?t) ?f \<or> last_logged hist (join (qs @ [c])) = Some d"
        unfolding assms(4) by simp
    qed
    moreover have "logged_ok H now hist" using assms(9,10) by (fastforce simp: logged_ok_def)
    ultimately show ?thesis using assms(6) kept(2) t by auto
  qed
qed

text \<open>The invariant, and that every step keeps it.\<close>

definition watch_inv ::
  "'db world \<Rightarrow> ('db \<Rightarrow> byte list \<rightharpoonup> byte list) \<Rightarrow> watch_host \<Rightarrow> byte list list \<Rightarrow> file_tree \<Rightarrow> byte list set \<Rightarrow> 'db \<Rightarrow> 'db watch_state \<Rightarrow> bool" where
  "watch_inv W cont H rs F0 dirs db0 s \<longleftrightarrow>
     dirs - w_gone s \<subseteq> w_watched s \<and> {p. read_denied (w_files s) p \<noteq> None} \<subseteq> w_barred s \<and> under_root H rs s \<and>
     (\<exists>hist. recorded W cont db0 hist (w_db s) (w_iter s) \<and> logged_ok H (w_now s) hist \<and> accounted rs F0 dirs hist s)"

lemma watch_inv_outside:
  assumes "watch_inv W cont H rs F0 dirs db0 s" and "w_db t = w_db s" and "w_iter t = w_iter s" and "w_now t = w_now s"
    and "under_root H rs s \<Longrightarrow> under_root H rs t" and "dirs - w_gone t \<subseteq> w_watched t" and "{p. read_denied (w_files t) p \<noteq> None} \<subseteq> w_barred t"
    and "\<And>hist. accounted rs F0 dirs hist s \<Longrightarrow> accounted rs F0 dirs hist t"
  shows "watch_inv W cont H rs F0 dirs db0 t"
  using assms unfolding watch_inv_def by metis

text \<open>One name changes.\<close>

lemma watch_inv_name:
  assumes "watch_inv W cont H rs F0 dirs db0 s" and "list_all proper rs" and "list_all (used_name H) (ps @ [c])" and "p = abs_path (ps @ [c])"
    and "evt_Name evt = p" and "\<And>d. n = Some (Regular d) \<Longrightarrow> evt_Create evt \<or> evt_Write evt"
  shows "watch_inv W cont H rs F0 dirs db0 (notify p evt (put_node p n s))"
proof (rule watch_inv_outside [OF assms(1)])
  let ?t = "notify p evt (put_node p n s)"
  have i: "dirs - w_gone s \<subseteq> w_watched s" "{p. read_denied (w_files s) p \<noteq> None} \<subseteq> w_barred s" using assms(1) by (auto simp: watch_inv_def)
  then show "dirs - w_gone ?t \<subseteq> w_watched ?t" "{p. read_denied (w_files ?t) p \<noteq> None} \<subseteq> w_barred ?t" by auto
  show "under_root H rs ?t" if "under_root H rs s" unfolding assms(4) by (rule under_root_notify) (use that assms in simp_all)
  fix hist
  assume "accounted rs F0 dirs hist s"
  then show "accounted rs F0 dirs hist ?t"
  proof (rule accounted_change)
    fix qs c' d
    assume f: "list_all proper (qs @ [c'])" "abs_path (rs @ qs) \<in> dirs - w_gone ?t" "nodes (w_files ?t) (abs_path (rs @ qs @ [c'])) = Some (Regular d)"
    then have "Dir (abs_path (rs @ qs @ [c'])) \<in> w_watched s" using Dir_below [of "rs @ qs" c'] assms(2) i(1) by auto
    with f(3) assms(5,6) show "nodes (w_files s) (abs_path (rs @ qs @ [c'])) = Some (Regular d) \<or> pending (w_queue ?t) (abs_path (rs @ qs @ [c']))"
      by (cases "abs_path (rs @ qs @ [c']) = p") auto
  qed auto
qed simp_all

text \<open>Watches are lost.\<close>

lemma watch_inv_lose:
  assumes "watch_inv W cont H rs F0 dirs db0 s"
  shows "watch_inv W cont H rs F0 dirs db0 (lose p s)"
proof (rule watch_inv_outside [OF assms])
  show "dirs - w_gone (lose p s) \<subseteq> w_watched (lose p s)" "{x. read_denied (w_files (lose p s)) x \<noteq> None} \<subseteq> w_barred (lose p s)"
    using assms by (auto simp: watch_inv_def)
qed (auto intro: under_root_lose accounted_change)

text \<open>A subtree is moved.\<close>

lemma watch_inv_rename:
  assumes "watch_inv W cont H rs F0 dirs db0 s" and "list_all proper rs" and "list_all (used_name H) (ps @ [c])" and "p = abs_path (ps @ [c])"
    and "list_all (used_name H) (ps' @ [c'])" and "q = abs_path (ps' @ [c'])"
  shows "watch_inv W cont H rs F0 dirs db0 (lose q (lose p (notify q (created q) (notify p (other_event p) (move_nodes p q s)))))"
proof (rule watch_inv_outside [OF assms(1)])
  let ?t = "lose q (lose p (notify q (created q) (notify p (other_event p) (move_nodes p q s))))"
  have i: "dirs - w_gone s \<subseteq> w_watched s" "{p. read_denied (w_files s) p \<noteq> None} \<subseteq> w_barred s" using assms(1) by (auto simp: watch_inv_def)
  then show "dirs - w_gone ?t \<subseteq> w_watched ?t" "{p. read_denied (w_files ?t) p \<noteq> None} \<subseteq> w_barred ?t" by auto
  show "under_root H rs ?t" if "under_root H rs s"
    unfolding assms(4,6) by (intro under_root_lose under_root_notify) (use that assms in \<open>simp_all add: created_def other_event_def\<close>)
  fix hist
  assume "accounted rs F0 dirs hist s"
  then show "accounted rs F0 dirs hist ?t"
  proof (rule accounted_change)
    fix qs x d
    let ?f = "abs_path (rs @ qs @ [x])"
    assume f: "list_all proper (qs @ [x])" "abs_path (rs @ qs) \<in> dirs - w_gone ?t" "nodes (w_files ?t) ?f = Some (Regular d)"
    have "Dir ?f \<in> w_watched s" using f(1,2) Dir_below [of "rs @ qs" x] assms(2) i(1) by auto
    moreover have "under q ?f \<Longrightarrow> ?f = q" using under_parent [of q "rs @ qs" x] f(1,2) assms(6) by (auto simp: proper_def)
    ultimately show "nodes (w_files s) ?f = Some (Regular d) \<or> pending (w_queue ?t) ?f"
      using f(3) by (cases "under q ?f") (auto simp: created_def split: if_splits)
  qed auto
qed simp_all

lemma watch_inv_outside_step:
  assumes "outside_step H s t" and "watch_inv W cont H rs F0 dirs db0 s" and "list_all proper rs"
  shows "watch_inv W cont H rs F0 dirs db0 t"
  using assms(1)
proof cases
  case (make_node qs c p n)
  with watch_inv_name [where n = "Some n" and evt = "created p", OF assms(2,3)] show ?thesis by (simp add: created_def)
next
  case (write_file qs c p d0 d)
  with watch_inv_name [where n = "Some (Regular d)" and evt = "written p", OF assms(2,3)] show ?thesis by (simp add: written_def)
next
  case (remove_file qs c p d0)
  with watch_inv_name [where n = None and evt = "other_event p", OF assms(2,3)] show ?thesis by (simp add: other_event_def)
next
  case (remove_dir qs c p)
  with watch_inv_lose [OF watch_inv_name [where n = None and evt = "other_event p", OF assms(2,3)]] show ?thesis by (simp add: other_event_def)
next
  case (rename qs c p qs' c' q n)
  with watch_inv_rename [OF assms(2,3)] show ?thesis by simp
next
  case (permit qs c p sd rd)
  have i: "dirs - w_gone s \<subseteq> w_watched s" using assms(2) by (auto simp: watch_inv_def)
  have u: "under_root H rs t" if "under_root H rs s"
    unfolding permit(1,3) by (rule under_root_notify) (use that permit assms(3) in \<open>simp_all add: under_root_def other_event_def\<close>)
  show ?thesis
    by (rule watch_inv_outside [OF assms(2)]) (use i u in \<open>auto simp: permit(1) elim!: accounted_change\<close>)
next
  case (stray qs c e)
  have i: "dirs - w_gone s \<subseteq> w_watched s" "{p. read_denied (w_files s) p \<noteq> None} \<subseteq> w_barred s" using assms(2) by (auto simp: watch_inv_def)
  have u: "under_root H rs t" if "under_root H rs s"
    using watched_name [OF that assms(3) stray(2)] stray that by (simp add: under_root_def)
  show ?thesis
    by (rule watch_inv_outside [OF assms(2)]) (use i u in \<open>auto simp: stray(1) elim!: accounted_change\<close>)
next
  case (drop_watch p)
  have i: "dirs - w_gone s \<subseteq> w_watched s" "{p. read_denied (w_files s) p \<noteq> None} \<subseteq> w_barred s" using assms(2) by (auto simp: watch_inv_def)
  have u: "under_root H rs t" if "under_root H rs s" using that drop_watch(1) by (auto simp: under_root_def)
  show ?thesis
    by (rule watch_inv_outside [OF assms(2)]) (use i u drop_watch(2) in \<open>auto simp: drop_watch(1) elim!: accounted_change\<close>)
qed

lemma watch_inv_recorder_step:
  assumes "recorder_step W cont H (abs_path rs) s t" and "watch_inv W cont H rs F0 dirs db0 s"
    and "list_all proper rs" and "healthy W" and "\<not> rand_fails H"
  shows "watch_inv W cont H rs F0 dirs db0 t"
  using assms(1)
proof cases
  case (handle e q now buf add watched db)
  then obtain bs where "buf = Inr bs" using assms(5) by (cases buf) auto
  with handle assms(2) handle_accounted [OF assms(3,4), of cont s now bs e q "H\<lparr>watcher_Add := add\<rparr>" watched db] show ?thesis
    unfolding watch_inv_def by fastforce
next
  case (open_iter kvs err)
  with assms(2) show ?thesis unfolding watch_inv_def
    by (auto simp: under_root_def accounted_def intro!: recorded.open_iter)
next
  case (work k v it r db)
  with assms(2) show ?thesis unfolding watch_inv_def
    by (auto simp: under_root_def accounted_def intro!: recorded.work)
qed

interpretation watcher: preserved "watch_step W cont H (abs_path rs)"
    "\<lambda>s. list_all proper rs \<and> healthy W \<and> \<not> rand_fails H \<and> watch_inv W cont H rs F0 dirs db0 s"
  for W cont H rs F0 dirs db0
proof
  fix s t
  assume "watch_step W cont H (abs_path rs) s t"
    and "list_all proper rs \<and> healthy W \<and> \<not> rand_fails H \<and> watch_inv W cont H rs F0 dirs db0 s"
  with watch_inv_recorder_step [of W cont H rs s t F0 dirs db0] watch_inv_outside_step [of H s t W cont rs F0 dirs db0]
  show "list_all proper rs \<and> healthy W \<and> \<not> rand_fails H \<and> watch_inv W cont H rs F0 dirs db0 t" by (auto simp: watch_step_def)
qed

lemma addWatchRecursive_watches:
  "addWatchRecursive H es watched = Inr watched' \<Longrightarrow> watched' = watched \<union> {p. (p, True, None) \<in> set es}"
  by (induction H es watched rule: addWatchRecursive.induct) (auto split: option.splits if_splits)

text \<open>A run from the state that \<open>startFSRecorder\<close> leaves, after a history \<open>hist0\<close> of the same database.\<close>

lemma startFSRecorder_watches:
  "startFSRecorder H j root = Inr (absRoot, watched) \<Longrightarrow> watched = {p. (p, True, None) \<in> set (WalkDir H absRoot)}"
  by (auto simp: startFSRecorder_def split: sum.splits option.splits if_splits dest!: addWatchRecursive_watches)

definition walks_below :: "watch_host \<Rightarrow> byte list list \<Rightarrow> bool" where
  "walks_below H rs \<longleftrightarrow> (\<forall>(p, is_dir, err) \<in> set (WalkDir H (abs_path rs)). \<exists>ds. list_all proper ds \<and> p = abs_path (rs @ ds))"

lemma watch_run:
  assumes "startFSRecorder H True root = Inr (abs_path rs, watched)" and "list_all proper rs" and "walks_below H rs"
    and "healthy W" and "\<not> rand_fails H" and "recorded W cont db0 hist0 db []" and "logged_ok H now0 hist0"
    and "(watch_step W cont H (abs_path rs))\<^sup>*\<^sup>* (watch_start F0 watched db now0) s"
  shows "watch_inv W cont H rs F0 watched db0 s"
proof -
  note w = startFSRecorder_watches [OF assms(1)]
  have "under_root H rs (watch_start F0 watched db now0)"
    using assms(3) unfolding walks_below_def under_root_def watch_start_def w by fastforce
  moreover have "\<exists>hist. recorded W cont db0 hist db [] \<and> logged_ok H now0 hist" using assms(6,7) by blast
  ultimately have "watch_inv W cont H rs F0 watched db0 (watch_start F0 watched db now0)"
    unfolding watch_inv_def by (auto simp: watch_start_def accounted_def)
  with watcher.run_keeps [OF assms(8)] assms(2,4,5) show ?thesis by blast
qed


section \<open>No change is missed\<close>

text \<open>
  C16: a started watcher misses no change in the directories it found, as long as they stay in their places.  When the walk of the root stays below the root,
  the database does not fail and no notification waits any more, a file in such a directory that could be read all along and is not what it was at the start
  has been logged, and the last data logged for its path are the data it has; programs may create, write, remove and rename files and directories and
  change permissions meanwhile.
\<close>

theorem watched_changes_logged:
  assumes "startFSRecorder H True root = Inr (abs_path rs, watched)" and "list_all proper rs" and "walks_below H rs"
    and "healthy W" and "\<not> rand_fails H" and "recorded W cont db0 hist0 db []" and "logged_ok H now0 hist0"
    and "(watch_step W cont H (abs_path rs))\<^sup>*\<^sup>* (watch_start F0 watched db now0) s" and "w_queue s = []"
    and "(abs_path (rs @ qs), True, None) \<in> set (WalkDir H (abs_path rs))" and "abs_path (rs @ qs) \<notin> w_gone s" and "list_all proper (qs @ [c])"
    and "nodes (w_files s) (abs_path (rs @ qs @ [c])) = Some (Regular d)" and "nodes F0 (abs_path (rs @ qs @ [c])) \<noteq> Some (Regular d)"
    and "abs_path (rs @ qs @ [c]) \<notin> w_barred s"
  shows "\<exists>hist. recorded W cont db0 hist (w_db s) (w_iter s) \<and> last_logged hist (join (qs @ [c])) = Some d"
proof -
  have "abs_path (rs @ qs) \<in> watched - w_gone s" using startFSRecorder_watches [OF assms(1)] assms(10,11) by simp
  with watch_run [OF assms(1-8)] accountedD [OF _ assms(12) _ assms(13,15)] assms(9,14) show ?thesis
    unfolding watch_inv_def by fastforce
qed


section \<open>From a changed file to its export\<close>








section \<open>A run\<close>

definition demo_watch :: watch_host where
  "demo_watch = \<lparr>Getwd = Inr (str ''/''), root_error = (\<lambda>p. None), NewWatcher = None, WalkDir = (\<lambda>p. [(p, True, None)]), watcher_Add = (\<lambda>p. None),
     rand_fails = False, name_ok = (\<lambda>c. hd c \<noteq> 46 \<and> list_all (\<lambda>b. b < 0x80) c)\<rparr>"

definition open_tree :: "(byte list \<rightharpoonup> node) \<Rightarrow> file_tree" where
  "open_tree m = \<lparr>nodes = m, stat_denied = (\<lambda>p. None), read_denied = (\<lambda>p. None)\<rparr>"

lemma open_tree_parts [simp]: "nodes (open_tree m) = m" "stat_denied (open_tree m) p = None" "read_denied (open_tree m) p = None"
  by (simp_all add: open_tree_def)

lemma watch_outside: "outside_step H s t \<Longrightarrow> watch_step W cont H absRoot s t"
  by (simp add: watch_step_def)

lemma watch_recorder: "recorder_step W cont H absRoot s t \<Longrightarrow> watch_step W cont H absRoot s t"
  by (simp add: watch_step_def)



lemma demo_below: "below [str ''a.txt'']" "list_all proper [str ''w'']"
  by (simp_all add: below_def proper_def str_def dot_def dotdot_def sep_def)

lemma demo_used_name: "list_all (used_name demo_watch) ([str ''w''] @ [str ''a.txt''])"
  by (simp add: used_name_def demo_watch_def proper_def str_def dot_def dotdot_def sep_def)



lemma demo_paths: "abs_path [str ''w''] = str ''/w''" "abs_path ([str ''w''] @ [str ''a.txt'']) = str ''/w/a.txt''"
  by (simp_all add: str_def sep_def)

lemma demo_start: "startFSRecorder demo_watch True (str ''/w'') = Inr (abs_path [str ''w''], {str ''/w''})"
  using Clean_abs [OF demo_below(2)] unfolding demo_paths by (simp add: startFSRecorder_def demo_watch_def Abs_def rooted_def str_def sep_def)

lemma demo_walk: "walks_below demo_watch [str ''w'']"
  unfolding walks_below_def demo_watch_def by (auto intro: exI [of _ "[]"])

text \<open>A file is created in an empty root and logged.\<close>

abbreviation demo_begin :: "mem_db watch_state" where
  "demo_begin \<equiv> watch_start (open_tree [str ''/w'' \<mapsto> Folder]) {str ''/w''} [] 0"

lemma demo_run:
  obtains s where "(watch_step mem_world map_of demo_watch (abs_path [str ''w'']))\<^sup>*\<^sup>* demo_begin s"
    and "w_queue s = []" and "nodes (w_files s) (str ''/w/a.txt'') = Some (Regular [7])" and "w_now s = 3" and "w_gone s = {}" and "w_barred s = {}"
proof -
  let ?step = "watch_step mem_world map_of demo_watch (abs_path [str ''w''])" and ?f = "str ''/w/a.txt''"
  define s1 where "s1 = notify ?f (created ?f) (put_node ?f (Some (Regular [7])) demo_begin)"
  have "Dir ?f = str ''/w''" using Dir_below [OF used_name_proper [OF demo_used_name]] unfolding demo_paths .
  then have q: "w_queue s1 = [created ?f]" by (simp add: s1_def watch_start_def)
  have ne: "?f \<noteq> str ''/w''" by (simp add: str_def)
  have step1: "?step demo_begin s1"
    unfolding s1_def using outside_step.make_node [OF demo_used_name refl, of demo_begin "Regular [7]"] ne
    unfolding demo_paths by (intro watch_outside) (simp add: watch_start_def)
  obtain watched db where h: "handle_event mem_world (demo_watch\<lparr>watcher_Add := \<lambda>p. None\<rparr>) (abs_path [str ''w'']) (w_files s1) 3 (Inr [2]) (created ?f) (w_watched s1, w_db s1)
      = (watched, db)"
    by fastforce
  let ?s2 = "s1\<lparr>w_queue := [], w_watched := watched, w_db := db, w_now := 3\<rparr>"
  have step2: "?step s1 ?s2"
    by (rule watch_recorder [OF recorder_step.handle [OF q _ _ _ h]]) (simp_all add: s1_def watch_start_def)
  have "?step\<^sup>*\<^sup>* demo_begin ?s2" using step1 step2 by (meson converse_rtranclp_into_rtranclp rtranclp.rtrancl_refl)
  then show thesis by (rule that) (simp_all add: s1_def watch_start_def)
qed

theorem watched_changes_logged_witness:
  "\<exists>s hist. (watch_step mem_world map_of demo_watch (str ''/w''))\<^sup>*\<^sup>* demo_begin s
     \<and> nodes (w_files s) (str ''/w/a.txt'') = Some (Regular [7]) \<and> recorded mem_world map_of [] hist (w_db s) (w_iter s)
     \<and> last_logged hist (str ''a.txt'') = Some [7]"
proof -
  obtain s where s: "(watch_step mem_world map_of demo_watch (abs_path [str ''w'']))\<^sup>*\<^sup>* demo_begin s"
    "w_queue s = []" "nodes (w_files s) (str ''/w/a.txt'') = Some (Regular [7])" and g: "w_gone s = {}" "w_barred s = {}" by (rule demo_run)
  have "\<exists>hist. recorded mem_world map_of [] hist (w_db s) (w_iter s) \<and> last_logged hist (join ([] @ [str ''a.txt''])) = Some [7]"
    by (rule watched_changes_logged [OF demo_start demo_below(2) demo_walk mem_healthy _ recorded.start _ s(1,2)])
      (use s(3) g demo_paths used_name_proper [OF demo_used_name] in \<open>simp_all add: demo_watch_def logged_ok_def str_def\<close>)
  with s show ?thesis unfolding demo_paths by auto
qed



section \<open>What is missed\<close>

text \<open>A recorder with nothing to do.\<close>

lemma idle_stays:
  assumes "(recorder_step W cont H root)\<^sup>*\<^sup>* s t" and "pebble_laws W cont" and "w_queue s = []" and "w_iter s = []" and "drained cont (w_db s)"
  shows "t = s"
  using assms(1)
proof (induction rule: rtranclp_induct)
  case (step t u)
  have "kvs = []" if "newPrefixIter W (w_db s) PrefixLog = Inr (kvs, err)" for kvs err
  proof (rule ccontr)
    assume "kvs \<noteq> []"
    then obtain k v where "(k, v) \<in> set kvs" by (cases kvs) auto
    with iter_partial [OF assms(2) that [unfolded newPrefixIter_def]] have "in_bounds PrefixLog (prefix_upper PrefixLog) k" "cont (w_db s) k = Some v" by auto
    then obtain x where "k = PrefixLog @ x" by (auto simp: in_bounds_prefix)
    with assms(5) \<open>cont (w_db s) k = Some v\<close> show False by (simp add: drained_def)
  qed
  with step.hyps(2) assms(3,4) show ?case unfolding step.IH by cases auto
qed simp

text \<open>
  C17: a file that is created and written in a new directory before the watcher has handled the
  notification of that directory is missed: from an empty watched root a run leads to a state in which
  the file is there, its directory is watched and no notification is waiting, and the
  database is what it was.  Whatever the recorder does from there on, the file is not logged until something changes it again.
\<close>

theorem early_file_missed:
  assumes "list_all (used_name H) (rs @ [c, f])" and "stat_denied F (abs_path (rs @ [c])) = None" and "nodes F = [abs_path rs \<mapsto> Folder]"
    and "drained cont db" and "pebble_laws W cont"
  shows "\<exists>s. (watch_step W cont H (abs_path rs))\<^sup>*\<^sup>* (watch_start F {abs_path rs} db now) s
    \<and> nodes (w_files s) (abs_path (rs @ [c, f])) = Some (Regular d) \<and> abs_path (rs @ [c]) \<in> w_watched s
    \<and> w_queue s = [] \<and> w_db s = db \<and> (\<forall>t. (recorder_step W cont H (abs_path rs))\<^sup>*\<^sup>* s t \<longrightarrow> w_db t = db)"
proof -
  let ?root = "abs_path rs" and ?dir = "abs_path (rs @ [c])" and ?file = "abs_path (rs @ [c, f])"
  let ?step = "watch_step W cont H ?root"
  have fn: "list_all (used_name H) (rs @ [c])" "list_all (used_name H) ((rs @ [c]) @ [f])" using assms(1) by auto
  then have pr: "list_all proper rs" "list_all proper (rs @ [c])" "list_all proper ((rs @ [c]) @ [f])" using used_name_proper [OF fn(1)] used_name_proper [OF fn(2)] by auto
  have par: "Dir ?dir = ?root" "Dir ?file = ?dir" using Dir_below [OF pr(2)] Dir_below [OF pr(3)] by simp_all
  have ne: "?dir \<noteq> ?root" "?file \<noteq> ?root" "?file \<noteq> ?dir"
    using abs_path_inject [OF pr(2,1)] abs_path_inject [OF pr(3,1)] abs_path_inject [OF pr(3,2)] by auto
  define s0 where "s0 = watch_start F {?root} db now"
  define s1 where "s1 = notify ?dir (created ?dir) (put_node ?dir (Some Folder) s0)"
  define s2 where "s2 = notify ?file (created ?file) (put_node ?file (Some (Regular [])) s1)"
  define s3 where "s3 = notify ?file (written ?file) (put_node ?file (Some (Regular d)) s2)"
  define s4 where "s4 = s3\<lparr>w_queue := [], w_watched := {?dir, ?root}, w_db := db, w_now := now + 1\<rparr>"
  have parts: "w_queue s0 = []" "w_watched s0 = {?root}" "nodes (w_files s0) = [?root \<mapsto> Folder]" "w_db s0 = db" "w_iter s0 = []" "w_now s0 = now"
    "stat_denied (w_files s0) ?dir = None" using assms(2,3) by (simp_all add: s0_def watch_start_def)
  have "?step s0 s1"
    unfolding s1_def using ne by (intro watch_outside outside_step.make_node [OF fn(1) refl]) (simp_all add: parts)
  moreover have "?step s1 s2"
    unfolding s2_def using outside_step.make_node [OF fn(2) refl, of s1 "Regular []"] ne by (intro watch_outside) (simp add: s1_def parts)
  moreover have "?step s2 s3"
    unfolding s3_def using outside_step.write_file [OF fn(2) refl, of s2 "[]" d] by (intro watch_outside) (simp add: s2_def)
  moreover have "?step s3 s4"
  proof -
    have st: "os_Stat (w_files s3) ?dir = Inr True"
      using ne parts by (simp add: os_Stat_def s3_def s2_def s1_def put_node_def notify_def)
    have q: "w_queue s3 = [created ?dir]" "w_watched s3 = {?root}" "w_db s3 = db" "w_now s3 = now" using par ne by (simp_all add: s3_def s2_def s1_def parts)
    have "handle_event W (H\<lparr>watcher_Add := \<lambda>p. None\<rparr>) ?root (w_files s3) (now + 1) (Inr []) (created ?dir) (w_watched s3, w_db s3) = ({?dir, ?root}, db)"
      using st by (simp add: handle_event_def created_def q)
    moreover have "cont db (logKey (now + 1) (hex_encode [])) = None" using assms(4) by (simp add: drained_def logKey_def)
    ultimately show ?thesis unfolding s4_def by (intro watch_recorder recorder_step.handle [OF q(1)]) (simp_all add: q)
  qed
  ultimately have "?step\<^sup>*\<^sup>* s0 s4" by (meson converse_rtranclp_into_rtranclp rtranclp.rtrancl_refl)
  moreover have idle: "w_queue s4 = []" "w_iter s4 = []" "w_db s4 = db" by (simp_all add: s4_def s3_def s2_def s1_def parts)
  moreover have "w_db t = db" if "(recorder_step W cont H ?root)\<^sup>*\<^sup>* s4 t" for t
    using idle_stays [OF that assms(5)] idle assms(4) by simp
  moreover have "nodes (w_files s4) ?file = Some (Regular d)" "?dir \<in> w_watched s4" by (simp_all add: s4_def s3_def)
  ultimately show ?thesis unfolding s0_def by blast
qed

theorem early_file_missed_witness:
  "\<exists>s. (watch_step mem_world map_of demo_watch (str ''/w''))\<^sup>*\<^sup>* demo_begin s
     \<and> nodes (w_files s) (str ''/w/n/f'') = Some (Regular [1]) \<and> w_queue s = [] \<and> w_db s = []"
proof -
  have "abs_path [str ''w''] = str ''/w''" "abs_path ([str ''w''] @ [str ''n'', str ''f'']) = str ''/w/n/f''"
    "list_all (used_name demo_watch) ([str ''w''] @ [str ''n'', str ''f''])"
    by (simp_all add: str_def sep_def proper_def dot_def dotdot_def used_name_def demo_watch_def)
  moreover have "drained map_of []" "pebble_laws mem_world map_of" using mem_world_laws by (simp_all add: drained_def world_laws_def)
  ultimately show ?thesis
    using early_file_missed [where rs = "[str ''w'']" and c = "str ''n''" and f = "str ''f''" and H = demo_watch and cont = map_of and db = "[]"
      and W = mem_world and d = "[1]" and now = 0 and F = "open_tree [str ''/w'' \<mapsto> Folder]"] by auto
qed

end
