(* ===== verification/Collect.thy ===== *)
theory Collect
  imports Refs Export
begin

text \<open>
  The recorder and the garbage collector of the store on one database.  The processor stores objects and their metadata and
  no references, so the objects of a recording are what a collection removes.
\<close>

section \<open>A recording has no references\<close>

text \<open>
  Metadata keys and reference keys share the prefix \<open>m:\<close>; a metadata key is a reference key only for a path that
  is \<open>ref\<close> or begins with \<open>ref:\<close>.
\<close>

definition ref_path :: "byte list \<Rightarrow> bool" where
  "ref_path p \<longleftrightarrow> take 4 (p @ str '':'') = str ''ref:''"

lemma metaKey_refKey:
  assumes "metaKey p ts = refKey cid"
  shows "ref_path p"
proof -
  have split: "take 4 (p @ [58]) = [r, e, f, 58]" if "p @ 58 # x = r # e # f # 58 # y" "r \<noteq> 58" "e \<noteq> 58" "f \<noteq> 58" for r e f :: byte and x y
  proof -
    consider "p = []" | a where "p = [a]" | a b where "p = [a, b]" | a b c q where "p = a # b # c # q"
      by (cases p; cases "tl p"; cases "tl (tl p)") auto
    then show ?thesis by cases (use that in \<open>auto simp: numeral_eq_Suc Cons_eq_append_conv append_eq_Cons_conv\<close>)
  qed
  have "p @ 58 # str (fmt_020d ts) = 114 # 101 # 102 # 58 # cid"
    using assms by (simp add: metaKey_def refKey_def metaRefPrefix_def str_def)
  from split [OF this] show ?thesis by (simp add: ref_path_def str_def)
qed

lemma sessionMetaKey_refKey: "sessionMetaKey \<noteq> refKey cid"
  by (simp add: sessionMetaKey_def refKey_def metaRefPrefix_def str_def)

lemma recorded_no_refs:
  assumes "rec_inv W cont hist db it" and "\<forall>e \<in> set hist. \<not> ref_path (je_Path e)"
  shows "cont db (refKey cid) = None"
proof (rule ccontr)
  assume "cont db (refKey cid) \<noteq> None"
  then obtain v where "cont db (PrefixMeta @ str ''ref:'' @ cid) = Some v" by (auto simp: refKey_def metaRefPrefix_def)
  then have "refKey cid = sessionMetaKey \<or> (\<exists>e \<in> set hist. refKey cid = entryKey e)"
    using assms(1) unfolding rec_inv_def meta_ok_def by (auto simp: refKey_def metaRefPrefix_def)
  with sessionMetaKey_refKey [of cid] metaKey_refKey assms(2) show False unfolding entryKey_def by metis
qed

lemma cid_of_visible: "cid_of W e = [] \<or> hd (cid_of W e) < 0xFF"
proof (cases "cid_of W e")
  case (Cons b bs)
  with ascii_hex [of "sha256 W (je_Data e)"] have "b < 0x80" by (simp add: cid_of_def)
  then have "b < 0xFF" by (simp add: word_less_nat_alt)
  with Cons show ?thesis by simp
qed simp


section \<open>A collection empties a recording\<close>

text \<open>
  C22: a collection run on the database of a recorder deletes every object that the processor stored: it
  succeeds; metadata of the recording whose object could be read before refer to nothing afterwards, although
  they are still there; only what is still in the journal keeps its data.
\<close>

theorem collection_empties_recording:
  assumes "recorded W cont db0 hist db it" and "cont db0 = Map.empty" and "world_laws W cont" and "healthy W"
    and "list_all (entry_ok W) hist" and "\<forall>e \<in> set hist. \<not> ref_path (je_Path e)"
  shows "\<exists>n db'. GarbageCollect W db = ((None, n), db')
    \<and> (\<forall>e v m. e \<in> set hist \<and> cont db (entryKey e) = Some v \<and> meta_parse W v = Inr m \<longrightarrow>
          (\<exists>d. Get W db (md_CID m) = Inr d) \<and> Get W db' (md_CID m) = Inl (CIDNotFound (md_CID m)) \<and> cont db' (entryKey e) = Some v)
    \<and> (\<forall>s. cont db' (PrefixMeta @ s) = cont db (PrefixMeta @ s) \<and> cont db' (PrefixLog @ s) = cont db (PrefixLog @ s))"
proof -
  have inv: "rec_inv W cont hist db it" by (rule recorded_inv [OF assms(1,3,2,5)])
  note none = recorded_no_refs [OF inv assms(6)]
  have ri: "ref_inv W cont db" using assms(3,4) none by (simp add: ref_inv_def refs_ok_def)
  obtain db' where gc: "GarbageCollect W db = ((None, card (garbage W cont db)), db')"
    and c: "cont db' = cont db |` (- casKey ` garbage W cont db)" using GarbageCollect_ok [OF ri] by blast
  have gone: "Get W db' (cid_of W e) = Inl (CIDNotFound (cid_of W e))" for e
  proof -
    have "cont db' (casKey (cid_of W e)) = None"
      using cid_of_visible [of W e] none by (auto simp: c garbage_def ref_files_def restrict_map_def)
    then show ?thesis by (simp add: Get_healthy [OF assms(3,4)])
  qed
  have same: "cont db' (PrefixMeta @ s) = cont db (PrefixMeta @ s)" "cont db' (PrefixLog @ s) = cont db (PrefixLog @ s)" for s
    by (auto simp: c restrict_map_def key_spaces)
  have "(\<exists>d. Get W db (md_CID m) = Inr d) \<and> Get W db' (md_CID m) = Inl (CIDNotFound (md_CID m)) \<and> cont db' (entryKey e) = Some v"
    if e: "e \<in> set hist" "cont db (entryKey e) = Some v" "meta_parse W v = Inr m" for e v m
  proof -
    obtain s where s: "entryKey e = PrefixMeta @ s" using key_shapes(2) by (auto simp: entryKey_def)
    have "entryKey e \<noteq> sessionMetaKey" using e(1) assms(5) metaKey_not_session by (auto simp: entryKey_def list_all_iff entry_ok_def)
    then obtain f where f: "records W cont db v f" using inv e(2) unfolding s rec_inv_def meta_ok_def by blast
    then have "md_CID m = cid_of W f" using e(3) by (simp add: records_def metadata_of_def)
    with f gone [of f] Get_recorded [OF assms(3,4) inv, of f] same(1) [of s] e(2) show ?thesis unfolding s by (auto simp: records_def)
  qed
  with gc same show ?thesis by blast
qed

text \<open>A recording whose journal is drained: its object is read before the collection and is gone after it.\<close>

theorem collection_empties_recording_witness:
  "\<exists>cid d n db'. Get mem_world demo_done cid = Inr d \<and> GarbageCollect mem_world demo_done = ((None, n), db')
     \<and> Get mem_world db' cid = Inl (CIDNotFound cid)"
proof -
  let ?hist = "[demo_entry 2 [6], demo_entry 1 [5]]"
  have refs: "\<forall>e \<in> set ?hist. \<not> ref_path (je_Path e)" by (simp add: demo_entry_def ref_path_def str_def)
  have inv: "rec_inv mem_world map_of ?hist demo_done []"
    by (rule recorded_inv [OF demo_done_recorded mem_world_laws _ demo_ok]) simp
  have "\<not> in_journal mem_world map_of demo_done (demo_entry 1 [5])" using demo_done_drained by (simp add: drained_def in_journal_def)
  with inv obtain v where v: "map_of demo_done (entryKey (demo_entry 1 [5])) = Some v" by (auto simp: rec_inv_def)
  obtain s where s: "entryKey (demo_entry 1 [5]) = PrefixMeta @ s" using key_shapes(2) by (auto simp: entryKey_def)
  have "entryKey (demo_entry 1 [5]) \<noteq> sessionMetaKey" using metaKey_not_session by (simp add: entryKey_def demo_entry_def clock_ok_def)
  then obtain f where "records mem_world map_of demo_done v f" using inv v unfolding s rec_inv_def meta_ok_def by blast
  then have m: "meta_parse mem_world v = Inr (metadata_of f (cid_of mem_world f))" by (simp add: records_def)
  obtain n db' where "GarbageCollect mem_world demo_done = ((None, n), db')" and
    "\<And>e v m. e \<in> set ?hist \<and> map_of demo_done (entryKey e) = Some v \<and> meta_parse mem_world v = Inr m \<Longrightarrow>
       (\<exists>d. Get mem_world demo_done (md_CID m) = Inr d) \<and> Get mem_world db' (md_CID m) = Inl (CIDNotFound (md_CID m)) \<and> map_of db' (entryKey e) = Some v"
    using collection_empties_recording [OF demo_done_recorded _ mem_world_laws mem_healthy demo_ok refs] by fastforce
  from this(1) this(2) [of "demo_entry 1 [5]" v "metadata_of f (cid_of mem_world f)"] v m show ?thesis by auto
qed

end
