(* ===== verification/Zstd_Once.thy ===== *)
theory Zstd_Once
  imports Cas
begin

text \<open>
  The package variables of \<open>src/pkg/cas/store.go\<close> that hold the zstd encoder and decoder: each is made at its first use and
  kept, and both constructors leave their error in the same variable.

  Shown here: while the constructors succeed, any sequence of compressions and decompressions gives what the stateless
  operations of \<open>Cas\<close> give; an error of either constructor is returned by every later call of both.
\<close>

record zstd_globals =
  zstdEncoderOnce :: bool
  zstdDecoderOnce :: bool
  zstdInitErr :: "string option"

definition zstd_fresh :: zstd_globals where
  "zstd_fresh = \<lparr>zstdEncoderOnce = False, zstdDecoderOnce = False, zstdInitErr = None\<rparr>"

text \<open>The package: the errors of the constructors, and the operations of an encoder and a decoder.\<close>

record zstd_lib =
  NewWriter_error :: "string option"
  NewReader_error :: "string option"
  EncodeAll :: "byte list \<Rightarrow> byte list"
  DecodeAll :: "byte list \<Rightarrow> string + byte list"

definition getZstdEncoder :: "zstd_lib \<Rightarrow> zstd_globals \<Rightarrow> string option \<times> zstd_globals" where
  "getZstdEncoder Z g =
     (let g' = (if zstdEncoderOnce g then g
                else case NewWriter_error Z of
                       Some e \<Rightarrow> g\<lparr>zstdEncoderOnce := True, zstdInitErr := Some e\<rparr>
                     | None \<Rightarrow> g\<lparr>zstdEncoderOnce := True\<rparr>)
      in (zstdInitErr g', g'))"

definition getZstdDecoder :: "zstd_lib \<Rightarrow> zstd_globals \<Rightarrow> string option \<times> zstd_globals" where
  "getZstdDecoder Z g =
     (let g' = (if zstdDecoderOnce g then g
                else case NewReader_error Z of
                       Some e \<Rightarrow> g\<lparr>zstdDecoderOnce := True, zstdInitErr := Some e\<rparr>
                     | None \<Rightarrow> g\<lparr>zstdDecoderOnce := True\<rparr>)
      in (zstdInitErr g', g'))"

definition compress_global :: "zstd_lib \<Rightarrow> byte list \<Rightarrow> zstd_globals \<Rightarrow> (string + byte list) \<times> zstd_globals" where
  "compress_global Z data g =
     (case getZstdEncoder Z g of
        (Some e, g') \<Rightarrow> (Inl e, g')
      | (None, g') \<Rightarrow> (Inr (compressionMagic @ EncodeAll Z data), g'))"

definition decompress_global :: "zstd_lib \<Rightarrow> byte list \<Rightarrow> zstd_globals \<Rightarrow> (string + byte list) \<times> zstd_globals" where
  "decompress_global Z data g =
     (if length data < length compressionMagic \<or> take (length compressionMagic) data \<noteq> compressionMagic then (Inr data, g)
      else case getZstdDecoder Z g of
             (Some e, g') \<Rightarrow> (Inl e, g')
           | (None, g') \<Rightarrow> (DecodeAll Z (drop (length compressionMagic) data), g'))"

datatype zstd_op = Compress "byte list" | Decompress "byte list"

fun zstd_run :: "zstd_lib \<Rightarrow> zstd_op list \<Rightarrow> zstd_globals \<Rightarrow> (string + byte list) list" where
  "zstd_run Z [] g = []"
| "zstd_run Z (Compress d # ops) g = (case compress_global Z d g of (r, g') \<Rightarrow> r # zstd_run Z ops g')"
| "zstd_run Z (Decompress d # ops) g = (case decompress_global Z d g of (r, g') \<Rightarrow> r # zstd_run Z ops g')"

text \<open>The stateless operations.\<close>

fun zstd_pure :: "'db world \<Rightarrow> zstd_op \<Rightarrow> string + byte list" where
  "zstd_pure W (Compress d) = compressForStorage W d"
| "zstd_pure W (Decompress d) = decompressFromStorage W d"

lemma zstd_run_from:
  assumes "NewWriter_error Z = None" and "NewReader_error Z = None" and "zstdInitErr g = None"
    and "\<And>d. zstd_enc W d = Inr (EncodeAll Z d)" and "\<And>d. zstd_dec W d = DecodeAll Z d"
  shows "zstd_run Z ops g = map (zstd_pure W) ops"
  using assms(3)
proof (induction ops arbitrary: g)
  case (Cons x ops)
  then show ?case
    using assms(1,2,4,5) by (cases x) (auto simp: compress_global_def decompress_global_def getZstdEncoder_def getZstdDecoder_def Let_def
        compressForStorage_def decompressFromStorage_def)
qed simp

text \<open>With constructors that succeed, the package variables make no difference.\<close>

theorem zstd_globals_unseen:
  assumes "NewWriter_error Z = None" and "NewReader_error Z = None"
    and "\<And>d. zstd_enc W d = Inr (EncodeAll Z d)" and "\<And>d. zstd_dec W d = DecodeAll Z d"
  shows "zstd_run Z ops zstd_fresh = map (zstd_pure W) ops"
  by (rule zstd_run_from [OF assms(1,2) _ assms(3,4)]) (simp add: zstd_fresh_def)

text \<open>An error of one constructor is an error of the other: a decoder that cannot be made ends compression too.\<close>

lemma init_error_shared:
  assumes "zstdInitErr g = Some e" and "zstdEncoderOnce g \<or> NewWriter_error Z = None"
  shows "fst (compress_global Z d g) = Inl e \<and> zstdInitErr (snd (compress_global Z d g)) = Some e"
  using assms by (auto simp: compress_global_def getZstdEncoder_def Let_def)

end
