(* ===== verification/Tracing_Regs.thy ===== *)
theory Tracing_Regs
  imports Probes
begin

text \<open>
  The two ways in which \<open>src/ebpf/include/bpf/bpf_tracing.h\<close> reads a saved register: \<open>PT_REGS_\<close>\<open>x\<close> loads the member of the
  register struct, \<open>PT_REGS_\<close>\<open>x\<close>\<open>_CORE\<close> reads it with \<open>BPF_CORE_READ\<close>.

  Shown here: on a register struct in memory both give the value that is stored there, so that a kprobe on x86 is called with
  the words of the argument registers.
\<close>

definition regs_struct :: "string option \<Rightarrow> string" where
  "regs_struct cst = (case cst of None \<Rightarrow> ''pt_regs'' | Some c \<Rightarrow> c)"

fun reg_path :: "pt_reg \<Rightarrow> string list" where
  "reg_path (Reg p) = p"
| "reg_path (RegArr a i) = [a, i]"
| "reg_path Unsupported = []"

definition direct_reader :: "kernel \<Rightarrow> reg_reader" where
  "direct_reader k cst r x = le_word (direct_load k (field_addr (core_offsets k) x (regs_struct cst, reg_path r)) 8)"

definition core_reader :: "kernel \<Rightarrow> reg_reader" where
  "core_reader k cst r x = core_read64 k x (regs_struct cst, reg_path r)"

definition PT_REGS_PARM_CORE :: "kernel \<Rightarrow> pt_arch option \<Rightarrow> nat \<Rightarrow> addr \<Rightarrow> u64 option" where
  "PT_REGS_PARM_CORE k = PT_REGS_PARM (core_reader k)"

definition PT_REGS_RET_CORE :: "kernel \<Rightarrow> pt_arch option \<Rightarrow> addr \<Rightarrow> u64 option" where
  "PT_REGS_RET_CORE k = PT_REGS_RET (core_reader k)"

definition PT_REGS_FP_CORE :: "kernel \<Rightarrow> pt_arch option \<Rightarrow> addr \<Rightarrow> u64 option" where
  "PT_REGS_FP_CORE k = PT_REGS_FP (core_reader k)"

definition PT_REGS_RC_CORE :: "kernel \<Rightarrow> pt_arch option \<Rightarrow> addr \<Rightarrow> u64 option" where
  "PT_REGS_RC_CORE k = PT_REGS_RC (core_reader k)"

definition PT_REGS_SP_CORE :: "kernel \<Rightarrow> pt_arch option \<Rightarrow> addr \<Rightarrow> u64 option" where
  "PT_REGS_SP_CORE k = PT_REGS_SP (core_reader k)"

definition PT_REGS_IP_CORE :: "kernel \<Rightarrow> pt_arch option \<Rightarrow> addr \<Rightarrow> u64 option" where
  "PT_REGS_IP_CORE k = PT_REGS_IP (core_reader k)"

text \<open>The register struct at \<open>x\<close> has the word \<open>w\<close> in a register.\<close>

definition reg_holds :: "(string \<Rightarrow> ctype option) \<Rightarrow> kernel \<Rightarrow> string option \<Rightarrow> addr \<Rightarrow> pt_reg \<Rightarrow> u64 \<Rightarrow> bool" where
  "reg_holds btf k cst x r w \<longleftrightarrow> r \<noteq> Unsupported \<and> member_holds btf (k_mem k) x (regs_struct cst, reg_path r) w"

lemma readers_agree:
  assumes "helper_laws k" and "relocated btf k" and "reg_holds btf k cst x r w"
  shows "direct_reader k cst r x = w" and "core_reader k cst r x = w"
proof -
  from assms(3) have m: "member_holds btf (k_mem k) x (regs_struct cst, reg_path r) w" by (simp add: reg_holds_def)
  then show "core_reader k cst r x = w" unfolding core_reader_def by (rule core_read64_member [OF assms(1,2)])
  from m obtain off where "btf_offset btf (regs_struct cst) (reg_path r) = Some off" "mem_bytes (k_mem k) (x + word_of_nat off) 8 = Some (le_bytes 8 w)"
    by (auto simp: member_holds_def holds64_def)
  then show "direct_reader k cst r x = w"
    by (simp add: direct_reader_def field_addr_def core_offsets_relocated [OF assms(2)] direct_load_bytes le_word_le_bytes_full)
qed

lemma read_reg_holds:
  assumes "helper_laws k" and "relocated btf k" and "reg_holds btf k cst x r w"
  shows "read_reg (direct_reader k) cst r x = Some w" and "read_reg (core_reader k) cst r x = Some w"
  using readers_agree [OF assms] assms(3) by (auto simp: read_reg_def reg_holds_def split: pt_reg.splits)

text \<open>
  A register macro and its \<open>_CORE\<close> variant give the word that the register struct holds.
\<close>

theorem register_macros_agree:
  assumes "helper_laws k" and "relocated btf k"
    and "reg_holds btf k (regs_cast a) x (parm_reg a n) w1" and "reg_holds btf k (regs_cast a) x (ret_reg a) w2"
    and "reg_holds btf k (regs_cast a) x (fp_reg a) w3" and "reg_holds btf k (regs_cast a) x (rc_reg a) w4"
    and "reg_holds btf k (regs_cast a) x (sp_reg a) w5" and "reg_holds btf k (regs_cast a) x (ip_reg a) w6"
  shows "PT_REGS_PARM (direct_reader k) (Some a) n x = Some w1 \<and> PT_REGS_PARM_CORE k (Some a) n x = Some w1"
    and "PT_REGS_RET (direct_reader k) (Some a) x = Some w2 \<and> PT_REGS_RET_CORE k (Some a) x = Some w2"
    and "PT_REGS_FP (direct_reader k) (Some a) x = Some w3 \<and> PT_REGS_FP_CORE k (Some a) x = Some w3"
    and "PT_REGS_RC (direct_reader k) (Some a) x = Some w4 \<and> PT_REGS_RC_CORE k (Some a) x = Some w4"
    and "PT_REGS_SP (direct_reader k) (Some a) x = Some w5 \<and> PT_REGS_SP_CORE k (Some a) x = Some w5"
    and "PT_REGS_IP (direct_reader k) (Some a) x = Some w6 \<and> PT_REGS_IP_CORE k (Some a) x = Some w6"
  using assms(3-8) [THEN read_reg_holds(1) [OF assms(1,2)]] assms(3-8) [THEN read_reg_holds(2) [OF assms(1,2)]]
  by (simp_all add: PT_REGS_PARM_def PT_REGS_RET_def PT_REGS_FP_def PT_REGS_RC_def PT_REGS_SP_def PT_REGS_IP_def
      PT_REGS_PARM_CORE_def PT_REGS_RET_CORE_def PT_REGS_FP_CORE_def PT_REGS_RC_CORE_def PT_REGS_SP_CORE_def PT_REGS_IP_CORE_def)

text \<open>
  A kprobe is called with the context and the words of the argument registers of the register struct it is given, on every target and for every
  number of parameters that the target passes in registers.
\<close>

theorem kprobe_gets_registers:
  assumes "helper_laws k" and "relocated btf k" and "length params = length ws" and "length ws \<le> length (parms (pt_regs_of b t))"
    and "list_all2 (reg_holds btf k (regs_cast (pt_regs_of b t)) ctx) (take (length ws) (parms (pt_regs_of b t))) ws"
  shows "BPF_KPROBE (direct_reader k) (Some (pt_regs_of b t)) params body ctx = Some (body (Ctx # map Word ws))"
proof -
  have "map (\<lambda>r. Word (direct_reader k (regs_cast (pt_regs_of b t)) r ctx)) (take (length ws) (parms (pt_regs_of b t))) = map Word ws"
    using assms(5) by (rule list.rel_induct) (auto simp: readers_agree(1) [OF assms(1,2)])
  with assms(3,4) show ?thesis by (simp add: BPF_KPROBE_args)
qed

end
