(* ===== verification/Timeline.thy ===== *)
theory Timeline
  imports Export Complex_Main "HOL-Library.Multiset"
begin

text \<open>
  The \<open>timeline\<close> command of \<open>src/main.go\<close>: the metadata of a state directory as lines, ordered by time.
  \<open>sort.Slice\<close>, which does not keep the order of equal elements, the upper case of the \<open>strings\<close> package, the formatting of the
  session start and the rounding of \<open>float64\<close> operations are arguments.

  Shown here: a drained recording is listed with exactly one line for every path and time that was
  logged, in the order of time; the minutes and seconds of a line are the elapsed whole seconds
  for sessions of up to 104 days, and the size is right to half of its last digit.
\<close>

section \<open>Numbers\<close>

text \<open>
  \<open>fl\<close> rounds the exact result of an operation on \<open>float64\<close>.  What is used of IEEE 754: rounding is monotone,
  has a relative error of at most \<open>2 ^ -53\<close> on normal numbers, and keeps integers of 53 bits, also
  divided by a power of two.
\<close>

definition ieee_rounding :: "(rat \<Rightarrow> rat) \<Rightarrow> bool" where
  "ieee_rounding fl \<longleftrightarrow>
     mono fl \<and> (\<forall>x. 1 / 2 ^ 1000 \<le> x \<and> x \<le> 2 ^ 1000 \<longrightarrow> \<bar>fl x - x\<bar> \<le> x / 2 ^ 53) \<and>
     (\<forall>n k. \<bar>n\<bar> \<le> 2 ^ 53 \<and> k \<le> 1000 \<longrightarrow> fl (of_int n / 2 ^ k) = of_int n / 2 ^ k)"

text \<open>\<open>time.Time.Sub\<close>, which saturates, of two times in nanoseconds.\<close>

definition time_Sub :: "int \<Rightarrow> int \<Rightarrow> int" where
  "time_Sub t u = max (- (2 ^ 63)) (min (2 ^ 63 - 1) (t - u))"

text \<open>\<open>Duration.Minutes\<close> and \<open>Duration.Seconds\<close> of a duration that is not negative.\<close>

definition duration_in :: "(rat \<Rightarrow> rat) \<Rightarrow> int \<Rightarrow> int \<Rightarrow> rat" where
  "duration_in fl unit d = fl (fl (of_int (d div unit)) + fl (fl (of_int (d mod unit)) / of_int unit))"

definition Minutes :: "(rat \<Rightarrow> rat) \<Rightarrow> int \<Rightarrow> rat" where
  "Minutes fl d = duration_in fl 60000000000 d"

definition Seconds :: "(rat \<Rightarrow> rat) \<Rightarrow> int \<Rightarrow> rat" where
  "Seconds fl d = duration_in fl 1000000000 d"

text \<open>\<open>fmt\<close>'s \<open>%.1f\<close>: the exact value to the nearest tenth, ties to the even one.\<close>

definition tenths :: "rat \<Rightarrow> int" where
  "tenths x = (let t = 10 * x; f = \<lfloor>t\<rfloor>
     in if t - of_int f < 1 / 2 \<or> t - of_int f = 1 / 2 \<and> even f then f else f + 1)"

definition fmt_1f :: "rat \<Rightarrow> string" where
  "fmt_1f x = show_nat (nat (tenths x) div 10) @ ''.'' @ show_nat (nat (tenths x) mod 10)"

definition formatSize :: "(rat \<Rightarrow> rat) \<Rightarrow> nat \<Rightarrow> string" where
  "formatSize fl sz =
     (if 2 ^ 20 \<le> sz then fmt_1f (fl (fl (of_nat sz) / 2 ^ 20)) @ ''MB''
      else if 2 ^ 10 \<le> sz then fmt_1f (fl (fl (of_nat sz) / 2 ^ 10)) @ ''KB''
      else show_nat sz @ ''B'')"


section \<open>The command\<close>

record timeline_event =
  te_TS :: int
  te_Path :: "byte list"
  te_Op :: "byte list"
  te_Size :: nat

text \<open>The parts of the Go library with their own tables.\<close>

record go_library =
  lib_sort :: "timeline_event list \<Rightarrow> timeline_event list"
  lib_ToUpper :: "byte list \<Rightarrow> byte list"
  lib_RFC3339 :: "int \<Rightarrow> byte list"
  lib_fl :: "rat \<Rightarrow> rat"

datatype timeline_error = OpenState pebble_error | NoSessionStart | ReadState pebble_error

definition timeline_event_of :: "'db world \<Rightarrow> byte list \<times> byte list \<Rightarrow> timeline_event option" where
  "timeline_event_of W kv =
     (if fst kv = sessionMetaKey then None
      else case meta_parse W (snd kv) of
             Inl e \<Rightarrow> None
           | Inr meta \<Rightarrow> Some \<lparr>te_TS = md_Timestamp meta, te_Path = md_Path meta, te_Op = md_Op meta, te_Size = md_Size meta\<rparr>)"

text \<open>\<open>%02d\<close> of a number that is not negative, and \<open>%-8s\<close>, which counts runes.\<close>

definition fmt_02d :: "int \<Rightarrow> string" where
  "fmt_02d n = pad 2 (show_nat (nat n))"

definition rune_count :: "byte list \<Rightarrow> nat" where
  "rune_count s = length (filter (\<lambda>b. \<not> (0x80 \<le> b \<and> b \<le> 0xBF)) s)"

definition pad_right :: "nat \<Rightarrow> byte list \<Rightarrow> byte list" where
  "pad_right n s = s @ replicate (n - rune_count s) 32"

definition row_duration :: "int \<Rightarrow> timeline_event \<Rightarrow> int" where
  "row_duration sessionStart e = (let d = time_Sub (te_TS e) sessionStart in if d < 0 then 0 else d)"

definition row_minutes :: "(rat \<Rightarrow> rat) \<Rightarrow> int \<Rightarrow> timeline_event \<Rightarrow> int" where
  "row_minutes fl sessionStart e = \<lfloor>Minutes fl (row_duration sessionStart e)\<rfloor>"

definition row_seconds :: "(rat \<Rightarrow> rat) \<Rightarrow> int \<Rightarrow> timeline_event \<Rightarrow> int" where
  "row_seconds fl sessionStart e = \<lfloor>Seconds fl (row_duration sessionStart e)\<rfloor> mod 60"

definition timeline_row :: "go_library \<Rightarrow> int \<Rightarrow> timeline_event \<Rightarrow> byte list" where
  "timeline_row L sessionStart e =
     str (''['' @ fmt_02d (row_minutes (lib_fl L) sessionStart e) @ ''m:'' @ fmt_02d (row_seconds (lib_fl L) sessionStart e) @ ''s] '')
     @ pad_right 8 (lib_ToUpper L (te_Op e)) @ str '' '' @ te_Path e
     @ str ('' ('' @ formatSize (lib_fl L) (te_Size e) @ '')'')"

definition timeline_header :: "go_library \<Rightarrow> int \<Rightarrow> byte list list" where
  "timeline_header L sessionStart =
     [str ''Session Start: '' @ lib_RFC3339 L sessionStart, str ''TIME       OP       PATH'',
      str ''------------------------------------------------'']"

text \<open>The result and the lines on the standard output.\<close>

definition runTimeline ::
  "'db world \<Rightarrow> go_library \<Rightarrow> pebble_error + 'db \<Rightarrow> timeline_error option \<times> byte list list" where
  "runTimeline W L opened =
     (case opened of
        Inl e \<Rightarrow> (Some (OpenState e), [])
      | Inr db \<Rightarrow>
          (case loadSessionStart W db of
             None \<Rightarrow> (Some NoSessionStart, [])
           | Some sessionStart \<Rightarrow>
               (case newPrefixIter W db PrefixMeta of
                  Inl e \<Rightarrow> (Some (ReadState e), [])
                | Inr (kvs, err) \<Rightarrow>
                    (case err of
                       Some e \<Rightarrow> (Some (ReadState e), timeline_header L sessionStart)
                     | None \<Rightarrow>
                         (None, timeline_header L sessionStart
                            @ map (timeline_row L sessionStart) (lib_sort L (List.map_filter (timeline_event_of W) kvs)))))))"

section \<open>Results: time and size\<close>

lemma fl_int: "ieee_rounding fl \<Longrightarrow> \<bar>n\<bar> \<le> 2 ^ 53 \<Longrightarrow> fl (of_int n) = of_int n"
  unfolding ieee_rounding_def by (metis div_by_1 power_0 zero_le)

lemma fl_above:
  assumes "ieee_rounding fl" and "1 / 2 ^ 1000 \<le> x" and "x \<le> 2 ^ 1000"
  shows "fl x \<le> x + x / 2 ^ 53"
proof -
  have "\<bar>fl x - x\<bar> \<le> x / 2 ^ 53" using assms unfolding ieee_rounding_def by blast
  then show ?thesis by linarith
qed

lemma fl_mono: "ieee_rounding fl \<Longrightarrow> x \<le> y \<Longrightarrow> fl x \<le> fl y"
  by (auto simp: ieee_rounding_def mono_def)

lemma tiny: "(1 :: rat) / 2 ^ 1000 \<le> 1 / 2 ^ 53" "(1 :: rat) / 2 ^ 53 \<le> 1 / 2 ^ 40" "(2 :: rat) ^ 54 \<le> 2 ^ 1000" "(1 :: rat) \<le> 2 ^ 1000"
  by (simp_all add: field_simps)

text \<open>A fraction of a unit rounds to at most the fraction and half a unit in the last place of one.\<close>

lemma fl_fraction:
  assumes "ieee_rounding fl" and "0 \<le> n" and "n < unit" and "unit \<le> 2 ^ 40"
  shows "0 \<le> fl (of_int n / of_int unit)" and "fl (of_int n / of_int unit) \<le> 1 - 1 / of_int unit + 1 / 2 ^ 53"
proof -
  define x where "x = (of_int n / of_int unit :: rat)"
  have U: "(0 :: rat) < of_int unit" using assms(2,3) by simp
  have z: "fl 0 = 0" using fl_int [OF assms(1), of 0] by simp
  have "0 \<le> x" using assms(2) U by (simp add: x_def)
  then show "0 \<le> fl (of_int n / of_int unit)" using fl_mono [OF assms(1), of 0 x] z by (simp add: x_def)
  have "(of_int n :: rat) \<le> of_int (unit - 1)" using assms(3) by (simp only: of_int_le_iff)
  then have "x \<le> of_int (unit - 1) / of_int unit" unfolding x_def using U by (simp add: divide_right_mono)
  then have x: "x \<le> 1 - 1 / of_int unit" using U by (simp add: diff_divide_distrib)
  moreover have "(0 :: rat) \<le> 1 / of_int unit" using U by simp
  ultimately have "x \<le> 1" by linarith
  show "fl (of_int n / of_int unit) \<le> 1 - 1 / of_int unit + 1 / 2 ^ 53"
  proof (cases "n = 0")
    case True
    then have "x = 0" by (simp add: x_def)
    with x have "0 \<le> 1 - 1 / of_int unit + (1 / 2 ^ 53 :: rat)" by (simp only:) simp
    with True z show ?thesis by (simp only: of_int_0 div_0)
  next
    case False
    have "(of_int unit :: rat) \<le> of_int (2 ^ 40)" using assms(4) by (simp only: of_int_le_iff)
    then have "(1 :: rat) / 2 ^ 40 \<le> 1 / of_int unit" using U by (simp add: frac_le)
    also have "\<dots> \<le> x" using False assms(2) U by (simp add: x_def divide_right_mono)
    finally have "1 / 2 ^ 1000 \<le> x" using tiny by linarith
    from fl_above [OF assms(1) this] \<open>x \<le> 1\<close> tiny(4) have "fl x \<le> x + x / 2 ^ 53" by linarith
    also have "x / 2 ^ 53 \<le> 1 / 2 ^ 53" using \<open>x \<le> 1\<close> by (simp add: divide_right_mono)
    finally show ?thesis using x by (simp add: x_def)
  qed
qed

lemma floor_duration:
  assumes "ieee_rounding fl" and "0 \<le> d" and "0 < unit" and "unit \<le> 2 ^ 40" and "d + 3 * unit \<le> 2 ^ 53"
  shows "\<lfloor>duration_in fl unit d\<rfloor> = d div unit"
proof -
  define q n where "q = d div unit" and "n = d mod unit"
  have qn: "0 \<le> q" "0 \<le> n" "n < unit" "q * unit + n = d"
    using assms(2,3) by (auto simp: q_def n_def pos_imp_zdiv_nonneg_iff)
  have "q \<le> q * unit" using qn(1) assms(3) by (simp add: mult_le_cancel_left1)
  then have small: "\<bar>q\<bar> \<le> 2 ^ 53" "\<bar>n\<bar> \<le> 2 ^ 53" using qn assms(4,5) by auto
  have U: "(0 :: rat) < of_int unit" using assms(3) by simp
  define y where "y = of_int q + fl (of_int n / of_int unit)"
  have dur: "duration_in fl unit d = fl y"
    using fl_int [OF assms(1)] small by (simp add: duration_in_def y_def q_def n_def)
  note frac = fl_fraction [OF assms(1) qn(2,3) assms(4)]
  have "of_int q \<le> fl y" using fl_mono [OF assms(1), of "of_int q" y] frac(1) fl_int [OF assms(1) small(1)] by (simp add: y_def)
  moreover have "fl y < of_int q + 1"
  proof -
    define Y where "Y = of_int q + (1 - 1 / of_int unit + 1 / 2 ^ 53 :: rat)"
    have "(q + 2) * unit < 2 ^ 53" using qn assms(3,5) by (simp add: algebra_simps)
    then have "(of_int ((q + 2) * unit) :: rat) < of_int (2 ^ 53)" by (simp only: of_int_less_iff)
    then have gap: "(of_int q + 2) / 2 ^ 53 < (1 :: rat) / of_int unit" using U by (simp add: field_simps)
    have q0: "(0 :: rat) \<le> of_int q" using qn(1) by simp
    then have "(1 :: rat) / 2 ^ 53 \<le> (of_int q + 2) / 2 ^ 53" by (simp add: divide_right_mono)
    with gap have Y1: "Y \<le> of_int q + 1" by (simp add: Y_def)
    have "(1 :: rat) / of_int unit \<le> 1" using assms(3) U by (simp add: field_simps)
    then have "1 / 2 ^ 53 \<le> Y" using q0 by (simp add: Y_def)
    then have Y0: "1 / 2 ^ 1000 \<le> Y" using tiny(1) by linarith
    have "(of_int q :: rat) \<le> of_int (2 ^ 53)" using small(1) by (simp only: of_int_le_iff)
    then have Y2: "Y \<le> 2 ^ 1000" using Y1 tiny(3) by simp
    have "fl y \<le> fl Y" by (rule fl_mono [OF assms(1)]) (use frac(2) in \<open>simp add: y_def Y_def\<close>)
    also have "\<dots> \<le> Y + Y / 2 ^ 53" by (rule fl_above [OF assms(1) Y0 Y2])
    also have "\<dots> \<le> Y + (of_int q + 1) / 2 ^ 53" using Y1 by (simp add: divide_right_mono)
    also have "\<dots> = of_int q + 1 - 1 / of_int unit + (of_int q + 2) / 2 ^ 53" by (simp add: Y_def field_simps)
    also have "\<dots> < of_int q + 1" using gap by simp
    finally show ?thesis .
  qed
  ultimately show ?thesis unfolding dur q_def [symmetric] by (simp add: floor_unique)
qed

lemma tenths_error: "\<bar>of_int (tenths x) / 10 - x\<bar> \<le> 1 / 20"
proof -
  define t f where "t = 10 * x" and "f = \<lfloor>10 * x\<rfloor>"
  have "of_int f \<le> t" "t < of_int f + 1" using floor_correct [of "10 * x"] by (simp_all add: t_def f_def)
  moreover have "tenths x = (if t - of_int f < 1 / 2 \<or> t - of_int f = 1 / 2 \<and> even f then f else f + 1)"
    by (simp add: tenths_def Let_def t_def f_def)
  ultimately have "\<bar>of_int (tenths x) - t\<bar> \<le> 1 / 2" by (auto simp: abs_if)
  then show ?thesis by (simp add: t_def abs_if field_simps split: if_splits)
qed


section \<open>Results: the lines\<close>

text \<open>\<open>sort.Slice\<close> permutes its argument into the order of time.\<close>

definition sort_laws :: "(timeline_event list \<Rightarrow> timeline_event list) \<Rightarrow> bool" where
  "sort_laws f \<longleftrightarrow> (\<forall>es. mset (f es) = mset es \<and> sorted (map te_TS (f es)))"

definition event_listed :: "JournalEntry \<Rightarrow> timeline_event" where
  "event_listed e =
     \<lparr>te_TS = je_Timestamp e, te_Path = je_Path e, te_Op = (if je_Op e = [] then str ''write'' else je_Op e), te_Size = length (je_Data e)\<rparr>"

lemma timeline_event_metadata:
  "meta_parse W v = Inr (metadata_of e c) \<Longrightarrow> k \<noteq> sessionMetaKey \<Longrightarrow> timeline_event_of W (k, v) = Some (event_listed e)"
  by (simp add: timeline_event_of_def event_listed_def metadata_of_def)

text \<open>What an iterator shows under a key is the record of an event with that key.\<close>

lemma shown_is_event:
  assumes "world_laws W cont" and "rec_inv W cont hist db it"
    and "newPrefixIter W db PrefixMeta = Inr (kvs, None)" and "(k, v) \<in> set kvs" and "timeline_event_of W (k, v) = Some r"
  shows "\<exists>e. e \<in> set hist \<and> k = entryKey e \<and> r = event_listed e"
proof -
  have P: "pebble_laws W cont" using assms(1) by (simp add: world_laws_def)
  from assms(4) iter_content [OF P assms(3) [unfolded newPrefixIter_def]]
  obtain s where k: "k = PrefixMeta @ s" "cont db k = Some v" by (auto simp: in_bounds_prefix)
  have ns: "k \<noteq> sessionMetaKey" using assms(5) by (auto simp: timeline_event_of_def)
  with k assms(2) obtain e where "e \<in> set hist" "k = entryKey e" "records W cont db v e" unfolding rec_inv_def meta_ok_def by blast
  with assms(5) ns show ?thesis by (auto simp: records_def timeline_event_metadata)
qed

lemma event_is_shown:
  assumes "world_laws W cont" and "rec_inv W cont hist db it" and "list_all (entry_ok W) hist"
    and "newPrefixIter W db PrefixMeta = Inr (kvs, None)" and "drained cont db" and "e \<in> set hist"
  shows "\<exists>r. r \<in> set (List.map_filter (timeline_event_of W) kvs) \<and> te_Path r = je_Path e \<and> te_TS r = je_Timestamp e"
proof -
  from event_has_candidate [OF assms order_refl] obtain kv f where f: "kv \<in> set kvs" "candidate W (je_Timestamp e) kv = Some (metadata_of f (cid_of W f))"
    "je_Path f = je_Path e" "je_Timestamp f = je_Timestamp e" by blast
  then have "meta_parse W (snd kv) = Inr (metadata_of f (cid_of W f))" "fst kv \<noteq> sessionMetaKey"
    by (auto simp: candidate_def split: if_splits sum.splits)
  then have "timeline_event_of W kv = Some (event_listed f)" by (cases kv) (simp add: timeline_event_metadata)
  with f show ?thesis by (intro exI [of _ "event_listed f"]) (force simp: List.map_filter_def event_listed_def)
qed

lemma set_map_filter: "r \<in> set (List.map_filter f xs) \<longleftrightarrow> (\<exists>x \<in> set xs. f x = Some r)"
  by (force simp: List.map_filter_def)

lemma shown_once:
  assumes "world_laws W cont" and "rec_inv W cont hist db it" and "list_all (entry_ok W) hist"
    and "newPrefixIter W db PrefixMeta = Inr (kvs, None)"
  shows "distinct (map (\<lambda>r. (te_Path r, te_TS r)) (List.map_filter (timeline_event_of W) kvs))"
proof -
  have P: "pebble_laws W cont" using assms(1) by (simp add: world_laws_def)
  have "distinct (map fst kvs)"
    using iter_content [OF P assms(4) [unfolded newPrefixIter_def]] sorted_keys_distinct by blast
  moreover have "\<exists>e. e \<in> set hist \<and> k = entryKey e \<and> r = event_listed e"
    if "(k, v) \<in> set kvs" "timeline_event_of W (k, v) = Some r" for k v r
    using shown_is_event [OF assms(1,2,4) that] .
  ultimately show ?thesis
  proof (induction kvs)
    case Nil
    then show ?case by (simp add: List.map_filter_def)
  next
    case (Cons kv kvs)
    obtain k v where kv: "kv = (k, v)" by fastforce
    have IH: "distinct (map (\<lambda>r. (te_Path r, te_TS r)) (List.map_filter (timeline_event_of W) kvs))"
      by (rule Cons.IH) (use Cons.prems in auto)
    show ?case
    proof (cases "timeline_event_of W kv")
      case None
      with IH show ?thesis by (simp add: List.map_filter_def)
    next
      case (Some r)
      from Cons.prems(2) [of k v r] Some kv obtain e where e: "k = entryKey e" "r = event_listed e" by auto
      have "(te_Path r, te_TS r) \<noteq> (te_Path r', te_TS r')" if "r' \<in> set (List.map_filter (timeline_event_of W) kvs)" for r'
      proof
        assume same: "(te_Path r, te_TS r) = (te_Path r', te_TS r')"
        from that obtain kv' where kv': "kv' \<in> set kvs" "timeline_event_of W kv' = Some r'"
          by (auto simp: List.map_filter_def)
        with Cons.prems(2) [of "fst kv'" "snd kv'" r'] obtain e' where "fst kv' = entryKey e'" "r' = event_listed e'" by auto
        with e same have "fst kv' = k" by (simp add: entryKey_def event_listed_def)
        with kv'(1) Cons.prems(1) kv show False by force
      qed
      with IH Some show ?thesis by (auto simp: List.map_filter_def)
    qed
  qed
qed

lemma fl_scaled:
  assumes "ieee_rounding fl" and "n \<le> 2 ^ 53" and "k \<le> 1000"
  shows "fl (fl (of_nat n) / 2 ^ k) = of_nat n / 2 ^ k"
proof -
  have b: "\<bar>int n\<bar> \<le> 2 ^ 53" using assms(2) by (metis abs_of_nat of_nat_le_iff of_nat_numeral of_nat_power)
  then have "fl (of_int (int n)) = of_int (int n)" by (rule fl_int [OF assms(1)])
  moreover have "fl (of_int (int n) / 2 ^ k) = of_int (int n) / 2 ^ k"
    using assms(1,3) b unfolding ieee_rounding_def by blast
  ultimately show ?thesis by simp
qed

lemma fmt_1f_near:
  assumes "0 \<le> x"
  shows "\<exists>t. fmt_1f x = show_nat (t div 10) @ ''.'' @ show_nat (t mod 10) \<and> \<bar>of_nat t / 10 - x\<bar> \<le> 1 / 20"
proof -
  have "0 \<le> \<lfloor>10 * x\<rfloor>" using assms by simp
  then have "0 \<le> tenths x" by (simp add: tenths_def Let_def)
  then have "(of_nat (nat (tenths x)) :: rat) = of_int (tenths x)" by simp
  with tenths_error [of x] show ?thesis by (intro exI [of _ "nat (tenths x)"]) (simp add: fmt_1f_def)
qed

text \<open>
  C15: the time and the size of a line.  For writes up to 104 days after the start of the session the
  minutes and seconds are the whole seconds between them, with seconds below sixty, although both are computed in
  floating point; a size below 1024 is exact and a larger one, in KB or MB, is off by at most half of
  the last digit.
\<close>

theorem timeline_row_exact:
  assumes "ieee_rounding fl" and "start \<le> te_TS e" and "te_TS e \<le> start + 9 * 10 ^ 15" and "te_Size e \<le> 2 ^ 53"
  shows "60 * row_minutes fl start e + row_seconds fl start e = (te_TS e - start) div 10 ^ 9
    \<and> 0 \<le> row_seconds fl start e \<and> row_seconds fl start e < 60
    \<and> (if te_Size e < 2 ^ 10 then formatSize fl (te_Size e) = show_nat (te_Size e) @ ''B''
       else \<exists>t k suffix. formatSize fl (te_Size e) = show_nat (t div 10) @ ''.'' @ show_nat (t mod 10) @ suffix
          \<and> (k, suffix) = (if te_Size e < 2 ^ 20 then (10, ''KB'') else (20, ''MB''))
          \<and> \<bar>of_nat t / 10 - of_nat (te_Size e) / (2 :: rat) ^ k\<bar> \<le> 1 / 20)"
proof -
  let ?d = "te_TS e - start"
  have d: "row_duration start e = ?d" using assms(2,3) by (simp add: row_duration_def time_Sub_def)
  have "row_minutes fl start e = ?d div 60000000000"
    unfolding row_minutes_def Minutes_def d by (rule floor_duration [OF assms(1)]) (use assms(2,3) in simp_all)
  moreover have "row_seconds fl start e = ?d div 1000000000 mod 60"
    unfolding row_seconds_def Seconds_def d by (subst floor_duration [OF assms(1)]) (use assms(2,3) in simp_all)
  moreover have "?d div 60000000000 = ?d div 1000000000 div 60" by (simp add: zdiv_zmult2_eq [symmetric])
  ultimately have "60 * row_minutes fl start e + row_seconds fl start e = ?d div 10 ^ 9"
    "0 \<le> row_seconds fl start e" "row_seconds fl start e < 60" by simp_all
  moreover have "if te_Size e < 2 ^ 10 then formatSize fl (te_Size e) = show_nat (te_Size e) @ ''B''
       else \<exists>t k suffix. formatSize fl (te_Size e) = show_nat (t div 10) @ ''.'' @ show_nat (t mod 10) @ suffix
          \<and> (k, suffix) = (if te_Size e < 2 ^ 20 then (10, ''KB'') else (20, ''MB''))
          \<and> \<bar>of_nat t / 10 - of_nat (te_Size e) / (2 :: rat) ^ k\<bar> \<le> 1 / 20"
  proof (cases "te_Size e < 2 ^ 10")
    case False
    define k where "k = (if te_Size e < 2 ^ 20 then 10 else 20 :: nat)"
    have "k \<le> 1000" by (simp add: k_def)
    have "formatSize fl (te_Size e) = fmt_1f (fl (fl (of_nat (te_Size e)) / 2 ^ k)) @ (if te_Size e < 2 ^ 20 then ''KB'' else ''MB'')"
      using False by (simp add: formatSize_def k_def)
    then have fmt: "formatSize fl (te_Size e) = fmt_1f (of_nat (te_Size e) / 2 ^ k) @ (if te_Size e < 2 ^ 20 then ''KB'' else ''MB'')"
      by (simp only: fl_scaled [OF assms(1,4) \<open>k \<le> 1000\<close>])
    obtain t where "fmt_1f (of_nat (te_Size e) / 2 ^ k) = show_nat (t div 10) @ ''.'' @ show_nat (t mod 10)"
      "\<bar>of_nat t / 10 - of_nat (te_Size e) / (2 :: rat) ^ k\<bar> \<le> 1 / 20"
      using fmt_1f_near [of "of_nat (te_Size e) / 2 ^ k"] by auto
    with fmt False show ?thesis by (auto simp: k_def)
  qed (simp add: formatSize_def)
  ultimately show ?thesis by blast
qed

theorem timeline_row_exact_witness:
  "60 * row_minutes id 0 \<lparr>te_TS = 61999999999, te_Path = [], te_Op = [], te_Size = 1\<rparr>
     + row_seconds id 0 \<lparr>te_TS = 61999999999, te_Path = [], te_Op = [], te_Size = 1\<rparr> = 61"
proof -
  have "ieee_rounding id" by (simp add: ieee_rounding_def mono_def)
  from timeline_row_exact [OF this, of 0 "\<lparr>te_TS = 61999999999, te_Path = [], te_Op = [], te_Size = 1\<rparr>"] show ?thesis by simp
qed

text \<open>
  C14: the timeline of a drained recording has exactly one line for every path and time at which an
  event was logged, each line is that of such an event, and the lines are in the order of time.
\<close>

theorem timeline_lists_history:
  assumes "recorded W cont db0 hist db it" and "cont db0 = Map.empty" and "list_all (entry_ok W) hist"
    and "world_laws W cont" and "healthy W" and "drained cont db"
    and "sort_laws (lib_sort L)" and "loadSessionStart W db = Some start"
  shows "\<exists>es. runTimeline W L (Inr db) = (None, timeline_header L start @ map (timeline_row L start) es)
    \<and> sorted (map te_TS es) \<and> distinct (map (\<lambda>r. (te_Path r, te_TS r)) es)
    \<and> (\<lambda>r. (te_Path r, te_TS r)) ` set es = (\<lambda>e. (je_Path e, je_Timestamp e)) ` set hist
    \<and> set es \<subseteq> event_listed ` set hist"
proof -
  have inv: "rec_inv W cont hist db it" by (rule recorded_inv [OF assms(1,4,2,3)])
  obtain kvs where it: "newPrefixIter W db PrefixMeta = Inr (kvs, None)"
    using healthy_ops(3) [OF assms(5)] unfolding newPrefixIter_def by blast
  define rs where "rs = List.map_filter (timeline_event_of W) kvs"
  define es where "es = lib_sort L rs"
  have ms: "mset es = mset rs" and srt: "sorted (map te_TS es)" using assms(7) by (simp_all add: sort_laws_def es_def)
  have set: "set es = set rs" by (rule mset_eq_setD [OF ms])
  have "r \<in> event_listed ` set hist" if r: "r \<in> set rs" for r
  proof -
    obtain k v where "(k, v) \<in> set kvs" "timeline_event_of W (k, v) = Some r"
      using r unfolding rs_def set_map_filter by auto
    from shown_is_event [OF assms(4) inv it this] show ?thesis by blast
  qed
  then have sub: "set es \<subseteq> event_listed ` set hist" using set by blast
  then have "(\<lambda>r. (te_Path r, te_TS r)) ` set es \<subseteq> (\<lambda>e. (je_Path e, je_Timestamp e)) ` set hist"
    by (auto simp: event_listed_def)
  moreover have "(\<lambda>e. (je_Path e, je_Timestamp e)) ` set hist \<subseteq> (\<lambda>r. (te_Path r, te_TS r)) ` set es"
    using event_is_shown [OF assms(4) inv assms(3) it assms(6)] unfolding set rs_def by force
  moreover have "distinct (map (\<lambda>r. (te_Path r, te_TS r)) es)"
    using shown_once [OF assms(4) inv assms(3) it] ms unfolding rs_def by (metis mset_eq_imp_distinct_iff mset_map)
  moreover have "runTimeline W L (Inr db) = (None, timeline_header L start @ map (timeline_row L start) es)"
    by (simp add: runTimeline_def assms(8) it es_def rs_def)
  ultimately show ?thesis using srt sub by blast
qed

text \<open>The processor leaves the session start alone.\<close>

lemma process_entry_session:
  assumes "world_laws W cont" and "entry_parse W v = Inr e" and "clock_ok (je_Timestamp e)"
    and "process_entry W k v db = (r, db')" and "k \<noteq> sessionMetaKey"
  shows "cont db' sessionMetaKey = cont db sessionMetaKey"
proof -
  have P: "pebble_laws W cont" using assms(1) by (simp add: world_laws_def)
  have stored: "cont db2 sessionMetaKey = cont db1 sessionMetaKey" if st: "stored_upto W e db1 db2" for db1 db2
    using st put_chunk_result [OF assms(1)] by (fastforce simp: stored_upto_def)
  have described: "cont db2 sessionMetaKey = cont db1 sessionMetaKey" if "described_upto W e db1 db2" for db1 db2
    using that metaKey_not_session [OF assms(3), of "je_Path e"] by (auto simp: described_upto_def entryKey_def dest!: set_content [OF P])
  from process_writes_cases [OF assms(1,2) process_entry_within [OF assms(4)]] show ?thesis
  proof cases
    case (4 db1 db2)
    then show ?thesis using stored [OF 4(1)] described [OF 4(2)] delete_content [OF P 4(3)] assms(5) by simp
  qed (use stored described in auto)
qed

lemma process_all_session:
  assumes "world_laws W cont" and "list_all (entry_ok W) hist" and "rec_inv W cont hist db it"
  shows "cont (process_all W it db) sessionMetaKey = cont db sessionMetaKey"
  using assms(3)
proof (induction it arbitrary: db)
  case Nil
  then show ?case by (simp add: process_all_def)
next
  case (Cons kv it)
  obtain k v where kv: "kv = (k, v)" by fastforce
  obtain r db' where run: "process_entry W k v db = (r, db')" by fastforce
  obtain s where s: "k = PrefixLog @ s" "cont db k = Some v" using Cons.prems unfolding kv by (auto simp: rec_inv_def iter_ok_Cons)
  then obtain e where e: "e \<in> set hist" "entry_parse W v = Inr e" using Cons.prems unfolding rec_inv_def journal_ok_def by blast
  then have "clock_ok (je_Timestamp e)" using assms(2) by (auto simp: list_all_iff entry_ok_def)
  from process_entry_session [OF assms(1) e(2) this run] have "cont db' sessionMetaKey = cont db sessionMetaKey" using s(1) by simp
  with Cons.IH [OF inv_process [OF assms(1,2) Cons.prems [unfolded kv] run]] show ?case by (simp add: process_all_def kv run)
qed

definition demo_session :: mem_db where
  "demo_session = (sessionMetaKey, str (fmt_020d 1)) # demo_done"

lemma demo_done_session: "map_of demo_done sessionMetaKey = None"
proof -
  have inv: "rec_inv mem_world map_of [demo_entry 2 [6], demo_entry 1 [5]] demo_db []"
    by (rule recorded_inv [OF demo_recorded mem_world_laws _ demo_ok]) simp
  obtain kvs where it: "newPrefixIter mem_world demo_db PrefixLog = Inr (kvs, None)"
    using healthy_ops(3) [OF mem_healthy] unfolding newPrefixIter_def by blast
  from process_all_session [OF mem_world_laws demo_ok inv_open [OF mem_world_laws inv it]]
  have "map_of demo_done sessionMetaKey = map_of demo_db sessionMetaKey" by (simp add: demo_done_def processor_pass_def it)
  then show ?thesis by (simp add: demo_db_def)
qed

lemma demo_session_recorded:
  "recorded mem_world map_of [] [demo_entry 2 [6], demo_entry 1 [5]] demo_session []"
  "drained map_of demo_session" "loadSessionStart mem_world demo_session = Some 1"
proof -
  have "recordSessionStart mem_world 1 (Some demo_done) = Some demo_session"
    using demo_done_session by (simp add: recordSessionStart_def mem_world_def demo_session_def)
  then show "recorded mem_world map_of [] [demo_entry 2 [6], demo_entry 1 [5]] demo_session []"
    by (rule recorded.session [OF demo_done_recorded])
  show "drained map_of demo_session" using demo_done_drained by (auto simp: drained_def demo_session_def)
  show "loadSessionStart mem_world demo_session = Some 1"
    using ParseInt_fmt [of 1] by (simp add: loadSessionStart_def mem_world_def demo_session_def clock_ok_def)
qed

definition demo_library :: go_library where
  "demo_library = \<lparr>lib_sort = sort_key te_TS, lib_ToUpper = id, lib_RFC3339 = (\<lambda>t. []), lib_fl = id\<rparr>"

theorem timeline_lists_history_witness:
  "\<exists>es. runTimeline mem_world demo_library (Inr demo_session) = (None, timeline_header demo_library 1 @ map (timeline_row demo_library 1) es)
     \<and> sorted (map te_TS es) \<and> (\<lambda>r. (te_Path r, te_TS r)) ` set es = {(str ''a.txt'', 1), (str ''a.txt'', 2)}"
proof -
  have "sort_laws (lib_sort demo_library)" by (simp add: sort_laws_def demo_library_def)
  from timeline_lists_history [OF demo_session_recorded(1) _ demo_ok mem_world_laws mem_healthy demo_session_recorded(2) this demo_session_recorded(3)]
  show ?thesis by (auto simp: demo_entry_def insert_commute)
qed

section \<open>A target time that is far away\<close>

text \<open>
  C12: a target time after the year 2262 wraps to one before 1970: with a duration that reaches beyond it (such as \<open>2400000h\<close>), an export of a
  drained recording succeeds and writes no file, unless the file system fails.
\<close>

theorem export_far_target:
  assumes "recorded W cont db0 hist db it" and "cont db0 = Map.empty" and "list_all (entry_ok W) hist"
    and "world_laws W cont" and "healthy W" and "drained cont db"
    and "os_laws OS files" and "order_laws range_order"
    and "loadSessionStart W db = Some start" and "ck_duration C atTime = Some dur" and "atTime \<noteq> []" and "atTime \<noteq> str ''latest''"
    and "2 ^ 63 \<le> start + dur" and "start + dur < 2 ^ 64"
  shows "case runExport W OS C range_order (Inr db) outDir atTime fs of
      (Inl e, fs') \<Rightarrow> os_error e
    | (Inr u, fs') \<Rightarrow> files fs' = files fs"
proof -
  have target: "parseTargetTime C atTime (loadSessionStart W db) = Inr (start + dur)" using assms(9-12) by (simp add: parseTargetTime_def)
  have none: "\<not> version_at hist (UnixNano (start + dur)) p e" for p e
    using UnixNano_far [OF assms(13,14)] assms(3) by (fastforce simp: version_at_def list_all_iff entry_ok_def clock_ok_def)
  from export_versions [OF assms(1-8) target, where outDir = outDir and fs = fs] none show ?thesis
    by (auto split: prod.splits sum.splits)
qed

definition far_clock :: clock where
  "far_clock = demo_clock\<lparr>ck_duration := \<lambda>s. Some (2 ^ 63)\<rparr>"

lemma far_export: "runExport W mem_os C ro (Inr db) outDir t fs = (Inl e, fs') \<Longrightarrow> os_error e \<Longrightarrow> False"
  by (auto simp: runExport_def NewCASStore_def parseTargetTime_def mem_os_def loadMetadataAt_def split: sum.splits option.splits if_splits
      dest: mem_os_export_loop [unfolded mem_os_def])

theorem export_far_target_witness:
  "\<exists>u. runExport mem_world mem_os far_clock key_order (Inr demo_session) (str ''out'') (str ''9h'') Map.empty = (Inr u, Map.empty)"
proof -
  obtain r fs' where run: "runExport mem_world mem_os far_clock key_order (Inr demo_session) (str ''out'') (str ''9h'') Map.empty = (r, fs')" by fastforce
  have far: "ck_duration far_clock (str ''9h'') = Some (2 ^ 63)" "str ''9h'' \<noteq> []" "str ''9h'' \<noteq> str ''latest''"
    "(2 :: int) ^ 63 \<le> 1 + 2 ^ 63" "1 + (2 :: int) ^ 63 < 2 ^ 64" by (simp_all add: far_clock_def str_def)
  from export_far_target [OF demo_session_recorded(1) map_of.simps(1) demo_ok mem_world_laws mem_healthy demo_session_recorded(2) mem_os_laws key_order_laws
      demo_session_recorded(3) far, where outDir = "str ''out''" and fs = Map.empty, unfolded run]
  show ?thesis using run far_export by (cases r) auto
qed

end
