(* ===== verification/Metrics.thy ===== *)
theory Metrics
  imports Timeline Step_Systems
begin

text \<open>
  \<open>src/internal/metrics/metrics.go\<close>: the counters, gauges and histograms of the agent and the endpoint that serves them.  Totals are
  64-bit words, as the atomics of the code are; \<open>fl\<close> rounds \<open>float64\<close> operations.  A counter or gauge of the Prometheus
  package is the number it has for its labels, a histogram the list of what was observed.  A goroutine in
  \<open>ObserveStorageSavings\<close> makes one atomic operation at a time.

  Shown here: calls one after the other keep both ratios between zero and one, as they are
  documented, while the totals stay below \<open>2 ^ 63\<close>; concurrent calls do not; and the ratio of reused chunks is
  left as it is by new chunks.  The endpoint returns without an error only after its context was cancelled and the
  shutdown of the server is complete.
\<close>

section \<open>State and operations\<close>

record metrics =
  totalWrittenBytes :: u64
  totalSavedBytes :: u64
  chunkTotalCount :: u64
  chunkReuseCount :: u64
  StorageSavedRatio :: rat
  ChunkDedupRatio :: rat
  StoreSizeBytes :: "string \<rightharpoonup> rat"
  FilesTracked :: rat
  LargeFilesTracked :: rat
  DeltasTotal :: "string \<Rightarrow> rat"
  Up :: rat
  StorageSavedBytesTotal :: rat
  ChunkTotal :: "string \<Rightarrow> rat"
  CaptureDuration :: "string \<Rightarrow> rat list"
  CaptureTotal :: "string \<times> string \<Rightarrow> rat"
  RecoveryDuration :: "string \<Rightarrow> rat list"
  RecoveryTotal :: "string \<Rightarrow> rat"
  ChunkCaptureDuration :: "rat list"
  AgentInfo :: "string \<times> string \<times> string \<times> string \<rightharpoonup> rat"

definition metrics_init :: metrics where
  "metrics_init = \<lparr>totalWrittenBytes = 0, totalSavedBytes = 0, chunkTotalCount = 0, chunkReuseCount = 0,
     StorageSavedRatio = 0, ChunkDedupRatio = 0, StoreSizeBytes = Map.empty, FilesTracked = 0, LargeFilesTracked = 0,
     DeltasTotal = (\<lambda>c. 0), Up = 1, StorageSavedBytesTotal = 0, ChunkTotal = (\<lambda>c. 0), CaptureDuration = (\<lambda>t. []), CaptureTotal = (\<lambda>t. 0),
     RecoveryDuration = (\<lambda>t. []), RecoveryTotal = (\<lambda>t. 0), ChunkCaptureDuration = [], AgentInfo = Map.empty\<rparr>"

definition ratio :: "(rat \<Rightarrow> rat) \<Rightarrow> u64 \<Rightarrow> u64 \<Rightarrow> rat" where
  "ratio fl a b = fl (fl (of_int (sint a)) / fl (of_int (sint b)))"

definition ObserveStorageSavings :: "(rat \<Rightarrow> rat) \<Rightarrow> u64 \<Rightarrow> u64 \<Rightarrow> metrics \<Rightarrow> metrics" where
  "ObserveStorageSavings fl originalBytes compressedBytes m =
     (if sint originalBytes \<le> 0 \<or> sint compressedBytes < 0 then m
      else let saved = originalBytes - compressedBytes;
               written = totalWrittenBytes m + originalBytes;
               m1 = m\<lparr>totalWrittenBytes := written\<rparr>;
               m2 = (if 0 < sint saved
                     then m1\<lparr>totalSavedBytes := totalSavedBytes m1 + saved,
                             StorageSavedBytesTotal := fl (StorageSavedBytesTotal m1 + fl (of_int (sint saved)))\<rparr>
                     else m1)
           in if 0 < sint written then m2\<lparr>StorageSavedRatio := ratio fl (totalSavedBytes m2) written\<rparr> else m2)"

definition ObserveChunk :: "(rat \<Rightarrow> rat) \<Rightarrow> string \<Rightarrow> metrics \<Rightarrow> metrics" where
  "ObserveChunk fl outcome m =
     (let outcome = (if outcome \<noteq> ''reuse'' then ''new'' else outcome);
          cnt = chunkTotalCount m + 1; m1 = m\<lparr>chunkTotalCount := cnt\<rparr>;
          m2 = (if outcome = ''reuse''
                then let reused = chunkReuseCount m1 + 1; m' = m1\<lparr>chunkReuseCount := reused\<rparr>
                     in if 0 < sint cnt then m'\<lparr>ChunkDedupRatio := ratio fl reused cnt\<rparr> else m'
                else m1)
      in m2\<lparr>ChunkTotal := (ChunkTotal m2)(outcome := fl (ChunkTotal m2 outcome + 1))\<rparr>)"

text \<open>\<open>since\<close> is the time since \<open>start\<close> in nanoseconds; the histograms get milliseconds.\<close>

definition elapsed :: "(rat \<Rightarrow> rat) \<Rightarrow> int \<Rightarrow> rat" where
  "elapsed fl since = fl (fl (of_int since) / 1000000)"

definition ObserveCapture :: "(rat \<Rightarrow> rat) \<Rightarrow> int \<Rightarrow> string \<Rightarrow> string \<Rightarrow> metrics \<Rightarrow> metrics" where
  "ObserveCapture fl since captureType outcome m =
     m\<lparr>CaptureDuration := (CaptureDuration m)(captureType := CaptureDuration m captureType @ [elapsed fl since]),
       CaptureTotal := (CaptureTotal m)((captureType, outcome) := fl (CaptureTotal m (captureType, outcome) + 1))\<rparr>"

definition ObserveRecovery :: "(rat \<Rightarrow> rat) \<Rightarrow> int \<Rightarrow> string \<Rightarrow> string \<Rightarrow> metrics \<Rightarrow> metrics" where
  "ObserveRecovery fl since reason outcome m =
     m\<lparr>RecoveryDuration := (RecoveryDuration m)(reason := RecoveryDuration m reason @ [elapsed fl since]),
       RecoveryTotal := (RecoveryTotal m)(outcome := fl (RecoveryTotal m outcome + 1))\<rparr>"

definition ObserveChunkCapture :: "(rat \<Rightarrow> rat) \<Rightarrow> int \<Rightarrow> metrics \<Rightarrow> metrics" where
  "ObserveChunkCapture fl since m = m\<lparr>ChunkCaptureDuration := ChunkCaptureDuration m @ [elapsed fl since]\<rparr>"

definition SetAgentInfo :: "string \<Rightarrow> string \<Rightarrow> string \<Rightarrow> string \<Rightarrow> string \<Rightarrow> string \<Rightarrow> metrics \<Rightarrow> metrics" where
  "SetAgentInfo goos goarch osName arch version captureBackend m =
     (let osName = (if osName = [] then goos else osName);
          arch = (if arch = [] then goarch else arch);
          captureBackend = (if captureBackend = [] then ''unknown'' else captureBackend);
          version = (if version = [] then ''dev'' else version)
      in m\<lparr>AgentInfo := (AgentInfo m)((osName, arch, version, captureBackend) \<mapsto> 1)\<rparr>)"

definition SetStoreSize :: "(rat \<Rightarrow> rat) \<Rightarrow> string \<Rightarrow> int \<Rightarrow> metrics \<Rightarrow> metrics" where
  "SetStoreSize fl bucket sizeBytes m =
     (if sizeBytes < 0 then m else m\<lparr>StoreSizeBytes := (StoreSizeBytes m)(bucket \<mapsto> fl (of_int sizeBytes))\<rparr>)"

definition SetFilesTracked :: "(rat \<Rightarrow> rat) \<Rightarrow> int \<Rightarrow> metrics \<Rightarrow> metrics" where
  "SetFilesTracked fl n m = m\<lparr>FilesTracked := fl (of_int (if n < 0 then 0 else n))\<rparr>"

definition SetLargeFilesTracked :: "(rat \<Rightarrow> rat) \<Rightarrow> int \<Rightarrow> metrics \<Rightarrow> metrics" where
  "SetLargeFilesTracked fl n m = m\<lparr>LargeFilesTracked := fl (of_int (if n < 0 then 0 else n))\<rparr>"

definition AddDeltas :: "(rat \<Rightarrow> rat) \<Rightarrow> string \<Rightarrow> int \<Rightarrow> metrics \<Rightarrow> metrics" where
  "AddDeltas fl compression n m =
     (if n \<le> 0 then m
      else m\<lparr>DeltasTotal := (DeltasTotal m)(compression := fl (DeltasTotal m compression + fl (of_int n)))\<rparr>)"

definition SetUp :: "bool \<Rightarrow> metrics \<Rightarrow> metrics" where
  "SetUp is_healthy m = m\<lparr>Up := (if is_healthy then 1 else 0)\<rparr>"


section \<open>One call after the other\<close>

text \<open>What was observed, as numbers.\<close>

definition metrics_ok :: "int \<Rightarrow> int \<Rightarrow> nat \<Rightarrow> nat \<Rightarrow> metrics \<Rightarrow> bool" where
  "metrics_ok written saved chunks reused m \<longleftrightarrow>
     0 \<le> saved \<and> saved \<le> written \<and> reused \<le> chunks \<and>
     totalWrittenBytes m = word_of_int written \<and> totalSavedBytes m = word_of_int saved \<and>
     chunkTotalCount m = word_of_nat chunks \<and> chunkReuseCount m = word_of_nat reused \<and>
     0 \<le> StorageSavedRatio m \<and> StorageSavedRatio m \<le> 1 \<and> 0 \<le> ChunkDedupRatio m \<and> ChunkDedupRatio m \<le> 1"

lemma sint_of_int: "- (2 ^ 63) \<le> i \<Longrightarrow> i < 2 ^ 63 \<Longrightarrow> sint (word_of_int i :: u64) = i"
  by transfer (simp add: signed_take_bit_int_eq_self)

lemma sint_small: "0 \<le> i \<Longrightarrow> i < 2 ^ 63 \<Longrightarrow> sint (word_of_int i :: u64) = i"
  by (rule sint_of_int) simp_all

lemma ratio_bounds:
  assumes "ieee_rounding fl" and "0 \<le> a" and "a \<le> b" and "0 < b" and "b < 2 ^ 63"
  shows "0 \<le> ratio fl (word_of_int a) (word_of_int b)" and "ratio fl (word_of_int a) (word_of_int b) \<le> 1"
proof -
  have one: "fl 1 = 1" "fl 0 = 0" using fl_int [OF assms(1), of 1] fl_int [OF assms(1), of 0] by simp_all
  have b: "1 \<le> fl (of_int b)" using fl_mono [OF assms(1), of 1 "of_int b"] one assms(4) by simp
  have a: "0 \<le> fl (of_int a)" "fl (of_int a) \<le> fl (of_int b)"
    using fl_mono [OF assms(1), of 0 "of_int a"] fl_mono [OF assms(1), of "of_int a" "of_int b"] one assms(2,3) by simp_all
  have q: "0 \<le> fl (of_int a) / fl (of_int b)" "fl (of_int a) / fl (of_int b) \<le> 1" using a b by simp_all
  have r: "ratio fl (word_of_int a) (word_of_int b) = fl (fl (of_int a) / fl (of_int b))"
    using assms by (simp add: ratio_def sint_small)
  show "0 \<le> ratio fl (word_of_int a) (word_of_int b)" "ratio fl (word_of_int a) (word_of_int b) \<le> 1"
    unfolding r using fl_mono [OF assms(1) q(1)] fl_mono [OF assms(1) q(2)] one by simp_all
qed

lemma savings_ok:
  assumes "ieee_rounding fl" and "metrics_ok written saved chunks reused m"
    and "0 < orig" and "0 \<le> cmp" and "orig < 2 ^ 63" and "cmp < 2 ^ 63" and "written + orig < 2 ^ 63"
  shows "metrics_ok (written + orig) (saved + max 0 (orig - cmp)) chunks reused
    (ObserveStorageSavings fl (word_of_int orig) (word_of_int cmp) m)"
proof -
  define sv where "sv = max 0 (orig - cmp)"
  have ok: "0 \<le> saved" "saved \<le> written" "0 \<le> sv" "sv \<le> orig" using assms(2-4) by (auto simp: metrics_ok_def sv_def)
  have so: "sint (word_of_int orig :: u64) = orig" "sint (word_of_int cmp :: u64) = cmp" using assms by (simp_all add: sint_small)
  have sw: "sint (word_of_int written + word_of_int orig :: u64) = written + orig"
    using sint_small [of "written + orig"] assms(3,7) ok by simp
  have sd: "sint (word_of_int orig - word_of_int cmp :: u64) = orig - cmp"
    using sint_of_int [of "orig - cmp"] assms(3-6) by simp
  have tot: "(if 0 < orig - cmp then totalSavedBytes m + (word_of_int orig - word_of_int cmp) else totalSavedBytes m) = word_of_int (saved + sv)"
    using assms(2) by (auto simp: metrics_ok_def sv_def max_def)
  define m2 where "m2 = (if 0 < orig - cmp
      then m\<lparr>totalWrittenBytes := word_of_int (written + orig), totalSavedBytes := totalSavedBytes m + (word_of_int orig - word_of_int cmp),
             StorageSavedBytesTotal := fl (StorageSavedBytesTotal m + fl (of_int (orig - cmp)))\<rparr>
      else m\<lparr>totalWrittenBytes := word_of_int (written + orig)\<rparr>)"
  have m2: "totalWrittenBytes m2 = word_of_int (written + orig)" "totalSavedBytes m2 = word_of_int (saved + sv)"
    "chunkTotalCount m2 = chunkTotalCount m" "chunkReuseCount m2 = chunkReuseCount m" "ChunkDedupRatio m2 = ChunkDedupRatio m"
    using tot by (simp_all add: m2_def split: if_splits)
  have tw: "totalWrittenBytes m = word_of_int written" using assms(2) by (simp add: metrics_ok_def)
  have "ObserveStorageSavings fl (word_of_int orig) (word_of_int cmp) m =
      m2\<lparr>StorageSavedRatio := ratio fl (totalSavedBytes m2) (word_of_int (written + orig))\<rparr>"
    using assms(3,4) ok so sw sd by (simp add: ObserveStorageSavings_def Let_def m2_def tw)
  with assms(2,3,7) ok m2 ratio_bounds [OF assms(1), of "saved + sv" "written + orig"] show ?thesis
    unfolding sv_def [symmetric] by (simp add: metrics_ok_def)
qed

lemma chunk_ok:
  assumes "ieee_rounding fl" and "metrics_ok written saved chunks reused m" and "Suc chunks < 2 ^ 63"
  shows "metrics_ok written saved (Suc chunks) (if outcome = ''reuse'' then Suc reused else reused) (ObserveChunk fl outcome m)"
proof -
  have r: "reused \<le> chunks" and w: "chunkTotalCount m = word_of_int (int chunks)" "chunkReuseCount m = word_of_int (int reused)"
    using assms(2) by (simp_all add: metrics_ok_def)
  have c: "int chunks + 1 < 2 ^ 63" using assms(3) by (metis of_nat_Suc add.commute of_nat_less_iff of_nat_numeral of_nat_power)
  have s: "sint (word_of_int (int chunks) + 1 :: u64) = int chunks + 1"
    using sint_small [of "int chunks + 1"] c by simp
  note rb = ratio_bounds [OF assms(1), of "int reused + 1" "int chunks + 1"]
  show ?thesis
    using assms(2) r c s rb by (auto simp: metrics_ok_def ObserveChunk_def Let_def w add.commute)
qed

datatype observation = Savings int int | Chunk string

fun observe :: "(rat \<Rightarrow> rat) \<Rightarrow> observation \<Rightarrow> metrics \<Rightarrow> metrics" where
  "observe fl (Savings orig cmp) m = ObserveStorageSavings fl (word_of_int orig) (word_of_int cmp) m"
| "observe fl (Chunk outcome) m = ObserveChunk fl outcome m"

fun observed_bytes :: "observation \<Rightarrow> int" where
  "observed_bytes (Savings orig cmp) = orig"
| "observed_bytes (Chunk outcome) = 0"

fun observation_ok :: "observation \<Rightarrow> bool" where
  "observation_ok (Savings orig cmp) \<longleftrightarrow> 0 < orig \<and> 0 \<le> cmp \<and> cmp < 2 ^ 63"
| "observation_ok (Chunk outcome) \<longleftrightarrow> True"

lemma bytes_nonneg: "list_all observation_ok os \<Longrightarrow> 0 \<le> sum_list (map observed_bytes os)"
proof (induction os)
  case (Cons x os)
  then show ?case by (cases x) auto
qed simp

lemma observe_run:
  assumes "ieee_rounding fl" and "list_all observation_ok os"
    and "metrics_ok written saved chunks reused m"
    and "written + sum_list (map observed_bytes os) < 2 ^ 63" and "chunks + length os < 2 ^ 63"
  shows "\<exists>w s c r. metrics_ok w s c r (fold (observe fl) os m)"
  using assms(2-5)
proof (induction os arbitrary: written saved chunks reused m)
  case (Cons x os)
  show ?case
  proof (cases x)
    case (Savings orig cmp)
    have "0 \<le> written" using Cons.prems(2) by (auto simp: metrics_ok_def)
    moreover have "0 \<le> sum_list (map observed_bytes os)" using Cons.prems(1) by (simp add: bytes_nonneg)
    ultimately have "orig < 2 ^ 63" "written + orig < 2 ^ 63" using Cons.prems(3) Savings by auto
    with savings_ok [OF assms(1) Cons.prems(2)] Cons.prems(1) Savings
    have "metrics_ok (written + orig) (saved + max 0 (orig - cmp)) chunks reused (observe fl x m)" by simp
    from Cons.IH [OF _ this] Cons.prems Savings show ?thesis by (simp add: add.assoc)
  next
    case (Chunk outcome)
    from chunk_ok [OF assms(1) Cons.prems(2)] Cons.prems(4) Chunk
    have "metrics_ok written saved (Suc chunks) (if outcome = ''reuse'' then Suc reused else reused) (observe fl x m)" by simp
    from Cons.IH [OF _ this] Cons.prems Chunk show ?thesis by simp
  qed
qed auto

text \<open>Calls one after the other keep both ratios between zero and one.\<close>

theorem sequential_ratios:
  assumes "ieee_rounding fl" and "list_all observation_ok os" and "sum_list (map observed_bytes os) < 2 ^ 63" and "length os < 2 ^ 63"
  shows "0 \<le> StorageSavedRatio (fold (observe fl) os metrics_init) \<and> StorageSavedRatio (fold (observe fl) os metrics_init) \<le> 1
    \<and> 0 \<le> ChunkDedupRatio (fold (observe fl) os metrics_init) \<and> ChunkDedupRatio (fold (observe fl) os metrics_init) \<le> 1"
proof -
  have "metrics_ok 0 0 0 0 metrics_init" by (simp add: metrics_ok_def metrics_init_def)
  from observe_run [OF assms(1,2) this] assms(3,4) show ?thesis by (auto simp: metrics_ok_def)
qed

text \<open>A new chunk leaves the ratio of reused chunks as it is.\<close>

lemma new_chunk_keeps_ratio: "outcome \<noteq> ''reuse'' \<Longrightarrow> ChunkDedupRatio (ObserveChunk fl outcome m) = ChunkDedupRatio m"
  by (simp add: ObserveChunk_def Let_def)


section \<open>Concurrent calls\<close>

text \<open>Where a goroutine is in \<open>ObserveStorageSavings\<close>, with its local variables.\<close>

datatype savings_pc = SBegin u64 u64 | SAdded u64 u64 u64 | SCount u64 u64 | SLoad u64 | SSet u64 u64 | SDone

fun savings_move :: "(rat \<Rightarrow> rat) \<Rightarrow> savings_pc \<Rightarrow> metrics \<Rightarrow> savings_pc \<times> metrics" where
  "savings_move fl (SBegin orig cmp) m =
     (if sint orig \<le> 0 \<or> sint cmp < 0 then (SDone, m)
      else (SAdded orig cmp (totalWrittenBytes m + orig), m\<lparr>totalWrittenBytes := totalWrittenBytes m + orig\<rparr>))"
| "savings_move fl (SAdded orig cmp written) m =
     (if 0 < sint (orig - cmp) then (SCount (orig - cmp) written, m\<lparr>totalSavedBytes := totalSavedBytes m + (orig - cmp)\<rparr>)
      else (SLoad written, m))"
| "savings_move fl (SCount saved written) m =
     (SLoad written, m\<lparr>StorageSavedBytesTotal := fl (StorageSavedBytesTotal m + fl (of_int (sint saved)))\<rparr>)"
| "savings_move fl (SLoad written) m = (if 0 < sint written then SSet written (totalSavedBytes m) else SDone, m)"
| "savings_move fl (SSet written currentSaved) m = (SDone, m\<lparr>StorageSavedRatio := ratio fl currentSaved written\<rparr>)"
| "savings_move fl SDone m = (SDone, m)"

text \<open>A goroutine that is alone computes the function.\<close>

lemma savings_alone:
  "((case_prod (savings_move fl)) ^^ 5) (SBegin orig cmp, m) = (SDone, ObserveStorageSavings fl orig cmp m)"
  by (simp add: eval_nat_numeral ObserveStorageSavings_def Let_def)

inductive savings_step :: "(rat \<Rightarrow> rat) \<Rightarrow> savings_pc list \<times> metrics \<Rightarrow> savings_pc list \<times> metrics \<Rightarrow> bool"
  for fl :: "rat \<Rightarrow> rat" where
  "i < length ts \<Longrightarrow> savings_move fl (ts ! i) m = (pc, m') \<Longrightarrow> savings_step fl (ts, m) (ts[i := pc], m')"

lemma savings_stepI:
  "i < length ts \<Longrightarrow> savings_step fl (ts, m) (ts[i := fst (savings_move fl (ts ! i) m)], snd (savings_move fl (ts ! i) m))"
  by (rule savings_step.intros) simp_all

text \<open>
  Two concurrent calls can set the ratio of saved bytes to a hundred: the first one divides what the
  second one saved by the bytes that were written before it.
\<close>

theorem concurrent_ratio:
  assumes "ieee_rounding fl"
  shows "\<exists>m. (savings_step fl)\<^sup>*\<^sup>* ([SBegin 1 1, SBegin 100 0], metrics_init) ([SDone, SDone], m) \<and> StorageSavedRatio m = 100"
proof -
  define m1 where "m1 = metrics_init\<lparr>totalWrittenBytes := 1\<rparr>"
  define m2 where "m2 = m1\<lparr>totalWrittenBytes := 101\<rparr>"
  define m3 where "m3 = m2\<lparr>totalSavedBytes := 100\<rparr>"
  define m3' where "m3' = m3\<lparr>StorageSavedBytesTotal := fl (fl 100)\<rparr>"
  define m4 where "m4 = m3'\<lparr>StorageSavedRatio := ratio fl 100 101\<rparr>"
  define m5 where "m5 = m4\<lparr>StorageSavedRatio := ratio fl 100 1\<rparr>"
  note d = m1_def m2_def m3_def m3'_def m4_def m5_def metrics_init_def
  have "(savings_step fl)\<^sup>*\<^sup>* ([SBegin 1 1, SBegin 100 0], metrics_init) ([SAdded 1 1 1, SBegin 100 0], m1)"
    using savings_stepI [of 0 "[SBegin 1 1, SBegin 100 0]" fl metrics_init] by (intro r_into_rtranclp) (simp add: d)
  also have "savings_step fl ([SAdded 1 1 1, SBegin 100 0], m1) ([SAdded 1 1 1, SAdded 100 0 101], m2)"
    using savings_stepI [of 1 "[SAdded 1 1 1, SBegin 100 0]" fl m1] by (simp add: d)
  also have "savings_step fl ([SAdded 1 1 1, SAdded 100 0 101], m2) ([SAdded 1 1 1, SCount 100 101], m3)"
    using savings_stepI [of 1 "[SAdded 1 1 1, SAdded 100 0 101]" fl m2] by (simp add: d)
  also have "savings_step fl ([SAdded 1 1 1, SCount 100 101], m3) ([SAdded 1 1 1, SLoad 101], m3')"
    using savings_stepI [of 1 "[SAdded 1 1 1, SCount 100 101]" fl m3] by (simp add: d)
  also have "savings_step fl ([SAdded 1 1 1, SLoad 101], m3') ([SAdded 1 1 1, SSet 101 100], m3')"
    using savings_stepI [of 1 "[SAdded 1 1 1, SLoad 101]" fl m3'] by (simp add: d)
  also have "savings_step fl ([SAdded 1 1 1, SSet 101 100], m3') ([SAdded 1 1 1, SDone], m4)"
    using savings_stepI [of 1 "[SAdded 1 1 1, SSet 101 100]" fl m3'] by (simp add: d)
  also have "savings_step fl ([SAdded 1 1 1, SDone], m4) ([SLoad 1, SDone], m4)"
    using savings_stepI [of 0 "[SAdded 1 1 1, SDone]" fl m4] by simp
  also have "savings_step fl ([SLoad 1, SDone], m4) ([SSet 1 100, SDone], m4)"
    using savings_stepI [of 0 "[SLoad 1, SDone]" fl m4] by (simp add: d)
  also have "savings_step fl ([SSet 1 100, SDone], m4) ([SDone, SDone], m5)"
    using savings_stepI [of 0 "[SSet 1 100, SDone]" fl m4] by (simp add: m5_def)
  finally have "(savings_step fl)\<^sup>*\<^sup>* ([SBegin 1 1, SBegin 100 0], metrics_init) ([SDone, SDone], m5)" .
  moreover have "StorageSavedRatio m5 = 100"
    using fl_int [OF assms, of 100] fl_int [OF assms, of 1] by (simp add: m5_def ratio_def)
  ultimately show ?thesis by blast
qed


section \<open>The endpoint\<close>

text \<open>
  \<open>Serve\<close>: the caller waits in \<open>ListenAndServe\<close> and then for the goroutine, which waits for the context, shuts the server down and
  closes a channel.  \<open>ListenAndServe\<close> fails, or returns \<open>ErrServerClosed\<close> once a shutdown was begun.
\<close>

datatype serve_pc = Listening | AwaitIdle | ServeReturned "string option"

record server =
  srv_pc :: serve_pc
  srv_cancelled :: bool
  srv_shutdown :: bool
  idleClosed :: bool
  listen_error :: "string option"

definition serve_start :: server where
  "serve_start = \<lparr>srv_pc = Listening, srv_cancelled = False, srv_shutdown = False, idleClosed = False, listen_error = None\<rparr>"

inductive serve_step :: "server \<Rightarrow> server \<Rightarrow> bool" where
  srv_cancel: "serve_step s (s\<lparr>srv_cancelled := True\<rparr>)"
| srv_begin: "srv_cancelled s \<Longrightarrow> serve_step s (s\<lparr>srv_shutdown := True\<rparr>)"
| srv_idle: "srv_shutdown s \<Longrightarrow> serve_step s (s\<lparr>idleClosed := True\<rparr>)"
| srv_fails: "srv_pc s = Listening \<Longrightarrow> \<not> srv_shutdown s \<Longrightarrow>
    serve_step s (s\<lparr>srv_pc := ServeReturned (Some e), listen_error := Some e\<rparr>)"
| srv_closed: "srv_pc s = Listening \<Longrightarrow> srv_shutdown s \<Longrightarrow> serve_step s (s\<lparr>srv_pc := AwaitIdle\<rparr>)"
| srv_return: "srv_pc s = AwaitIdle \<Longrightarrow> idleClosed s \<Longrightarrow> serve_step s (s\<lparr>srv_pc := ServeReturned None\<rparr>)"

definition serve_inv :: "server \<Rightarrow> bool" where
  "serve_inv s \<longleftrightarrow> (idleClosed s \<longrightarrow> srv_shutdown s) \<and> (srv_shutdown s \<longrightarrow> srv_cancelled s) \<and> (srv_pc s = AwaitIdle \<longrightarrow> srv_shutdown s)
     \<and> (srv_pc s = ServeReturned None \<longrightarrow> idleClosed s) \<and> (\<forall>e. srv_pc s = ServeReturned (Some e) \<longrightarrow> listen_error s = Some e)"

interpretation serving: invariant_of serve_step serve_inv serve_start
proof
  fix s t
  assume "serve_step s t" and "serve_inv s"
  then show "serve_inv t" by (induction rule: serve_step.induct) (auto simp: serve_inv_def)
qed (simp add: serve_inv_def serve_start_def)

text \<open>
  \<open>Serve\<close> returns without an error only after its context was cancelled and the shutdown is complete, and with an error only
  when listening failed with that error; after a cancellation it can always go on to return.
\<close>

theorem serve_returns:
  assumes "serve_step\<^sup>*\<^sup>* serve_start s"
  shows "case srv_pc s of
      ServeReturned None \<Rightarrow> srv_cancelled s \<and> srv_shutdown s \<and> idleClosed s
    | ServeReturned (Some e) \<Rightarrow> listen_error s = Some e
    | _ \<Rightarrow> \<exists>t. serve_step\<^sup>*\<^sup>* s t \<and> srv_pc t = ServeReturned None"
proof -
  have inv: "serve_inv s" by (rule serving.reachable [OF assms])
  define s1 where "s1 = s\<lparr>srv_cancelled := True, srv_shutdown := True, idleClosed := True\<rparr>"
  have "serve_step s (s\<lparr>srv_cancelled := True\<rparr>)" by (rule srv_cancel)
  moreover have "serve_step (s\<lparr>srv_cancelled := True\<rparr>) (s\<lparr>srv_cancelled := True, srv_shutdown := True\<rparr>)"
    using srv_begin [of "s\<lparr>srv_cancelled := True\<rparr>"] by simp
  moreover have "serve_step (s\<lparr>srv_cancelled := True, srv_shutdown := True\<rparr>) s1"
    using srv_idle [of "s\<lparr>srv_cancelled := True, srv_shutdown := True\<rparr>"] by (simp add: s1_def)
  ultimately have r1: "serve_step\<^sup>*\<^sup>* s s1" by (meson converse_rtranclp_into_rtranclp rtranclp.rtrancl_refl)
  have ret: "serve_step (s1\<lparr>srv_pc := AwaitIdle\<rparr>) (s1\<lparr>srv_pc := ServeReturned None\<rparr>)"
    using srv_return [of "s1\<lparr>srv_pc := AwaitIdle\<rparr>"] by (simp add: s1_def)
  have "serve_step\<^sup>*\<^sup>* s1 (s1\<lparr>srv_pc := AwaitIdle\<rparr>)" if "srv_pc s = Listening \<or> srv_pc s = AwaitIdle"
    using that
  proof
    assume "srv_pc s = Listening"
    then have "serve_step s1 (s1\<lparr>srv_pc := AwaitIdle\<rparr>)" by (intro srv_closed) (simp_all add: s1_def)
    then show ?thesis by simp
  next
    assume "srv_pc s = AwaitIdle"
    then have "s1\<lparr>srv_pc := AwaitIdle\<rparr> = s1" by (simp add: s1_def)
    then show ?thesis by simp
  qed
  with r1 ret have "\<exists>t. serve_step\<^sup>*\<^sup>* s t \<and> srv_pc t = ServeReturned None" if "srv_pc s = Listening \<or> srv_pc s = AwaitIdle"
    using that by (intro exI [of _ "s1\<lparr>srv_pc := ServeReturned None\<rparr>"]) (auto intro: rtranclp.rtrancl_into_rtrancl rtranclp_trans)
  with inv show ?thesis by (auto simp: serve_inv_def split: serve_pc.splits option.splits)
qed

end
