(* ===== verification/Permissions.thy ===== *)
theory Permissions
  imports Prelude
begin

unbundle bit_operations_syntax

text \<open>
  \<open>src/permissions_unix.go\<close>: whether the permission bits of a file let the process read it, without the
  privileges of the superuser.

  Shown here: the decision is the one of POSIX access control, the class of the process being
  owner, group or others, in this order, as long as the supplementary groups can be read.
\<close>

section \<open>The check\<close>

record file_info =
  fi_Perm :: u32
  fi_Sys :: "(nat \<times> nat) option"

record credentials =
  Geteuid :: nat
  Getegid :: nat
  Getgroups :: "string + nat list"

datatype perm_error = StatFailed string | OwnerDenied | GroupDenied | OthersDenied

text \<open>\<open>fi_Sys\<close> is the owner and the group, when the platform has them.\<close>

definition ensureReadable :: "credentials \<Rightarrow> string + file_info \<Rightarrow> file_info option \<Rightarrow> perm_error + unit" where
  "ensureReadable C stat infoo =
     (case (case infoo of Some info \<Rightarrow> Inr info | None \<Rightarrow> stat) of
        Inl e \<Rightarrow> Inl (StatFailed e)
      | Inr info \<Rightarrow>
          (case fi_Sys info of
             None \<Rightarrow> Inr ()
           | Some (fileUID, fileGID) \<Rightarrow>
               if fileUID = Geteuid C then if fi_Perm info AND 0x100 = 0 then Inl OwnerDenied else Inr ()
               else if fileGID = Getegid C then if fi_Perm info AND 0x020 = 0 then Inl GroupDenied else Inr ()
               else if (case Getgroups C of Inl e \<Rightarrow> False | Inr gs \<Rightarrow> fileGID \<in> set gs)
               then if fi_Perm info AND 0x020 = 0 then Inl GroupDenied else Inr ()
               else if fi_Perm info AND 0x004 = 0 then Inl OthersDenied else Inr ()))"


section \<open>Access classes\<close>

datatype access_class = Owner | Group | Others

definition class_of :: "nat \<Rightarrow> nat set \<Rightarrow> nat \<times> nat \<Rightarrow> access_class" where
  "class_of uid gids og = (if fst og = uid then Owner else if snd og \<in> gids then Group else Others)"

text \<open>The read bits of the three classes are the bits 8, 5 and 2 of the mode.\<close>

fun read_bit :: "access_class \<Rightarrow> nat" where
  "read_bit Owner = 8"
| "read_bit Group = 5"
| "read_bit Others = 2"

lemma and_read_bits:
  "w AND 0x100 = 0 \<longleftrightarrow> \<not> bit w 8" "w AND 0x020 = 0 \<longleftrightarrow> \<not> bit w 5" "w AND 0x004 = 0 \<longleftrightarrow> \<not> bit w 2" for w :: u32
  using and_exp_eq_0_iff_not_bit [of w 8] and_exp_eq_0_iff_not_bit [of w 5] and_exp_eq_0_iff_not_bit [of w 2] by simp_all

text \<open>The check is the read decision of POSIX for the effective user, the effective group and the supplementary groups.\<close>

theorem ensureReadable_posix:
  assumes "Getgroups C = Inr gs" and "fi_Sys info = Some og"
  shows "ensureReadable C stat (Some info) = Inr () \<longleftrightarrow>
    bit (fi_Perm info) (read_bit (class_of (Geteuid C) (insert (Getegid C) (set gs)) og))"
  using assms by (cases og) (auto simp: ensureReadable_def class_of_def and_read_bits)

theorem ensureReadable_posix_witness:
  "ensureReadable \<lparr>Geteuid = 1, Getegid = 1, Getgroups = Inr [4]\<rparr> (Inl []) (Some \<lparr>fi_Perm = 0x184, fi_Sys = Some (0, 4)\<rparr>) \<noteq> Inr ()"
  using ensureReadable_posix [of "\<lparr>Geteuid = 1, Getegid = 1, Getgroups = Inr [4]\<rparr>" "[4]" "\<lparr>fi_Perm = 0x184, fi_Sys = Some (0, 4)\<rparr>" "(0, 4)" "Inl []"]
  by (simp add: class_of_def)

text \<open>When the supplementary groups cannot be read, a member of the file's group is judged as one of the others.\<close>

lemma groups_unknown:
  assumes "Getgroups C = Inl e" and "fi_Sys info = Some og" and "snd og \<noteq> Getegid C" and "fst og \<noteq> Geteuid C"
  shows "ensureReadable C stat (Some info) = Inr () \<longleftrightarrow> bit (fi_Perm info) (read_bit Others)"
  using assms by (cases og) (auto simp: ensureReadable_def and_read_bits)

end
