(* ===== verification/Session.thy ===== *)
theory Session
  imports Prelude
begin

text \<open>
  The \<open>record\<close> command of \<open>src/main.go\<close>: the order in which \<open>runRecord\<close> starts its parts and releases them,
  for every step that can fail, and the interleaving of that sequence with the goroutine of the
  processor (\<open>src/pkg/recorder/worker.go\<close>), which goes on until it sees that it was stopped.

  Shown here: whatever fails, what was started is released in the reverse order, the database last;
  but stopping the processor does not wait for it, so that it can use the database
  after it was closed.
\<close>

section \<open>The sequence of actions\<close>

datatype action =
    MakeStateDir | OpenDB | NewStore | StartProcessor | RecordStart | NewContext | StartWatcher | MakeManager | StartManager
  | StartCommand | WaitCommand | FlushDB | CloseManager | CancelContext | StopProcessor | CloseDB

datatype record_error =
    StateDirFailed string | OpenFailed string | NewStoreFailed string | WatcherFailed string | ManagerFailed string
  | CommandFailed string | CommandExit string | FlushFailed string

text \<open>
  What the steps answer.  The manager is there, missing without an error, unsupported or failed; \<open>res_wait\<close> is the exit
  of the command.
\<close>

datatype manager_result = GotManager | NoManager | Unsupported | Broken string

record outcomes =
  res_mkdir :: "string option"
  res_open :: "string option"
  res_store :: "string option"
  res_watcher :: "string option"
  res_manager :: manager_result
  res_start :: "string option"
  res_wait :: "string option"
  res_flush :: "string option"

text \<open>The tail of the function: the command, and the deferred calls that are due by then.\<close>

definition run_command :: "outcomes \<Rightarrow> record_error option \<times> action list" where
  "run_command R =
     (case res_start R of
        Some e \<Rightarrow> (Some (CommandFailed e), [StartCommand])
      | None \<Rightarrow>
          (let runErr = map_option CommandExit (res_wait R)
           in (case res_flush R of
                 Some e \<Rightarrow> (if runErr = None then Some (FlushFailed e) else runErr)
               | None \<Rightarrow> runErr,
               [StartCommand, WaitCommand, FlushDB])))"

definition run_manager :: "outcomes \<Rightarrow> record_error option \<times> action list" where
  "run_manager R =
     (case res_manager R of
        Broken e \<Rightarrow> (Some (ManagerFailed e), [MakeManager])
      | GotManager \<Rightarrow> apsnd (\<lambda>as. [MakeManager, StartManager] @ as @ [CloseManager]) (run_command R)
      | _ \<Rightarrow> apsnd (\<lambda>as. MakeManager # as) (run_command R))"

definition run_watcher :: "outcomes \<Rightarrow> record_error option \<times> action list" where
  "run_watcher R =
     (case res_watcher R of
        Some e \<Rightarrow> (Some (WatcherFailed e), [StartWatcher])
      | None \<Rightarrow> apsnd (\<lambda>as. StartWatcher # as) (run_manager R))"

definition runRecord :: "outcomes \<Rightarrow> record_error option \<times> action list" where
  "runRecord R =
     (case res_mkdir R of
        Some e \<Rightarrow> (Some (StateDirFailed e), [MakeStateDir])
      | None \<Rightarrow>
          (case res_open R of
             Some e \<Rightarrow> (Some (OpenFailed e), [MakeStateDir])
           | None \<Rightarrow>
               (case res_store R of
                  Some e \<Rightarrow> (Some (NewStoreFailed e), [MakeStateDir, OpenDB, NewStore, CloseDB])
                | None \<Rightarrow>
                    apsnd (\<lambda>as. [MakeStateDir, OpenDB, NewStore, StartProcessor, RecordStart, NewContext]
                              @ as @ [CancelContext, StopProcessor, CloseDB]) (run_watcher R))))"


section \<open>Release\<close>

text \<open>What an action starts, and what it releases.\<close>

fun starts :: "action \<Rightarrow> action option" where
  "starts OpenDB = Some CloseDB"
| "starts StartProcessor = Some StopProcessor"
| "starts NewContext = Some CancelContext"
| "starts StartManager = Some CloseManager"
| "starts a = None"

definition releases :: "action \<Rightarrow> bool" where
  "releases a \<longleftrightarrow> a \<in> {CloseDB, StopProcessor, CancelContext, CloseManager}"

text \<open>The releases still due after some actions, the next one first; \<open>None\<close> when one comes out of order.\<close>

fun due :: "action list \<Rightarrow> action list \<Rightarrow> action list option" where
  "due [] st = Some st"
| "due (a # as) st =
     (case starts a of
        Some r \<Rightarrow> due as (r # st)
      | None \<Rightarrow>
          if releases a then (case st of [] \<Rightarrow> None | r # st' \<Rightarrow> if a = r then due as st' else None)
          else due as st)"

lemma due_append: "due (as @ bs) st = Option.bind (due as st) (due bs)"
  by (induction as arbitrary: st) (auto split: option.splits list.splits)

lemma due_command: "due (snd (run_command R)) st = Some st"
  by (auto simp: run_command_def releases_def Let_def split: option.splits)

lemma due_watcher: "due (snd (run_watcher R)) st = Some st"
proof -
  have "due (snd (run_manager R)) st = Some st"
    using due_command [of R] by (auto simp: run_manager_def due_append releases_def split: manager_result.splits)
  then show ?thesis by (auto simp: run_watcher_def releases_def split: option.splits)
qed

text \<open>Whatever fails, nothing stays open, releases come in the reverse order of the starts, and the error is reported.\<close>

theorem record_releases:
  "due (snd (runRecord R)) [] = Some []
   \<and> (fst (runRecord R) = None \<longleftrightarrow>
        list_all (\<lambda>f. f R = None) [res_mkdir, res_open, res_store, res_watcher, res_start, res_wait, res_flush]
        \<and> (case res_manager R of Broken e \<Rightarrow> False | _ \<Rightarrow> True))"
proof
  show "due (snd (runRecord R)) [] = Some []"
    using due_watcher [of R] by (auto simp: runRecord_def due_append releases_def split: option.splits)
  show "fst (runRecord R) = None \<longleftrightarrow>
      list_all (\<lambda>f. f R = None) [res_mkdir, res_open, res_store, res_watcher, res_start, res_wait, res_flush]
      \<and> (case res_manager R of Broken e \<Rightarrow> False | _ \<Rightarrow> True)"
    by (auto simp: runRecord_def run_watcher_def run_manager_def run_command_def Let_def split: option.splits manager_result.splits)
qed


section \<open>The processor beside it\<close>

text \<open>
  The processor between two rounds, or with the number of entries its iterator still has.
  Every use of a closed database panics.
\<close>

datatype proc = NotStarted | AtCheck | Iterating nat | ProcExited

record session_state =
  todo :: "action list"
  db_open :: bool
  stop_flag :: bool
  proc_at :: proc
  use_after_close :: bool

definition session_start :: "action list \<Rightarrow> session_state" where
  "session_start as = \<lparr>todo = as, db_open = False, stop_flag = False, proc_at = NotStarted, use_after_close = False\<rparr>"

definition act :: "action \<Rightarrow> session_state \<Rightarrow> session_state" where
  "act a s =
     (case a of
        OpenDB \<Rightarrow> s\<lparr>db_open := True\<rparr>
      | StartProcessor \<Rightarrow> s\<lparr>proc_at := AtCheck\<rparr>
      | StopProcessor \<Rightarrow> s\<lparr>stop_flag := True\<rparr>
      | CloseDB \<Rightarrow> s\<lparr>db_open := False\<rparr>
      | _ \<Rightarrow> s)"

definition use_db :: "session_state \<Rightarrow> session_state" where
  "use_db s = s\<lparr>use_after_close := use_after_close s \<or> \<not> db_open s\<rparr>"

inductive session_step :: "session_state \<Rightarrow> session_state \<Rightarrow> bool" where
  main: "todo s = a # as \<Longrightarrow> session_step s (act a (s\<lparr>todo := as\<rparr>))"
| stopped: "proc_at s = AtCheck \<Longrightarrow> stop_flag s \<Longrightarrow> session_step s (s\<lparr>proc_at := ProcExited\<rparr>)"
| open_iter: "proc_at s = AtCheck \<Longrightarrow> \<not> stop_flag s \<Longrightarrow> session_step s (use_db (s\<lparr>proc_at := Iterating n\<rparr>))"
| open_failed: "proc_at s = AtCheck \<Longrightarrow> \<not> stop_flag s \<Longrightarrow> session_step s (use_db s)"
| entry: "proc_at s = Iterating (Suc n) \<Longrightarrow> session_step s (use_db (s\<lparr>proc_at := Iterating n\<rparr>))"
| close_iter: "proc_at s = Iterating 0 \<Longrightarrow> session_step s (use_db (s\<lparr>proc_at := AtCheck\<rparr>))"

lemma act_todo: "act a (s\<lparr>todo := as\<rparr>) = (act a s)\<lparr>todo := as\<rparr>" "todo (act a s) = todo s"
  by (auto simp: act_def split: action.splits)

lemma run_main: "todo s = as @ bs \<Longrightarrow> session_step\<^sup>*\<^sup>* s ((fold act as s)\<lparr>todo := bs\<rparr>)"
proof (induction as arbitrary: s)
  case Nil
  then have "s\<lparr>todo := bs\<rparr> = s" by simp
  then show ?case by simp
next
  case (Cons a as)
  let ?t = "act a (s\<lparr>todo := as @ bs\<rparr>)"
  have "session_step s ?t" by (rule session_step.main) (use Cons.prems in simp)
  moreover have "session_step\<^sup>*\<^sup>* ?t ((fold act as ?t)\<lparr>todo := bs\<rparr>)" by (rule Cons.IH) (simp add: act_todo)
  moreover have "(fold act as ((act a s)\<lparr>todo := cs\<rparr>))\<lparr>todo := bs\<rparr> = (fold act as (act a s))\<lparr>todo := bs\<rparr>" for cs
  proof -
    have "fold act as (t\<lparr>todo := cs\<rparr>) = (fold act as t)\<lparr>todo := cs\<rparr>" for t
      by (induction as arbitrary: t) (simp_all add: act_todo)
    then show ?thesis by simp
  qed
  ultimately show ?case by (simp add: act_todo(1) converse_rtranclp_into_rtranclp)
qed

lemma fold_act_proc: "StartProcessor \<notin> set as \<Longrightarrow> proc_at (fold act as s) = proc_at s"
proof (induction as arbitrary: s)
  case (Cons a as)
  moreover from Cons.prems have "proc_at (act a s) = proc_at s" by (cases a) (auto simp: act_def)
  ultimately show ?case by simp
qed simp

lemma started_once: "StartProcessor \<notin> set (snd (run_watcher R))"
  by (auto simp: run_watcher_def run_manager_def run_command_def Let_def split: option.splits manager_result.splits)

lemma record_shape:
  assumes "StartProcessor \<in> set (snd (runRecord R))"
  obtains as where "snd (runRecord R) = [MakeStateDir, OpenDB, NewStore, StartProcessor] @ as @ [CloseDB]" and "StartProcessor \<notin> set as"
proof -
  let ?as = "[RecordStart, NewContext] @ snd (run_watcher R) @ [CancelContext, StopProcessor]"
  have "snd (runRecord R) = [MakeStateDir, OpenDB, NewStore, StartProcessor] @ ?as @ [CloseDB]"
    using assms by (auto simp: runRecord_def split: option.splits)
  moreover have "StartProcessor \<notin> set ?as" using started_once [of R] by simp
  ultimately show ?thesis by (rule that)
qed

text \<open>
  C18: stopping the processor does not wait for it.  However a session in which the processor was started ends,
  the processor can be in the middle of its journal when the deferred calls have closed the database, and uses it
  then.
\<close>

theorem processor_outlives_database:
  assumes "StartProcessor \<in> set (snd (runRecord R))"
  shows "\<exists>s. session_step\<^sup>*\<^sup>* (session_start (snd (runRecord R))) s \<and> todo s = [] \<and> use_after_close s"
proof -
  obtain as where tr: "snd (runRecord R) = [MakeStateDir, OpenDB, NewStore, StartProcessor] @ as @ [CloseDB]"
    and as: "StartProcessor \<notin> set (as @ [CloseDB])" using record_shape [OF assms] by auto
  let ?s0 = "session_start (snd (runRecord R))"
  define s1 where "s1 = \<lparr>todo = as @ [CloseDB], db_open = True, stop_flag = False, proc_at = AtCheck, use_after_close = False\<rparr>"
  define s2 where "s2 = s1\<lparr>proc_at := Iterating 1\<rparr>"
  define s3 where "s3 = (fold act (as @ [CloseDB]) s2)\<lparr>todo := []\<rparr>"
  have "session_step\<^sup>*\<^sup>* ?s0 s1"
    using run_main [of ?s0 "[MakeStateDir, OpenDB, NewStore, StartProcessor]" "as @ [CloseDB]"] tr
    by (simp add: session_start_def act_def s1_def)
  also have "session_step s1 s2"
    using session_step.open_iter [of s1 1] by (simp add: s1_def s2_def use_db_def)
  also have "session_step\<^sup>*\<^sup>* s2 s3" unfolding s3_def by (rule run_main) (simp add: s1_def s2_def)
  also have "session_step s3 (use_db (s3\<lparr>proc_at := Iterating 0\<rparr>))"
  proof (rule session_step.entry)
    have "proc_at s3 = proc_at s2" unfolding s3_def using fold_act_proc [OF as, of s2] by simp
    then show "proc_at s3 = Iterating (Suc 0)" by (simp add: s2_def)
  qed
  finally have "session_step\<^sup>*\<^sup>* ?s0 (use_db (s3\<lparr>proc_at := Iterating 0\<rparr>))" .
  moreover have "\<not> db_open s3" by (simp add: s3_def act_def)
  ultimately show ?thesis by (intro exI [of _ "use_db (s3\<lparr>proc_at := Iterating 0\<rparr>)"]) (simp add: use_db_def s3_def)
qed

definition demo_outcomes :: outcomes where
  "demo_outcomes = \<lparr>res_mkdir = None, res_open = None, res_store = None, res_watcher = None, res_manager = Unsupported,
     res_start = None, res_wait = None, res_flush = None\<rparr>"

theorem processor_outlives_database_witness:
  "\<exists>s. session_step\<^sup>*\<^sup>* (session_start (snd (runRecord demo_outcomes))) s \<and> todo s = [] \<and> use_after_close s"
  by (rule processor_outlives_database) (simp add: demo_outcomes_def runRecord_def)

end
