(* ===== verification/Config.thy ===== *)
theory Config
  imports Complex_Main Go_Base
begin

text \<open>
  \<open>src/pkg/config/config.go\<close>: the configuration with its defaults, its environment variables and its
  validation.

  A \<open>float64\<close> is a finite rational, an infinity or NaN, with the comparisons of IEEE 754: those with
  NaN are false.  A Go \<open>int\<close> is an integer, products that may overflow are wrapped at 64 bits.  The
  environment, \<open>time.ParseDuration\<close> and \<open>strconv.ParseFloat\<close> are arguments.
\<close>

section \<open>Numbers\<close>

datatype float64 = Fin rat | PosInf | NegInf | NaN

fun f_le :: "float64 \<Rightarrow> float64 \<Rightarrow> bool" where
  "f_le NaN y = False"
| "f_le x NaN = False"
| "f_le NegInf y = True"
| "f_le x PosInf = True"
| "f_le (Fin x) (Fin y) = (x \<le> y)"
| "f_le x y = False"

fun f_less :: "float64 \<Rightarrow> float64 \<Rightarrow> bool" where
  "f_less NaN y = False"
| "f_less x NaN = False"
| "f_less NegInf y = (y \<noteq> NegInf)"
| "f_less x PosInf = (x \<noteq> PosInf)"
| "f_less (Fin x) (Fin y) = (x < y)"
| "f_less x y = False"

definition wrap64 :: "int \<Rightarrow> int" where
  "wrap64 i = (i + 2 ^ 63) mod 2 ^ 64 - 2 ^ 63"

text \<open>The double next to 0.1.\<close>

definition tenth :: float64 where
  "tenth = Fin (3602879701896397 / 36028797018963968)"


section \<open>Configurations\<close>

record BTFConfig =
  CacheDir :: "byte list"
  AllowDownload :: bool
  HubMirror :: "byte list"

record EBPFConfig =
  Enable :: bool
  ProgramPath :: "byte list"
  ProfilerInterval :: int
  ProfilerAlpha :: float64
  HotPathThreshold :: float64
  EnableProfiler :: bool
  AutoInject :: bool
  InjectorCommand :: "byte list"
  LifecycleTracing :: bool
  FallbackFSNotify :: bool
  CollectLifecycle :: bool
  EventBufferSize :: int
  LifecycleBufSize :: int
  BTF :: BTFConfig

record DiffConfig =
  Library :: "byte list"
  ChunkSizeMB :: int
  EnableChunking :: bool
  ChunkMinBytes :: int
  ChunkAvgBytes :: int
  ChunkMaxBytes :: int
  ChunkHashWindow :: int
  HashAlgo :: "byte list"
  DedupScope :: "byte list"
  EnableDiff :: bool
  SnapshotInterval :: int
  ChunkThresholdBytes :: int
  EBPF :: EBPFConfig

text \<open>What the process sees: its environment, the file system's \<open>/var/cache\<close> and its temporary directory.\<close>

record process =
  Getenv :: "string \<Rightarrow> byte list"
  has_var_cache :: bool
  TempDir_btf :: "byte list"
  ParseDuration :: "byte list \<Rightarrow> int option"
  ParseFloat :: "byte list \<Rightarrow> float64 option"

definition defaultBTFCacheDir :: "process \<Rightarrow> byte list" where
  "defaultBTFCacheDir P = (if has_var_cache P then str ''/var/cache/diffkeeper/btf'' else TempDir_btf P)"

definition defaultEBPFConfig :: "process \<Rightarrow> EBPFConfig" where
  "defaultEBPFConfig P = \<lparr>
     Enable = True, ProgramPath = [], ProfilerInterval = 100000000, ProfilerAlpha = tenth, HotPathThreshold = Fin 10,
     EnableProfiler = True, AutoInject = True, InjectorCommand = [], LifecycleTracing = True, FallbackFSNotify = True,
     CollectLifecycle = True, EventBufferSize = 4096, LifecycleBufSize = 256,
     BTF = \<lparr>CacheDir = defaultBTFCacheDir P, AllowDownload = True,
            HubMirror = str ''https://github.com/aquasecurity/btfhub-archive/raw/main''\<rparr>\<rparr>"

definition DefaultConfig :: "process \<Rightarrow> DiffConfig" where
  "DefaultConfig P = \<lparr>
     Library = str ''bsdiff'', ChunkSizeMB = 4, EnableChunking = True, ChunkMinBytes = 1 * 1024 * 1024,
     ChunkAvgBytes = 8 * 1024 * 1024, ChunkMaxBytes = 64 * 1024 * 1024, ChunkHashWindow = 64, HashAlgo = str ''sha256'',
     DedupScope = str ''container'', EnableDiff = True, SnapshotInterval = 10,
     ChunkThresholdBytes = 1 * 1024 * 1024 * 1024, EBPF = defaultEBPFConfig P\<rparr>"


section \<open>The environment\<close>

text \<open>
  A variable that is set replaces a field: with its text, with its number if it has one, or with
  whether it is one of the accepted words.
\<close>

definition env_text :: "process \<Rightarrow> string \<Rightarrow> (byte list \<Rightarrow> 'c \<Rightarrow> 'c) \<Rightarrow> 'c \<Rightarrow> 'c" where
  "env_text P name upd cfg = (let v = Getenv P name in if v \<noteq> [] then upd v cfg else cfg)"

definition env_parsed :: "process \<Rightarrow> string \<Rightarrow> (byte list \<Rightarrow> 'v option) \<Rightarrow> ('v \<Rightarrow> 'c \<Rightarrow> 'c) \<Rightarrow> 'c \<Rightarrow> 'c" where
  "env_parsed P name parse upd cfg =
     env_text P name (\<lambda>v c. case parse v of Some x \<Rightarrow> upd x c | None \<Rightarrow> c) cfg"

definition env_flag :: "process \<Rightarrow> string \<Rightarrow> string list \<Rightarrow> (bool \<Rightarrow> 'c \<Rightarrow> 'c) \<Rightarrow> 'c \<Rightarrow> 'c" where
  "env_flag P name yes upd cfg = env_text P name (\<lambda>v c. upd (v \<in> str ` set yes) c) cfg"

definition positive_int :: "byte list \<Rightarrow> int option" where
  "positive_int v = (case ParseInt v of Some n \<Rightarrow> if 0 < n then Some n else None | None \<Rightarrow> None)"

definition yes_words :: "string list" where
  "yes_words = [''1'', ''true'', ''TRUE'']"

definition loadEBPFConfigFromEnv :: "process \<Rightarrow> EBPFConfig \<Rightarrow> EBPFConfig" where
  "loadEBPFConfigFromEnv P cfg =
     fold (\<lambda>step c. step c)
      [env_flag P ''DIFFKEEPER_ENABLE_EBPF'' yes_words (\<lambda>b c. c\<lparr>Enable := b\<rparr>),
       env_text P ''DIFFKEEPER_EBPF_PROGRAM'' (\<lambda>v c. c\<lparr>ProgramPath := v\<rparr>),
       env_parsed P ''DIFFKEEPER_EBPF_PROFILER_INTERVAL'' (ParseDuration P) (\<lambda>d c. c\<lparr>ProfilerInterval := d\<rparr>),
       env_parsed P ''DIFFKEEPER_EBPF_PROFILER_ALPHA'' (ParseFloat P) (\<lambda>f c. c\<lparr>ProfilerAlpha := f\<rparr>),
       env_parsed P ''DIFFKEEPER_EBPF_HOT_PATH_THRESHOLD'' (ParseFloat P) (\<lambda>f c. c\<lparr>HotPathThreshold := f\<rparr>),
       env_flag P ''DIFFKEEPER_EBPF_ENABLE_PROFILER'' yes_words (\<lambda>b c. c\<lparr>EnableProfiler := b\<rparr>),
       env_flag P ''DIFFKEEPER_EBPF_AUTO_INJECT'' yes_words (\<lambda>b c. c\<lparr>AutoInject := b\<rparr>),
       env_text P ''DIFFKEEPER_EBPF_INJECTOR_CMD'' (\<lambda>v c. c\<lparr>InjectorCommand := v\<rparr>),
       env_flag P ''DIFFKEEPER_EBPF_LIFECYCLE_TRACING'' yes_words (\<lambda>b c. c\<lparr>LifecycleTracing := b\<rparr>),
       env_flag P ''DIFFKEEPER_EBPF_FALLBACK_FSNOTIFY'' yes_words (\<lambda>b c. c\<lparr>FallbackFSNotify := b\<rparr>),
       env_parsed P ''DIFFKEEPER_EBPF_EVENT_BUFFER'' positive_int (\<lambda>n c. c\<lparr>EventBufferSize := n\<rparr>),
       env_parsed P ''DIFFKEEPER_EBPF_LIFECYCLE_BUFFER'' positive_int (\<lambda>n c. c\<lparr>LifecycleBufSize := n\<rparr>),
       env_text P ''DIFFKEEPER_BTF_CACHE_DIR'' (\<lambda>v c. c\<lparr>BTF := (BTF c)\<lparr>CacheDir := v\<rparr>\<rparr>),
       env_flag P ''DIFFKEEPER_BTF_ALLOW_DOWNLOAD'' yes_words (\<lambda>b c. c\<lparr>BTF := (BTF c)\<lparr>AllowDownload := b\<rparr>\<rparr>),
       env_text P ''DIFFKEEPER_BTF_MIRROR'' (\<lambda>v c. c\<lparr>BTF := (BTF c)\<lparr>HubMirror := v\<rparr>\<rparr>)] cfg"

definition LoadFromEnv :: "process \<Rightarrow> DiffConfig" where
  "LoadFromEnv P =
     fold (\<lambda>step c. step c)
      [env_text P ''DIFFKEEPER_DIFF_LIBRARY'' (\<lambda>v c. c\<lparr>Library := v\<rparr>),
       env_parsed P ''DIFFKEEPER_CHUNK_SIZE_MB'' ParseInt (\<lambda>n c. c\<lparr>ChunkSizeMB := n\<rparr>),
       env_parsed P ''DIFFKEEPER_CHUNK_MIN_BYTES'' ParseInt (\<lambda>n c. c\<lparr>ChunkMinBytes := n\<rparr>),
       env_parsed P ''DIFFKEEPER_CHUNK_AVG_BYTES'' ParseInt (\<lambda>n c. c\<lparr>ChunkAvgBytes := n\<rparr>),
       env_parsed P ''DIFFKEEPER_CHUNK_MAX_BYTES'' ParseInt (\<lambda>n c. c\<lparr>ChunkMaxBytes := n\<rparr>),
       env_parsed P ''DIFFKEEPER_CHUNK_HASH_WINDOW'' ParseInt (\<lambda>n c. c\<lparr>ChunkHashWindow := n\<rparr>),
       env_flag P ''DIFFKEEPER_ENABLE_CHUNKING'' yes_words (\<lambda>b c. c\<lparr>EnableChunking := b\<rparr>),
       env_text P ''DIFFKEEPER_HASH_ALGO'' (\<lambda>v c. c\<lparr>HashAlgo := v\<rparr>),
       env_text P ''DIFFKEEPER_DEDUP_SCOPE'' (\<lambda>v c. c\<lparr>DedupScope := v\<rparr>),
       env_flag P ''DIFFKEEPER_ENABLE_DIFF'' [''true'', ''1''] (\<lambda>b c. c\<lparr>EnableDiff := b\<rparr>),
       env_parsed P ''DIFFKEEPER_SNAPSHOT_INTERVAL'' ParseInt (\<lambda>n c. c\<lparr>SnapshotInterval := n\<rparr>),
       env_parsed P ''DIFFKEEPER_CHUNK_THRESHOLD_MB'' ParseInt (\<lambda>n c. c\<lparr>ChunkThresholdBytes := wrap64 (wrap64 (n * 1024) * 1024)\<rparr>),
       (\<lambda>c. c\<lparr>EBPF := loadEBPFConfigFromEnv P (EBPF c)\<rparr>)] (DefaultConfig P)"


section \<open>Validation\<close>

datatype config_error =
    InvalidLibrary "byte list" | ChunkSizeNotPositive int | ChunkBytesNotPositive int int int
  | MinAboveAvg int int | AvgAboveMax int int | WindowNotPositive int | InvalidHash "byte list"
  | InvalidScope "byte list" | IntervalNotPositive int | ThresholdNotPositive int
  | ProfilerIntervalNotPositive | AlphaOutOfRange | NegativeThreshold | EventBufferNotPositive | LifecycleBufferNotPositive
  | NoCacheDir | NoMirror

definition BTFConfig_Validate :: "BTFConfig \<Rightarrow> config_error + unit" where
  "BTFConfig_Validate c =
     (if CacheDir c = [] then Inl NoCacheDir
      else if HubMirror c = [] then Inl NoMirror
      else Inr ())"

definition EBPFConfig_Validate :: "EBPFConfig \<Rightarrow> config_error + unit" where
  "EBPFConfig_Validate c =
     (if \<not> Enable c then Inr ()
      else if ProfilerInterval c \<le> 0 then Inl ProfilerIntervalNotPositive
      else if f_le (ProfilerAlpha c) (Fin 0) \<or> f_le (Fin 1) (ProfilerAlpha c) then Inl AlphaOutOfRange
      else if f_less (HotPathThreshold c) (Fin 0) then Inl NegativeThreshold
      else if EventBufferSize c \<le> 0 then Inl EventBufferNotPositive
      else if LifecycleBufSize c \<le> 0 then Inl LifecycleBufferNotPositive
      else BTFConfig_Validate (BTF c))"

definition Validate :: "DiffConfig \<Rightarrow> config_error + unit" where
  "Validate c =
     (if Library c \<noteq> str ''bsdiff'' \<and> Library c \<noteq> str ''xdelta'' then Inl (InvalidLibrary (Library c))
      else if ChunkSizeMB c \<le> 0 then Inl (ChunkSizeNotPositive (ChunkSizeMB c))
      else if ChunkMinBytes c \<le> 0 \<or> ChunkAvgBytes c \<le> 0 \<or> ChunkMaxBytes c \<le> 0
           then Inl (ChunkBytesNotPositive (ChunkMinBytes c) (ChunkAvgBytes c) (ChunkMaxBytes c))
      else if ChunkAvgBytes c < ChunkMinBytes c then Inl (MinAboveAvg (ChunkMinBytes c) (ChunkAvgBytes c))
      else if ChunkMaxBytes c < ChunkAvgBytes c then Inl (AvgAboveMax (ChunkAvgBytes c) (ChunkMaxBytes c))
      else if ChunkHashWindow c \<le> 0 then Inl (WindowNotPositive (ChunkHashWindow c))
      else if HashAlgo c \<noteq> str ''sha256'' \<and> HashAlgo c \<noteq> str ''blake3'' then Inl (InvalidHash (HashAlgo c))
      else if DedupScope c \<noteq> str ''container'' \<and> DedupScope c \<noteq> str ''cluster'' then Inl (InvalidScope (DedupScope c))
      else if SnapshotInterval c \<le> 0 then Inl (IntervalNotPositive (SnapshotInterval c))
      else if ChunkThresholdBytes c \<le> 0 then Inl (ThresholdNotPositive (ChunkThresholdBytes c))
      else EBPFConfig_Validate (EBPF c))"

definition GetChunkSizeBytes :: "DiffConfig \<Rightarrow> int" where
  "GetChunkSizeBytes c = wrap64 (wrap64 (ChunkSizeMB c * 1024) * 1024)"

definition DiffConfig_ShouldChunk :: "DiffConfig \<Rightarrow> int \<Rightarrow> bool" where
  "DiffConfig_ShouldChunk c fileSize = (if \<not> EnableChunking c then False else ChunkThresholdBytes c < fileSize)"

record ChunkingConfig =
  MinBytes :: int
  AvgBytes :: int
  MaxBytes :: int
  HashWindow :: int

definition GetChunkingConfig :: "DiffConfig \<Rightarrow> ChunkingConfig" where
  "GetChunkingConfig c =
     \<lparr>MinBytes = ChunkMinBytes c, AvgBytes = ChunkAvgBytes c, MaxBytes = ChunkMaxBytes c, HashWindow = ChunkHashWindow c\<rparr>"


section \<open>Results\<close>

text \<open>With no variable set the loaded configuration is the default one.\<close>

lemma env_unset:
  assumes "Getenv P = (\<lambda>n. [])"
  shows "env_text P n u c = c" and "env_parsed P n p v c = c" and "env_flag P n w x c = c"
  using assms by (simp_all add: env_text_def env_parsed_def env_flag_def)

lemma LoadFromEnv_unset: "Getenv P = (\<lambda>n. []) \<Longrightarrow> LoadFromEnv P = DefaultConfig P"
  by (simp add: LoadFromEnv_def loadEBPFConfigFromEnv_def env_unset)

text \<open>What a variable gives a field that has the value \<open>d\<close>.\<close>

definition env_str :: "process \<Rightarrow> string \<Rightarrow> byte list \<Rightarrow> byte list" where
  "env_str P name d = (if Getenv P name = [] then d else Getenv P name)"

definition env_bool :: "process \<Rightarrow> string \<Rightarrow> string list \<Rightarrow> bool \<Rightarrow> bool" where
  "env_bool P name yes d = (if Getenv P name = [] then d else Getenv P name \<in> str ` set yes)"

definition env_num :: "process \<Rightarrow> string \<Rightarrow> (byte list \<Rightarrow> 'v option) \<Rightarrow> 'v \<Rightarrow> 'v" where
  "env_num P name parse d =
     (if Getenv P name = [] then d else case parse (Getenv P name) of Some x \<Rightarrow> x | None \<Rightarrow> d)"

text \<open>A step of loading as an update of its field.\<close>

lemma env_text_upd: "upd (get c) c = c \<Longrightarrow> env_text P n upd c = upd (env_str P n (get c)) c"
  by (simp add: env_text_def env_str_def Let_def)

lemma env_flag_upd: "upd (get c) c = c \<Longrightarrow> env_flag P n yes upd c = upd (env_bool P n yes (get c)) c"
  by (simp add: env_flag_def env_text_def env_bool_def Let_def)

lemma env_parsed_upd: "upd (get c) c = c \<Longrightarrow> env_parsed P n parse upd c = upd (env_num P n parse (get c)) c"
  by (simp add: env_parsed_def env_text_def env_num_def Let_def split: option.split)

lemmas env_fields =
  env_text_upd [where upd = "\<lambda>v c. c\<lparr>Library := v\<rparr>" and get = Library, simplified]
  env_text_upd [where upd = "\<lambda>v c. c\<lparr>HashAlgo := v\<rparr>" and get = HashAlgo, simplified]
  env_text_upd [where upd = "\<lambda>v c. c\<lparr>DedupScope := v\<rparr>" and get = DedupScope, simplified]
  env_text_upd [where upd = "\<lambda>v c. c\<lparr>ProgramPath := v\<rparr>" and get = ProgramPath, simplified]
  env_text_upd [where upd = "\<lambda>v c. c\<lparr>InjectorCommand := v\<rparr>" and get = InjectorCommand, simplified]
  env_flag_upd [where upd = "\<lambda>v c. c\<lparr>EnableChunking := v\<rparr>" and get = EnableChunking, simplified]
  env_flag_upd [where upd = "\<lambda>v c. c\<lparr>EnableDiff := v\<rparr>" and get = EnableDiff, simplified]
  env_flag_upd [where upd = "\<lambda>v c. c\<lparr>Enable := v\<rparr>" and get = Enable, simplified]
  env_flag_upd [where upd = "\<lambda>v c. c\<lparr>EnableProfiler := v\<rparr>" and get = EnableProfiler, simplified]
  env_flag_upd [where upd = "\<lambda>v c. c\<lparr>AutoInject := v\<rparr>" and get = AutoInject, simplified]
  env_flag_upd [where upd = "\<lambda>v c. c\<lparr>LifecycleTracing := v\<rparr>" and get = LifecycleTracing, simplified]
  env_flag_upd [where upd = "\<lambda>v c. c\<lparr>FallbackFSNotify := v\<rparr>" and get = FallbackFSNotify, simplified]
  env_parsed_upd [where upd = "\<lambda>v c. c\<lparr>ChunkSizeMB := v\<rparr>" and get = ChunkSizeMB, simplified]
  env_parsed_upd [where upd = "\<lambda>v c. c\<lparr>ChunkMinBytes := v\<rparr>" and get = ChunkMinBytes, simplified]
  env_parsed_upd [where upd = "\<lambda>v c. c\<lparr>ChunkAvgBytes := v\<rparr>" and get = ChunkAvgBytes, simplified]
  env_parsed_upd [where upd = "\<lambda>v c. c\<lparr>ChunkMaxBytes := v\<rparr>" and get = ChunkMaxBytes, simplified]
  env_parsed_upd [where upd = "\<lambda>v c. c\<lparr>ChunkHashWindow := v\<rparr>" and get = ChunkHashWindow, simplified]
  env_parsed_upd [where upd = "\<lambda>v c. c\<lparr>SnapshotInterval := v\<rparr>" and get = SnapshotInterval, simplified]
  env_parsed_upd [where upd = "\<lambda>v c. c\<lparr>ProfilerInterval := v\<rparr>" and get = ProfilerInterval, simplified]
  env_parsed_upd [where upd = "\<lambda>v c. c\<lparr>ProfilerAlpha := v\<rparr>" and get = ProfilerAlpha, simplified]
  env_parsed_upd [where upd = "\<lambda>v c. c\<lparr>HotPathThreshold := v\<rparr>" and get = HotPathThreshold, simplified]
  env_parsed_upd [where upd = "\<lambda>v c. c\<lparr>EventBufferSize := v\<rparr>" and get = EventBufferSize, simplified]
  env_parsed_upd [where upd = "\<lambda>v c. c\<lparr>LifecycleBufSize := v\<rparr>" and get = LifecycleBufSize, simplified]

lemma wrap64_id: "- (2 ^ 63) \<le> i \<Longrightarrow> i < 2 ^ 63 \<Longrightarrow> wrap64 i = i"
  by (simp add: wrap64_def)

lemma str_neq_nil [simp]: "str s = [] \<longleftrightarrow> s = []"
  by (simp add: str_def)

definition mb_bytes :: "int \<Rightarrow> int" where
  "mb_bytes n = wrap64 (wrap64 (n * 1024) * 1024)"

lemma env_threshold:
  "env_parsed P n parse (\<lambda>x c. c\<lparr>ChunkThresholdBytes := wrap64 (wrap64 (x * 1024) * 1024)\<rparr>) c =
   c\<lparr>ChunkThresholdBytes := env_num P n (\<lambda>v. map_option mb_bytes (parse v)) (ChunkThresholdBytes c)\<rparr>"
  by (simp add: env_parsed_def env_text_def env_num_def Let_def mb_bytes_def split: option.split)

lemmas env_btf_fields =
  env_text_upd [where upd = "\<lambda>v c. c\<lparr>BTF := (BTF c)\<lparr>CacheDir := v\<rparr>\<rparr>" and get = "\<lambda>c. CacheDir (BTF c)", simplified]
  env_flag_upd [where upd = "\<lambda>v c. c\<lparr>BTF := (BTF c)\<lparr>AllowDownload := v\<rparr>\<rparr>" and get = "\<lambda>c. AllowDownload (BTF c)", simplified]
  env_text_upd [where upd = "\<lambda>v c. c\<lparr>BTF := (BTF c)\<lparr>HubMirror := v\<rparr>\<rparr>" and get = "\<lambda>c. HubMirror (BTF c)", simplified]

lemma f_alpha: "\<not> (f_le a (Fin 0) \<or> f_le (Fin 1) a) \<longleftrightarrow> a = NaN \<or> (\<exists>x. a = Fin x \<and> 0 < x \<and> x < 1)"
  by (cases a) auto

lemma f_threshold: "\<not> f_less t (Fin 0) \<longleftrightarrow> t = NaN \<or> t = PosInf \<or> (\<exists>x. t = Fin x \<and> 0 \<le> x)"
  by (cases t) auto

lemma loaded_ebpf:
  "loadEBPFConfigFromEnv P (defaultEBPFConfig P) = \<lparr>
     Enable = env_bool P ''DIFFKEEPER_ENABLE_EBPF'' yes_words True,
     ProgramPath = env_str P ''DIFFKEEPER_EBPF_PROGRAM'' [],
     ProfilerInterval = env_num P ''DIFFKEEPER_EBPF_PROFILER_INTERVAL'' (ParseDuration P) 100000000,
     ProfilerAlpha = env_num P ''DIFFKEEPER_EBPF_PROFILER_ALPHA'' (ParseFloat P) tenth,
     HotPathThreshold = env_num P ''DIFFKEEPER_EBPF_HOT_PATH_THRESHOLD'' (ParseFloat P) (Fin 10),
     EnableProfiler = env_bool P ''DIFFKEEPER_EBPF_ENABLE_PROFILER'' yes_words True,
     AutoInject = env_bool P ''DIFFKEEPER_EBPF_AUTO_INJECT'' yes_words True,
     InjectorCommand = env_str P ''DIFFKEEPER_EBPF_INJECTOR_CMD'' [],
     LifecycleTracing = env_bool P ''DIFFKEEPER_EBPF_LIFECYCLE_TRACING'' yes_words True,
     FallbackFSNotify = env_bool P ''DIFFKEEPER_EBPF_FALLBACK_FSNOTIFY'' yes_words True,
     CollectLifecycle = True,
     EventBufferSize = env_num P ''DIFFKEEPER_EBPF_EVENT_BUFFER'' positive_int 4096,
     LifecycleBufSize = env_num P ''DIFFKEEPER_EBPF_LIFECYCLE_BUFFER'' positive_int 256,
     BTF = \<lparr>CacheDir = env_str P ''DIFFKEEPER_BTF_CACHE_DIR'' (defaultBTFCacheDir P),
            AllowDownload = env_bool P ''DIFFKEEPER_BTF_ALLOW_DOWNLOAD'' yes_words True,
            HubMirror = env_str P ''DIFFKEEPER_BTF_MIRROR'' (str ''https://github.com/aquasecurity/btfhub-archive/raw/main'')\<rparr>\<rparr>"
  unfolding loadEBPFConfigFromEnv_def defaultEBPFConfig_def fold_simps id_apply comp_apply
  by (simp only: fold_simps id_apply comp_apply env_fields env_btf_fields EBPFConfig.simps BTFConfig.simps)

lemma loaded_config:
  "LoadFromEnv P = \<lparr>
     Library = env_str P ''DIFFKEEPER_DIFF_LIBRARY'' (str ''bsdiff''),
     ChunkSizeMB = env_num P ''DIFFKEEPER_CHUNK_SIZE_MB'' ParseInt 4,
     EnableChunking = env_bool P ''DIFFKEEPER_ENABLE_CHUNKING'' yes_words True,
     ChunkMinBytes = env_num P ''DIFFKEEPER_CHUNK_MIN_BYTES'' ParseInt (1 * 1024 * 1024),
     ChunkAvgBytes = env_num P ''DIFFKEEPER_CHUNK_AVG_BYTES'' ParseInt (8 * 1024 * 1024),
     ChunkMaxBytes = env_num P ''DIFFKEEPER_CHUNK_MAX_BYTES'' ParseInt (64 * 1024 * 1024),
     ChunkHashWindow = env_num P ''DIFFKEEPER_CHUNK_HASH_WINDOW'' ParseInt 64,
     HashAlgo = env_str P ''DIFFKEEPER_HASH_ALGO'' (str ''sha256''),
     DedupScope = env_str P ''DIFFKEEPER_DEDUP_SCOPE'' (str ''container''),
     EnableDiff = env_bool P ''DIFFKEEPER_ENABLE_DIFF'' [''true'', ''1''] True,
     SnapshotInterval = env_num P ''DIFFKEEPER_SNAPSHOT_INTERVAL'' ParseInt 10,
     ChunkThresholdBytes = env_num P ''DIFFKEEPER_CHUNK_THRESHOLD_MB'' (\<lambda>v. map_option mb_bytes (ParseInt v)) (1 * 1024 * 1024 * 1024),
     EBPF = loadEBPFConfigFromEnv P (defaultEBPFConfig P)\<rparr>"
  unfolding LoadFromEnv_def DefaultConfig_def
  by (simp only: fold_simps id_apply comp_apply env_fields env_threshold DiffConfig.simps)

lemma positive_num: "0 < d \<Longrightarrow> 0 < env_num P n positive_int d"
  by (simp add: env_num_def positive_int_def split: option.split)

lemma env_str_neq: "d \<noteq> [] \<Longrightarrow> env_str P n d \<noteq> []"
  by (simp add: env_str_def)

lemma EBPFConfig_Validate_iff:
  "EBPFConfig_Validate c = Inr () \<longleftrightarrow>
     (if Enable c then
        0 < ProfilerInterval c \<and> (ProfilerAlpha c = NaN \<or> (\<exists>x. ProfilerAlpha c = Fin x \<and> 0 < x \<and> x < 1)) \<and>
        (HotPathThreshold c = NaN \<or> HotPathThreshold c = PosInf \<or> (\<exists>x. HotPathThreshold c = Fin x \<and> 0 \<le> x)) \<and>
        0 < EventBufferSize c \<and> 0 < LifecycleBufSize c \<and> CacheDir (BTF c) \<noteq> [] \<and> HubMirror (BTF c) \<noteq> []
      else True)"
  unfolding EBPFConfig_Validate_def BTFConfig_Validate_def f_alpha [symmetric] f_threshold [symmetric]
  by (simp add: not_le)

lemma Validate_iff:
  "Validate c = Inr () \<longleftrightarrow>
     Library c \<in> {str ''bsdiff'', str ''xdelta''} \<and> 0 < ChunkSizeMB c \<and> 0 < ChunkMinBytes c \<and>
     ChunkMinBytes c \<le> ChunkAvgBytes c \<and> ChunkAvgBytes c \<le> ChunkMaxBytes c \<and> 0 < ChunkHashWindow c \<and>
     HashAlgo c \<in> {str ''sha256'', str ''blake3''} \<and> DedupScope c \<in> {str ''container'', str ''cluster''} \<and>
     0 < SnapshotInterval c \<and> 0 < ChunkThresholdBytes c \<and> EBPFConfig_Validate (EBPF c) = Inr ()"
  unfolding Validate_def by (auto simp: not_le not_less split: if_splits)

text \<open>
  C30: which environments give a valid configuration.  Every variable counts for its own field only, a
  number that does not parse counts as its default, and the loaded configuration validates exactly
  when the resulting values are in their ranges; NaN is in the range of the profiler's two numbers.
\<close>

theorem environment_accepted:
  "Validate (LoadFromEnv P) = Inr () \<longleftrightarrow>
     env_str P ''DIFFKEEPER_DIFF_LIBRARY'' (str ''bsdiff'') \<in> {str ''bsdiff'', str ''xdelta''} \<and>
     0 < env_num P ''DIFFKEEPER_CHUNK_SIZE_MB'' ParseInt 4 \<and>
     0 < env_num P ''DIFFKEEPER_CHUNK_MIN_BYTES'' ParseInt 1048576 \<and>
     env_num P ''DIFFKEEPER_CHUNK_MIN_BYTES'' ParseInt 1048576 \<le> env_num P ''DIFFKEEPER_CHUNK_AVG_BYTES'' ParseInt 8388608 \<and>
     env_num P ''DIFFKEEPER_CHUNK_AVG_BYTES'' ParseInt 8388608 \<le> env_num P ''DIFFKEEPER_CHUNK_MAX_BYTES'' ParseInt 67108864 \<and>
     0 < env_num P ''DIFFKEEPER_CHUNK_HASH_WINDOW'' ParseInt 64 \<and>
     env_str P ''DIFFKEEPER_HASH_ALGO'' (str ''sha256'') \<in> {str ''sha256'', str ''blake3''} \<and>
     env_str P ''DIFFKEEPER_DEDUP_SCOPE'' (str ''container'') \<in> {str ''container'', str ''cluster''} \<and>
     0 < env_num P ''DIFFKEEPER_SNAPSHOT_INTERVAL'' ParseInt 10 \<and>
     0 < env_num P ''DIFFKEEPER_CHUNK_THRESHOLD_MB'' (\<lambda>v. map_option mb_bytes (ParseInt v)) 1073741824 \<and>
     (if env_bool P ''DIFFKEEPER_ENABLE_EBPF'' yes_words True then
      0 < env_num P ''DIFFKEEPER_EBPF_PROFILER_INTERVAL'' (ParseDuration P) 100000000 \<and>
      (let a = env_num P ''DIFFKEEPER_EBPF_PROFILER_ALPHA'' (ParseFloat P) tenth in a = NaN \<or> (\<exists>x. a = Fin x \<and> 0 < x \<and> x < 1)) \<and>
      (let t = env_num P ''DIFFKEEPER_EBPF_HOT_PATH_THRESHOLD'' (ParseFloat P) (Fin 10)
       in t = NaN \<or> t = PosInf \<or> (\<exists>x. t = Fin x \<and> 0 \<le> x)) \<and>
      env_str P ''DIFFKEEPER_BTF_CACHE_DIR'' (defaultBTFCacheDir P) \<noteq> []
      else True)"
  unfolding Validate_iff loaded_config loaded_ebpf EBPFConfig_Validate_iff DiffConfig.simps EBPFConfig.simps BTFConfig.simps Let_def
  by (simp add: positive_num env_str_neq)

end
