(* ===== verification/Platform.thy ===== *)
theory Platform
  imports Paths
begin

text \<open>
  \<open>src/internal/platform\<close>: path names as the system calls take them.  On Windows an absolute path with a
  drive gets the extended-length prefix, after which the system does not normalise it any more; elsewhere nothing
  happens.

  Shown here: the Windows variant is idempotent, leaves every other path alone, and what it puts behind the prefix
  needs no normalisation: backslashes between components, none of them empty, \<open>.\<close> or \<open>..\<close>.
\<close>

text \<open>\<open>path.go\<close>, the variant of the platforms with the eBPF agent.\<close>

definition LongPathname :: "byte list \<Rightarrow> byte list" where
  [simp]: "LongPathname path = path"


section \<open>Windows\<close>

definition win_sep :: byte where "win_sep = 92"
definition colon :: byte where "colon = 58"

definition extended :: "byte list" where "extended = [92, 92, 63, 92]"

definition to_slash :: "byte \<Rightarrow> byte" where "to_slash b = (if b = win_sep then sep else b)"
definition from_slash :: "byte \<Rightarrow> byte" where "from_slash b = (if b = sep then win_sep else b)"

text \<open>
  \<open>filepath.IsAbs\<close> and \<open>filepath.Clean\<close> of the Windows build, for a path whose volume name is a drive: two bytes, the second a
  colon.  Either slash separates components, and the cleaned path has backslashes.
\<close>

definition IsAbs_drive :: "byte list \<Rightarrow> bool" where
  "IsAbs_drive path = (case drop 2 path of [] \<Rightarrow> False | b # bs \<Rightarrow> b = sep \<or> b = win_sep)"

definition Clean_drive :: "byte list \<Rightarrow> byte list" where
  "Clean_drive path = take 2 path @ map from_slash (Clean (map to_slash (drop 2 path)))"

definition LongPathname_windows :: "byte list \<Rightarrow> byte list" where
  "LongPathname_windows path =
     (if length path < 2 \<or> path ! 1 \<noteq> colon then path
      else if IsAbs_drive path \<and> take 4 path \<noteq> extended
      then let cleaned = Clean_drive path
           in if 2 < length cleaned \<and> cleaned ! 2 \<noteq> win_sep \<and> cleaned ! 2 \<noteq> sep then extended @ cleaned
              else extended @ cleaned
      else path)"

definition absolute_drive :: "byte list \<Rightarrow> bool" where
  "absolute_drive path \<longleftrightarrow> (\<exists>d b rest. path = d # colon # b # rest \<and> (b = sep \<or> b = win_sep))"

lemma absolute_drive_iff: "absolute_drive path \<longleftrightarrow> 2 \<le> length path \<and> path ! 1 = colon \<and> IsAbs_drive path"
  by (cases path; cases "tl path"; cases "tl (tl path)") (auto simp: absolute_drive_def IsAbs_drive_def)

lemma drive_not_extended: "2 \<le> length path \<Longrightarrow> path ! 1 = colon \<Longrightarrow> take 4 path \<noteq> extended"
proof
  assume "2 \<le> length path" and c: "path ! 1 = colon" and "take 4 path = extended"
  then have "path ! 1 = extended ! 1" by (metis nth_take one_less_numeral_iff semiring_norm(76))
  with c show False by (simp add: extended_def colon_def)
qed

lemma LongPathname_windows_eq:
  "LongPathname_windows path = (if absolute_drive path then extended @ Clean_drive path else path)"
  using drive_not_extended [of path] by (auto simp: LongPathname_windows_def absolute_drive_iff Let_def)

text \<open>The components of a cleaned path, with the backslashes that separate them.\<close>

fun win_join :: "byte list list \<Rightarrow> byte list" where
  "win_join [] = []"
| "win_join [c] = c"
| "win_join (c # cs) = c @ win_sep # win_join cs"

lemma from_slash_plain: "sep \<notin> set c \<Longrightarrow> map from_slash c = c"
  by (induction c) (auto simp: from_slash_def)

lemma from_slash_join: "list_all (\<lambda>c. sep \<notin> set c) cs \<Longrightarrow> map from_slash (join cs) = win_join cs"
  by (induction cs rule: join.induct) (auto simp: from_slash_plain, simp_all add: from_slash_def)

lemma no_backslash: "win_sep \<notin> set (map to_slash p)"
  by (auto simp: to_slash_def win_sep_def sep_def)

lemma components_subset: "b \<in> set c \<Longrightarrow> c \<in> set (components p) \<Longrightarrow> b \<in> set p"
  by (induction p arbitrary: c) (fastforce split: if_splits list.splits)+

lemma fold_clean_subset: "c \<in> set (fold (clean_step root) xs stack) \<Longrightarrow> c \<in> set xs \<union> set stack \<union> {dotdot}"
proof (induction xs arbitrary: stack)
  case (Cons x xs)
  have "set (clean_step root x stack) \<subseteq> insert x (set stack) \<union> {dotdot}"
    by (cases stack) (auto simp: clean_step_def)
  with Cons.IH [of "clean_step root x stack"] Cons.prems show ?case by auto
qed simp

lemma resolve_no_backslash: "win_sep \<notin> set p \<Longrightarrow> c \<in> set (resolve p) \<Longrightarrow> win_sep \<notin> set c"
  using fold_clean_subset [of c "rooted p" "components p" "[]"] components_subset [of win_sep c p]
  by (auto simp: resolve_def dotdot_def win_sep_def)

text \<open>
  What the system gets for an absolute path with a drive: the prefix, the drive and the components of the path, all of them
  proper and without a slash of either kind; any other path is passed as it is, and a second call changes nothing.
\<close>

theorem long_pathname_normal:
  "LongPathname_windows (LongPathname_windows path) = LongPathname_windows path
   \<and> (if absolute_drive path
      then \<exists>cs. list_all proper cs \<and> list_all (\<lambda>c. win_sep \<notin> set c) cs
             \<and> LongPathname_windows path = extended @ take 2 path @ win_sep # win_join cs
      else LongPathname_windows path = path)"
proof
  have "\<not> absolute_drive (extended @ q)" for q by (simp add: absolute_drive_def extended_def colon_def)
  then show "LongPathname_windows (LongPathname_windows path) = LongPathname_windows path"
    by (simp add: LongPathname_windows_eq)
  show "if absolute_drive path
      then \<exists>cs. list_all proper cs \<and> list_all (\<lambda>c. win_sep \<notin> set c) cs
             \<and> LongPathname_windows path = extended @ take 2 path @ win_sep # win_join cs
      else LongPathname_windows path = path"
  proof (cases "absolute_drive path")
    case True
    let ?p = "map to_slash (drop 2 path)"
    have r: "rooted ?p" using True by (auto simp: absolute_drive_def rooted_def to_slash_def)
    obtain k cs where cs: "resolve ?p = replicate k dotdot @ cs" "list_all proper cs" "rooted ?p \<longrightarrow> k = 0" using resolve_shape by blast
    then have res: "resolve ?p = cs" and cl: "Clean ?p = sep # join cs" using r by (auto simp: Clean_def render_def rooted_def)
    have "list_all (\<lambda>c. sep \<notin> set c) cs" using cs(2) by (auto simp: list_all_iff proper_def)
    then have "Clean_drive path = take 2 path @ win_sep # win_join cs"
      unfolding Clean_drive_def cl by (simp add: from_slash_join) (simp add: from_slash_def)
    moreover have "list_all (\<lambda>c. win_sep \<notin> set c) cs" using resolve_no_backslash [OF no_backslash] res unfolding list_all_iff by blast
    ultimately show ?thesis using True cs(2) by (auto simp: LongPathname_windows_eq)
  qed (simp add: LongPathname_windows_eq)
qed

end
