(* ===== verification/Btf_Loader.thy ===== *)
theory Btf_Loader
  imports Config Platform
begin

text \<open>
  \<open>src/pkg/ebpf/btf_loader_linux.go\<close>: the types of the running kernel, from the kernel itself, from a
  cached file or from an archive that is downloaded and unpacked into the cache.  The files are a
  map from paths to contents, the directories a set of paths; what the operating system, the network and the archive packages answer
  is a record of functions, with every failure one of its values.  A file may be written in part
  when the copying into it fails, and the temporary file stays when its removal fails.

  Shown here: loading makes no directory but those of the cache, touches no file but the cached one and a temporary one that
  could not be removed, and sends at most one request, exactly when
  nothing is cached and downloads are allowed; a loaded specification is loaded again without a
  request; and what a failed unpacking leaves in the cache is served from then on.
\<close>

section \<open>The host\<close>

type_synonym path = "byte list"
type_synonym file_map = "path \<rightharpoonup> byte list"

text \<open>A response with what of its body could be read, and an entry of an archive likewise.\<close>

record response =
  StatusCode :: nat
  Body :: "byte list"
  Body_error :: "string option"

record tar_entry =
  hdr_Name :: "byte list"
  hdr_Mode :: nat
  hdr_data :: "byte list"
  hdr_error :: "string option"

text \<open>
  \<open>MkdirAll p\<close> says how many of the directories that lead to \<open>p\<close> are there after an error, and the error.
  \<open>disk p d\<close> is what arrives in the file \<open>p\<close> when \<open>d\<close> is written to it.  \<open>xz_tar\<close> unpacks an archive
  into its entries and the error after them, \<open>parse_spec\<close> reads a file of types.
\<close>

record 'spec btf_host =
  GOARCH :: string
  ToLower :: "byte list \<Rightarrow> byte list"
  MkdirAll :: "path \<Rightarrow> (nat \<times> string) option"
  deny :: "path \<Rightarrow> string option"
  stat_error :: "path \<Rightarrow> string option"
  Create :: "path \<Rightarrow> string option"
  CreateTemp :: "path \<Rightarrow> file_map \<Rightarrow> string + path"
  disk :: "path \<Rightarrow> byte list \<Rightarrow> byte list \<times> string option"
  Close_error :: "path \<Rightarrow> string option"
  Rename_error :: "path \<Rightarrow> string option"
  Remove_error :: "path \<Rightarrow> string option"
  Chmod_error :: "path \<Rightarrow> nat \<Rightarrow> string option"
  NewRequest :: "byte list \<Rightarrow> string option"
  Do :: "byte list \<Rightarrow> string + response"
  xz_tar :: "byte list \<Rightarrow> string + tar_entry list \<times> string option"
  parse_spec :: "byte list \<Rightarrow> string + 'spec"

record btf_state =
  fs_files :: file_map
  fs_dirs :: "path set"
  requests :: "byte list list"

datatype btf_error =
    LoaderUnset | CacheDirFailed string | ReadRelease string | UnsupportedArch string | DownloadsDisabled path
  | CreateRequest string | DownloadFailed string | BadStatus nat | TempFailed string | TempWrite string
  | TempClose string | MoveFailed string | OpenArchive string | XzFailed string | TarRead string | NoBTF
  | CreateCached string | WriteCached string | ChmodCached string | SpecFailed path string

definition ReadFile :: "'spec btf_host \<Rightarrow> file_map \<Rightarrow> path \<Rightarrow> string + byte list" where
  "ReadFile H fs p =
     (case deny H p of Some e \<Rightarrow> Inl e | None \<Rightarrow> (case fs p of None \<Rightarrow> Inl ''no such file or directory'' | Some d \<Rightarrow> Inr d))"

text \<open>\<open>os.MkdirAll\<close>: the directories that lead to a path, outermost first, are made unless they are there.\<close>

definition dir_chain :: "path \<Rightarrow> path list" where
  "dir_chain p = map (\<lambda>i. take i p) (filter (\<lambda>i. i = length p \<or> p ! i = sep) [1..<Suc (length p)])"

definition make_dirs :: "'spec btf_host \<Rightarrow> path \<Rightarrow> path set \<Rightarrow> string option \<times> path set" where
  "make_dirs H p dirs =
     (case MkdirAll H p of
        None \<Rightarrow> (None, dirs \<union> set (dir_chain p))
      | Some (n, e) \<Rightarrow> (Some e, dirs \<union> set (take n (dir_chain p))))"

text \<open>\<open>btf.LoadSpec\<close>.\<close>

definition btf_LoadSpec :: "'spec btf_host \<Rightarrow> file_map \<Rightarrow> path \<Rightarrow> string + 'spec" where
  "btf_LoadSpec H fs p = (case ReadFile H fs p of Inl e \<Rightarrow> Inl e | Inr d \<Rightarrow> parse_spec H d)"

text \<open>\<open>io.Copy\<close> into a file, from a reader that gives \<open>d\<close> and then ends or fails.\<close>

definition copy_into :: "'spec btf_host \<Rightarrow> path \<Rightarrow> byte list \<Rightarrow> string option \<Rightarrow> file_map \<Rightarrow> string option \<times> file_map" where
  "copy_into H p d err fs =
     (let (arrived, werr) = disk H p d
      in (if werr = None then err else werr, fs(p \<mapsto> arrived)))"


section \<open>Kernel information\<close>

definition has_suffix :: "byte list \<Rightarrow> byte list \<Rightarrow> bool" where
  "has_suffix s suf \<longleftrightarrow> length suf \<le> length s \<and> drop (length s - length suf) s = suf"

definition trim_suffix :: "byte list \<Rightarrow> byte list \<Rightarrow> byte list" where
  "trim_suffix suf s = (if has_suffix s suf then take (length s - length suf) s else s)"

record kernelInfo =
  Distro :: "byte list"
  VersionID :: "byte list"
  KernelRelease :: "byte list"
  Arch :: "byte list"

fun lines_of :: "byte list \<Rightarrow> byte list list" where
  "lines_of [] = [[]]"
| "lines_of (b # bs) =
     (if b = 10 then [] # lines_of bs else (case lines_of bs of [] \<Rightarrow> [[b]] | l # ls \<Rightarrow> (b # l) # ls))"

definition trim_quotes :: "byte list \<Rightarrow> byte list" where
  "trim_quotes s = rev (dropWhile (\<lambda>b. b = 34) (rev (dropWhile (\<lambda>b. b = 34) s)))"

definition os_release_line :: "'spec btf_host \<Rightarrow> byte list \<Rightarrow> (byte list \<rightharpoonup> byte list) \<Rightarrow> (byte list \<rightharpoonup> byte list)" where
  "os_release_line H raw meta =
     (let line = TrimSpace raw
      in if line = [] \<or> hd line = 35 then meta
         else if 61 \<notin> set line then meta
         else meta(takeWhile (\<lambda>b. b \<noteq> 61) line \<mapsto> ToLower H (trim_quotes (tl (dropWhile (\<lambda>b. b \<noteq> 61) line)))))"

definition no_release :: "byte list \<rightharpoonup> byte list" where
  "no_release = [str ''ID'' \<mapsto> str ''unknown'', str ''VERSION_ID'' \<mapsto> str ''unknown'']"

definition parseOSRelease :: "'spec btf_host \<Rightarrow> file_map \<Rightarrow> (byte list \<rightharpoonup> byte list)" where
  "parseOSRelease H fs =
     (case ReadFile H fs (str ''/etc/os-release'') of
        Inl e \<Rightarrow> no_release
      | Inr d \<Rightarrow> fold (os_release_line H) (lines_of d) no_release)"

definition readTrimmed :: "'spec btf_host \<Rightarrow> file_map \<Rightarrow> path \<Rightarrow> string + byte list" where
  "readTrimmed H fs p = (case ReadFile H fs p of Inl e \<Rightarrow> Inl e | Inr d \<Rightarrow> Inr (TrimSpace d))"

definition normalizeArch :: "string \<Rightarrow> btf_error + string" where
  "normalizeArch goarch =
     (if goarch = ''amd64'' then Inr ''x86_64'' else if goarch = ''arm64'' then Inr ''arm64''
      else if goarch = ''ppc64le'' then Inr ''ppc64le'' else Inl (UnsupportedArch goarch))"

text \<open>A missing key of the map reads as the empty string.\<close>

definition detectKernelInfo :: "'spec btf_host \<Rightarrow> file_map \<Rightarrow> btf_error + kernelInfo" where
  "detectKernelInfo H fs =
     (case readTrimmed H fs (str ''/proc/sys/kernel/osrelease'') of
        Inl e \<Rightarrow> Inl (ReadRelease e)
      | Inr rel \<Rightarrow>
          (case normalizeArch (GOARCH H) of
             Inl e \<Rightarrow> Inl e
           | Inr a \<Rightarrow>
               (let osMeta = parseOSRelease H fs; val = (\<lambda>k. case osMeta (str k) of None \<Rightarrow> [] | Some v \<Rightarrow> v)
                in Inr \<lparr>Distro = val ''ID'', VersionID = val ''VERSION_ID'', KernelRelease = rel, Arch = str a\<rparr>)))"

definition buildBTFHubURL :: "byte list \<Rightarrow> kernelInfo \<Rightarrow> byte list" where
  "buildBTFHubURL base info =
     trim_suffix [sep] base @ sep # Distro info @ sep # VersionID info @ sep # Arch info @ sep # KernelRelease info @ str ''.btf.tar.xz''"


section \<open>Archives\<close>

text \<open>\<open>os.Create\<close> empties the file before the entry is copied.\<close>

definition writeFileFromTar :: "'spec btf_host \<Rightarrow> path \<Rightarrow> tar_entry \<Rightarrow> file_map \<Rightarrow> (btf_error + unit) \<times> file_map" where
  "writeFileFromTar H p hdr fs =
     (case Create H p of
        Some e \<Rightarrow> (Inl (CreateCached e), fs)
      | None \<Rightarrow>
          (case copy_into H p (hdr_data hdr) (hdr_error hdr) (fs(p \<mapsto> [])) of
             (Some e, fs1) \<Rightarrow> (Inl (WriteCached e), fs1)
           | (None, fs1) \<Rightarrow>
               (case Chmod_error H p (hdr_Mode hdr) of
                  Some e \<Rightarrow> (Inl (ChmodCached e), fs1)
                | None \<Rightarrow> (Inr (), fs1))))"

fun extract_loop ::
  "'spec btf_host \<Rightarrow> path \<Rightarrow> tar_entry list \<Rightarrow> string option \<Rightarrow> file_map \<Rightarrow> (btf_error + unit) \<times> file_map" where
  "extract_loop H dest [] err fs = (case err of None \<Rightarrow> (Inl NoBTF, fs) | Some e \<Rightarrow> (Inl (TarRead e), fs))"
| "extract_loop H dest (hdr # hdrs) err fs =
     (if \<not> has_suffix (hdr_Name hdr) (str ''.btf'') then extract_loop H dest hdrs err fs
      else writeFileFromTar H dest hdr fs)"

definition extractBTFArchive :: "'spec btf_host \<Rightarrow> path \<Rightarrow> path \<Rightarrow> file_map \<Rightarrow> (btf_error + unit) \<times> file_map" where
  "extractBTFArchive H archive dest fs =
     (case ReadFile H fs (LongPathname archive) of
        Inl e \<Rightarrow> (Inl (OpenArchive e), fs)
      | Inr d \<Rightarrow>
          (case xz_tar H d of
             Inl e \<Rightarrow> (Inl (XzFailed e), fs)
           | Inr (hdrs, err) \<Rightarrow> extract_loop H dest hdrs err fs))"


section \<open>The loader\<close>

record BTFLoader =
  cacheDir :: path
  allowDownload :: bool
  baseURL :: "byte list"

definition NewBTFLoader :: "process \<Rightarrow> EBPFConfig option \<Rightarrow> BTFLoader option" where
  "NewBTFLoader P cfgo =
     (case cfgo of
        None \<Rightarrow> None
      | Some c \<Rightarrow>
          (let base = trim_suffix [sep] (HubMirror (BTF c))
           in Some \<lparr>cacheDir = (if CacheDir (BTF c) = [] then TempDir_btf P else CacheDir (BTF c)),
                    allowDownload = AllowDownload (BTF c),
                    baseURL = (if base = [] then str ''https://github.com/aquasecurity/btfhub-archive/raw/main'' else base)\<rparr>))"

text \<open>From the temporary file on.\<close>

definition fill_cache :: "'spec btf_host \<Rightarrow> byte list \<Rightarrow> path \<Rightarrow> path \<Rightarrow> response \<Rightarrow> file_map \<Rightarrow> (btf_error + path) \<times> file_map" where
  "fill_cache H url tmp dest resp fs =
     (case copy_into H tmp (Body resp) (Body_error resp) (fs(tmp \<mapsto> [])) of
        (Some e, fs1) \<Rightarrow> (Inl (TempWrite e), fs1)
      | (None, fs1) \<Rightarrow>
          (case Close_error H tmp of
             Some e \<Rightarrow> (Inl (TempClose e), fs1)
           | None \<Rightarrow>
               if has_suffix (ToLower H url) (str ''.btf'')
               then case Rename_error H dest of
                      Some e \<Rightarrow> (Inl (MoveFailed e), fs1)
                    | None \<Rightarrow> (Inr dest, fs1(dest := fs1 tmp, tmp := None))
               else case extractBTFArchive H tmp dest fs1 of
                      (Inl e, fs2) \<Rightarrow> (Inl e, fs2)
                    | (Inr u, fs2) \<Rightarrow> (Inr dest, fs2)))"

text \<open>The deferred \<open>os.Remove\<close> of the temporary file, whose error is ignored.\<close>

definition remove_temp :: "'spec btf_host \<Rightarrow> path \<Rightarrow> file_map \<Rightarrow> file_map" where
  "remove_temp H tmp fs = (if Remove_error H tmp = None then fs(tmp := None) else fs)"

definition downloadAndCache ::
  "'spec btf_host \<Rightarrow> BTFLoader \<Rightarrow> kernelInfo \<Rightarrow> path \<Rightarrow> btf_state \<Rightarrow> (btf_error + path) \<times> btf_state" where
  "downloadAndCache H l info dest st =
     (let url = buildBTFHubURL (baseURL l) info
      in case NewRequest H url of
           Some e \<Rightarrow> (Inl (CreateRequest e), st)
         | None \<Rightarrow>
             (let st1 = st\<lparr>requests := requests st @ [url]\<rparr>
              in case Do H url of
                   Inl e \<Rightarrow> (Inl (DownloadFailed e), st1)
                 | Inr resp \<Rightarrow>
                     if StatusCode resp \<noteq> 200 then (Inl (BadStatus (StatusCode resp)), st1)
                     else case CreateTemp H (cacheDir l) (fs_files st1) of
                            Inl e \<Rightarrow> (Inl (TempFailed e), st1)
                          | Inr tmp \<Rightarrow>
                              (let (r, fs) = fill_cache H url tmp dest resp (fs_files st1)
                               in (r, st1\<lparr>fs_files := remove_temp H tmp fs\<rparr>))))"

definition systemBTFPath :: path where
  "systemBTFPath = str ''/sys/kernel/btf/vmlinux''"

definition cached_path :: "BTFLoader \<Rightarrow> kernelInfo \<Rightarrow> path" where
  "cached_path l info = Join (cacheDir l) (KernelRelease info @ str ''.btf'')"

definition spec_at :: "'spec btf_host \<Rightarrow> file_map \<Rightarrow> path \<Rightarrow> btf_error + 'spec \<times> path" where
  "spec_at H fs p = (case btf_LoadSpec H fs p of Inl e \<Rightarrow> Inl (SpecFailed p e) | Inr s \<Rightarrow> Inr (s, p))"

definition LoadSpec :: "'spec btf_host \<Rightarrow> BTFLoader option \<Rightarrow> btf_state \<Rightarrow> (btf_error + 'spec \<times> path) \<times> btf_state" where
  "LoadSpec H lo st =
     (case lo of
        None \<Rightarrow> (Inl LoaderUnset, st)
      | Some l \<Rightarrow>
          (case btf_LoadSpec H (fs_files st) systemBTFPath of
             Inr s \<Rightarrow> (Inr (s, systemBTFPath), st)
           | Inl e \<Rightarrow>
               (case make_dirs H (cacheDir l) (fs_dirs st) of
                  (Some e, dirs) \<Rightarrow> (Inl (CacheDirFailed e), st\<lparr>fs_dirs := dirs\<rparr>)
                | (None, dirs) \<Rightarrow>
                    (let st0 = st\<lparr>fs_dirs := dirs\<rparr>
                     in case detectKernelInfo H (fs_files st0) of
                          Inl e \<Rightarrow> (Inl e, st0)
                        | Inr info \<Rightarrow>
                            (let cached = cached_path l info
                             in if stat_error H cached = None \<and> fs_files st0 cached \<noteq> None
                                then (spec_at H (fs_files st0) cached, st0)
                                else if \<not> allowDownload l then (Inl (DownloadsDisabled cached), st0)
                                else case downloadAndCache H l info cached st0 of
                                       (Inl e, st1) \<Rightarrow> (Inl e, st1)
                                     | (Inr p, st1) \<Rightarrow> (spec_at H (fs_files st1) p, st1))))))"


section \<open>The release file\<close>

text \<open>
  A file of lines \<open>KEY="value"\<close> as distributions ship it: the keys are upper case words, the values have neither
  quotes nor line ends.
\<close>

definition release_line :: "byte list \<times> byte list \<Rightarrow> byte list" where
  "release_line kv = fst kv @ [61, 34] @ snd kv @ [34]"

definition release_entry :: "byte list \<times> byte list \<Rightarrow> bool" where
  "release_entry kv \<longleftrightarrow>
     fst kv \<noteq> [] \<and> list_all (\<lambda>b. 65 \<le> b \<and> b \<le> 95) (fst kv) \<and> list_all (\<lambda>b. b \<noteq> 34 \<and> b \<noteq> 10) (snd kv)"

lemma drop_any_none:
  assumes "bs \<noteq> []" and "list_all (\<lambda>w. w = [] \<or> hd w \<noteq> hd bs) ws"
  shows "drop_any ws bs = bs"
proof -
  have "\<not> (w \<noteq> [] \<and> take (length w) bs = w)" if "w \<in> set ws" for w
  proof
    assume "w \<noteq> [] \<and> take (length w) bs = w"
    then have "w \<noteq> []" and "hd w = hd bs" by (metis, metis hd_take length_greater_0_conv)
    with that assms(2) show False by (auto simp: list_all_iff)
  qed
  then have "List.find (\<lambda>w. w \<noteq> [] \<and> take (length w) bs = w) ws = None" by (simp add: find_None_iff)
  then show ?thesis by (subst drop_any.simps) simp
qed

lemma upper_not_white: "65 \<le> b \<Longrightarrow> b \<le> 95 \<Longrightarrow> list_all (\<lambda>w. w = [] \<or> hd w \<noteq> b) white"
  by (auto simp: white_def)

lemma quote_not_white: "list_all (\<lambda>w. w = [] \<or> hd w \<noteq> 34) (map rev white)"
  by (simp add: white_def)

lemma trim_quoted:
  assumes "list_all (\<lambda>b. b \<noteq> 34) v"
  shows "trim_quotes (34 # v @ [34]) = v"
proof -
  have drop: "dropWhile (\<lambda>b. b = 34) (u @ [34]) = u @ [34] \<or> u = []" "dropWhile (\<lambda>b. b = 34) u = u" if "list_all (\<lambda>b. b \<noteq> 34) u" for u :: "byte list"
    using that by (induction u) auto
  show ?thesis
  proof (cases "v = []")
    case False
    with drop(1) [OF assms] drop(2) [of "rev v"] assms show ?thesis by (simp add: trim_quotes_def)
  qed (simp add: trim_quotes_def)
qed

lemma release_line_trim:
  assumes "release_entry kv"
  shows "TrimSpace (release_line kv) = release_line kv"
proof -
  obtain b k where k: "fst kv = b # k" "65 \<le> b" "b \<le> 95" using assms by (cases "fst kv") (auto simp: release_entry_def)
  have "drop_any white (release_line kv) = release_line kv"
    by (rule drop_any_none) (use k upper_not_white [OF k(2,3)] in \<open>simp_all add: release_line_def\<close>)
  moreover have "drop_any (map rev white) (rev (release_line kv)) = rev (release_line kv)"
    by (rule drop_any_none) (use quote_not_white in \<open>simp_all add: release_line_def\<close>)
  ultimately show ?thesis by (simp only: TrimSpace_def rev_rev_ident)
qed

lemma release_line_parsed:
  assumes "release_entry kv"
  shows "os_release_line H (release_line kv) meta = meta(fst kv \<mapsto> ToLower H (snd kv))"
proof -
  obtain b k where k: "fst kv = b # k" "65 \<le> b" using assms by (cases "fst kv") (auto simp: release_entry_def)
  have key: "\<forall>c \<in> set (fst kv). c \<noteq> 61" using assms by (auto simp: release_entry_def list_all_iff)
  have "b \<noteq> 35" using k(2) by auto
  then have hd: "hd (release_line kv) \<noteq> 35" "release_line kv \<noteq> []" "61 \<in> set (release_line kv)"
    unfolding release_line_def k(1) by simp_all
  have split: "takeWhile (\<lambda>b. b \<noteq> 61) (release_line kv) = fst kv" "dropWhile (\<lambda>b. b \<noteq> 61) (release_line kv) = 61 # 34 # snd kv @ [34]"
    unfolding release_line_def using key by (simp_all add: takeWhile_append2 dropWhile_append2)
  have val: "trim_quotes (34 # snd kv @ [34]) = snd kv"
    by (rule trim_quoted) (use assms in \<open>simp add: release_entry_def list_all_iff\<close>)
  show ?thesis
    unfolding os_release_line_def Let_def release_line_trim [OF assms] split using hd val by simp
qed

lemma lines_of_line: "10 \<notin> set l \<Longrightarrow> lines_of (l @ 10 # rest) = l # lines_of rest"
  by (induction l) auto

text \<open>Reading what was written: every key has its last value, in lower case, and the rest is unknown.\<close>

lemma os_release_roundtrip:
  assumes "list_all release_entry kvs"
  shows "fold (os_release_line H) (lines_of (concat (map (\<lambda>kv. release_line kv @ [10]) kvs))) meta
    = fold (\<lambda>kv m. m(fst kv \<mapsto> ToLower H (snd kv))) kvs meta"
  using assms
proof (induction kvs arbitrary: meta)
  case Nil
  have "TrimSpace [] = []" by code_simp
  then show ?case by (simp add: os_release_line_def)
next
  case (Cons kv kvs)
  then have "10 \<notin> set (release_line kv)" by (auto simp: release_line_def release_entry_def list_all_iff)
  with Cons show ?case by (simp add: lines_of_line release_line_parsed del: fun_upd_apply)
qed


section \<open>Where the cache is\<close>

lemma components_suffix:
  "sep \<notin> set suf \<Longrightarrow> components (x @ suf) = butlast (components x) @ [last (components x) @ suf]"
proof (induction x)
  case Nil
  then show ?case by (simp add: components_plain)
next
  case (Cons b x)
  then obtain c cs where "components x = c # cs" by (cases "components x") auto
  with Cons show ?case by (cases cs) auto
qed

lemma join_snoc: "\<exists>x. join (cs @ [c]) = x @ c"
  by (induction cs rule: join.induct) auto

lemma Clean_last:
  assumes "components p = cs @ [c]" and "c \<notin> {[], dot, dotdot}" and "p \<noteq> []"
  shows "\<exists>x. Clean p = x @ c"
proof -
  have "resolve p = rev (fold (clean_step (rooted p)) cs []) @ [c]" using assms(1,2) by (simp add: resolve_def clean_step_def)
  with join_snoc [of "rev (fold (clean_step (rooted p)) cs [])" c] assms(3) show ?thesis
    by (auto simp: Clean_def render_def)
qed

lemma has_suffix_iff: "has_suffix s suf \<longleftrightarrow> (\<exists>x. s = x @ suf)"
proof
  assume "has_suffix s suf"
  then have "s = take (length s - length suf) s @ suf" unfolding has_suffix_def by (metis append_take_drop_id)
  then show "\<exists>x. s = x @ suf" by blast
qed (auto simp: has_suffix_def)

lemma cached_path_btf: "has_suffix (cached_path l info) (str ''.btf'')"
proof -
  let ?b = "KernelRelease info @ str ''.btf''"
  have plain: "sep \<notin> set (str ''.btf'')" by (simp add: str_def sep_def)
  have last: "\<exists>cs c. components (a @ ?b) = cs @ [c @ str ''.btf'']" for a
    using components_suffix [OF plain, of "a @ KernelRelease info"] by auto
  have name: "c @ str ''.btf'' \<notin> {[], dot, dotdot}" for c by (cases c) (auto simp: str_def dot_def dotdot_def)
  have "\<exists>x c. Clean (a @ ?b) = x @ c @ str ''.btf''" for a
  proof -
    obtain cs c where "components (a @ ?b) = cs @ [c @ str ''.btf'']" using last by blast
    from Clean_last [OF this name] show ?thesis by (auto simp: str_def)
  qed
  from this [of "[]"] this [of "cacheDir l @ [sep]"] show ?thesis
    unfolding cached_path_def Join_def has_suffix_iff by (auto simp: str_def)
qed

lemma other_names:
  "\<not> has_suffix systemBTFPath (str ''.btf'')" "\<not> has_suffix (str ''/etc/os-release'') (str ''.btf'')"
  "\<not> has_suffix (str ''/proc/sys/kernel/osrelease'') (str ''.btf'')"
  by (simp_all add: has_suffix_def systemBTFPath_def str_def)

lemma other_names_tmp:
  "\<not> has_suffix systemBTFPath (str ''.tmp'')" "\<not> has_suffix (str ''/etc/os-release'') (str ''.tmp'')"
  "\<not> has_suffix (str ''/proc/sys/kernel/osrelease'') (str ''.tmp'')"
  by (simp_all add: has_suffix_def systemBTFPath_def str_def)

lemma tmp_not_btf: "has_suffix p (str ''.tmp'') \<Longrightarrow> \<not> has_suffix p (str ''.btf'')"
  by (auto simp: has_suffix_def str_def)


section \<open>What changes\<close>

text \<open>\<open>os.CreateTemp\<close> makes a new file with the name it was asked for.\<close>

definition temp_names :: "'spec btf_host \<Rightarrow> bool" where
  "temp_names H \<longleftrightarrow>
     (\<forall>dir fs p. CreateTemp H dir fs = Inr p \<longrightarrow> fs p = None \<and> has_suffix p (str ''.tmp''))"

definition same_but :: "path set \<Rightarrow> file_map \<Rightarrow> file_map \<Rightarrow> bool" where
  "same_but ps fs fs' \<longleftrightarrow> (\<forall>q. q \<notin> ps \<longrightarrow> fs' q = fs q)"

lemma same_butI: "(\<And>q. q \<notin> ps \<Longrightarrow> fs' q = fs q) \<Longrightarrow> same_but ps fs fs'"
  by (auto simp: same_but_def)

lemma same_but_at: "same_but ps fs fs' \<Longrightarrow> q \<notin> ps \<Longrightarrow> fs' q = fs q"
  unfolding same_but_def by blast

text \<open>The temporary files that a download makes and cannot remove again.\<close>

definition stuck_temps :: "'spec btf_host \<Rightarrow> BTFLoader \<Rightarrow> file_map \<Rightarrow> path set" where
  "stuck_temps H l fs = {tmp. CreateTemp H (cacheDir l) fs = Inr tmp \<and> Remove_error H tmp \<noteq> None}"

lemma writeFileFromTar_frame: "q \<noteq> p \<Longrightarrow> snd (writeFileFromTar H p hdr fs) q = fs q"
  by (auto simp: writeFileFromTar_def copy_into_def split: option.splits prod.splits)

lemma extract_frame: "q \<noteq> dest \<Longrightarrow> snd (extractBTFArchive H archive dest fs) q = fs q"
proof -
  assume "q \<noteq> dest"
  then have "snd (extract_loop H dest hdrs err fs) q = fs q" for hdrs err
    by (induction hdrs) (auto simp: writeFileFromTar_frame split: option.splits)
  then show ?thesis by (simp add: extractBTFArchive_def split: sum.splits prod.splits)
qed

lemma fill_cache_frame: "q \<noteq> dest \<Longrightarrow> q \<noteq> tmp \<Longrightarrow> snd (fill_cache H url tmp dest resp fs) q = fs q"
proof -
  assume q: "q \<noteq> dest" "q \<noteq> tmp"
  have "snd (copy_into H tmp d err fs') q = fs' q" for d err fs'
    using q by (simp add: copy_into_def split: prod.splits)
  moreover have "snd (extractBTFArchive H tmp dest fs') q = fs' q" for fs' using q by (simp add: extract_frame)
  ultimately show ?thesis using q
    by (auto simp: fill_cache_def split: option.splits prod.splits sum.splits) (metis fun_upd_other snd_conv)+
qed

lemma download_effects:
  assumes "temp_names H"
  shows "case downloadAndCache H l info dest st of (r, st') \<Rightarrow>
    st' = st \<or> requests st' = requests st @ [buildBTFHubURL (baseURL l) info] \<and> fs_dirs st' = fs_dirs st
      \<and> same_but (insert dest (stuck_temps H l (fs_files st))) (fs_files st) (fs_files st')"
proof -
  have frame: "same_but (insert dest (stuck_temps H l fs)) fs (remove_temp H tmp (snd (fill_cache H url tmp dest resp fs)))"
    if "CreateTemp H (cacheDir l) fs = Inr tmp" for fs tmp url resp
  proof (rule same_butI)
    fix q assume q: "q \<notin> insert dest (stuck_temps H l fs)"
    moreover have "fs tmp = None" using assms(1) that by (simp add: temp_names_def)
    ultimately show "remove_temp H tmp (snd (fill_cache H url tmp dest resp fs)) q = fs q"
      using that fill_cache_frame [of q dest tmp H url resp fs] by (cases "q = tmp") (auto simp: remove_temp_def stuck_temps_def)
  qed
  show ?thesis
    by (auto simp: downloadAndCache_def Let_def same_but_def [of _ "fs_files st" "fs_files st"]
        split: option.splits sum.splits prod.splits dest: frame) (metis frame snd_conv)
qed

text \<open>
  C28: loading the types changes nothing when the kernel offers them itself.  Otherwise it makes no directory but
  those that lead to the cache, and it either leaves every file and sends no request, or it sends exactly one request, to the archive of the
  detected kernel, and changes no file but the cached one and a temporary file whose removal failed; the latter only when
  downloads are allowed and no cached file was found.
\<close>

theorem load_spec_effects:
  assumes "temp_names H" and "LoadSpec H (Some l) st = (r, st')"
  shows "st' = st \<or>
    (\<exists>e. btf_LoadSpec H (fs_files st) systemBTFPath = Inl e
       \<and> fs_dirs st \<subseteq> fs_dirs st' \<and> fs_dirs st' \<subseteq> fs_dirs st \<union> set (dir_chain (cacheDir l))
       \<and> (fs_files st' = fs_files st \<and> requests st' = requests st
          \<or> (\<exists>info. detectKernelInfo H (fs_files st) = Inr info \<and> allowDownload l
               \<and> \<not> (stat_error H (cached_path l info) = None \<and> fs_files st (cached_path l info) \<noteq> None)
               \<and> requests st' = requests st @ [buildBTFHubURL (baseURL l) info]
               \<and> same_but (insert (cached_path l info) (stuck_temps H l (fs_files st))) (fs_files st) (fs_files st'))))"
proof (cases "btf_LoadSpec H (fs_files st) systemBTFPath")
  case (Inl e)
  obtain me dirs where m: "make_dirs H (cacheDir l) (fs_dirs st) = (me, dirs)" by fastforce
  then have dirs: "fs_dirs st \<subseteq> dirs" "dirs \<subseteq> fs_dirs st \<union> set (dir_chain (cacheDir l))"
    by (auto simp: make_dirs_def split: option.splits dest: in_set_takeD)
  show ?thesis
  proof (cases "detectKernelInfo H (fs_files st)")
    case (Inr info)
    have "st' = st\<lparr>fs_dirs := dirs\<rparr> \<or> (allowDownload l \<and> \<not> (stat_error H (cached_path l info) = None \<and> fs_files st (cached_path l info) \<noteq> None)
        \<and> st' = snd (downloadAndCache H l info (cached_path l info) (st\<lparr>fs_dirs := dirs\<rparr>)))"
      using assms(2) Inl Inr m by (auto simp: LoadSpec_def Let_def split: option.splits if_splits sum.splits prod.splits)
    with Inl Inr dirs download_effects [OF assms(1), where st = "st\<lparr>fs_dirs := dirs\<rparr>" and l = l and info = info and dest = "cached_path l info"]
    show ?thesis by (auto split: prod.splits)
  qed (use assms(2) Inl m dirs in \<open>auto simp: LoadSpec_def split: option.splits\<close>)
qed (use assms(2) in \<open>auto simp: LoadSpec_def\<close>)


section \<open>The cache afterwards\<close>

text \<open>The files that select the cached path are not the cached one.\<close>

lemma kept_information:
  assumes "same_but ps fs fs'" and "\<And>p. p \<in> ps \<Longrightarrow> has_suffix p (str ''.btf'') \<or> has_suffix p (str ''.tmp'')"
  shows "detectKernelInfo H fs' = detectKernelInfo H fs" and "btf_LoadSpec H fs' systemBTFPath = btf_LoadSpec H fs systemBTFPath"
proof -
  have "ReadFile H fs' q = ReadFile H fs q" if "\<not> has_suffix q (str ''.btf'')" "\<not> has_suffix q (str ''.tmp'')" for q
  proof -
    have "q \<notin> ps" using that assms(2) by auto
    then have "fs' q = fs q" by (rule same_but_at [OF assms(1)])
    then show ?thesis by (simp add: ReadFile_def cong: option.case_cong)
  qed
  with other_names other_names_tmp show "detectKernelInfo H fs' = detectKernelInfo H fs" and "btf_LoadSpec H fs' systemBTFPath = btf_LoadSpec H fs systemBTFPath"
    by (simp_all add: detectKernelInfo_def readTrimmed_def parseOSRelease_def btf_LoadSpec_def cong: sum.case_cong)
qed

text \<open>Neither the disk nor the network matters once there is a cached file.\<close>

lemma host_update:
  "detectKernelInfo (H\<lparr>disk := d, Do := g\<rparr>) fs = detectKernelInfo H fs" "btf_LoadSpec (H\<lparr>disk := d, Do := g\<rparr>) fs p = btf_LoadSpec H fs p"
proof -
  have "ReadFile (H\<lparr>disk := d, Do := g\<rparr>) fs = ReadFile H fs" by (simp add: ReadFile_def fun_eq_iff)
  moreover have "os_release_line (H\<lparr>disk := d, Do := g\<rparr>) = os_release_line H" by (simp add: os_release_line_def fun_eq_iff Let_def)
  ultimately show "detectKernelInfo (H\<lparr>disk := d, Do := g\<rparr>) fs = detectKernelInfo H fs"
    "btf_LoadSpec (H\<lparr>disk := d, Do := g\<rparr>) fs p = btf_LoadSpec H fs p"
    by (simp_all add: detectKernelInfo_def readTrimmed_def parseOSRelease_def btf_LoadSpec_def cong: sum.case_cong)
qed

lemma make_dirs_again:
  assumes "MkdirAll H p = None"
  shows "make_dirs H p dirs = (None, dirs \<union> set (dir_chain p))" "make_dirs (H\<lparr>disk := d, Do := g\<rparr>) p dirs = (None, dirs \<union> set (dir_chain p))"
  using assms by (simp_all add: make_dirs_def)

lemma cached_served:
  assumes "btf_LoadSpec H (fs_files st) systemBTFPath = Inl e" and "MkdirAll H (cacheDir l) = None"
    and "detectKernelInfo H (fs_files st) = Inr info" and "stat_error H = (\<lambda>p. None)"
    and "fs_files st (cached_path l info) = Some arr" and "set (dir_chain (cacheDir l)) \<subseteq> fs_dirs st"
  shows "LoadSpec (H\<lparr>disk := d, Do := g\<rparr>) (Some l) st = (spec_at H (fs_files st) (cached_path l info), st)"
  using assms(1-5) by (simp add: LoadSpec_def make_dirs_again Un_absorb2 [OF assms(6)] host_update Let_def spec_at_def)

text \<open>The states in which a download ended with a file in the cache.\<close>

lemma written_stays:
  "fst (writeFileFromTar H p hdr fs) = Inl (WriteCached e) \<Longrightarrow> \<exists>d. snd (writeFileFromTar H p hdr fs) p = Some (fst (disk H p d))"
  by (auto simp: writeFileFromTar_def copy_into_def split: option.splits prod.splits) (metis fst_conv)+

lemma extract_stays:
  assumes "fst (extractBTFArchive H archive dest fs) = Inl (WriteCached e)"
  shows "\<exists>d. snd (extractBTFArchive H archive dest fs) dest = Some (fst (disk H dest d))"
proof -
  have "fst (extract_loop H dest hdrs err fs) = Inl (WriteCached e) \<Longrightarrow>
      \<exists>d. snd (extract_loop H dest hdrs err fs) dest = Some (fst (disk H dest d))" for hdrs err
    by (induction hdrs) (auto simp: written_stays split: option.splits if_splits)
  with assms show ?thesis by (auto simp: extractBTFArchive_def split: sum.splits prod.splits)
qed

lemma download_stays:
  assumes "temp_names H" and "has_suffix dest (str ''.btf'')" and "downloadAndCache H l info dest st = (Inl (WriteCached e), st')"
  shows "\<exists>d. fs_files st' dest = Some (fst (disk H dest d))"
proof -
  from assms(3) obtain url tmp resp fs where t: "CreateTemp H (cacheDir l) (fs_files st) = Inr tmp"
    "fill_cache H url tmp dest resp (fs_files st) = (Inl (WriteCached e), fs)" "fs_files st' = remove_temp H tmp fs"
    by (auto simp: downloadAndCache_def Let_def split: option.splits sum.splits prod.splits if_splits)
  then have "tmp \<noteq> dest" using assms(1,2) tmp_not_btf by (auto simp: temp_names_def)
  moreover from t(2) obtain fs1 where "extractBTFArchive H tmp dest fs1 = (Inl (WriteCached e), fs)"
    by (auto simp: fill_cache_def split: option.splits sum.splits prod.splits if_splits)
  ultimately show ?thesis using t(3) extract_stays [of H tmp dest fs1 e] by (simp add: remove_temp_def)
qed

lemma download_to:
  "downloadAndCache H l info dest st = (Inr p, st') \<Longrightarrow> p = dest"
  by (auto simp: downloadAndCache_def fill_cache_def Let_def split: option.splits sum.splits prod.splits if_splits)

lemma download_kept:
  assumes "temp_names H" and "stat_error H = (\<lambda>p. None)" and "btf_LoadSpec H (fs_files st) systemBTFPath = Inl e0"
    and "MkdirAll H (cacheDir l) = None" and "detectKernelInfo H (fs_files st) = Inr info"
    and "downloadAndCache H l info (cached_path l info) (st\<lparr>fs_dirs := fs_dirs st \<union> set (dir_chain (cacheDir l))\<rparr>) = (r, st')"
    and "fs_files st' (cached_path l info) = Some arr"
  shows "LoadSpec (H\<lparr>disk := d, Do := g\<rparr>) (Some l) st' = (spec_at H (fs_files st') (cached_path l info), st')"
proof -
  have e: "same_but (insert (cached_path l info) (stuck_temps H l (fs_files st))) (fs_files st) (fs_files st')"
    and dirs: "set (dir_chain (cacheDir l)) \<subseteq> fs_dirs st'"
    using download_effects [OF assms(1), where st = "st\<lparr>fs_dirs := fs_dirs st \<union> set (dir_chain (cacheDir l))\<rparr>" and l = l and info = info and dest = "cached_path l info"] assms(6)
    by (auto simp: same_but_def)
  have names: "has_suffix p (str ''.btf'') \<or> has_suffix p (str ''.tmp'')" if "p \<in> insert (cached_path l info) (stuck_temps H l (fs_files st))" for p
    using that assms(1) cached_path_btf by (auto simp: stuck_temps_def temp_names_def)
  have kept: "detectKernelInfo H (fs_files st') = detectKernelInfo H (fs_files st)"
    "btf_LoadSpec H (fs_files st') systemBTFPath = btf_LoadSpec H (fs_files st) systemBTFPath"
    by (rule kept_information [OF e]; rule names; assumption)+
  show ?thesis by (rule cached_served [OF _ assms(4) _ assms(2,7) dirs]) (simp_all add: kept assms(3,5))
qed

text \<open>
  A specification that was loaded is loaded again from the same path, without a request and
  without a change, whatever became of the network and the disk in between.
\<close>

theorem loaded_spec_stays:
  assumes "temp_names H" and "stat_error H = (\<lambda>p. None)" and "LoadSpec H (Some l) st = (Inr sp, st')"
  shows "LoadSpec (H\<lparr>disk := d, Do := g\<rparr>) (Some l) st' = (Inr sp, st')"
proof (cases "btf_LoadSpec H (fs_files st) systemBTFPath")
  case (Inl e)
  from assms(3) Inl obtain info where i: "MkdirAll H (cacheDir l) = None" "detectKernelInfo H (fs_files st) = Inr info"
    by (auto simp: LoadSpec_def make_dirs_def Let_def split: option.splits sum.splits)
  note m = make_dirs_again(1) [OF i(1)]
  show ?thesis
  proof (cases "fs_files st (cached_path l info)")
    case (Some arr)
    let ?st = "st\<lparr>fs_dirs := fs_dirs st \<union> set (dir_chain (cacheDir l))\<rparr>"
    have "LoadSpec (H\<lparr>disk := d, Do := g\<rparr>) (Some l) ?st = (spec_at H (fs_files ?st) (cached_path l info), ?st)"
      by (rule cached_served [OF _ i(1) _ assms(2)]) (use Inl i Some in simp_all)
    with assms(2,3) Inl i Some m show ?thesis by (auto simp: LoadSpec_def Let_def)
  next
    case None
    with assms(3) Inl i m obtain p where dl: "downloadAndCache H l info (cached_path l info) (st\<lparr>fs_dirs := fs_dirs st \<union> set (dir_chain (cacheDir l))\<rparr>) = (Inr p, st')"
      and sp: "spec_at H (fs_files st') p = Inr sp"
      by (auto simp: LoadSpec_def Let_def split: if_splits sum.splits prod.splits)
    have p: "p = cached_path l info" by (rule download_to [OF dl])
    with sp obtain arr where "fs_files st' (cached_path l info) = Some arr"
      by (auto simp: spec_at_def btf_LoadSpec_def ReadFile_def split: sum.splits option.splits)
    from download_kept [OF assms(1,2) Inl i dl this] sp p show ?thesis by simp
  qed
next
  case (Inr s)
  with assms(3) show ?thesis by (auto simp: LoadSpec_def host_update)
qed

text \<open>
  C29: when the unpacking of a downloaded archive fails while the cached file is written, what arrived
  on the disk stays there, and every later load takes it for the types of the kernel: no request
  is sent any more, although network and disk may work again.
\<close>

theorem partial_download_stays:
  assumes "temp_names H" and "stat_error H = (\<lambda>p. None)" and "LoadSpec H (Some l) st = (Inl (WriteCached e), st')"
  shows "\<exists>info c. detectKernelInfo H (fs_files st) = Inr info
    \<and> fs_files st' (cached_path l info) = Some (fst (disk H (cached_path l info) c))
    \<and> LoadSpec (H\<lparr>disk := d, Do := g\<rparr>) (Some l) st' = (spec_at H (fs_files st') (cached_path l info), st')"
proof -
  have norm: "normalizeArch a \<noteq> Inl (WriteCached e)" for a by (simp add: normalizeArch_def)
  then have info: "detectKernelInfo H fs \<noteq> Inl (WriteCached e)" for fs
    by (auto simp: detectKernelInfo_def Let_def split: sum.splits)
  from assms(3) info obtain e0 inf where i: "btf_LoadSpec H (fs_files st) systemBTFPath = Inl e0" "MkdirAll H (cacheDir l) = None"
    "detectKernelInfo H (fs_files st) = Inr inf"
    by (auto simp: LoadSpec_def make_dirs_def Let_def split: option.splits sum.splits)
  with assms(3) have dl: "downloadAndCache H l inf (cached_path l inf) (st\<lparr>fs_dirs := fs_dirs st \<union> set (dir_chain (cacheDir l))\<rparr>) = (Inl (WriteCached e), st')"
    by (auto simp: LoadSpec_def make_dirs_again Let_def spec_at_def split: if_splits sum.splits prod.splits)
  from download_stays [OF assms(1) cached_path_btf dl]
  obtain c where c: "fs_files st' (cached_path l inf) = Some (fst (disk H (cached_path l inf) c))" by blast
  from download_kept [OF assms(1,2) i dl c] c i(3) show ?thesis by blast
qed

text \<open>A host that has the types of its kernel in an archive only; \<open>room\<close> is what its disk can take.\<close>

definition demo_btf_host :: "nat \<Rightarrow> nat btf_host" where
  "demo_btf_host room = \<lparr>GOARCH = ''amd64'', ToLower = id, MkdirAll = (\<lambda>p. None), deny = (\<lambda>p. None), stat_error = (\<lambda>p. None),
     Create = (\<lambda>p. None),
     CreateTemp = (\<lambda>dir fs. let p = str ''/c/btfhub-1.tmp'' in if fs p = None then Inr p else Inl ''exists''),
     disk = (\<lambda>p d. (take room d, if length d \<le> room then None else Some ''no space'')),
     Close_error = (\<lambda>p. None), Rename_error = (\<lambda>p. None), Remove_error = (\<lambda>p. None), Chmod_error = (\<lambda>p m. None), NewRequest = (\<lambda>u. None),
     Do = (\<lambda>u. Inr \<lparr>StatusCode = 200, Body = [5], Body_error = None\<rparr>),
     xz_tar = (\<lambda>d. Inr ([\<lparr>hdr_Name = str ''k.btf'', hdr_Mode = 420, hdr_data = [8, 9], hdr_error = None\<rparr>], None)),
     parse_spec = (\<lambda>d. if length d = 2 then Inr 7 else Inl ''truncated'')\<rparr>"

definition demo_loader :: BTFLoader where
  "demo_loader = \<lparr>cacheDir = str ''/c'', allowDownload = True, baseURL = str ''http://m''\<rparr>"

definition demo_files :: btf_state where
  "demo_files = \<lparr>fs_files = [str ''/proc/sys/kernel/osrelease'' \<mapsto> str ''6.1'', str ''/etc/os-release'' \<mapsto> str ''ID=x''], fs_dirs = {}, requests = []\<rparr>"

lemma demo_btf_host_laws: "temp_names (demo_btf_host room)" "stat_error (demo_btf_host room) = (\<lambda>p. None)"
  by (auto simp: temp_names_def demo_btf_host_def Let_def has_suffix_def str_def split: if_splits)

lemma demo_trim: "TrimSpace (str ''6.1'') = str ''6.1''" "TrimSpace (str ''ID=x'') = str ''ID=x''"
  by code_simp+

lemma demo_info:
  "detectKernelInfo (demo_btf_host room) (fs_files demo_files)
     = Inr \<lparr>Distro = str ''x'', VersionID = str ''unknown'', KernelRelease = str ''6.1'', Arch = str ''x86_64''\<rparr>"
proof -
  have "parseOSRelease (demo_btf_host room) (fs_files demo_files) (str ''ID'') = Some (str ''x'')"
    "parseOSRelease (demo_btf_host room) (fs_files demo_files) (str ''VERSION_ID'') = Some (str ''unknown'')"
    unfolding parseOSRelease_def ReadFile_def demo_btf_host_def demo_files_def by code_simp+
  then show ?thesis
    by (simp add: detectKernelInfo_def readTrimmed_def ReadFile_def demo_files_def demo_btf_host_def normalizeArch_def demo_trim Let_def) (simp add: str_def)
qed

definition demo_kernel_info :: kernelInfo where
  "demo_kernel_info = \<lparr>Distro = str ''x'', VersionID = str ''unknown'', KernelRelease = str ''6.1'', Arch = str ''x86_64''\<rparr>"

definition demo_cache :: "nat \<Rightarrow> btf_state" where
  "demo_cache room = demo_files\<lparr>fs_dirs := {str ''/c''}, fs_files := (fs_files demo_files)(str ''/c/6.1.btf'' \<mapsto> take room [8, 9]),
     requests := [str ''http://m/x/unknown/x86_64/6.1.btf.tar.xz'']\<rparr>"

lemma demo_names:
  "cached_path demo_loader demo_kernel_info = str ''/c/6.1.btf''"
  "buildBTFHubURL (baseURL demo_loader) demo_kernel_info = str ''http://m/x/unknown/x86_64/6.1.btf.tar.xz''"
  by code_simp+

lemma demo_download:
  assumes "0 < room"
  shows "downloadAndCache (demo_btf_host room) demo_loader demo_kernel_info (str ''/c/6.1.btf'') (demo_files\<lparr>fs_dirs := {str ''/c''}\<rparr>) =
    (if 2 \<le> room then Inr (str ''/c/6.1.btf'') else Inl (WriteCached ''no space''), demo_cache room)"
proof -
  have names: "\<not> has_suffix (str ''http://m/x/unknown/x86_64/6.1.btf.tar.xz'') (str ''.btf'')" "has_suffix (str ''k.btf'') (str ''.btf'')"
    "str ''/c/btfhub-1.tmp'' \<noteq> str ''/c/6.1.btf''" "fs_files demo_files (str ''/c/btfhub-1.tmp'') = None" "requests demo_files = []"
    by (simp_all add: has_suffix_def str_def demo_files_def)
  have "(fs_files demo_files)(str ''/c/btfhub-1.tmp'' \<mapsto> x, str ''/c/6.1.btf'' \<mapsto> y, str ''/c/btfhub-1.tmp'' := None)
      = (fs_files demo_files)(str ''/c/6.1.btf'' \<mapsto> y)" for x y
    using names(3,4) by (auto simp: fun_eq_iff)
  with names assms show ?thesis
    by (simp add: downloadAndCache_def fill_cache_def copy_into_def extractBTFArchive_def ReadFile_def writeFileFromTar_def
        remove_temp_def demo_names Let_def demo_btf_host_def demo_cache_def)
qed

lemma demo_load:
  assumes "0 < room"
  shows "LoadSpec (demo_btf_host room) (Some demo_loader) demo_files =
    (if 2 \<le> room then Inr (7, str ''/c/6.1.btf'') else Inl (WriteCached ''no space''), demo_cache room)"
proof -
  have sys: "btf_LoadSpec (demo_btf_host room) (fs_files demo_files) systemBTFPath = Inl ''no such file or directory''"
    and none: "fs_files demo_files (str ''/c/6.1.btf'') = None" and ok: "MkdirAll (demo_btf_host room) (cacheDir demo_loader) = None" "allowDownload demo_loader"
    by (simp_all add: btf_LoadSpec_def ReadFile_def demo_btf_host_def demo_files_def demo_loader_def systemBTFPath_def str_def)
  have "2 \<le> room \<Longrightarrow> spec_at (demo_btf_host room) (fs_files (demo_cache room)) (str ''/c/6.1.btf'') = Inr (7, str ''/c/6.1.btf'')"
    by (simp add: spec_at_def btf_LoadSpec_def ReadFile_def demo_cache_def) (simp add: demo_btf_host_def)
  moreover have "fs_dirs demo_files \<union> set (dir_chain (cacheDir demo_loader)) = {str ''/c''}" by code_simp
  ultimately show ?thesis using sys none ok demo_download [OF assms]
    by (simp add: LoadSpec_def make_dirs_again demo_info demo_kernel_info_def [symmetric] demo_names Let_def)
qed

lemma demo_load_short:
  "LoadSpec (demo_btf_host 1) (Some demo_loader) demo_files = (Inl (WriteCached ''no space''), demo_cache 1)"
  using demo_load [of 1] by simp

theorem load_spec_effects_witness:
  "requests (demo_cache 2) = requests demo_files @ [buildBTFHubURL (baseURL demo_loader) demo_kernel_info]
   \<and> same_but (insert (cached_path demo_loader demo_kernel_info) (stuck_temps (demo_btf_host 2) demo_loader (fs_files demo_files)))
       (fs_files demo_files) (fs_files (demo_cache 2))"
proof -
  have "requests (demo_cache 2) \<noteq> requests demo_files" "demo_cache 2 \<noteq> demo_files" by (auto simp: demo_cache_def demo_files_def)
  with load_spec_effects [OF demo_btf_host_laws(1) demo_load [of 2, simplified]] show ?thesis
    by (auto simp: demo_info demo_kernel_info_def [symmetric])
qed

theorem loaded_spec_stays_witness:
  "LoadSpec ((demo_btf_host 2)\<lparr>disk := \<lambda>p d. ([], Some ''broken''), Do := \<lambda>u. Inl ''offline''\<rparr>) (Some demo_loader) (demo_cache 2)
     = (Inr (7, str ''/c/6.1.btf''), demo_cache 2)"
  by (rule loaded_spec_stays [OF demo_btf_host_laws demo_load [of 2, simplified]])

theorem partial_download_stays_witness:
  "fs_files (demo_cache 1) (str ''/c/6.1.btf'') = Some [8]
   \<and> LoadSpec (demo_btf_host 2) (Some demo_loader) (demo_cache 1) = (Inl (SpecFailed (str ''/c/6.1.btf'') ''truncated''), demo_cache 1)"
proof -
  have h: "(demo_btf_host 1)\<lparr>disk := disk (demo_btf_host 2), Do := Do (demo_btf_host 2)\<rparr> = demo_btf_host 2" by (simp add: demo_btf_host_def)
  have "spec_at (demo_btf_host 1) (fs_files (demo_cache 1)) (str ''/c/6.1.btf'') = Inl (SpecFailed (str ''/c/6.1.btf'') ''truncated'')"
    by (simp add: spec_at_def btf_LoadSpec_def ReadFile_def demo_cache_def) (simp add: demo_btf_host_def)
  moreover have "fs_files (demo_cache 1) (str ''/c/6.1.btf'') = Some [8]" by (simp add: demo_cache_def)
  moreover obtain info where "detectKernelInfo (demo_btf_host 1) (fs_files demo_files) = Inr info"
    "LoadSpec (demo_btf_host 2) (Some demo_loader) (demo_cache 1) =
      (spec_at (demo_btf_host 1) (fs_files (demo_cache 1)) (cached_path demo_loader info), demo_cache 1)"
    using partial_download_stays [OF demo_btf_host_laws demo_load_short, where d = "disk (demo_btf_host 2)" and g = "Do (demo_btf_host 2)"]
    unfolding h by blast
  moreover from this(1) have "info = demo_kernel_info" by (simp add: demo_info demo_kernel_info_def)
  ultimately show ?thesis by (simp only: demo_names simp_thms)
qed

end
