(* ===== verification/Manager.thy ===== *)
theory Manager
  imports Decode Btf_Loader
begin

text \<open>
  The eBPF manager of \<open>src/pkg/ebpf/manager_linux.go\<close> and \<open>bpf_objects_linux.go\<close>: construction of a manager with the types that
  the loader of \<open>Btf_Loader\<close> finds and the embedded programs or those of a file, with its links and ring buffer
  readers, and its release.  The eBPF library is an argument that hands out kernel handles; \<open>opened\<close> is the set of handles
  that are open.

  Shown here: a construction that fails leaves nothing open, one that succeeds has loaded the programs against the types of
  the loader and has attached a write probe and a reader, and closing a manager closes everything it opened.
\<close>

section \<open>Objects\<close>

type_synonym handle = nat

record bpfObjects =
  Events :: "handle option"
  LifecycleEvents :: "handle option"
  FentryVfsWrite :: "handle option"
  FentryVfsWritev :: "handle option"
  HandleSchedExec :: "handle option"

text \<open>
  The calls of the library: a collection is read from the bytes of an object file and loaded with the types of the kernel, if there are any; a tracing
  link, a tracepoint link and a reader of a map are handles.  \<open>diffkeeperObject\<close> is the object that the build embeds.
\<close>

record ('coll, 'spec) bpf_lib =
  diffkeeperObject :: "byte list"
  Open :: "byte list \<Rightarrow> string + byte list"
  LoadCollectionSpecFromReader :: "byte list \<Rightarrow> string + 'coll"
  LoadAndAssign :: "'coll \<Rightarrow> 'spec option \<Rightarrow> string + bpfObjects"
  lib_attach_tracing :: "handle \<Rightarrow> string + handle"
  lib_tracepoint :: "handle \<Rightarrow> string + handle"
  lib_new_reader :: "handle \<Rightarrow> string + handle"

record 'spec kernelManager =
  cfg :: EBPFConfig
  objs :: bpfObjects
  btfSpec :: "'spec option"
  links :: "handle list"
  sysEvents :: "handle option"
  lifecycle :: "handle option"
  events_cap :: int
  lifecycle_cap :: "int option"
  running :: bool
  opened :: "handle set"

datatype manager_error =
    NoConfig | BTFLoadFailed btf_error | EmbeddedEmpty | EmbeddedSpec string | LoadDiffkeeper string
  | OpenObject string | LoadSpecFailed string | AssignObjects string | NoWriteProbe | NoEventsMap | SyscallReader string
  | LifecycleReader string | NoLifecycleProgram | LifecycleTracepoint string | NoReader

definition obj_handles :: "bpfObjects \<Rightarrow> handle set" where
  "obj_handles ob =
     set_option (Events ob) \<union> set_option (LifecycleEvents ob) \<union> set_option (FentryVfsWrite ob)
     \<union> set_option (FentryVfsWritev ob) \<union> set_option (HandleSchedExec ob)"

definition lifecycle_wanted :: "'spec kernelManager \<Rightarrow> bool" where
  "lifecycle_wanted m \<longleftrightarrow> LifecycleTracing (cfg m) \<and> CollectLifecycle (cfg m)"


section \<open>Construction\<close>

definition loadEmbeddedSpec :: "('coll, 'spec) bpf_lib \<Rightarrow> manager_error + 'coll" where
  "loadEmbeddedSpec lib =
     (if diffkeeperObject lib = [] then Inl EmbeddedEmpty
      else case LoadCollectionSpecFromReader lib (diffkeeperObject lib) of Inl e \<Rightarrow> Inl (EmbeddedSpec e) | Inr c \<Rightarrow> Inr c)"

definition loadBpfObjects :: "('coll, 'spec) bpf_lib \<Rightarrow> 'spec option \<Rightarrow> manager_error + bpfObjects" where
  "loadBpfObjects lib opts =
     (case loadEmbeddedSpec lib of
        Inl e \<Rightarrow> Inl e
      | Inr c \<Rightarrow> (case LoadAndAssign lib c opts of Inl e \<Rightarrow> Inl (LoadDiffkeeper e) | Inr ob \<Rightarrow> Inr ob))"

text \<open>The objects that the configured program gives; the library assigns all of them or none.\<close>

definition program_objects :: "('coll, 'spec) bpf_lib \<Rightarrow> 'spec kernelManager \<Rightarrow> manager_error + bpfObjects" where
  "program_objects lib m =
     (if ProgramPath (cfg m) = [] then loadBpfObjects lib (btfSpec m)
      else case Open lib (LongPathname (ProgramPath (cfg m))) of
             Inl e \<Rightarrow> Inl (OpenObject e)
           | Inr f \<Rightarrow>
               (case LoadCollectionSpecFromReader lib f of
                  Inl e \<Rightarrow> Inl (LoadSpecFailed e)
                | Inr c \<Rightarrow> (case LoadAndAssign lib c (btfSpec m) of Inl e \<Rightarrow> Inl (AssignObjects e) | Inr ob \<Rightarrow> Inr ob)))"

definition loadObjects :: "('coll, 'spec) bpf_lib \<Rightarrow> 'spec kernelManager \<Rightarrow> (manager_error + unit) \<times> 'spec kernelManager" where
  "loadObjects lib m =
     (case program_objects lib m of
        Inl e \<Rightarrow> (Inl e, m)
      | Inr ob \<Rightarrow> (Inr (), m\<lparr>objs := ob, opened := opened m \<union> obj_handles ob\<rparr>))"

definition attach_probe :: "('coll, 'spec) bpf_lib \<Rightarrow> handle option \<Rightarrow> 'spec kernelManager \<times> nat \<Rightarrow> 'spec kernelManager \<times> nat" where
  "attach_probe lib prog ma =
     (case prog of
        None \<Rightarrow> ma
      | Some pr \<Rightarrow>
          (case lib_attach_tracing lib pr of
             Inl e \<Rightarrow> ma
           | Inr l \<Rightarrow> ((fst ma)\<lparr>links := links (fst ma) @ [l], opened := insert l (opened (fst ma))\<rparr>, Suc (snd ma))))"

definition attachSyscallProbes :: "('coll, 'spec) bpf_lib \<Rightarrow> 'spec kernelManager \<Rightarrow> (manager_error + unit) \<times> 'spec kernelManager" where
  "attachSyscallProbes lib m =
     (let (m', attached) = fold (attach_probe lib) [FentryVfsWrite (objs m), FentryVfsWritev (objs m)] (m, 0)
      in (if attached = 0 then Inl NoWriteProbe else Inr (), m'))"

definition setupReaders :: "('coll, 'spec) bpf_lib \<Rightarrow> 'spec kernelManager \<Rightarrow> (manager_error + unit) \<times> 'spec kernelManager" where
  "setupReaders lib m =
     (case Events (objs m) of
        None \<Rightarrow> (Inl NoEventsMap, m)
      | Some mp \<Rightarrow>
          (case lib_new_reader lib mp of
             Inl e \<Rightarrow> (Inl (SyscallReader e), m)
           | Inr r \<Rightarrow>
               (let m1 = m\<lparr>sysEvents := Some r, opened := insert r (opened m)\<rparr>
                in if lifecycle_wanted m1
                   then case LifecycleEvents (objs m1) of
                          None \<Rightarrow> (Inr (), m1)
                        | Some lm \<Rightarrow>
                            (case lib_new_reader lib lm of
                               Inl e \<Rightarrow> (Inl (LifecycleReader e), m1)
                             | Inr rb \<Rightarrow> (Inr (), m1\<lparr>lifecycle := Some rb, opened := insert rb (opened m1)\<rparr>))
                   else (Inr (), m1))))"

definition attachLifecycleTrace :: "('coll, 'spec) bpf_lib \<Rightarrow> 'spec kernelManager \<Rightarrow> (manager_error + unit) \<times> 'spec kernelManager" where
  "attachLifecycleTrace lib m =
     (case HandleSchedExec (objs m) of
        None \<Rightarrow> (Inl NoLifecycleProgram, m)
      | Some pr \<Rightarrow>
          (case lib_tracepoint lib pr of
             Inl e \<Rightarrow> (Inl (LifecycleTracepoint e), m)
           | Inr l \<Rightarrow> (Inr (), m\<lparr>links := links m @ [l], opened := insert l (opened m)\<rparr>)))"

text \<open>A failed lifecycle trace closes the channel and is not an error.\<close>

definition init_lifecycle :: "('coll, 'spec) bpf_lib \<Rightarrow> 'spec kernelManager \<Rightarrow> 'spec kernelManager" where
  "init_lifecycle lib m =
     (if lifecycle_wanted m
      then case attachLifecycleTrace lib m of
             (Inl e, m') \<Rightarrow> m'\<lparr>lifecycle_cap := None\<rparr>
           | (Inr u, m') \<Rightarrow> m'
      else m)"

definition manager_init :: "('coll, 'spec) bpf_lib \<Rightarrow> 'spec kernelManager \<Rightarrow> (manager_error + unit) \<times> 'spec kernelManager" where
  "manager_init lib m =
     (case loadObjects lib m of
        (Inl e, m1) \<Rightarrow> (Inl e, m1)
      | (Inr u, m1) \<Rightarrow>
          (case attachSyscallProbes lib m1 of
             (Inl e, m2) \<Rightarrow> (Inl e, m2)
           | (Inr u, m2) \<Rightarrow>
               (case setupReaders lib m2 of
                  (Inl e, m3) \<Rightarrow> (Inl e, m3)
                | (Inr u, m3) \<Rightarrow> (Inr (), init_lifecycle lib m3))))"

text \<open>The objects stay referenced after a close; the links do not.\<close>

definition manager_Close :: "'spec kernelManager \<Rightarrow> 'spec kernelManager" where
  "manager_Close m =
     m\<lparr>opened := opened m - (set_option (sysEvents m) \<union> set_option (lifecycle m) \<union> set (links m) \<union> obj_handles (objs m)),
       links := [], running := False\<rparr>"

definition no_objects :: bpfObjects where
  "no_objects = \<lparr>Events = None, LifecycleEvents = None, FentryVfsWrite = None, FentryVfsWritev = None, HandleSchedExec = None\<rparr>"

definition fresh_manager :: "EBPFConfig \<Rightarrow> 'spec option \<Rightarrow> 'spec kernelManager" where
  "fresh_manager c spec =
     \<lparr>cfg = c, objs = no_objects, btfSpec = spec, links = [], sysEvents = None, lifecycle = None, events_cap = max (EventBufferSize c) 1024,
      lifecycle_cap = (if LifecycleTracing c \<and> CollectLifecycle c then Some (max (LifecycleBufSize c) 64) else None),
      running = False, opened = {}\<rparr>"

text \<open>The types, when there is a loader.\<close>

definition manager_spec :: "'spec btf_host \<Rightarrow> BTFLoader option \<Rightarrow> btf_state \<Rightarrow> (manager_error + 'spec option) \<times> btf_state" where
  "manager_spec H loader st =
     (case loader of
        None \<Rightarrow> (Inr None, st)
      | Some l \<Rightarrow>
          (case LoadSpec H (Some l) st of
             (Inl e, st') \<Rightarrow> (Inl (BTFLoadFailed e), st')
           | (Inr (spec, src), st') \<Rightarrow> (Inr (Some spec), st')))"

text \<open>The result, the handles that are open afterwards, and the files and requests of the loader.\<close>

definition NewManager ::
  "('coll, 'spec) bpf_lib \<Rightarrow> 'spec btf_host \<Rightarrow> process \<Rightarrow> EBPFConfig option \<Rightarrow> btf_state
   \<Rightarrow> (manager_error + 'spec kernelManager) \<times> handle set \<times> btf_state" where
  "NewManager lib H P cfgo st =
     (case cfgo of
        None \<Rightarrow> (Inl NoConfig, {}, st)
      | Some c \<Rightarrow>
          (case manager_spec H (NewBTFLoader P (Some c)) st of
             (Inl e, st') \<Rightarrow> (Inl e, {}, st')
           | (Inr spec, st') \<Rightarrow>
               (case manager_init lib (fresh_manager c spec) of
                  (Inl e, m) \<Rightarrow> (Inl e, opened (manager_Close m), st')
                | (Inr u, m) \<Rightarrow> (Inr m, opened m, st'))))"


section \<open>Ownership\<close>

definition owned :: "'spec kernelManager \<Rightarrow> bool" where
  "owned m \<longleftrightarrow> opened m \<subseteq> set_option (sysEvents m) \<union> set_option (lifecycle m) \<union> set (links m) \<union> obj_handles (objs m)"

lemma owned_close: "owned m \<Longrightarrow> opened (manager_Close m) = {}"
  by (auto simp: owned_def manager_Close_def)

definition no_readers :: "'spec kernelManager \<Rightarrow> bool" where
  "no_readers m \<longleftrightarrow> sysEvents m = None \<and> lifecycle m = None"

lemma owned_load:
  "opened m = {} \<Longrightarrow> no_readers m \<Longrightarrow> owned (snd (loadObjects lib m)) \<and> no_readers (snd (loadObjects lib m))"
  by (auto simp: loadObjects_def owned_def no_readers_def split: sum.splits)

lemma owned_attach:
  assumes "owned m" and "no_readers m" and "attachSyscallProbes lib m = (r, m')"
  shows "owned m' \<and> no_readers m' \<and> (r = Inr () \<longrightarrow> links m' \<noteq> [])"
  using assms by (auto simp: attachSyscallProbes_def attach_probe_def owned_def no_readers_def Let_def split: option.splits sum.splits if_splits prod.splits)

lemma owned_readers:
  assumes "owned m" and "no_readers m" and "setupReaders lib m = (r, m')"
  shows "owned m' \<and> links m' = links m \<and> (r = Inr () \<longrightarrow> sysEvents m' \<noteq> None)"
  using assms by (auto simp: setupReaders_def owned_def no_readers_def Let_def split: option.splits sum.splits if_splits)

lemma owned_lifecycle:
  assumes "owned m"
  shows "owned (init_lifecycle lib m) \<and> set (links m) \<subseteq> set (links (init_lifecycle lib m)) \<and> sysEvents (init_lifecycle lib m) = sysEvents m"
  using assms by (auto simp: init_lifecycle_def attachLifecycleTrace_def owned_def split: option.splits sum.splits)

text \<open>Links and readers change neither the configuration nor the loaded objects.\<close>

definition loaded :: "'spec kernelManager \<Rightarrow> EBPFConfig \<times> 'spec option \<times> bpfObjects" where
  "loaded m = (cfg m, btfSpec m, objs m)"

lemma attach_loaded: "attachSyscallProbes lib m = (r, m') \<Longrightarrow> loaded m' = loaded m"
  by (auto simp: attachSyscallProbes_def attach_probe_def loaded_def Let_def split: option.splits sum.splits if_splits prod.splits)

lemma readers_loaded: "setupReaders lib m = (r, m') \<Longrightarrow> loaded m' = loaded m"
  by (auto simp: setupReaders_def loaded_def Let_def split: option.splits sum.splits if_splits)

lemma lifecycle_loaded: "loaded (init_lifecycle lib m) = loaded m"
  by (auto simp: init_lifecycle_def attachLifecycleTrace_def loaded_def split: option.splits sum.splits)

lemma init_owned:
  assumes "opened m = {}" and "no_readers m" and "manager_init lib m = (r, m')"
  shows "owned m' \<and> (r = Inr () \<longrightarrow> links m' \<noteq> [] \<and> sysEvents m' \<noteq> None \<and> loaded m' = loaded (snd (loadObjects lib m)) \<and> fst (loadObjects lib m) = Inr ())"
proof -
  obtain r1 m1 where 1: "loadObjects lib m = (r1, m1)" by fastforce
  obtain r2 m2 where 2: "attachSyscallProbes lib m1 = (r2, m2)" by fastforce
  obtain r3 m3 where 3: "setupReaders lib m2 = (r3, m3)" by fastforce
  have o1: "owned m1" "no_readers m1" using owned_load [OF assms(1,2), of lib] 1 by simp_all
  note o2 = owned_attach [OF o1 2]
  note o3 = owned_readers [OF o2 [THEN conjunct1] o2 [THEN conjunct2, THEN conjunct1] 3]
  note o4 = owned_lifecycle [OF o3 [THEN conjunct1], of lib]
  note same = attach_loaded [OF 2] readers_loaded [OF 3] lifecycle_loaded [of lib m3]
  show ?thesis
    using assms(3) o1 o2 o3 o4 same unfolding manager_init_def 1 2 3
    by (cases r1; cases r2; cases r3) (auto simp: 2 3)
qed

lemma loadObjects_program:
  assumes "fst (loadObjects lib m) = Inr ()" and "loaded m' = loaded (snd (loadObjects lib m))"
  shows "program_objects lib m' = Inr (objs m') \<and> btfSpec m' = btfSpec m"
proof -
  have "program_objects lib m' = program_objects lib m" if "cfg m' = cfg m" "btfSpec m' = btfSpec m"
    by (simp only: program_objects_def that)
  with assms show ?thesis by (auto simp: loadObjects_def loaded_def split: sum.splits)
qed

text \<open>
  C26: a construction that fails leaves no handle open; one that succeeds has loaded the configured programs with the types that
  the loader found, has at least one link and the reader of the write events, and closing the manager leaves no handle open.
  Files and requests are what the loader left.
\<close>

theorem manager_releases:
  "case NewManager lib H P cfgo st of
     (Inl e, left, st') \<Rightarrow> left = {} \<and> (st' = st \<or> st' = snd (LoadSpec H (NewBTFLoader P cfgo) st))
   | (Inr m, left, st') \<Rightarrow>
       links m \<noteq> [] \<and> sysEvents m \<noteq> None \<and> left = opened m \<and> opened (manager_Close m) = {}
       \<and> program_objects lib m = Inr (objs m)
       \<and> (\<exists>spec src. LoadSpec H (NewBTFLoader P cfgo) st = (Inr (spec, src), st') \<and> btfSpec m = Some spec)"
proof (cases cfgo)
  case (Some c)
  obtain l where l: "NewBTFLoader P (Some c) = Some l" by (auto simp: NewBTFLoader_def Let_def)
  show ?thesis
  proof (cases "LoadSpec H (Some l) st")
    case (Pair r st')
    show ?thesis
    proof (cases r)
      case (Inl e)
      with Pair show ?thesis by (simp add: NewManager_def manager_spec_def Some l)
    next
      case (Inr ss)
      obtain spec src where ss: "ss = (spec, src)" by fastforce
      obtain r' m where i: "manager_init lib (fresh_manager c (Some spec)) = (r', m)" by fastforce
      have "opened (fresh_manager c (Some spec)) = {}" "no_readers (fresh_manager c (Some spec))" by (simp_all add: fresh_manager_def no_readers_def)
      note o = init_owned [OF this i]
      have "r' = Inr () \<Longrightarrow> program_objects lib m = Inr (objs m) \<and> btfSpec m = Some spec"
        using o loadObjects_program [of lib "fresh_manager c (Some spec)" m] by (simp add: fresh_manager_def)
      with o owned_close [of m] Some i Pair Inr ss l show ?thesis
        by (cases r') (auto simp: NewManager_def manager_spec_def)
    qed
  qed
qed (simp add: NewManager_def)

end
