(* ===== verification/Consumer.thy ===== *)
theory Consumer
  imports Manager
begin

text \<open>
  The goroutines of the eBPF manager: \<open>Start\<close> starts a consumer that reads samples from a ring buffer,
  decodes them and sends the events to a channel, \<open>Close\<close> cancels its context and closes the reader.
  The kernel, the consumers, the client and the calls of \<open>Start\<close> and \<open>Close\<close> interleave as steps on one
  state.  The consumers of the two ring buffers differ in how they end: the one of the write events
  closes its channel; the one of the lifecycle events looks whether the field of the channel is nil, closes what the field then
  has, and makes it nil, three steps that no lock holds together (\<open>guarded\<close>).  Sending to a closed channel, closing it again and
  closing nil panic; sending to nil blocks.

  Shown here: unless it is started again after it was closed, nothing panics, and the client gets the decoded samples
  in the order in which the kernel submitted them, with at most the event in flight lost when the
  manager is closed; calling \<open>Start\<close> again after \<open>Close\<close> can panic, for the write events and for the lifecycle events.
\<close>

section \<open>State\<close>

text \<open>
  A consumer before its read; with an event before its \<open>select\<close>; in the \<open>select\<close> on the channel or on nil; and
  where it returns: before the deferred call, between the test and the close, between the close and the assignment
  of nil, and at its end.  The flag says that its context is cancelled.
\<close>

datatype 'e worker = Reading bool | Decoded bool 'e | Sending bool 'e | Stuck bool 'e | Leaving | Checked | Unset | Exited

text \<open>\<open>submitted\<close> and \<open>seen\<close> are the samples the kernel submitted and those that were read, with the time of decoding.\<close>

record 'e consumer =
  cs_running :: bool
  ring :: "byte list list"
  reader_closed :: bool
  workers :: "'e worker list"
  channel :: "'e list"
  chan_closed :: bool
  chan_nil :: bool
  panicked :: bool
  submitted :: "byte list list"
  seen :: "(int \<times> byte list) list"
  received :: "'e list"

definition consumer_start :: "'e consumer" where
  "consumer_start =
     \<lparr>cs_running = False, ring = [], reader_closed = False, workers = [], channel = [], chan_closed = False, chan_nil = False,
      panicked = False, submitted = [], seen = [], received = []\<rparr>"

fun cancel_worker :: "'e worker \<Rightarrow> 'e worker" where
  "cancel_worker (Reading c) = Reading True"
| "cancel_worker (Decoded c e) = Decoded True e"
| "cancel_worker (Sending c e) = Sending True e"
| "cancel_worker (Stuck c e) = Stuck True e"
| "cancel_worker w = w"


section \<open>Operations\<close>

definition manager_Start :: "bool \<Rightarrow> 'e consumer \<Rightarrow> 'e consumer" where
  "manager_Start guarded s =
     (if cs_running s then s
      else s\<lparr>cs_running := True, workers := (if guarded \<and> chan_nil s then workers s else workers s @ [Reading False])\<rparr>)"

text \<open>\<open>Close\<close> cancels the context of the last \<open>Start\<close>.\<close>

definition close_consumer :: "'e consumer \<Rightarrow> 'e consumer" where
  "close_consumer s =
     s\<lparr>reader_closed := True, cs_running := False,
       workers := (if workers s = [] then [] else butlast (workers s) @ [cancel_worker (last (workers s))])\<rparr>"

text \<open>The built-in \<open>close\<close> of a channel: what a consumer does next, unless it panics.\<close>

definition close_chan :: "nat \<Rightarrow> 'e worker \<Rightarrow> 'e consumer \<Rightarrow> 'e consumer" where
  "close_chan i w s =
     (if chan_nil s \<or> chan_closed s then s\<lparr>panicked := True\<rparr> else s\<lparr>workers := (workers s)[i := w], chan_closed := True\<rparr>)"

text \<open>The deferred call of a consumer, one access to the field at a time.\<close>

fun closeLifecycleChan :: "nat \<Rightarrow> 'e worker \<Rightarrow> 'e consumer \<Rightarrow> 'e consumer" where
  "closeLifecycleChan i Leaving s = s\<lparr>workers := (workers s)[i := (if chan_nil s then Exited else Checked)]\<rparr>"
| "closeLifecycleChan i Checked s = close_chan i Unset s"
| "closeLifecycleChan i Unset s = s\<lparr>workers := (workers s)[i := Exited], chan_nil := True\<rparr>"
| "closeLifecycleChan i w s = s"

definition finish :: "bool \<Rightarrow> nat \<Rightarrow> 'e consumer \<Rightarrow> 'e consumer" where
  "finish guarded i s = (if guarded then closeLifecycleChan i (workers s ! i) s else close_chan i Exited s)"

definition take_sample ::
  "(int \<Rightarrow> byte list \<Rightarrow> go_io_error + 'e) \<Rightarrow> int \<Rightarrow> nat \<Rightarrow> bool \<Rightarrow> byte list \<Rightarrow> byte list list \<Rightarrow> 'e consumer \<Rightarrow> 'e consumer" where
  "take_sample decode now i c raw rest s =
     s\<lparr>ring := rest, seen := seen s @ [(now, raw)],
       workers := (workers s)[i := (case decode now raw of Inl e \<Rightarrow> Reading c | Inr ev \<Rightarrow> Decoded c ev)]\<rparr>"

inductive consumer_step ::
  "(int \<Rightarrow> byte list \<Rightarrow> go_io_error + 'e) \<Rightarrow> bool \<Rightarrow> nat \<Rightarrow> 'e consumer \<Rightarrow> 'e consumer \<Rightarrow> bool"
  for decode :: "int \<Rightarrow> byte list \<Rightarrow> go_io_error + 'e" and guarded :: bool and cap :: nat where
  submit: "\<not> panicked s \<Longrightarrow> consumer_step decode guarded cap s (s\<lparr>ring := ring s @ [raw], submitted := submitted s @ [raw]\<rparr>)"
| start: "\<not> panicked s \<Longrightarrow> consumer_step decode guarded cap s (manager_Start guarded s)"
| close: "\<not> panicked s \<Longrightarrow> consumer_step decode guarded cap s (close_consumer s)"
| cancel: "\<not> panicked s \<Longrightarrow> consumer_step decode guarded cap s (s\<lparr>workers := map cancel_worker (workers s)\<rparr>)"
| receive: "\<not> panicked s \<Longrightarrow> channel s = e # es \<Longrightarrow>
    consumer_step decode guarded cap s (s\<lparr>channel := es, received := received s @ [e]\<rparr>)"
| read: "\<not> panicked s \<Longrightarrow> i < length (workers s) \<Longrightarrow> workers s ! i = Reading c \<Longrightarrow> \<not> reader_closed s \<Longrightarrow> ring s = raw # rest \<Longrightarrow>
    consumer_step decode guarded cap s (take_sample decode now i c raw rest s)"
| read_ends: "\<not> panicked s \<Longrightarrow> i < length (workers s) \<Longrightarrow> workers s ! i = Reading c \<Longrightarrow> reader_closed s \<or> c \<Longrightarrow>
    consumer_step decode guarded cap s (s\<lparr>workers := (workers s)[i := Leaving]\<rparr>)"
| select: "\<not> panicked s \<Longrightarrow> i < length (workers s) \<Longrightarrow> workers s ! i = Decoded c ev \<Longrightarrow>
    consumer_step decode guarded cap s (s\<lparr>workers := (workers s)[i := (if chan_nil s then Stuck c ev else Sending c ev)]\<rparr>)"
| send: "\<not> panicked s \<Longrightarrow> i < length (workers s) \<Longrightarrow> workers s ! i = Sending c ev \<Longrightarrow> \<not> chan_closed s \<Longrightarrow> length (channel s) < cap \<Longrightarrow>
    consumer_step decode guarded cap s (s\<lparr>channel := channel s @ [ev], workers := (workers s)[i := Reading c]\<rparr>)"
| send_closed: "\<not> panicked s \<Longrightarrow> i < length (workers s) \<Longrightarrow> workers s ! i = Sending c ev \<Longrightarrow> chan_closed s \<Longrightarrow>
    consumer_step decode guarded cap s (s\<lparr>panicked := True\<rparr>)"
| send_ends: "\<not> panicked s \<Longrightarrow> i < length (workers s) \<Longrightarrow> workers s ! i \<in> {Sending True ev, Stuck True ev} \<Longrightarrow>
    consumer_step decode guarded cap s (s\<lparr>workers := (workers s)[i := Leaving]\<rparr>)"
| ends: "\<not> panicked s \<Longrightarrow> i < length (workers s) \<Longrightarrow> workers s ! i \<in> {Leaving, Checked, Unset} \<Longrightarrow>
    consumer_step decode guarded cap s (finish guarded i s)"

inductive_cases consumer_stepE: "consumer_step decode guarded cap s s'"

text \<open>The two consumers of the manager.\<close>

definition consumeSyscallEvents :: "nat \<Rightarrow> Event consumer \<Rightarrow> Event consumer \<Rightarrow> bool" where
  "consumeSyscallEvents cap = consumer_step decodeSyscallEvent False cap"

definition consumeLifecycleEvents :: "nat \<Rightarrow> LifecycleEvent consumer \<Rightarrow> LifecycleEvent consumer \<Rightarrow> bool" where
  "consumeLifecycleEvents cap = consumer_step decodeLifecycleEvent True cap"


section \<open>One consumer\<close>

definition decoded :: "(int \<Rightarrow> byte list \<Rightarrow> go_io_error + 'e) \<Rightarrow> (int \<times> byte list) list \<Rightarrow> 'e list" where
  "decoded decode rs = List.map_filter (\<lambda>(now, raw). case decode now raw of Inl e \<Rightarrow> None | Inr ev \<Rightarrow> Some ev) rs"

lemma decoded_snoc:
  "decoded decode (rs @ [(now, raw)]) = decoded decode rs @ (case decode now raw of Inl e \<Rightarrow> [] | Inr ev \<Rightarrow> [ev])"
  by (auto simp: decoded_def List.map_filter_def split: sum.splits)

text \<open>Where the events read so far are.\<close>

fun held :: "'e worker \<Rightarrow> 'e list \<Rightarrow> 'e list \<Rightarrow> bool" where
  "held (Reading c) es ds = (es = ds)"
| "held (Decoded c e) es ds = (es @ [e] = ds)"
| "held (Sending c e) es ds = (es @ [e] = ds)"
| "held (Stuck c e) es ds = (es @ [e] = ds)"
| "held w es ds = (es = ds \<or> (\<exists>e. es @ [e] = ds))"

fun accounted :: "'e worker list \<Rightarrow> 'e list \<Rightarrow> 'e list \<Rightarrow> bool" where
  "accounted [] es ds = (es = [] \<and> ds = [])"
| "accounted [w] es ds = held w es ds"
| "accounted (w # x # ws) es ds = False"

text \<open>With a single consumer the channel is closed and the field is nil only when the consumer did so.\<close>

definition single :: "(int \<Rightarrow> byte list \<Rightarrow> go_io_error + 'e) \<Rightarrow> nat \<Rightarrow> 'e consumer \<Rightarrow> bool" where
  "single decode cap s \<longleftrightarrow>
     \<not> panicked s \<and> (chan_closed s \<longrightarrow> workers s = [Unset] \<or> workers s = [Exited]) \<and> (chan_nil s \<longrightarrow> workers s = [Exited]) \<and> length (channel s) \<le> cap \<and>
     map snd (seen s) @ ring s = submitted s \<and> accounted (workers s) (received s @ channel s) (decoded decode (seen s))"

lemma held_any: "held w es ds \<Longrightarrow> es = ds \<or> (\<exists>e. es @ [e] = ds)"
  by (cases w) auto

lemma accounted_one: "accounted ws es ds \<Longrightarrow> i < length ws \<Longrightarrow> i = 0 \<and> ws = [ws ! 0]"
  by (cases "(ws, es, ds)" rule: accounted.cases) auto

lemma single_one: "single decode cap s \<Longrightarrow> i < length (workers s) \<Longrightarrow> workers s ! i = w \<Longrightarrow> i = 0 \<and> workers s = [w]"
  using accounted_one unfolding single_def by metis

lemma held_cancel: "held (cancel_worker w) es ds = held w es ds"
  by (cases w) auto

lemma accounted_cancel: "accounted (map cancel_worker ws) es ds = accounted ws es ds"
  by (cases "(ws, es, ds)" rule: accounted.cases) (auto simp: held_cancel)

lemma accounted_close:
  "accounted ws es ds \<Longrightarrow> accounted (if ws = [] then [] else butlast ws @ [cancel_worker (last ws)]) es ds"
  by (cases "(ws, es, ds)" rule: accounted.cases) (auto simp: held_cancel)

lemma single_leave:
  assumes "single decode cap s" and "i < length (workers s)" and "workers s ! i \<noteq> Unset" and "workers s ! i \<noteq> Exited"
  shows "single decode cap (s\<lparr>workers := (workers s)[i := Leaving]\<rparr>)"
proof -
  obtain w where w: "i = 0" "workers s = [w]" using single_one [OF assms(1,2) refl] by blast
  with assms held_any [of w "received s @ channel s" "decoded decode (seen s)"] show ?thesis by (simp add: single_def)
qed

lemma single_finish:
  assumes "single decode cap s" and "i < length (workers s)" and "workers s ! i \<in> {Leaving, Checked, Unset}" and "\<not> guarded \<Longrightarrow> workers s ! i = Leaving"
  shows "single decode cap (finish guarded i s)"
proof -
  obtain w where w: "i = 0" "workers s = [w]" "w = Leaving \<or> w = Checked \<or> w = Unset" using single_one [OF assms(1,2) refl] assms(3) by fastforce
  with assms(1,4) show ?thesis by (elim disjE) (auto simp: single_def finish_def close_chan_def)
qed

text \<open>The consumer of the write events closes its channel in one step.\<close>

definition unsplit :: "bool \<Rightarrow> 'e consumer \<Rightarrow> bool" where
  "unsplit guarded s \<longleftrightarrow> guarded \<or> (Checked \<notin> set (workers s) \<and> Unset \<notin> set (workers s))"

lemma unsplit_worker: "unsplit guarded s \<Longrightarrow> i < length (workers s) \<Longrightarrow> \<not> guarded \<Longrightarrow> workers s ! i \<in> {Leaving, Checked, Unset} \<Longrightarrow> workers s ! i = Leaving"
  unfolding unsplit_def using nth_mem by fastforce

lemma cancel_worker_eq [simp]: "cancel_worker w = Checked \<longleftrightarrow> w = Checked" "cancel_worker w = Unset \<longleftrightarrow> w = Unset"
  "Checked = cancel_worker w \<longleftrightarrow> w = Checked" "Unset = cancel_worker w \<longleftrightarrow> w = Unset"
  by (cases w; simp)+

lemma unsplit_update: "unsplit guarded s \<Longrightarrow> w \<noteq> Checked \<Longrightarrow> w \<noteq> Unset \<Longrightarrow> workers t = (workers s)[i := w] \<Longrightarrow> unsplit guarded t"
  unfolding unsplit_def using set_update_subset_insert [of "workers s" i w] by auto

lemma unsplit_step: "consumer_step decode guarded cap s s' \<Longrightarrow> unsplit guarded s \<Longrightarrow> unsplit guarded s'"
proof (induction rule: consumer_step.induct)
  case (start s)
  then show ?case by (auto simp: unsplit_def manager_Start_def)
next
  case (close s)
  then show ?case by (cases "workers s" rule: rev_cases) (auto simp: unsplit_def close_consumer_def)
next
  case (cancel s)
  then show ?case by (auto simp: unsplit_def)
next
  case (read s i c raw rest now)
  show ?case by (rule unsplit_update [OF read.prems, where i = i and w = "case decode now raw of Inl e \<Rightarrow> Reading c | Inr ev \<Rightarrow> Decoded c ev"])
      (auto simp: take_sample_def split: sum.splits)
next
  case (select s i c ev)
  show ?case by (rule unsplit_update [OF select.prems, where i = i and w = "if chan_nil s then Stuck c ev else Sending c ev"]) auto
next
  case (send s i c ev)
  show ?case by (rule unsplit_update [OF send.prems, where i = i and w = "Reading c"]) auto
next
  case (read_ends s i c)
  show ?case by (rule unsplit_update [OF read_ends.prems, where i = i and w = Leaving]) auto
next
  case (send_ends s i ev)
  show ?case by (rule unsplit_update [OF send_ends.prems, where i = i and w = Leaving]) auto
next
  case (ends s i)
  show ?case
  proof (cases guarded)
    case False
    with ends.prems set_update_subset_insert [of "workers s" i Exited] show ?thesis by (auto simp: unsplit_def finish_def close_chan_def)
  qed (simp add: unsplit_def)
qed (simp_all add: unsplit_def)

lemma single_step:
  assumes "consumer_step decode guarded cap s s'" and "single decode cap s" and "unsplit guarded s" and "length (workers s') \<le> 1"
  shows "single decode cap s'"
  using assms(1)
proof (cases rule: consumer_step.cases)
  case (submit raw)
  with assms(2) show ?thesis by (simp add: single_def)
next
  case start
  then show ?thesis using assms(2,4) by (cases "workers s") (auto simp: single_def manager_Start_def split: if_splits)
next
  case close
  with assms(2) accounted_close [of "workers s" "received s @ channel s" "decoded decode (seen s)"] show ?thesis
    by (auto simp: single_def close_consumer_def split: if_splits)
next
  case cancel
  with assms(2) show ?thesis by (auto simp: single_def accounted_cancel)
next
  case (receive e es)
  with assms(2) show ?thesis by (simp add: single_def)
next
  case (read i c raw rest now)
  with single_one [OF assms(2) read(3,4)] assms(2) show ?thesis
    by (auto simp: single_def take_sample_def decoded_snoc split: sum.splits)
next
  case (select i c ev)
  with single_one [OF assms(2) select(3,4)] assms(2) show ?thesis by (auto simp: single_def)
next
  case (read_ends i c)
  with single_leave [OF assms(2) read_ends(3)] show ?thesis by simp
next
  case (send i c ev)
  with single_one [OF assms(2) send(3,4)] assms(2) show ?thesis by (auto simp: single_def)
next
  case (send_closed i c ev)
  with single_one [OF assms(2) send_closed(3,4)] assms(2) show ?thesis by (auto simp: single_def)
next
  case (send_ends i ev)
  with single_leave [OF assms(2) send_ends(3)] show ?thesis by auto
next
  case (ends i)
  with single_finish [OF assms(2) ends(3,4) unsplit_worker [OF assms(3) ends(3) _ ends(4)]] show ?thesis by simp
qed

lemma workers_grow: "consumer_step decode guarded cap s s' \<Longrightarrow> length (workers s) \<le> length (workers s')"
proof (induction rule: consumer_step.induct)
  case (ends s i)
  then show ?case by (elim insertE) (auto simp: finish_def close_chan_def)
qed (auto simp: manager_Start_def close_consumer_def take_sample_def)

interpretation one: invariant_of "consumer_step decode guarded cap"
    "\<lambda>s. unsplit guarded s \<and> (length (workers s) \<le> 1 \<longrightarrow> single decode cap s)" consumer_start
  for decode guarded cap
proof
  fix s t :: "'a consumer"
  assume st: "consumer_step decode guarded cap s t" and i: "unsplit guarded s \<and> (length (workers s) \<le> 1 \<longrightarrow> single decode cap s)"
  have "single decode cap t" if "length (workers t) \<le> 1"
    using single_step [OF st _ _ that] i workers_grow [OF st] that by (meson order_trans)
  with unsplit_step [OF st] i show "unsplit guarded t \<and> (length (workers t) \<le> 1 \<longrightarrow> single decode cap t)" by blast
qed (simp add: single_def unsplit_def consumer_start_def decoded_def List.map_filter_def)

text \<open>Until the manager is closed it runs at most one consumer: \<open>Start\<close> of a running manager does nothing.\<close>

interpretation until_closed: invariant_of "consumer_step decode guarded cap"
    "\<lambda>s. reader_closed s \<or> (if cs_running s then length (workers s) \<le> 1 else workers s = [])" consumer_start
  for decode guarded cap
proof
  fix s t :: "'a consumer"
  assume "consumer_step decode guarded cap s t" and "reader_closed s \<or> (if cs_running s then length (workers s) \<le> 1 else workers s = [])"
  then show "reader_closed t \<or> (if cs_running t then length (workers t) \<le> 1 else workers t = [])"
  proof (cases rule: consumer_step.cases)
    case (ends i)
    then show ?thesis using \<open>reader_closed s \<or> _\<close> by (elim insertE) (auto simp: finish_def close_chan_def split: if_splits)
  qed (auto simp: manager_Start_def close_consumer_def take_sample_def split: if_splits)
qed (simp add: consumer_start_def)

lemma single_delivers:
  assumes "single decode cap s"
  shows "\<not> panicked s \<and> length (channel s) \<le> cap \<and> map snd (seen s) @ ring s = submitted s
    \<and> (\<exists>lost. length lost \<le> 1 \<and> received s @ channel s @ lost = decoded decode (seen s))"
proof -
  have "accounted (workers s) (received s @ channel s) (decoded decode (seen s))" using assms by (simp add: single_def)
  then have "received s @ channel s = decoded decode (seen s) \<or> (\<exists>e. received s @ channel s @ [e] = decoded decode (seen s))"
    by (cases "(workers s, received s @ channel s, decoded decode (seen s))" rule: accounted.cases) (use held_any in fastforce)+
  then have "\<exists>lost. length lost \<le> 1 \<and> received s @ channel s @ lost = decoded decode (seen s)"
    by (elim disjE exE) (rule exI [of _ "[]"], simp, rule exI [of _ "[_]"], simp)
  with assms show ?thesis by (simp add: single_def)
qed

text \<open>
  C23: in every state that a manager can reach before it is closed, however often it is started, and
  after it is closed unless it is started again, however the kernel, the consumer, the
  client and the calls of the manager interleave, the write events the client received, followed
  by those in the channel and at most one in flight, are the decoded samples in the order of
  submission, the samples read and those waiting are all that were submitted, the channel is within
  its capacity and nothing has panicked.
\<close>

theorem consumer_delivers:
  assumes "(consumeSyscallEvents cap)\<^sup>*\<^sup>* consumer_start s" and "reader_closed s \<Longrightarrow> length (workers s) \<le> 1"
  shows "\<not> panicked s \<and> length (channel s) \<le> cap \<and> map snd (seen s) @ ring s = submitted s
    \<and> (\<exists>lost. length lost \<le> 1 \<and> received s @ channel s @ lost = decoded decodeSyscallEvent (seen s))"
proof -
  note run = assms(1) [unfolded consumeSyscallEvents_def]
  have "length (workers s) \<le> 1" using assms(2) until_closed.reachable [OF run] by (auto split: if_splits)
  then show ?thesis using one.reachable [OF run] by (intro single_delivers) simp
qed

definition demo_sample :: "byte list" where
  "demo_sample = replicate 272 1"

definition demo_run :: "Event consumer" where
  "demo_run = take_sample decodeSyscallEvent 5 0 False demo_sample []
     ((manager_Start False consumer_start)\<lparr>ring := [demo_sample], submitted := [demo_sample]\<rparr>)"

lemma demo_run_reachable: "(consumeSyscallEvents cap)\<^sup>*\<^sup>* consumer_start demo_run"
proof -
  let ?s1 = "manager_Start False consumer_start :: Event consumer"
  let ?s2 = "?s1\<lparr>ring := [demo_sample], submitted := [demo_sample]\<rparr>"
  have "consumeSyscallEvents cap consumer_start ?s1"
    unfolding consumeSyscallEvents_def by (rule consumer_step.start) (simp add: consumer_start_def)
  moreover have "consumeSyscallEvents cap ?s1 ?s2"
    using consumer_step.submit [of ?s1 decodeSyscallEvent False cap demo_sample]
    by (simp add: consumeSyscallEvents_def manager_Start_def consumer_start_def)
  moreover have "consumeSyscallEvents cap ?s2 demo_run"
    unfolding consumeSyscallEvents_def demo_run_def
    by (rule consumer_step.read) (simp_all add: manager_Start_def consumer_start_def)
  ultimately show ?thesis by (meson converse_rtranclp_into_rtranclp rtranclp.rtrancl_refl)
qed

theorem consumer_delivers_witness:
  "map snd (seen demo_run) = [demo_sample] \<and>
   (\<exists>lost. length lost \<le> 1 \<and> received demo_run @ channel demo_run @ lost = decoded decodeSyscallEvent [(5, demo_sample)])"
  using consumer_delivers [OF demo_run_reachable [of 1]]
  by (simp add: demo_run_def take_sample_def manager_Start_def consumer_start_def split: sum.splits)


section \<open>The lifecycle events\<close>

text \<open>
  C24: the same for the lifecycle events, whose channel is closed in three steps and becomes nil: in every state that a
  manager can reach before it is closed, and after it is closed unless a second consumer was started, nothing has
  panicked, a closed channel is one that its only consumer closed on its way out, and the events received,
  those in the channel and at most one more are the decoded samples in their order.
\<close>

theorem lifecycle_delivers:
  assumes "(consumeLifecycleEvents cap)\<^sup>*\<^sup>* consumer_start s" and "reader_closed s \<Longrightarrow> length (workers s) \<le> 1"
  shows "\<not> panicked s \<and> length (channel s) \<le> cap \<and> map snd (seen s) @ ring s = submitted s
    \<and> (chan_closed s \<longrightarrow> workers s = [Unset] \<or> workers s = [Exited]) \<and> (chan_nil s \<longrightarrow> workers s = [Exited])
    \<and> (\<exists>lost. length lost \<le> 1 \<and> received s @ channel s @ lost = decoded decodeLifecycleEvent (seen s))"
proof -
  note run = assms(1) [unfolded consumeLifecycleEvents_def]
  have "length (workers s) \<le> 1" using assms(2) until_closed.reachable [OF run] by (auto split: if_splits)
  then have "single decodeLifecycleEvent cap s" using one.reachable [OF run] by simp
  from single_delivers [OF this] this show ?thesis by (simp add: single_def)
qed

lemma run_Cons: "r s t \<Longrightarrow> r\<^sup>*\<^sup>* t u \<Longrightarrow> r\<^sup>*\<^sup>* s u"
  by (rule converse_rtranclp_into_rtranclp)

text \<open>A consumer that is started, closed and gone.\<close>

definition demo_lifecycle :: "LifecycleEvent consumer" where
  "demo_lifecycle = finish True 0 (finish True 0 (finish True 0 ((close_consumer (manager_Start True consumer_start))\<lparr>workers := [Leaving]\<rparr>)))"

lemmas consumer_defs = manager_Start_def close_consumer_def finish_def close_chan_def consumer_start_def

lemma demo_lifecycle_reachable: "(consumeLifecycleEvents cap)\<^sup>*\<^sup>* consumer_start demo_lifecycle"
proof -
  let ?step = "consumeLifecycleEvents cap"
  let ?s1 = "manager_Start True consumer_start :: LifecycleEvent consumer"
  let ?s2 = "close_consumer ?s1"
  let ?s3 = "?s2\<lparr>workers := [Leaving]\<rparr>"
  have "?step consumer_start ?s1" unfolding consumeLifecycleEvents_def by (rule consumer_step.start) (simp add: consumer_defs)
  moreover have "?step ?s1 ?s2" unfolding consumeLifecycleEvents_def by (rule consumer_step.close) (simp add: consumer_defs)
  moreover have "?step ?s2 ?s3" unfolding consumeLifecycleEvents_def
    using consumer_step.read_ends [where i = 0 and c = True and s = ?s2] by (simp add: consumer_defs)
  moreover have "?step ?s3 (finish True 0 ?s3)" unfolding consumeLifecycleEvents_def by (rule consumer_step.ends) (simp_all add: consumer_defs)
  moreover have "?step (finish True 0 ?s3) (finish True 0 (finish True 0 ?s3))"
    unfolding consumeLifecycleEvents_def by (rule consumer_step.ends) (simp_all add: consumer_defs)
  moreover have "?step (finish True 0 (finish True 0 ?s3)) demo_lifecycle"
    unfolding consumeLifecycleEvents_def demo_lifecycle_def by (rule consumer_step.ends) (simp_all add: consumer_defs)
  ultimately show ?thesis by (blast intro: run_Cons rtranclp.rtrancl_refl)
qed

theorem lifecycle_delivers_witness:
  "\<not> panicked demo_lifecycle \<and> chan_closed demo_lifecycle \<and> chan_nil demo_lifecycle \<and> workers demo_lifecycle = [Exited]"
  using lifecycle_delivers [OF demo_lifecycle_reachable [of 1]] by (simp add: demo_lifecycle_def consumer_defs)


section \<open>Starting again\<close>

text \<open>
  C25: a manager that is closed and started again can panic, with no sample at all.  The reader stays closed, so that the second
  consumer of the write events ends at once and closes the channel that the first one closed.  Two
  consumers of the lifecycle events can both see a channel that is not nil before either closes it; then
  the second close panics too.
\<close>

theorem restart_panics:
  "(\<exists>s. (consumeSyscallEvents cap)\<^sup>*\<^sup>* consumer_start s \<and> submitted s = [] \<and> panicked s)
   \<and> (\<exists>s. (consumeLifecycleEvents cap)\<^sup>*\<^sup>* consumer_start s \<and> submitted s = [] \<and> panicked s)"
proof
  let ?again = "\<lambda>g. manager_Start g (close_consumer (manager_Start g consumer_start))"
  let ?left = "\<lambda>g. (?again g)\<lparr>workers := [Leaving, Leaving]\<rparr>"
  have run: "(consumer_step decode g cap)\<^sup>*\<^sup>* consumer_start (?left g)" for decode :: "int \<Rightarrow> byte list \<Rightarrow> go_io_error + 'a" and g
  proof -
    let ?step = "consumer_step decode g cap"
    let ?s1 = "manager_Start g consumer_start :: 'a consumer"
    let ?s2 = "close_consumer ?s1"
    have "?step consumer_start ?s1" by (rule consumer_step.start) (simp add: consumer_defs)
    moreover have "?step ?s1 ?s2" by (rule consumer_step.close) (simp add: consumer_defs)
    moreover have "?step ?s2 (?again g)" by (rule consumer_step.start) (simp add: consumer_defs)
    moreover have "?step (?again g) ((?again g)\<lparr>workers := [Leaving, Reading False]\<rparr>)"
      using consumer_step.read_ends [where i = 0 and c = True and s = "?again g"] by (simp add: consumer_defs)
    moreover have "?step ((?again g)\<lparr>workers := [Leaving, Reading False]\<rparr>) (?left g)"
      using consumer_step.read_ends [where i = 1 and c = False and s = "(?again g)\<lparr>workers := [Leaving, Reading False]\<rparr>"] by (simp add: consumer_defs)
    ultimately show ?thesis by (blast intro: run_Cons rtranclp.rtrancl_refl)
  qed
  have end_step: "consumer_step decode g cap s (finish g i s)" if "\<not> panicked s" "i < length (workers s)" "workers s ! i \<in> {Leaving, Checked, Unset}"
    for decode :: "int \<Rightarrow> byte list \<Rightarrow> go_io_error + 'a" and g i s
    using that by (rule consumer_step.ends)
  show "\<exists>s. (consumeSyscallEvents cap)\<^sup>*\<^sup>* consumer_start s \<and> submitted s = [] \<and> panicked s"
  proof (intro exI conjI)
    let ?s = "?left False :: Event consumer"
    show "(consumeSyscallEvents cap)\<^sup>*\<^sup>* consumer_start (finish False 1 (finish False 0 ?s))"
      unfolding consumeSyscallEvents_def
      by (rule rtranclp.rtrancl_into_rtrancl [OF rtranclp.rtrancl_into_rtrancl [OF run]]; rule end_step) (simp_all add: consumer_defs)
  qed (simp_all add: consumer_defs)
  show "\<exists>s. (consumeLifecycleEvents cap)\<^sup>*\<^sup>* consumer_start s \<and> submitted s = [] \<and> panicked s"
  proof (intro exI conjI)
    let ?s = "?left True :: LifecycleEvent consumer"
    show "(consumeLifecycleEvents cap)\<^sup>*\<^sup>* consumer_start (finish True 1 (finish True 0 (finish True 1 (finish True 0 ?s))))"
      unfolding consumeLifecycleEvents_def
      by (rule rtranclp.rtrancl_into_rtrancl [OF rtranclp.rtrancl_into_rtrancl [OF
          rtranclp.rtrancl_into_rtrancl [OF rtranclp.rtrancl_into_rtrancl [OF run]]]]; rule end_step) (simp_all add: consumer_defs)
  qed (simp_all add: consumer_defs)
qed

end
