(* ===== verification/Profiler.thy ===== *)
theory Profiler
  imports Config "HOL-Library.List_Lexorder"
begin

text \<open>
  \<open>src/pkg/ebpf/profiler.go\<close>: counts of writes per path, turned into an exponential moving average at
  every tick, and the paths whose average reaches the threshold handed to the manager.  The
  floating point unit is an argument.  The mutex makes every operation one step.

  Shown here: the order in which the runtime goes through the sample map does not matter, and the
  average of a path is that of its own windows with writes, whatever happens to other paths.  A
  window without a write leaves the average as it is.
\<close>

section \<open>The profiler\<close>

record fpu =
  f_mul :: "float64 \<Rightarrow> float64 \<Rightarrow> float64"
  f_add :: "float64 \<Rightarrow> float64 \<Rightarrow> float64"
  f_sub :: "float64 \<Rightarrow> float64 \<Rightarrow> float64"
  f_of_uint64 :: "u64 \<Rightarrow> float64"

record Profiler =
  has_sink :: bool
  interval :: int
  alpha :: float64
  threshold :: float64
  samples :: "byte list \<rightharpoonup> u64"
  estimates :: "byte list \<rightharpoonup> float64"

text \<open>\<open>None\<close> is the nil profiler and the nil configuration.\<close>

definition NewProfiler :: "EBPFConfig option \<Rightarrow> bool \<Rightarrow> Profiler option" where
  "NewProfiler cfgo sink =
     (case cfgo of
        None \<Rightarrow> None
      | Some cfg \<Rightarrow>
          if \<not> EnableProfiler cfg then None
          else Some \<lparr>has_sink = sink, interval = ProfilerInterval cfg, alpha = ProfilerAlpha cfg,
                     threshold = HotPathThreshold cfg, samples = Map.empty, estimates = Map.empty\<rparr>)"

definition Record :: "byte list \<Rightarrow> Profiler option \<Rightarrow> Profiler option" where
  "Record path po =
     (case po of
        None \<Rightarrow> None
      | Some p \<Rightarrow>
          if path = [] then Some p
          else Some (p\<lparr>samples := (samples p)(path \<mapsto> (case samples p path of None \<Rightarrow> 0 | Some n \<Rightarrow> n) + 1)\<rparr>))"

definition Snapshot :: "Profiler option \<Rightarrow> (byte list \<rightharpoonup> float64) option" where
  "Snapshot po = map_option estimates po"

definition ema :: "fpu \<Rightarrow> Profiler \<Rightarrow> u64 \<Rightarrow> float64 \<Rightarrow> float64" where
  "ema F p count prev = f_add F (f_mul F (alpha p) (f_of_uint64 F count)) (f_mul F (f_sub F (Fin 1) (alpha p)) prev)"

text \<open>One round of the loop over the samples, on the estimates and the hints.\<close>

definition flush_path ::
  "fpu \<Rightarrow> Profiler \<Rightarrow> byte list \<Rightarrow> (byte list \<rightharpoonup> float64) \<times> (byte list \<rightharpoonup> float64) \<Rightarrow> (byte list \<rightharpoonup> float64) \<times> (byte list \<rightharpoonup> float64)" where
  "flush_path F p path eh =
     (let prev = (case fst eh path of None \<Rightarrow> Fin 0 | Some e \<Rightarrow> e);
          current = ema F p (the (samples p path)) prev
      in ((fst eh)(path \<mapsto> current), if f_le (threshold p) current then (snd eh)(path \<mapsto> current) else snd eh))"

text \<open>The second component is the call of the sink, if there is one.\<close>

definition flush ::
  "fpu \<Rightarrow> ((byte list \<rightharpoonup> u64) \<Rightarrow> byte list list) \<Rightarrow> Profiler \<Rightarrow> Profiler \<times> (byte list \<rightharpoonup> float64) option" where
  "flush F range_order p =
     (if samples p = Map.empty then (p, None)
      else let (es, hints) = fold (flush_path F p) (range_order (samples p)) (estimates p, Map.empty)
           in (p\<lparr>estimates := es, samples := Map.empty\<rparr>,
               if hints \<noteq> Map.empty \<and> has_sink p then Some hints else None))"

definition Flush ::
  "fpu \<Rightarrow> ((byte list \<rightharpoonup> u64) \<Rightarrow> byte list list) \<Rightarrow> Profiler option \<Rightarrow> Profiler option \<times> (byte list \<rightharpoonup> float64) option" where
  "Flush F range_order po = (case po of None \<Rightarrow> (None, None) | Some p \<Rightarrow> apfst Some (flush F range_order p))"

text \<open>\<open>ApplyHotPathHints\<close> of the manager, on its map of hot paths.\<close>

definition ApplyHotPathHints :: "(byte list \<rightharpoonup> float64) \<Rightarrow> (byte list \<rightharpoonup> float64) \<Rightarrow> (byte list \<rightharpoonup> float64)" where
  "ApplyHotPathHints hints hotPaths = hotPaths ++ hints"


section \<open>Order of iteration\<close>

definition ranges_over :: "((byte list \<rightharpoonup> u64) \<Rightarrow> byte list list) \<Rightarrow> bool" where
  "ranges_over range_order \<longleftrightarrow> (\<forall>m. finite (dom m) \<longrightarrow> set (range_order m) = dom m \<and> distinct (range_order m))"

lemma fold_flush_path:
  assumes "distinct ps"
  shows "fold (flush_path F p) ps (es, hs) =
    ((\<lambda>q. if q \<in> set ps then Some (ema F p (the (samples p q)) (case es q of None \<Rightarrow> Fin 0 | Some e \<Rightarrow> e)) else es q),
     (\<lambda>q. if q \<in> set ps \<and> f_le (threshold p) (ema F p (the (samples p q)) (case es q of None \<Rightarrow> Fin 0 | Some e \<Rightarrow> e))
          then Some (ema F p (the (samples p q)) (case es q of None \<Rightarrow> Fin 0 | Some e \<Rightarrow> e)) else hs q))"
  using assms
proof (induction ps arbitrary: es hs)
  case (Cons q ps)
  let ?v = "\<lambda>r. ema F p (the (samples p r)) (case es r of None \<Rightarrow> Fin 0 | Some e \<Rightarrow> e)"
  have "flush_path F p q (es, hs) = (es(q \<mapsto> ?v q), if f_le (threshold p) (?v q) then hs(q \<mapsto> ?v q) else hs)"
    by (simp add: flush_path_def Let_def)
  with Cons show ?case by (auto simp: fun_eq_iff)
qed (auto simp: fun_eq_iff)

definition flushed :: "fpu \<Rightarrow> Profiler \<Rightarrow> byte list \<Rightarrow> float64 option" where
  "flushed F p q =
     (case samples p q of
        None \<Rightarrow> estimates p q
      | Some n \<Rightarrow> Some (ema F p n (case estimates p q of None \<Rightarrow> Fin 0 | Some e \<Rightarrow> e)))"

definition hinted :: "fpu \<Rightarrow> Profiler \<Rightarrow> byte list \<Rightarrow> float64 option" where
  "hinted F p q =
     (case samples p q of
        None \<Rightarrow> None
      | Some n \<Rightarrow> (let v = ema F p n (case estimates p q of None \<Rightarrow> Fin 0 | Some e \<Rightarrow> e)
                  in if f_le (threshold p) v then Some v else None))"

lemma flush_pointwise:
  assumes "ranges_over range_order" and "finite (dom (samples p))"
  shows "flush F range_order p =
    (p\<lparr>estimates := flushed F p, samples := Map.empty\<rparr>, if hinted F p \<noteq> Map.empty \<and> has_sink p then Some (hinted F p) else None)"
proof (cases "samples p = Map.empty")
  case True
  then have "flushed F p = estimates p" "hinted F p = Map.empty" by (simp_all add: flushed_def hinted_def fun_eq_iff)
  with True show ?thesis by (simp add: flush_def)
next
  case False
  have ps: "set (range_order (samples p)) = dom (samples p)" "distinct (range_order (samples p))"
    using assms by (auto simp: ranges_over_def)
  have "fold (flush_path F p) (range_order (samples p)) (estimates p, Map.empty) = (flushed F p, hinted F p)"
    unfolding fold_flush_path [OF ps(2)] ps(1)
    by (auto simp: fun_eq_iff flushed_def hinted_def Let_def dom_def split: option.splits)
  with False show ?thesis by (simp add: flush_def)
qed


section \<open>Histories\<close>

datatype prof_op = Write "byte list" | Tick

text \<open>The profiler with the manager's hot paths as its sink.\<close>

fun prof_step ::
  "fpu \<Rightarrow> ((byte list \<rightharpoonup> u64) \<Rightarrow> byte list list) \<Rightarrow> prof_op \<Rightarrow> Profiler option \<times> (byte list \<rightharpoonup> float64)
   \<Rightarrow> Profiler option \<times> (byte list \<rightharpoonup> float64)" where
  "prof_step F ro (Write q) (po, hot) = (Record q po, hot)"
| "prof_step F ro Tick (po, hot) =
     (case Flush F ro po of
        (po', None) \<Rightarrow> (po', hot)
      | (po', Some hints) \<Rightarrow> (po', ApplyHotPathHints hints hot))"

text \<open>What the profiler keeps for one path: its count, its average and the score it last reported.\<close>

type_synonym path_view = "u64 option \<times> float64 option \<times> float64 option"

definition view :: "byte list \<Rightarrow> Profiler \<times> (byte list \<rightharpoonup> float64) \<Rightarrow> path_view" where
  "view q ph = (samples (fst ph) q, estimates (fst ph) q, snd ph q)"

text \<open>A profiler of a single path.\<close>

fun path_step :: "fpu \<Rightarrow> Profiler \<Rightarrow> byte list \<Rightarrow> prof_op \<Rightarrow> path_view \<Rightarrow> path_view" where
  "path_step F p q (Write r) (n, e, h) =
     (if r = q \<and> r \<noteq> [] then (Some ((case n of None \<Rightarrow> 0 | Some k \<Rightarrow> k) + 1), e, h) else (n, e, h))"
| "path_step F p q Tick (n, e, h) =
     (case n of
        None \<Rightarrow> (None, e, h)
      | Some k \<Rightarrow>
          (let v = ema F p k (case e of None \<Rightarrow> Fin 0 | Some x \<Rightarrow> x)
           in (None, Some v, if f_le (threshold p) v \<and> has_sink p then Some v else h)))"

definition same_settings :: "Profiler \<Rightarrow> Profiler \<Rightarrow> bool" where
  "same_settings p p' \<longleftrightarrow> alpha p' = alpha p \<and> threshold p' = threshold p \<and> has_sink p' = has_sink p"

lemma prof_step_view:
  assumes "ranges_over ro" and "finite (dom (samples p))" and "same_settings p0 p"
  shows "\<exists>p' hot'. prof_step F ro op (Some p, hot) = (Some p', hot') \<and> finite (dom (samples p')) \<and> same_settings p0 p'
    \<and> view q (p', hot') = path_step F p0 q op (view q (p, hot))"
proof (cases op)
  case (Write r)
  with assms(2,3) show ?thesis by (auto simp: Record_def view_def same_settings_def)
next
  case Tick
  have e: "ema F p = ema F p0" using assms(3) by (simp add: fun_eq_iff ema_def same_settings_def)
  have flush: "prof_step F ro Tick (Some p, hot) =
      (Some (p\<lparr>estimates := flushed F p, samples := Map.empty\<rparr>), if has_sink p then hot ++ hinted F p else hot)"
    by (auto simp: Flush_def flush_pointwise [OF assms(1,2)] ApplyHotPathHints_def)
  have "view q (p\<lparr>estimates := flushed F p, samples := Map.empty\<rparr>, if has_sink p then hot ++ hinted F p else hot) =
      path_step F p0 q Tick (view q (p, hot))"
    using assms(3) by (auto simp: view_def flushed_def hinted_def e Let_def same_settings_def map_add_def split: option.splits)
  with Tick flush assms(3) show ?thesis by (simp add: same_settings_def)
qed

text \<open>
  C27: the profiler refines one independent profiler per path: after any sequence of writes and ticks,
  whatever order the runtime iterates in, what is kept and reported for a path is what a profiler
  of that path alone has.
\<close>

theorem profiler_per_path:
  assumes "ranges_over ro" and "finite (dom (samples p))"
  shows "\<exists>p' hot'. fold (prof_step F ro) ops (Some p, hot) = (Some p', hot')
    \<and> view q (p', hot') = fold (path_step F p q) ops (view q (p, hot))"
proof -
  have "finite (dom (samples r)) \<Longrightarrow> same_settings p r \<Longrightarrow>
      \<exists>p' hot'. fold (prof_step F ro) ops (Some r, hot) = (Some p', hot') \<and> view q (p', hot') = fold (path_step F p q) ops (view q (r, hot))"
    for r
  proof (induction ops arbitrary: r hot)
    case (Cons op ops)
    from prof_step_view [OF assms(1) Cons.prems, of F op hot q] obtain r' hot' where
      r': "prof_step F ro op (Some r, hot) = (Some r', hot')" "finite (dom (samples r'))" "same_settings p r'"
        "view q (r', hot') = path_step F p q op (view q (r, hot))"
      by blast
    from Cons.IH [OF r'(2,3), of hot'] r' show ?case by simp
  qed simp
  then show ?thesis using assms(2) by (simp add: same_settings_def)
qed

text \<open>A unit that computes with rationals, for small examples.\<close>

fun f_op :: "(rat \<Rightarrow> rat \<Rightarrow> rat) \<Rightarrow> float64 \<Rightarrow> float64 \<Rightarrow> float64" where
  "f_op g (Fin x) (Fin y) = Fin (g x y)"
| "f_op g x y = NaN"

definition exact_fpu :: fpu where
  "exact_fpu = \<lparr>f_mul = f_op (*), f_add = f_op (+), f_sub = f_op (-), f_of_uint64 = (\<lambda>n. Fin (of_nat (unat n)))\<rparr>"

definition demo_profiler :: Profiler where
  "demo_profiler = \<lparr>has_sink = True, interval = 1, alpha = Fin (1 / 2), threshold = Fin 1, samples = Map.empty, estimates = Map.empty\<rparr>"

definition sample_order :: "(byte list \<rightharpoonup> u64) \<Rightarrow> byte list list" where
  "sample_order m = sorted_list_of_set (dom m)"

theorem profiler_per_path_witness:
  "\<exists>p' hot'. fold (prof_step exact_fpu sample_order) [Write [7], Write [8], Write [7], Tick, Tick] (Some demo_profiler, Map.empty)
       = (Some p', hot')
     \<and> view [7] (p', hot') = (None, Some (Fin 1), Some (Fin 1))"
proof -
  let ?ops = "[Write [7], Write [8], Write [7], Tick, Tick]"
  have "ranges_over sample_order" by (simp add: ranges_over_def sample_order_def)
  moreover have "finite (dom (samples demo_profiler))" by (simp add: demo_profiler_def)
  moreover have "fold (path_step exact_fpu demo_profiler [7]) ?ops (view [7] (demo_profiler, Map.empty)) = (None, Some (Fin 1), Some (Fin 1))"
    by (simp add: view_def demo_profiler_def ema_def exact_fpu_def Let_def)
  ultimately show ?thesis using profiler_per_path [of sample_order demo_profiler exact_fpu ?ops Map.empty "[7]"] by metis
qed

end
