(* ===== verification/Diff.thy ===== *)
theory Diff
  imports Config
begin

text \<open>
  \<open>src/pkg/diff\<close>: binary patches with the empty-file cases of \<open>BsdiffEngine\<close>.  The \<open>bsdiff\<close> and \<open>bspatch\<close>
  packages are an argument; what they document is that a patch, which starts with a header and is
  never empty, turns the old data into the new.

  The locale \<open>diff_engine\<close> is the contract of the interface \<open>DiffEngine\<close>; it is interpreted on the
  engine that \<open>NewDiffEngine\<close> returns.
\<close>

section \<open>The interface\<close>

text \<open>The patches of a chain of versions, and the version they lead to.\<close>

fun patches :: "(byte list \<Rightarrow> byte list \<Rightarrow> 'e + byte list) \<Rightarrow> byte list \<Rightarrow> byte list list \<Rightarrow> 'e + byte list list" where
  "patches compute base [] = Inr []"
| "patches compute base (v # vs) =
     (case compute base v of
        Inl e \<Rightarrow> Inl e
      | Inr p \<Rightarrow> (case patches compute v vs of Inl e \<Rightarrow> Inl e | Inr ps \<Rightarrow> Inr (p # ps)))"

fun replay :: "(byte list \<Rightarrow> byte list \<Rightarrow> 'e + byte list) \<Rightarrow> byte list \<Rightarrow> byte list list \<Rightarrow> 'e + byte list" where
  "replay apply_patch base [] = Inr base"
| "replay apply_patch base (p # ps) = (case apply_patch base p of Inl e \<Rightarrow> Inl e | Inr v \<Rightarrow> replay apply_patch v ps)"

text \<open>\<open>lawful\<close> is what the engine relies on.\<close>

locale diff_engine =
  fixes lawful :: bool and compute :: "byte list \<Rightarrow> byte list \<Rightarrow> 'e + byte list" and apply_patch :: "byte list \<Rightarrow> byte list \<Rightarrow> 'e + byte list"
  assumes patch_applies: "lawful \<Longrightarrow> compute old new = Inr p \<Longrightarrow> apply_patch old p = Inr new"
begin

lemma replay_patches: "lawful \<Longrightarrow> patches compute base vs = Inr ps \<Longrightarrow> replay apply_patch base ps = Inr (last (base # vs))"
  by (induction vs arbitrary: base ps) (auto simp: patch_applies split: sum.splits)

end


section \<open>The engine\<close>

record bsdiff_lib =
  bsdiff_Bytes :: "byte list \<Rightarrow> byte list \<Rightarrow> string + byte list"
  bspatch_Bytes :: "byte list \<Rightarrow> byte list \<Rightarrow> string + byte list"

definition bsdiff_laws :: "bsdiff_lib \<Rightarrow> bool" where
  "bsdiff_laws L \<longleftrightarrow>
     (\<forall>old new p. bsdiff_Bytes L old new = Inr p \<longrightarrow> p \<noteq> [] \<and> bspatch_Bytes L old p = Inr new)"

datatype diff_error = XdeltaUnsupported | UnsupportedLibrary string | BsdiffFailed string | BspatchFailed string

definition ComputeDiff :: "bsdiff_lib \<Rightarrow> byte list \<Rightarrow> byte list \<Rightarrow> diff_error + byte list" where
  "ComputeDiff L oldData newData =
     (if length oldData = 0 \<and> length newData = 0 then Inr []
      else if length oldData = 0 then Inr newData
      else case bsdiff_Bytes L oldData newData of Inl e \<Rightarrow> Inl (BsdiffFailed e) | Inr patch \<Rightarrow> Inr patch)"

definition ApplyPatch :: "bsdiff_lib \<Rightarrow> byte list \<Rightarrow> byte list \<Rightarrow> diff_error + byte list" where
  "ApplyPatch L baseData patchData =
     (if length patchData = 0 then Inr baseData
      else if length baseData = 0 then Inr patchData
      else case bspatch_Bytes L baseData patchData of Inl e \<Rightarrow> Inl (BspatchFailed e) | Inr newData \<Rightarrow> Inr newData)"

record DiffEngine =
  engine_Name :: string
  engine_ComputeDiff :: "byte list \<Rightarrow> byte list \<Rightarrow> diff_error + byte list"
  engine_ApplyPatch :: "byte list \<Rightarrow> byte list \<Rightarrow> diff_error + byte list"

definition NewBsdiffEngine :: "bsdiff_lib \<Rightarrow> DiffEngine" where
  "NewBsdiffEngine L = \<lparr>engine_Name = ''bsdiff'', engine_ComputeDiff = ComputeDiff L, engine_ApplyPatch = ApplyPatch L\<rparr>"

definition NewDiffEngine :: "bsdiff_lib \<Rightarrow> string \<Rightarrow> diff_error + DiffEngine" where
  "NewDiffEngine L library =
     (if library = ''bsdiff'' then Inr (NewBsdiffEngine L)
      else if library = ''xdelta'' then Inl XdeltaUnsupported
      else Inl (UnsupportedLibrary library))"

record Stats =
  OldSize :: nat
  NewSize :: nat
  PatchSize :: nat
  CompressionRate :: float64

text \<open>\<open>f_div\<close> is the division of two lengths as floating point numbers.\<close>

definition ComputeStats :: "(nat \<Rightarrow> nat \<Rightarrow> float64) \<Rightarrow> byte list \<Rightarrow> byte list \<Rightarrow> byte list \<Rightarrow> Stats" where
  "ComputeStats f_div oldData newData patchData =
     \<lparr>OldSize = length oldData, NewSize = length newData, PatchSize = length patchData,
      CompressionRate = (if 0 < length newData then f_div (length patchData) (length newData) else Fin 0)\<rparr>"

interpretation bs: diff_engine "bsdiff_laws L" "ComputeDiff L" "ApplyPatch L" for L
  by unfold_locales (auto simp: bsdiff_laws_def ComputeDiff_def ApplyPatch_def split: sum.splits if_splits)

text \<open>
  C39: the patches that an engine returned by \<open>NewDiffEngine\<close> makes for a chain of versions rebuild the
  last version from the first, with empty versions anywhere in the chain.
\<close>

theorem engine_replays:
  assumes "bsdiff_laws L" and "NewDiffEngine L lib = Inr E" and "patches (engine_ComputeDiff E) base vs = Inr ps"
  shows "replay (engine_ApplyPatch E) base ps = Inr (last (base # vs))"
  using assms bs.replay_patches [OF assms(1)] by (auto simp: NewDiffEngine_def NewBsdiffEngine_def split: if_splits)

definition whole_file_lib :: bsdiff_lib where
  "whole_file_lib = \<lparr>bsdiff_Bytes = (\<lambda>old new. Inr (66 # new)), bspatch_Bytes = (\<lambda>old p. Inr (tl p))\<rparr>"

theorem engine_replays_witness:
  "replay (ApplyPatch whole_file_lib) [] [[1, 2], [66], [3]] = Inr [3]"
proof -
  have "bsdiff_laws whole_file_lib" by (simp add: bsdiff_laws_def whole_file_lib_def)
  moreover have "NewDiffEngine whole_file_lib ''bsdiff'' = Inr (NewBsdiffEngine whole_file_lib)" by (simp add: NewDiffEngine_def)
  moreover have "patches (engine_ComputeDiff (NewBsdiffEngine whole_file_lib)) [] [[1, 2], [], [3]] = Inr [[1, 2], [66], [3]]"
    by (simp add: NewBsdiffEngine_def ComputeDiff_def whole_file_lib_def)
  ultimately show ?thesis using engine_replays by (fastforce simp: NewBsdiffEngine_def)
qed

end
