(* ===== verification/Merkle.thy ===== *)
theory Merkle
  imports Go_Base
begin

text \<open>
  \<open>src/pkg/merkle/tree.go\<close>: Merkle trees over content identifiers, with their cache, and proofs that an
  identifier is in a tree.  The tree package and SHA-256 are arguments.  What the package documents of a
  Merkle path is a sibling hash per level and whether it stands right (1) or left (0) of the path;
  a node's hash is that of its two children's hashes; an identifier that is not in the tree has the empty path, without an error.

  Shown here: when \<open>VerifyProof\<close> accepts the proof that \<open>GenerateProof\<close> makes.  It always puts the sibling
  on the right, so that the proof of an identifier in the tree is accepted just when each of its siblings
  stands on the right or equals the node it is combined with; for an identifier that is not in the tree the empty proof
  is made, and it is accepted just when the root is the hash of the identifier.
\<close>

section \<open>The package\<close>

record 'tree merkle_lib =
  lib_sha256 :: "byte list \<Rightarrow> byte list"
  NewTree :: "byte list list \<Rightarrow> string + 'tree"
  MerkleRoot :: "'tree \<Rightarrow> byte list"
  lib_VerifyTree :: "'tree \<Rightarrow> string + bool"
  lib_VerifyContent :: "'tree \<Rightarrow> byte list \<Rightarrow> string + bool"
  GetMerklePath :: "'tree \<Rightarrow> byte list \<Rightarrow> string + byte list list \<times> int list"

datatype merkle_error =
    EmptyCIDs | BuildFailed string | NilTree | VerifyFailed string | ProofFailed string
  | TreeInvalid | RootMismatch "byte list" "byte list"

section \<open>The manager\<close>

record 'tree MerkleManager =
  treeCache :: "string \<rightharpoonup> 'tree"

definition NewMerkleManager :: "'tree MerkleManager" where
  "NewMerkleManager = \<lparr>treeCache = Map.empty\<rparr>"

text \<open>\<open>CalculateHash\<close> of a content: the hash of its identifier.\<close>

definition CalculateHash :: "'tree merkle_lib \<Rightarrow> byte list \<Rightarrow> byte list" where
  "CalculateHash L cid = lib_sha256 L cid"

definition BuildTree :: "'tree merkle_lib \<Rightarrow> byte list list \<Rightarrow> merkle_error + 'tree" where
  "BuildTree L cids =
     (if length cids = 0 then Inl EmptyCIDs
      else case NewTree L cids of Inl e \<Rightarrow> Inl (BuildFailed e) | Inr t \<Rightarrow> Inr t)"

definition GetRoot :: "'tree merkle_lib \<Rightarrow> 'tree option \<Rightarrow> byte list" where
  "GetRoot L tree = (case tree of None \<Rightarrow> [] | Some t \<Rightarrow> MerkleRoot L t)"

definition VerifyTree :: "'tree merkle_lib \<Rightarrow> 'tree option \<Rightarrow> merkle_error + bool" where
  "VerifyTree L tree =
     (case tree of
        None \<Rightarrow> Inl NilTree
      | Some t \<Rightarrow> (case lib_VerifyTree L t of Inl e \<Rightarrow> Inl (VerifyFailed e) | Inr b \<Rightarrow> Inr b))"

definition VerifyContent :: "'tree merkle_lib \<Rightarrow> 'tree option \<Rightarrow> byte list \<Rightarrow> merkle_error + bool" where
  "VerifyContent L tree cid =
     (case tree of
        None \<Rightarrow> Inl NilTree
      | Some t \<Rightarrow> (case lib_VerifyContent L t cid of Inl e \<Rightarrow> Inl (VerifyFailed e) | Inr b \<Rightarrow> Inr b))"

definition BuildAndCache ::
  "'tree merkle_lib \<Rightarrow> string \<Rightarrow> byte list list \<Rightarrow> 'tree MerkleManager \<Rightarrow> (merkle_error + 'tree) \<times> 'tree MerkleManager" where
  "BuildAndCache L key cids m =
     (case BuildTree L cids of
        Inl e \<Rightarrow> (Inl e, m)
      | Inr t \<Rightarrow> (Inr t, m\<lparr>treeCache := (treeCache m)(key \<mapsto> t)\<rparr>))"

definition GetCachedTree :: "string \<Rightarrow> 'tree MerkleManager \<Rightarrow> 'tree option" where
  "GetCachedTree key m = treeCache m key"

definition ClearCache :: "'tree MerkleManager \<Rightarrow> 'tree MerkleManager" where
  "ClearCache m = m\<lparr>treeCache := Map.empty\<rparr>"

definition RemoveFromCache :: "string \<Rightarrow> 'tree MerkleManager \<Rightarrow> 'tree MerkleManager" where
  "RemoveFromCache key m = m\<lparr>treeCache := (treeCache m)(key := None)\<rparr>"

fun bytesEqual_from :: "byte list \<Rightarrow> byte list \<Rightarrow> bool" where
  "bytesEqual_from (a # as) (b # bs) = (if a \<noteq> b then False else bytesEqual_from as bs)"
| "bytesEqual_from as bs = True"

definition bytesEqual :: "byte list \<Rightarrow> byte list \<Rightarrow> bool" where
  "bytesEqual a b = (if length a \<noteq> length b then False else bytesEqual_from a b)"

definition VerifyFileIntegrity :: "'tree merkle_lib \<Rightarrow> byte list list \<Rightarrow> byte list \<Rightarrow> merkle_error + unit" where
  "VerifyFileIntegrity L cids expectedRoot =
     (if length cids = 0 then Inl EmptyCIDs
      else case BuildTree L cids of
             Inl e \<Rightarrow> Inl e
           | Inr tree \<Rightarrow>
               (case VerifyTree L (Some tree) of
                  Inl e \<Rightarrow> Inl e
                | Inr valid \<Rightarrow>
                    if \<not> valid then Inl TreeInvalid
                    else if \<not> bytesEqual (GetRoot L (Some tree)) expectedRoot
                    then Inl (RootMismatch expectedRoot (GetRoot L (Some tree)))
                    else Inr ()))"

definition GenerateProof :: "'tree merkle_lib \<Rightarrow> 'tree option \<Rightarrow> byte list \<Rightarrow> merkle_error + byte list list" where
  "GenerateProof L tree cid =
     (case tree of
        None \<Rightarrow> Inl NilTree
      | Some t \<Rightarrow>
          (case GetMerklePath L t cid of Inl e \<Rightarrow> Inl (ProofFailed e) | Inr (path, indices) \<Rightarrow> Inr path))"

definition VerifyProof :: "'tree merkle_lib \<Rightarrow> 'tree option \<Rightarrow> byte list \<Rightarrow> byte list list \<Rightarrow> merkle_error + bool" where
  "VerifyProof L tree cid proof_path =
     (case tree of
        None \<Rightarrow> Inl NilTree
      | Some t \<Rightarrow>
          (let currentHash = fold (\<lambda>proofElement currentHash. lib_sha256 L (currentHash @ proofElement)) proof_path (CalculateHash L cid)
           in Inr (bytesEqual currentHash (GetRoot L (Some t)))))"


section \<open>Proofs of membership\<close>

lemma bytesEqual_eq [simp]: "bytesEqual a b \<longleftrightarrow> a = b"
proof -
  have "length a = length b \<Longrightarrow> bytesEqual_from a b \<longleftrightarrow> a = b"
    by (induction a b rule: bytesEqual_from.induct) auto
  then show ?thesis by (auto simp: bytesEqual_def)
qed

text \<open>The strings hashed at a level: in the order of the tree and in that of \<open>VerifyProof\<close>.\<close>

definition tree_order :: "int \<Rightarrow> byte list \<Rightarrow> byte list \<Rightarrow> byte list" where
  "tree_order i sibling node = (if i = 1 then node @ sibling else sibling @ node)"

fun path_root :: "(byte list \<Rightarrow> byte list) \<Rightarrow> byte list \<Rightarrow> (byte list \<times> int) list \<Rightarrow> byte list" where
  "path_root sha h [] = h"
| "path_root sha h ((s, i) # ps) = path_root sha (sha (tree_order i s h)) ps"

fun right_sided :: "(byte list \<Rightarrow> byte list) \<Rightarrow> byte list \<Rightarrow> (byte list \<times> int) list \<Rightarrow> bool" where
  "right_sided sha h [] = True"
| "right_sided sha h ((s, i) # ps) = ((i = 1 \<or> s = h) \<and> right_sided sha (sha (tree_order i s h)) ps)"

definition merkle_laws :: "'tree merkle_lib \<Rightarrow> bool" where
  "merkle_laws L \<longleftrightarrow>
     (\<forall>cids t cid. NewTree L cids = Inr t \<longrightarrow>
        (if cid \<in> set cids
         then \<exists>path idx. GetMerklePath L t cid = Inr (path, idx) \<and> length idx = length path
                \<and> MerkleRoot L t = path_root (lib_sha256 L) (lib_sha256 L cid) (zip path idx)
         else GetMerklePath L t cid = Inr ([], [])))"

text \<open>The strings hashed on the way from \<open>h\<close> in the tree and from \<open>g\<close> in \<open>VerifyProof\<close>.\<close>

fun hashed :: "(byte list \<Rightarrow> byte list) \<Rightarrow> byte list \<Rightarrow> byte list \<Rightarrow> (byte list \<times> int) list \<Rightarrow> byte list set" where
  "hashed sha h g [] = {}"
| "hashed sha h g ((s, i) # ps) = {tree_order i s h, g @ s} \<union> hashed sha (sha (tree_order i s h)) (sha (g @ s)) ps"

lemma path_root_eq:
  assumes "inj_on sha (hashed sha h g ps)" and "\<And>x. length (sha x) = n" and "\<forall>s \<in> set (map fst ps). length s = n"
    and "length h = n" and "length g = n"
  shows "fold (\<lambda>s c. sha (c @ s)) (map fst ps) g = path_root sha h ps \<longleftrightarrow> g = h \<and> right_sided sha h ps"
  using assms(1,3-5)
proof (induction ps arbitrary: h g)
  case (Cons si ps)
  obtain s i where si: "si = (s, i)" by fastforce
  let ?h = "sha (tree_order i s h)" and ?g = "sha (g @ s)"
  note inj = Cons.prems(1) [unfolded si hashed.simps]
  have "inj_on sha (hashed sha ?h ?g ps)" by (rule inj_on_subset [OF inj]) blast
  from Cons.IH [OF this] Cons.prems(2) assms(2)
  have IH: "fold (\<lambda>s c. sha (c @ s)) (map fst ps) ?g = path_root sha ?h ps \<longleftrightarrow> ?g = ?h \<and> right_sided sha ?h ps" by simp
  have "?g = ?h \<longleftrightarrow> g @ s = tree_order i s h" by (rule inj_on_eq_iff [OF inj]) simp_all
  also have "\<dots> \<longleftrightarrow> g = h \<and> (i = 1 \<or> s = h)"
    using Cons.prems(2-4) by (cases "i = 1") (auto simp: si tree_order_def append_eq_append_conv)
  finally show ?case using IH by (auto simp: si)
qed simp

text \<open>
  C40: for every identifier a proof is generated.  The proof of an identifier of the tree is accepted exactly when each sibling on
  its path stands on the right or equals its node, as long as the hashes on the way do not
  collide: the proofs of identifiers in a right subtree are rejected.  The proof of any other identifier is
  empty and is accepted exactly when the hash of the identifier is the root.
\<close>

theorem generated_proof_verdict:
  assumes "merkle_laws L" and "BuildTree L cids = Inr t" and "GetMerklePath L t cid = Inr (path, idx)"
    and "\<And>x. length (lib_sha256 L x) = n" and "list_all (\<lambda>s. length s = n) path"
    and "inj_on (lib_sha256 L) (hashed (lib_sha256 L) (lib_sha256 L cid) (lib_sha256 L cid) (zip path idx))"
  shows "GenerateProof L (Some t) cid = Inr path
    \<and> VerifyProof L (Some t) cid path =
        Inr (if cid \<in> set cids then right_sided (lib_sha256 L) (lib_sha256 L cid) (zip path idx) else lib_sha256 L cid = MerkleRoot L t)
    \<and> (cid \<notin> set cids \<longrightarrow> path = [])"
proof -
  note run = GenerateProof_def VerifyProof_def Let_def CalculateHash_def GetRoot_def assms(3)
  have new: "NewTree L cids = Inr t" using assms(2) by (auto simp: BuildTree_def split: if_splits sum.splits)
  show ?thesis
  proof (cases "cid \<in> set cids")
    case True
    with assms(1) new have "\<exists>path idx. GetMerklePath L t cid = Inr (path, idx) \<and> length idx = length path
        \<and> MerkleRoot L t = path_root (lib_sha256 L) (lib_sha256 L cid) (zip path idx)"
      unfolding merkle_laws_def by meson
    with assms(3) have len: "length idx = length path"
      and root: "MerkleRoot L t = path_root (lib_sha256 L) (lib_sha256 L cid) (zip path idx)" by auto
    have "map fst (zip path idx) = path" using len by simp
    with path_root_eq [OF assms(6,4)] assms(4,5)
    have "fold (\<lambda>s c. lib_sha256 L (c @ s)) path (lib_sha256 L cid) = path_root (lib_sha256 L) (lib_sha256 L cid) (zip path idx)
        \<longleftrightarrow> right_sided (lib_sha256 L) (lib_sha256 L cid) (zip path idx)"
      by (simp add: list_all_iff)
    then show ?thesis using True by (simp add: run root)
  next
    case False
    with assms(1) new have "GetMerklePath L t cid = Inr ([], [])" unfolding merkle_laws_def by meson
    with assms(3) have "path = []" by simp
    with False show ?thesis by (simp add: run)
  qed
qed

text \<open>A tree of two leaves over a hash of one byte.\<close>

definition toy_sha :: "byte list \<Rightarrow> byte list" where
  "toy_sha bs = [foldl (\<lambda>a b. 3 * a + b) 1 bs]"

definition two_leaves :: "(byte list \<times> byte list) merkle_lib" where
  "two_leaves = \<lparr>
     lib_sha256 = toy_sha,
     NewTree = (\<lambda>cids. case cids of [a, b] \<Rightarrow> Inr (a, b) | _ \<Rightarrow> Inl ''two leaves only''),
     MerkleRoot = (\<lambda>(a, b). toy_sha (toy_sha a @ toy_sha b)),
     lib_VerifyTree = (\<lambda>t. Inr True),
     lib_VerifyContent = (\<lambda>(a, b) c. Inr (c = a \<or> c = b)),
     GetMerklePath = (\<lambda>(a, b) c. if c = a then Inr ([toy_sha b], [1]) else if c = b then Inr ([toy_sha a], [0]) else Inr ([], []))\<rparr>"

theorem generated_proof_verdict_witness:
  "GenerateProof two_leaves (Some ([1], [2])) [2] = Inr [toy_sha [1]] \<and> VerifyProof two_leaves (Some ([1], [2])) [2] [toy_sha [1]] = Inr False
   \<and> GenerateProof two_leaves (Some ([1], [2])) [3] = Inr [] \<and> VerifyProof two_leaves (Some ([1], [2])) [3] [] = Inr False"
proof -
  have laws: "merkle_laws two_leaves" by (auto simp: merkle_laws_def two_leaves_def tree_order_def split: list.splits)
  have built: "BuildTree two_leaves [[1], [2]] = Inr ([1], [2])" by (simp add: BuildTree_def two_leaves_def)
  have path: "GetMerklePath two_leaves ([1], [2]) [2] = Inr ([toy_sha [1]], [0])" "GetMerklePath two_leaves ([1], [2]) [3] = Inr ([], [])"
    by (simp_all add: two_leaves_def)
  from generated_proof_verdict [OF laws built path(1), of 1] generated_proof_verdict [OF laws built path(2), of 1] show ?thesis
    by (simp add: two_leaves_def toy_sha_def tree_order_def inj_on_def)
qed

end
