(* ===== verification/Spec2Isabelle.thy ===== *)
theory Spec2Isabelle
  imports Scenario Endian Vmlinux_Helpers Refs Durability Watch_Runs Collect Zstd_Once Tracing_Regs Metrics Permissions Session Consumer Profiler Btf_Loader Diff Merkle
begin

text \<open>
  A verification development for DiffKeeper, a flight recorder for the files of a workload.

  \<^bold>\<open>The program.\<close>  An eBPF program in the kernel (\<open>src/ebpf/diffkeeper.bpf.c\<close>, built on the libbpf headers
  of \<open>src/ebpf/include/bpf\<close> and the kernel types of \<open>src/ebpf/vmlinux.h\<close>) observes \<open>vfs_write\<close>,
  \<open>vfs_writev\<close> and \<open>sched_process_exec\<close> and submits fixed-size samples to two ring buffers.  The Go
  agent under \<open>src/pkg\<close> and \<open>src/main.go\<close> loads that program, decodes the samples, finds the kernel's types,
  profiles hot paths, records writes in a journal, moves the journal into a content-addressed store
  with metadata per path and time, and restores or lists what was recorded.

  \<^bold>\<open>Step relations.\<close>  What runs concurrently is an inductive step relation.  The locales \<open>preserved\<close> and \<open>invariant_of\<close> of
  \<open>Step_Systems\<close> carry an invariant along its runs; the probes with their reader (\<open>Probes\<close>), the consumers of the ring buffers
  (\<open>Consumer\<close>), the recorder on a disk that crashes (\<open>Durability\<close>), the file watcher (\<open>Watch_Runs\<close>) and the metrics endpoint
  (\<open>Metrics\<close>) are interpretations.

  \<^bold>\<open>Kernel side.\<close>
  \<^item> \<open>Prelude\<close>: machine types, little-endian encodings, reads and writes of byte buffers, C strings; the
    collections of facts the component proofs use.
  \<^item> \<open>CTypes\<close>: C types as data and their layout; \<open>Vmlinux_Fs\<close>, \<open>Vmlinux_Task\<close> and \<open>Vmlinux_Helpers\<close>: the types of
    \<open>vmlinux.h\<close> that the probes read, that \<open>task_struct\<close> embeds and that the helpers take, with their
    sizes and offsets computed.
  \<^item> \<open>Bpf_Runtime\<close>: the helpers, the relocations and the memory of a kernel as the record \<open>kernel\<close>, and their
    documented laws \<open>helper_laws\<close> and \<open>relocated\<close>.
  \<^item> \<open>Core_Read\<close>, \<open>Core_Bitfield\<close> (\<open>bpf_core_read.h\<close>), \<open>Bpf_Helpers\<close> (\<open>bpf_helpers.h\<close>), \<open>Tracing_Arch\<close>, \<open>Tracing\<close> and
    \<open>Tracing_Regs\<close> (\<open>bpf_tracing.h\<close>), \<open>Endian\<close> (\<open>bpf_endian.h\<close>), \<open>Helper_Defs\<close> (\<open>bpf_helper_defs.h\<close>): the macros of the headers as
    functions on the number of their arguments, so that a use with too many arguments is \<open>None\<close>.  They show
    that the variadic macros are the pointer chains, register lists and loops they stand for, that bit-fields
    read back what was written and leave the rest alone, and that byte swaps are involutions.  \<open>Helper_Defs\<close> has one definition
    for the declaration of each helper; that their numbers are those of the kernel's enumeration is a lemma.
  \<^item> \<open>Event_Record\<close> and \<open>Probes\<close> (\<open>diffkeeper.bpf.c\<close>): the two event structs, the three programs, the ring buffers,
    and what each program submits, field by field.  \<open>Scenario\<close> is a kernel with a memory image on which the
    hypotheses hold.

  \<^bold>\<open>Agent side.\<close>
  \<^item> \<open>Go_Base\<close>: the parts of the Go library that the code uses on bytes and numbers.
  \<^item> \<open>Decode\<close>, \<open>Manager\<close> and \<open>Consumer\<close> (\<open>manager_linux.go\<close>, \<open>bpf_objects_linux.go\<close>, \<open>types.go\<close>): decoding of samples,
    construction of a manager with the types that the loader finds, its release, and the interleaving of its goroutines
    as a step relation, in which the test, the close and the reset of the lifecycle channel are three steps, as they hold no lock.
  \<^item> \<open>Profiler\<close> (\<open>profiler.go\<close>), \<open>Config\<close> (\<open>config.go\<close>), \<open>Btf_Loader\<close> (\<open>btf_loader_linux.go\<close>: the cache with its files, directories and a temporary
    file whose removal can fail), \<open>Platform\<close>
    (\<open>internal/platform\<close>: path names for the system, also on Windows).
  \<^item> \<open>Pebble\<close>: the key-value store, hashes, compression and JSON as the record \<open>world\<close> with their laws; \<open>Mem_World\<close> is
    a world that keeps them.  \<open>Cas\<close> and \<open>Refs\<close> (\<open>cas/store.go\<close>) are the store over any such world; the locale
    \<open>ref_sets\<close> gives reference counts as sets of files and is interpreted on the store's operations.  \<open>Zstd_Once\<close> adds the package variables of the
    coders, and \<open>Collect\<close> runs the collector on the database of a recorder.
  \<^item> \<open>Recorder\<close> (\<open>recorder/journal.go\<close>, \<open>recorder/worker.go\<close>): journal and processor, and \<open>recorded\<close>, the interleavings of
    logging, processing and restarts with any database operation failing.  \<open>Durability\<close> adds the disk: journal entries are written
    without waiting for it (\<open>pebble.NoSync\<close>), a completed entry and a close wait, and a crash takes the database back to any state since the last wait.
  \<^item> \<open>Paths\<close>, \<open>Export\<close> and \<open>Timeline\<close> (\<open>main.go\<close>): path cleaning, target times with the 64 bits of \<open>UnixNano\<close>, selection of metadata, the export and the
    listing with its floating point arithmetic; \<open>Watcher\<close> and \<open>Watch_Runs\<close> (\<open>main.go\<close>): the file watcher, its handler and the processor (\<open>recorder_step\<close>) beside programs that make, write,
    remove and rename files and directories and change permissions, and watches that are dropped (\<open>outside_step\<close>); no change is missed in a directory that was found at the
    start and stayed in place; \<open>Session\<close> (\<open>main.go\<close>, \<open>recorder/worker.go\<close>): the order of starts and releases of a recording,
    and the processor beside it.
  \<^item> \<open>Metrics\<close> (\<open>internal/metrics/metrics.go\<close>) and \<open>Permissions\<close> (\<open>permissions_unix.go\<close>): counters, gauges and histograms, the ratios alone and
    with concurrent calls, the life of the endpoint, and the read check as the decision of POSIX.
  \<^item> \<open>Chunk\<close> (\<open>chunk.go\<close>, \<open>streaming.go\<close>), \<open>Diff\<close> (\<open>diff.go\<close>, \<open>bsdiff.go\<close>; the locale \<open>diff_engine\<close> is its interface)
    and \<open>Merkle\<close> (\<open>tree.go\<close>).

  \<^bold>\<open>What is shown across the components.\<close>  This theory connects the kernel with the agent: a write or an exec
  in the kernel is one decoded event with the process, file name and size of the call, for every layout of the kernel types
  (C1 to C3), stale ring buffer memory shows in lifecycle events (C4), and no reachable sample fails to decode (C5).  On the
  agent's side every run of the watcher beside programs that change files, followed by a pass of the processor and an export, brings each
  file that changed in a directory that stayed in place, and that could be read, back at its place with its contents (C6).  The parts of that way hold on their own: an event that is on
  disk is never lost between journal and store, whatever fails, and without a crash none is (C7), but an event that was logged can be lost in a crash (C8); a pass empties
  the journal (C9); the metadata selected for a time are the last write of every path up to then (C10), an export writes exactly those contents (C11), inside the
  directory it was given (C13), and a target beyond the 64 bits of nanoseconds selects nothing (C12).

  \<^bold>\<open>Parameters.\<close>  Code outside the repository is an argument: the kernel helpers, the eBPF loader, Pebble, zstd, SHA-256,
  multihash, JSON, bsdiff, the tree package, the operating system, the network, the clock and the floating point
  unit.  What the program relies on is a named predicate (\<open>helper_laws\<close>, \<open>relocated\<close>, \<open>pebble_laws\<close>, \<open>codec_laws\<close>, \<open>healthy\<close>,
  \<open>temp_names\<close> and others), stated as documented and satisfied by a concrete instance.  Where an operation
  can fail, the failure is a value of the parameter, so that the theorems hold for every pattern of failures
  unless they name \<open>healthy\<close>.

  \<^bold>\<open>Loops.\<close>  No model uses fuel.  Loops over data are structural or have a measure (\<open>writev_total\<close> counts to six,
  \<open>strip_dots\<close> and \<open>drop_any\<close> shorten their argument, the streaming chunker's reader shrinks); a loop over an iterator of the
  kernel is a partial function into \<open>option\<close> with a proof that it returns over an iterator that counts.  Loops that
  run until the process ends (processor, consumers, watcher, profiler, endpoint) are the runs of step relations.

  \<^bold>\<open>Integers.\<close>  Words keep their widths in the kernel programs, the samples and the rolling hash.  Go \<open>int\<close>s that count
  bytes in memory are natural numbers; times are integers, with \<open>clock_ok\<close> where their 20 digits matter and \<open>UnixNano\<close>, which wraps, where
  the code asks for 64 bits of nanoseconds.

  \<^bold>\<open>Not modelled.\<close>  The remaining declarations of the generated header \<open>vmlinux.h\<close>, which the program
  does not use; compiler attributes and section names; the type wrappers of the CO-RE macros; flag parsing and logging of
  \<open>main.go\<close>; a queue of notifications that overflows, links, memory-mapped writes
  and exchanges of two names below a watched directory, and a clock that goes back while a recording runs; allocations that fail or panic, as those of a chunker with huge sizes; the registration of metrics and the
  HTTP handler; the stubs for platforms without eBPF, which return errors, and the read check of Windows, which accepts everything; tests, benchmarks, demos and deployment files.
\<close>


section \<open>From the probe to the agent\<close>

text \<open>
  C1: a write to a file called \<open>nm\<close> reaches the agent.  Whatever the layout of the kernel types is,
  the program \<open>fentry_vfs_write\<close>, called with the arguments of \<open>vfs_write\<close>, submits one sample, and \<open>decodeSyscallEvent\<close> turns that sample into an event
  with the process id, the byte count of the call and the file name, cut to 255 bytes.
\<close>

theorem write_event_delivered:
  assumes "helper_laws k" and "relocated btf k" and "fl \<noteq> 0" and "file_named btf (k_mem k) fl nm"
    and "bpf_ringbuf_reserve k ''events'' 272 = Some sample"
  shows "\<exists>ev. vfs_write_prog k (fl # buf # cnt # pos # rest) s = Some (0, s\<lparr>events := events s @ [ev]\<rparr>)
    \<and> decodeSyscallEvent now ev =
        Inr \<lparr>PID = current_tgid k, Path = take 255 nm, Bytes = cnt, Timestamp = now\<rparr>"
  unfolding prog_entry fentry_vfs_write_def using emit_decoded [OF assms] by simp

theorem write_event_delivered_witness:
  "\<exists>ev. vfs_write_prog (demo_kernel 9) [0x1000, 0, 42, 0] \<lparr>events = [], lifecycle_events = []\<rparr>
      = Some (0, \<lparr>events = [ev], lifecycle_events = []\<rparr>)
    \<and> decodeSyscallEvent 1 ev = Inr \<lparr>PID = 7, Path = [0x61, 0x2E, 0x6C], Bytes = 42, Timestamp = 1\<rparr>"
  using write_event_delivered [OF demo_laws [of 9], where s = "\<lparr>events = [], lifecycle_events = []\<rparr>" and now = 1 and
      fl = "0x1000" and nm = "[0x61, 0x2E, 0x6C]" and cnt = 42 and buf = 0 and pos = 0 and rest = "[]"]
  by (simp add: demo_fields demo_tgid demo_file)

text \<open>
  C2: a vectored write of segments with the lengths \<open>lens\<close> reaches the agent with the file of the
  I/O control block, and with the sum of the first six lengths modulo \<open>2 ^ 64\<close> as its byte count.
\<close>

theorem writev_event_delivered:
  assumes "helper_laws k" and "relocated btf k"
    and "member_holds btf (k_mem k) iocb (''kiocb'', [''ki_filp'']) fl" and "fl \<noteq> 0"
    and "file_named btf (k_mem k) fl nm"
    and "iov_holds btf (k_mem k) iov lens" and "unat nr_segs = length lens"
    and "bpf_ringbuf_reserve k ''events'' 272 = Some sample"
  shows "\<exists>ev. vfs_writev_prog k (iocb # iov # nr_segs # rest) s = Some (0, s\<lparr>events := events s @ [ev]\<rparr>)
    \<and> decodeSyscallEvent now ev =
        Inr \<lparr>PID = current_tgid k, Path = take 255 nm, Bytes = sum_list (take 6 lens), Timestamp = now\<rparr>"
  using emit_decoded [OF assms(1,2,4,5,8)]
  by (simp add: prog_entry fentry_vfs_writev_def core_read64_member [OF assms(1-3)] writev_total_sum [OF assms(1,2,6,7)])

theorem writev_event_delivered_witness:
  "\<exists>ev. vfs_writev_prog (demo_kernel 9) [0x4000, 0x5000, 2] \<lparr>events = [], lifecycle_events = []\<rparr>
      = Some (0, \<lparr>events = [ev], lifecycle_events = []\<rparr>)
    \<and> decodeSyscallEvent 1 ev = Inr \<lparr>PID = 7, Path = [0x61, 0x2E, 0x6C], Bytes = 12, Timestamp = 1\<rparr>"
  using writev_event_delivered [OF demo_laws [of 9], where s = "\<lparr>events = [], lifecycle_events = []\<rparr>" and now = 1 and
      iocb = "0x4000" and fl = "0x1000" and nm = "[0x61, 0x2E, 0x6C]" and iov = "0x5000" and lens = "[5, 7]" and nr_segs = 2 and rest = "[]"]
  by (simp add: demo_fields demo_tgid demo_file demo_iocb demo_iov)

text \<open>
  C3: an exec event in ring buffer memory whose name members are zero reaches the agent as a
  \<open>create\<close> event with the task's command name, the host name of its UTS namespace and the executed
  file, the strings cut to what fits.
\<close>

theorem exec_event_delivered:
  assumes "helper_laws k" and "relocated btf k"
    and "task_host btf (k_mem k) (bpf_get_current_task k) host" and "exec_filename btf (k_mem k) ctx fname"
    and "snd (bpf_get_current_comm k 16) = comm @ replicate (16 - length comm) 0" and "0 \<notin> set comm"
    and "bpf_ringbuf_reserve k ''lifecycle_events'' 152 = Some sample"
    and "get_member lifecycle_event ''namespace'' sample = replicate 64 0"
    and "get_member lifecycle_event ''container'' sample = replicate 64 0"
  shows "\<exists>ev. handle_sched_exec k ctx s = (0, s\<lparr>lifecycle_events := lifecycle_events s @ [ev]\<rparr>)
    \<and> decodeLifecycleEvent now ev =
        Inr \<lparr>Runtime = comm, Namespace = take 63 host, ContainerID = take 63 fname,
             lc_PID = current_tgid k, State = ''create'', lc_Timestamp = now\<rparr>"
proof -
  have nn: "0 \<notin> set host" "0 \<notin> set fname"
    using assms(3,4) by (auto simp: task_host_def exec_filename_def str_at_def)
  obtain ev where ev: "handle_sched_exec k ctx s = (0, submit_lifecycle ev s)" "length ev = 152"
    "get_member lifecycle_event ''pid'' ev = le_bytes 4 (current_tgid k)"
    "get_member lifecycle_event ''state'' ev = le_bytes 4 (1 :: u32)"
    "get_member lifecycle_event ''runtime'' ev = snd (bpf_get_current_comm k 16)"
    "get_member lifecycle_event ''namespace'' ev = str_over host 64 (get_member lifecycle_event ''namespace'' sample)"
    "get_member lifecycle_event ''container'' ev = str_over fname 64 (get_member lifecycle_event ''container'' sample)"
    by (rule handle_sched_exec_sample [OF assms(1-4,7)])
  with assms(5,6,8,9) show ?thesis
    by (intro exI [of _ ev])
      (simp add: lifecycle_payload submit_lifecycle_def le_word_le_bytes_full lifecycleState_def trim_nul_padded
        trim_str_over_zero nn del: le_bytes.simps)
qed

theorem exec_event_delivered_witness:
  "\<exists>ev. handle_sched_exec (demo_kernel 0) 0x9000 \<lparr>events = [], lifecycle_events = []\<rparr>
      = (0, \<lparr>events = [], lifecycle_events = [ev]\<rparr>)
    \<and> decodeLifecycleEvent 1 ev = Inr \<lparr>Runtime = [0x63], Namespace = [0x68], ContainerID = [0x62],
         lc_PID = 7, State = ''create'', lc_Timestamp = 1\<rparr>"
  using exec_event_delivered [OF demo_laws [of 0], where s = "\<lparr>events = [], lifecycle_events = []\<rparr>" and now = 1 and
      ctx = "0x9000" and host = "[0x68]" and fname = "[0x62]" and comm = "[0x63]" and sample = "replicate 152 0"]
  by (simp add: demo_fields demo_tgid demo_host demo_exec get_member_def load_replicate)

text \<open>
  C4: an exec event in ring buffer memory that is not zero.  If the last byte of the reserved
  namespace member is not zero and the host name is shorter than the member, the agent sees the host
  name, a zero byte and the old contents of the member as the namespace, never the host name.
\<close>

theorem exec_event_stale_namespace:
  assumes "helper_laws k" and "relocated btf k"
    and "task_host btf (k_mem k) (bpf_get_current_task k) host" and "exec_filename btf (k_mem k) ctx fname"
    and "bpf_ringbuf_reserve k ''lifecycle_events'' 152 = Some sample"
    and "host \<noteq> []" and "length host < 63" and "last (get_member lifecycle_event ''namespace'' sample) \<noteq> 0"
  shows "\<exists>ev e. handle_sched_exec k ctx s = (0, s\<lparr>lifecycle_events := lifecycle_events s @ [ev]\<rparr>)
    \<and> decodeLifecycleEvent now ev = Inr e
    \<and> Namespace e = host @ 0 # drop (length host + 1) (get_member lifecycle_event ''namespace'' sample)
    \<and> Namespace e \<noteq> host"
proof -
  let ?old = "get_member lifecycle_event ''namespace'' sample"
  have nn: "0 \<notin> set host"
    using assms(3) by (auto simp: task_host_def str_at_def)
  have "length ?old = 64"
    using helper_laws_reserve [OF assms(1,5)] by (simp add: le.length_get [OF lifecycle_event_ranges(4)])
  then have trim: "trim_nul (str_over host 64 ?old) = host @ 0 # drop (length host + 1) ?old"
    using trim_str_over_stale [OF nn assms(6), of 64 ?old] assms(7,8) by simp
  obtain ev where "handle_sched_exec k ctx s = (0, submit_lifecycle ev s)" and "length ev = 152"
    and "get_member lifecycle_event ''namespace'' ev = str_over host 64 ?old"
    by (rule handle_sched_exec_sample [OF assms(1-5)])
  then show ?thesis
    by (intro exI [of _ ev]) (simp add: lifecycle_payload submit_lifecycle_def trim)
qed

theorem exec_event_stale_namespace_witness:
  "\<exists>ev e. handle_sched_exec (demo_kernel 9) 0x9000 \<lparr>events = [], lifecycle_events = []\<rparr>
      = (0, \<lparr>events = [], lifecycle_events = [ev]\<rparr>)
    \<and> decodeLifecycleEvent 1 ev = Inr e \<and> Namespace e = 0x68 # 0 # replicate 62 9"
  using exec_event_stale_namespace [OF demo_laws [of 9], where s = "\<lparr>events = [], lifecycle_events = []\<rparr>" and now = 1 and
      ctx = "0x9000" and host = "[0x68]" and fname = "[0x62]" and sample = "replicate 152 9"]
  by (auto simp: demo_fields demo_host demo_exec get_member_def load_replicate)

text \<open>
  C5: no sample is lost in decoding.  In every state that runs of the probes and of the reader can
  reach from empty ring buffers, each sample waiting in either ring buffer decodes without error.
\<close>

theorem reachable_samples_decode:
  assumes "probe_step\<^sup>*\<^sup>* \<lparr>events = [], lifecycle_events = []\<rparr> s"
  shows "(\<forall>ev \<in> set (events s). \<exists>e. decodeSyscallEvent now ev = Inr e)
    \<and> (\<forall>ev \<in> set (lifecycle_events s). \<exists>e. decodeLifecycleEvent now ev = Inr e)"
proof -
  have "wf_maps s" by (rule probes.reachable [OF assms])
  then show ?thesis
    by (auto simp: wf_maps_def list_all_iff syscall_payload lifecycle_payload)
qed

theorem reachable_samples_decode_witness:
  "\<exists>ev e. events (snd (fentry_vfs_write (demo_kernel 9) 0x1000 0 42 0 \<lparr>events = [], lifecycle_events = []\<rparr>)) = [ev]
     \<and> decodeSyscallEvent 1 ev = Inr e"
proof -
  let ?s = "snd (fentry_vfs_write (demo_kernel 9) 0x1000 0 42 0 \<lparr>events = [], lifecycle_events = []\<rparr>)"
  have "probe_step \<lparr>events = [], lifecycle_events = []\<rparr> ?s"
    by (rule probe_step.vfs_write [OF demo_laws(1)]) (rule prod.collapse [symmetric])
  then have "\<forall>ev \<in> set (events ?s). \<exists>e. decodeSyscallEvent 1 ev = Inr e"
    using reachable_samples_decode [OF r_into_rtranclp] by blast
  moreover have "events ?s = [fill_syscall_event (demo_kernel 9) 0x1000 42 (replicate 272 9)]"
    by (simp add: fentry_vfs_write_def emit_syscall_event_def demo_fields submit_event_def)
  ultimately show ?thesis by auto
qed

end
